(* ===== verification/Prelude.thy ===== *)
theory Prelude
  imports Complex_Main "HOL-Library.AList" "HOL-Library.Char_ord" "HOL-Library.List_Lexorder"
begin

text \<open>
  The vocabulary every component theory shares: the collections of rewrite rules the component
  proofs use, the model's names for Python's scalar types, decimal rendering of integers,
  \<open>str.strip\<close>, insertion-ordered dictionaries, \<open>sorted(key=...)\<close>, and the state-and-exception
  functions in which code that mutates an object and may raise is written.

  Strings are lists of \<open>char\<close> (code points 0 to 255). Instants (\<open>datetime\<close>, always aware UTC in the
  code) are \<open>int\<close> microseconds, as are \<open>timedelta\<close>s; \<open>Decimal\<close> amounts are exact rationals.
\<close>

named_theorems domain_defs \<open>definitions of the change domain that component proofs unfold\<close>
named_theorems table_simps \<open>transition tables and policy tables as equations\<close>
named_theorems sem_simps \<open>running the state-and-exception functions\<close>

type_synonym instant = int
type_synonym duration = int
type_synonym decimal = rat
type_synonym sha = string

section \<open>Text\<close>

definition py_space :: "char \<Rightarrow> bool" where
  "py_space c \<longleftrightarrow> (let n = (of_char c :: nat) in
     (9 \<le> n \<and> n \<le> 13) \<or> (28 \<le> n \<and> n \<le> 32) \<or> n = 133 \<or> n = 160)"

definition py_strip :: "string \<Rightarrow> string" where
  "py_strip s = rev (dropWhile py_space (rev (dropWhile py_space s)))"

definition starts_with :: "string \<Rightarrow> string \<Rightarrow> bool" where
  "starts_with p s \<longleftrightarrow> take (length p) s = p"

definition remove_prefix :: "string \<Rightarrow> string \<Rightarrow> string" where
  "remove_prefix p s = (if starts_with p s then drop (length p) s else s)"

definition digit_char :: "nat \<Rightarrow> char" where
  "digit_char n = char_of (48 + n)"

fun show_nat :: "nat \<Rightarrow> string" where
  "show_nat n = (if n < 10 then [digit_char n] else show_nat (n div 10) @ [digit_char (n mod 10)])"

declare show_nat.simps [simp del]

definition show_int :: "int \<Rightarrow> string" where
  "show_int i = (if i < 0 then CHR ''-'' # show_nat (nat (- i)) else show_nat (nat i))"

definition read_nat :: "string \<Rightarrow> nat" where
  "read_nat = foldl (\<lambda>a c. 10 * a + (of_char c - 48)) 0"

text \<open>Characters are evaluated through their integer code: arithmetic on \<open>nat\<close> is slow in the kernel.\<close>

lemma char_of_nat_unfold [code_unfold]: "char_of (n::nat) = char_of_integer (integer_of_nat n)"
  by (simp add: char_of_integer_def integer_of_nat_def)

lemma of_char_nat_unfold [code_unfold]: "(of_char c :: nat) = nat_of_integer (integer_of_char c)"
  by (metis integer_of_char_def nat_of_integer_of_nat of_nat_of_char)

lemma of_char_digit_char: "n < 10 \<Longrightarrow> (of_char (digit_char n) :: nat) = 48 + n"
  by (simp add: digit_char_def)

lemma read_nat_snoc: "read_nat (s @ [c]) = 10 * read_nat s + (of_char c - 48)"
  by (simp add: read_nat_def)

lemma read_show_nat [simp]: "read_nat (show_nat n) = n"
proof (induction n rule: show_nat.induct)
  case (1 n)
  show ?case
  proof (cases "n < 10")
    case True
    then show ?thesis
      by (subst show_nat.simps) (simp add: read_nat_def of_char_digit_char)
  next
    case False
    with "1.IH" show ?thesis
      by (subst show_nat.simps) (simp add: read_nat_snoc of_char_digit_char)
  qed
qed

lemma show_nat_inject [simp]: "show_nat m = show_nat n \<longleftrightarrow> m = n"
  by (metis read_show_nat)

lemma show_nat_digits: "c \<in> set (show_nat n) \<Longrightarrow> 48 \<le> (of_char c :: nat) \<and> (of_char c :: nat) \<le> 57"
proof (induction n rule: show_nat.induct)
  case (1 n)
  show ?case
  proof (cases "n < 10")
    case True
    with "1.prems" have "c = digit_char n"
      by (subst (asm) show_nat.simps) simp
    with True show ?thesis by (simp add: of_char_digit_char)
  next
    case False
    with "1.prems" have "c \<in> set (show_nat (n div 10)) \<or> c = digit_char (n mod 10)"
      by (subst (asm) show_nat.simps) auto
    with False "1.IH" show ?thesis by (auto simp: of_char_digit_char)
  qed
qed

lemma colon_notin_show_nat [simp]: "CHR '':'' \<notin> set (show_nat n)"
  by (auto dest: show_nat_digits)

lemma colon_notin_show_int [simp]: "CHR '':'' \<notin> set (show_int n)"
  by (auto simp: show_int_def)

lemma show_int_inject: "0 \<le> a \<Longrightarrow> 0 \<le> b \<Longrightarrow> show_int a = show_int b \<longleftrightarrow> a = b"
  by (auto simp: show_int_def)

text \<open>
  Two texts with the same separator character split uniquely at its first occurrence, and, read
  from the right, at its last one. The composite keys of the code rest on these two facts.
\<close>

lemma split_at_first_sep:
  assumes "a @ c # b = a' @ c # b'" and "c \<notin> set a" and "c \<notin> set a'"
  shows "a = a' \<and> b = b'"
  using assms
proof (induction a arbitrary: a')
  case Nil
  then show ?case by (cases a') auto
next
  case (Cons x a)
  then obtain y ys where "a' = y # ys" by (cases a') auto
  with Cons show ?case by auto
qed

lemma split_at_last_sep:
  assumes "a @ c # b = a' @ c # b'" and "c \<notin> set b" and "c \<notin> set b'"
  shows "a = a' \<and> b = b'"
proof -
  from assms(1) have "rev (a @ c # b) = rev (a' @ c # b')" by simp
  then have "rev b @ c # rev a = rev b' @ c # rev a'" by simp
  then have "rev b = rev b' \<and> rev a = rev a'"
    by (rule split_at_first_sep) (use assms in auto)
  then show ?thesis by simp
qed

lemma py_strip_idem [simp]: "py_strip (py_strip s) = py_strip s"
proof -
  define t where "t = dropWhile py_space (rev (dropWhile py_space s))"
  have strip: "py_strip s = rev t" by (simp add: py_strip_def t_def)
  have last: "t \<noteq> [] \<Longrightarrow> \<not> py_space (hd t)"
    unfolding t_def by (rule hd_dropWhile)
  have first: "t \<noteq> [] \<Longrightarrow> \<not> py_space (last t)"
  proof -
    assume ne: "t \<noteq> []"
    let ?d = "dropWhile py_space s"
    have "rev ?d = takeWhile py_space (rev ?d) @ t"
      by (simp add: t_def)
    with ne have "last t = last (rev ?d)" by (metis last_appendR)
    moreover from ne have "?d \<noteq> []" unfolding t_def by (metis dropWhile.simps(1) rev.simps(1))
    ultimately have "last t = hd ?d" by (simp add: last_rev)
    with \<open>?d \<noteq> []\<close> show ?thesis by (metis hd_dropWhile)
  qed
  have keep: "u \<noteq> [] \<Longrightarrow> \<not> py_space (hd u) \<Longrightarrow> dropWhile py_space u = u" for u
    by (cases u) auto
  show ?thesis
  proof (cases "t = []")
    case True
    with strip have "py_strip s = []" by simp
    then show ?thesis by (simp only:) (simp add: py_strip_def)
  next
    case False
    with first have "dropWhile py_space (rev t) = rev t"
      by (intro keep) (auto simp: hd_rev)
    moreover from False last have "dropWhile py_space t = t" by (intro keep) auto
    ultimately show ?thesis by (simp add: strip) (simp add: py_strip_def)
  qed
qed

section \<open>Options and truthiness\<close>

definition or_else :: "'a option \<Rightarrow> 'a option \<Rightarrow> 'a option" where
  "or_else a b = (case a of None \<Rightarrow> b | Some x \<Rightarrow> Some x)"

definition clean_text :: "string option \<Rightarrow> string option" where
  "clean_text v = (case v of None \<Rightarrow> None
     | Some s \<Rightarrow> (let t = py_strip s in if t = [] then None else Some t))"

lemma or_else_simps [simp]:
  "or_else None b = b" "or_else (Some x) b = Some x"
  by (simp_all add: or_else_def)

lemma or_else_None_iff [simp]: "or_else a b = None \<longleftrightarrow> a = None \<and> b = None"
  by (cases a) auto

lemma clean_text_idem [simp]: "clean_text (clean_text v) = clean_text v"
  by (cases v) (auto simp: clean_text_def Let_def)

text \<open>The first reason that fires, read lazily from left to right.\<close>

fun first_some :: "'a option list \<Rightarrow> 'a option" where
  "first_some [] = None"
| "first_some (x # xs) = (case x of None \<Rightarrow> first_some xs | Some y \<Rightarrow> Some y)"

lemma first_some_None_iff: "first_some xs = None \<longleftrightarrow> (\<forall>x\<in>set xs. x = None)"
  by (induction xs) (auto split: option.splits)

lemma first_some_Some_split:
  "first_some xs = Some y \<longleftrightarrow> (\<exists>as bs. xs = as @ Some y # bs \<and> (\<forall>a\<in>set as. a = None))"
proof (induction xs)
  case Nil
  then show ?case by simp
next
  case (Cons x xs)
  show ?case
  proof (cases x)
    case None
    have "(\<exists>as bs. x # xs = as @ Some y # bs \<and> (\<forall>a\<in>set as. a = None)) \<longleftrightarrow>
          (\<exists>as bs. xs = as @ Some y # bs \<and> (\<forall>a\<in>set as. a = None))"
    proof
      assume "\<exists>as bs. x # xs = as @ Some y # bs \<and> (\<forall>a\<in>set as. a = None)"
      then show "\<exists>as bs. xs = as @ Some y # bs \<and> (\<forall>a\<in>set as. a = None)"
        using None by (auto simp: Cons_eq_append_conv)
    next
      assume "\<exists>as bs. xs = as @ Some y # bs \<and> (\<forall>a\<in>set as. a = None)"
      then obtain as bs where "xs = as @ Some y # bs" "\<forall>a\<in>set as. a = None" by blast
      with None have "x # xs = (None # as) @ Some y # bs \<and> (\<forall>a\<in>set (None # as). a = None)"
        by simp
      then show "\<exists>as bs. x # xs = as @ Some y # bs \<and> (\<forall>a\<in>set as. a = None)" by blast
    qed
    with None Cons.IH show ?thesis by simp
  next
    case (Some z)
    then show ?thesis by (auto simp: Cons_eq_append_conv)
  qed
qed

section \<open>Dictionaries in insertion order, sorting by a key\<close>

text \<open>
  \<open>AList.update\<close> replaces the value of a present key in place and appends a new key, exactly as
  Python's \<open>d[k] = v\<close> does for the iteration order of a dictionary.
\<close>

abbreviation dict_get :: "('k \<times> 'v) list \<Rightarrow> 'k \<Rightarrow> 'v option" where
  "dict_get d k \<equiv> map_of d k"

abbreviation dict_set :: "'k \<Rightarrow> 'v \<Rightarrow> ('k \<times> 'v) list \<Rightarrow> ('k \<times> 'v) list" where
  "dict_set k v d \<equiv> AList.update k v d"

definition dict_values :: "('k \<times> 'v) list \<Rightarrow> 'v list" where
  "dict_values d = map snd d"

lemma dict_get_set [simp]: "dict_get (dict_set k v d) k' = (if k' = k then Some v else dict_get d k')"
  by (simp add: update_conv')

lemma dict_distinct_set: "distinct (map fst d) \<Longrightarrow> distinct (map fst (dict_set k v d))"
  by (rule distinct_update)

lemma dict_set_new: "k \<notin> fst ` set d \<Longrightarrow> dict_set k v d = d @ [(k, v)]"
  by (induction d) auto

lemma dict_set_old:
  assumes "distinct (map fst d)" and "dict_get d k = Some w"
  shows "\<exists>as bs. d = as @ (k, w) # bs \<and> dict_set k v d = as @ (k, v) # bs \<and> k \<notin> fst ` set (as @ bs)"
  using assms
proof (induction d)
  case Nil
  then show ?case by simp
next
  case (Cons p d)
  obtain a b where p: "p = (a, b)" by force
  show ?case
  proof (cases "a = k")
    case True
    with Cons.prems p have "b = w" by simp
    with Cons.prems p True have "p # d = [] @ (k, w) # d \<and> dict_set k v (p # d) = [] @ (k, v) # d
        \<and> k \<notin> fst ` set ([] @ d)"
      by auto
    then show ?thesis by blast
  next
    case False
    with Cons.prems p obtain as bs where
      "d = as @ (k, w) # bs" "dict_set k v d = as @ (k, v) # bs" "k \<notin> fst ` set (as @ bs)"
      using Cons.IH by auto
    then have "p # d = (p # as) @ (k, w) # bs \<and> dict_set k v (p # d) = (p # as) @ (k, v) # bs
        \<and> k \<notin> fst ` set ((p # as) @ bs)"
      using False p by auto
    then show ?thesis by blast
  qed
qed

text \<open>
  Python's \<open>min(xs, key=f)\<close>: the first element with the least key; \<open>None\<close> is the \<open>ValueError\<close> of an
  empty argument.
\<close>

fun min_by :: "('a \<Rightarrow> 'b::linorder) \<Rightarrow> 'a list \<Rightarrow> 'a option" where
  "min_by f [] = None"
| "min_by f (x # xs) =
     (case min_by f xs of None \<Rightarrow> Some x | Some y \<Rightarrow> if f y < f x then Some y else Some x)"

lemma min_by_None_iff [simp]: "min_by f xs = None \<longleftrightarrow> xs = []"
  by (cases xs) (auto split: option.splits)

lemma min_by_Some: "min_by f xs = Some y \<Longrightarrow> y \<in> set xs \<and> (\<forall>x\<in>set xs. f y \<le> f x)"
proof (induction xs arbitrary: y)
  case Nil
  then show ?case by simp
next
  case (Cons a xs)
  then show ?case by (cases "min_by f xs") (fastforce split: if_splits)+
qed

text \<open>\<open>xs.index(x)\<close> is the first position holding the element.\<close>

fun index_of :: "'a \<Rightarrow> 'a list \<Rightarrow> nat option" where
  "index_of x [] = None"
| "index_of x (y # ys) = (if x = y then Some 0 else map_option Suc (index_of x ys))"

lemma index_of_Some: "index_of x xs = Some i \<Longrightarrow> i < length xs \<and> xs ! i = x"
  by (induction xs arbitrary: i) (auto split: if_splits)

lemma index_of_None [simp]: "index_of x xs = None \<longleftrightarrow> x \<notin> set xs"
  by (induction xs) auto

section \<open>State and exceptions\<close>

text \<open>
  A method that mutates its object and may raise is a function from the object to the pair of its
  outcome (\<open>Inl\<close> the exception, \<open>Inr\<close> the returned value) and the object afterwards. The object is
  kept on the exceptional outcome too: whatever was mutated before the \<open>raise\<close> stays mutated.
\<close>

type_synonym ('s, 'e, 'a) sem = "'s \<Rightarrow> ('e + 'a) \<times> 's"

definition sm_return :: "'a \<Rightarrow> ('s, 'e, 'a) sem" where
  "sm_return a = (\<lambda>s. (Inr a, s))"

definition sm_raise :: "'e \<Rightarrow> ('s, 'e, 'a) sem" where
  "sm_raise e = (\<lambda>s. (Inl e, s))"

definition sm_bind :: "('s, 'e, 'a) sem \<Rightarrow> ('a \<Rightarrow> ('s, 'e, 'b) sem) \<Rightarrow> ('s, 'e, 'b) sem" where
  "sm_bind m f = (\<lambda>s. case m s of (Inl e, s') \<Rightarrow> (Inl e, s') | (Inr a, s') \<Rightarrow> f a s')"

definition sm_gets :: "('s \<Rightarrow> 'a) \<Rightarrow> ('s, 'e, 'a) sem" where
  "sm_gets g = (\<lambda>s. (Inr (g s), s))"

definition sm_modify :: "('s \<Rightarrow> 's) \<Rightarrow> ('s, 'e, unit) sem" where
  "sm_modify g = (\<lambda>s. (Inr (), g s))"

lemma sm_run [sem_simps]:
  "sm_return a s = (Inr a, s)"
  "sm_raise e s = (Inl e, s)"
  "sm_gets g s = (Inr (g s), s)"
  "sm_modify h s = (Inr (), h s)"
  by (simp_all add: sm_return_def sm_raise_def sm_gets_def sm_modify_def)

lemma sm_bind_Inl [sem_simps]: "m s = (Inl e, s') \<Longrightarrow> sm_bind m f s = (Inl e, s')"
  by (simp add: sm_bind_def)

lemma sm_bind_Inr [sem_simps]: "m s = (Inr a, s') \<Longrightarrow> sm_bind m f s = f a s'"
  by (simp add: sm_bind_def)

lemma sm_bind_eq_Inr:
  "sm_bind m f s = (Inr b, t) \<longleftrightarrow> (\<exists>a s'. m s = (Inr a, s') \<and> f a s' = (Inr b, t))"
  by (auto simp: sm_bind_def split: prod.splits sum.splits)

lemma sm_bind_eq_Inl:
  "sm_bind m f s = (Inl e, t) \<longleftrightarrow>
     m s = (Inl e, t) \<or> (\<exists>a s'. m s = (Inr a, s') \<and> f a s' = (Inl e, t))"
  by (auto simp: sm_bind_def split: prod.splits sum.splits)

text \<open>A predicate kept by a step whatever its outcome; sequencing keeps it.\<close>

definition keeps :: "('s \<Rightarrow> 's \<Rightarrow> bool) \<Rightarrow> ('s, 'e, 'a) sem \<Rightarrow> bool" where
  "keeps R m \<longleftrightarrow> (\<forall>s. R s (snd (m s)))"

lemma keepsD: "keeps R m \<Longrightarrow> m s = (r, t) \<Longrightarrow> R s t"
  unfolding keeps_def by (metis snd_conv)

lemma keeps_bind:
  assumes trans: "\<And>a b c. R a b \<Longrightarrow> R b c \<Longrightarrow> R a c"
    and m: "keeps R m" and f: "\<And>a. keeps R (f a)"
  shows "keeps R (sm_bind m f)"
  unfolding keeps_def
proof
  fix s
  obtain r s' where ms: "m s = (r, s')" by force
  have "R s s'" using m ms by (rule keepsD)
  then show "R s (snd (sm_bind m f s))"
    using ms f trans by (cases r) (auto simp: sm_bind_def keeps_def)
qed

lemma keeps_pure:
  assumes "\<And>a. R a a"
  shows "keeps R (sm_return a)" "keeps R (sm_raise e)" "keeps R (sm_gets g)"
  using assms by (simp_all add: keeps_def sem_simps)

lemma keeps_modify: "(\<And>s. R s (h s)) \<Longrightarrow> keeps R (sm_modify h)"
  by (simp add: keeps_def sem_simps)

lemma keeps_if: "(b \<Longrightarrow> keeps R m) \<Longrightarrow> (\<not> b \<Longrightarrow> keeps R m') \<Longrightarrow> keeps R (if b then m else m')"
  by simp

end
