(* ===== verification/Enums.thy ===== *)
theory Enums
  imports Prelude
begin

text \<open>
  The enumerations of the change domain (\<open>changes/enums.py\<close>): one datatype per \<open>StrEnum\<close>, its wire
  strings (\<open>.value\<close>) and its members in declaration order. The code persists the wire string and
  reads it back with the class call (\<open>RunStatus(row.status)\<close>), which is \<open>from_value\<close> below: the
  member with that value, or the \<open>ValueError\<close> as \<open>None\<close>. The interface \<open>wire_enum\<close> states what makes
  that a codec; every enumeration is shown to provide it.
\<close>

section \<open>Members and wire values\<close>

datatype provider =
    Provider_GITLAB
  | Provider_GITHUB

fun provider_value :: "provider \<Rightarrow> string" where
  "provider_value Provider_GITLAB = ''gitlab''"
| "provider_value Provider_GITHUB = ''github''"

definition provider_members :: "provider list" where
  "provider_members = [Provider_GITLAB,
     Provider_GITHUB]"

datatype route =
    Route_QUICK
  | Route_STANDARD
  | Route_ARCHITECTURE
  | Route_FOUNDATION

fun route_value :: "route \<Rightarrow> string" where
  "route_value Route_QUICK = ''quick''"
| "route_value Route_STANDARD = ''standard''"
| "route_value Route_ARCHITECTURE = ''architecture''"
| "route_value Route_FOUNDATION = ''foundation''"

definition route_members :: "route list" where
  "route_members = [Route_QUICK,
     Route_STANDARD,
     Route_ARCHITECTURE,
     Route_FOUNDATION]"

datatype risk_class =
    RiskClass_R0
  | RiskClass_R1
  | RiskClass_R2
  | RiskClass_R3
  | RiskClass_R4

fun risk_class_value :: "risk_class \<Rightarrow> string" where
  "risk_class_value RiskClass_R0 = ''R0''"
| "risk_class_value RiskClass_R1 = ''R1''"
| "risk_class_value RiskClass_R2 = ''R2''"
| "risk_class_value RiskClass_R3 = ''R3''"
| "risk_class_value RiskClass_R4 = ''R4''"

definition risk_class_members :: "risk_class list" where
  "risk_class_members = [RiskClass_R0,
     RiskClass_R1,
     RiskClass_R2,
     RiskClass_R3,
     RiskClass_R4]"

datatype boundary_area =
    BoundaryArea_PUBLIC_API
  | BoundaryArea_DATA_SCHEMA
  | BoundaryArea_IAM
  | BoundaryArea_ARCHITECTURE_BOUNDARY

fun boundary_area_value :: "boundary_area \<Rightarrow> string" where
  "boundary_area_value BoundaryArea_PUBLIC_API = ''public_api''"
| "boundary_area_value BoundaryArea_DATA_SCHEMA = ''data_schema''"
| "boundary_area_value BoundaryArea_IAM = ''iam''"
| "boundary_area_value BoundaryArea_ARCHITECTURE_BOUNDARY = ''architecture_boundary''"

definition boundary_area_members :: "boundary_area list" where
  "boundary_area_members = [BoundaryArea_PUBLIC_API,
     BoundaryArea_DATA_SCHEMA,
     BoundaryArea_IAM,
     BoundaryArea_ARCHITECTURE_BOUNDARY]"

datatype role =
    Role_PRODUCT
  | Role_DESIGN
  | Role_ARCHITECT
  | Role_INFRASTRUCTURE
  | Role_SECURITY
  | Role_DEVELOP
  | Role_QUALITY
  | Role_CI_CD
  | Role_OPERATION

fun role_value :: "role \<Rightarrow> string" where
  "role_value Role_PRODUCT = ''product''"
| "role_value Role_DESIGN = ''design''"
| "role_value Role_ARCHITECT = ''architect''"
| "role_value Role_INFRASTRUCTURE = ''infrastructure''"
| "role_value Role_SECURITY = ''security''"
| "role_value Role_DEVELOP = ''develop''"
| "role_value Role_QUALITY = ''quality''"
| "role_value Role_CI_CD = ''ci_cd''"
| "role_value Role_OPERATION = ''operation''"

definition role_members :: "role list" where
  "role_members = [Role_PRODUCT,
     Role_DESIGN,
     Role_ARCHITECT,
     Role_INFRASTRUCTURE,
     Role_SECURITY,
     Role_DEVELOP,
     Role_QUALITY,
     Role_CI_CD,
     Role_OPERATION]"

datatype stage =
    Stage_SPECIFICATION
  | Stage_PLANNING
  | Stage_CONSTRUCTION
  | Stage_REVIEW_VERIFICATION
  | Stage_RELEASE

fun stage_value :: "stage \<Rightarrow> string" where
  "stage_value Stage_SPECIFICATION = ''specification''"
| "stage_value Stage_PLANNING = ''planning''"
| "stage_value Stage_CONSTRUCTION = ''construction''"
| "stage_value Stage_REVIEW_VERIFICATION = ''review_verification''"
| "stage_value Stage_RELEASE = ''release''"

definition stage_members :: "stage list" where
  "stage_members = [Stage_SPECIFICATION,
     Stage_PLANNING,
     Stage_CONSTRUCTION,
     Stage_REVIEW_VERIFICATION,
     Stage_RELEASE]"

datatype gate =
    Gate_SPECIFICATION
  | Gate_PLANNING
  | Gate_CODE
  | Gate_UI
  | Gate_REVIEW
  | Gate_VERIFICATION
  | Gate_RELEASE

fun gate_value :: "gate \<Rightarrow> string" where
  "gate_value Gate_SPECIFICATION = ''specification''"
| "gate_value Gate_PLANNING = ''planning''"
| "gate_value Gate_CODE = ''code''"
| "gate_value Gate_UI = ''ui''"
| "gate_value Gate_REVIEW = ''review''"
| "gate_value Gate_VERIFICATION = ''verification''"
| "gate_value Gate_RELEASE = ''release''"

definition gate_members :: "gate list" where
  "gate_members = [Gate_SPECIFICATION,
     Gate_PLANNING,
     Gate_CODE,
     Gate_UI,
     Gate_REVIEW,
     Gate_VERIFICATION,
     Gate_RELEASE]"

datatype control_point =
    ControlPoint_PROBLEM
  | ControlPoint_SOLUTION
  | ControlPoint_UX
  | ControlPoint_DISCOVERY_RELEASE

fun control_point_value :: "control_point \<Rightarrow> string" where
  "control_point_value ControlPoint_PROBLEM = ''problem''"
| "control_point_value ControlPoint_SOLUTION = ''solution''"
| "control_point_value ControlPoint_UX = ''ux''"
| "control_point_value ControlPoint_DISCOVERY_RELEASE = ''discovery_release''"

definition control_point_members :: "control_point list" where
  "control_point_members = [ControlPoint_PROBLEM,
     ControlPoint_SOLUTION,
     ControlPoint_UX,
     ControlPoint_DISCOVERY_RELEASE]"

datatype run_status =
    RunStatus_PENDING
  | RunStatus_RUNNING
  | RunStatus_WAITING
  | RunStatus_BLOCKED
  | RunStatus_SUCCEEDED
  | RunStatus_FAILED
  | RunStatus_CANCELED
  | RunStatus_SUPERSEDED

fun run_status_value :: "run_status \<Rightarrow> string" where
  "run_status_value RunStatus_PENDING = ''pending''"
| "run_status_value RunStatus_RUNNING = ''running''"
| "run_status_value RunStatus_WAITING = ''waiting''"
| "run_status_value RunStatus_BLOCKED = ''blocked''"
| "run_status_value RunStatus_SUCCEEDED = ''succeeded''"
| "run_status_value RunStatus_FAILED = ''failed''"
| "run_status_value RunStatus_CANCELED = ''canceled''"
| "run_status_value RunStatus_SUPERSEDED = ''superseded''"

definition run_status_members :: "run_status list" where
  "run_status_members = [RunStatus_PENDING,
     RunStatus_RUNNING,
     RunStatus_WAITING,
     RunStatus_BLOCKED,
     RunStatus_SUCCEEDED,
     RunStatus_FAILED,
     RunStatus_CANCELED,
     RunStatus_SUPERSEDED]"

datatype stage_status =
    StageStatus_PENDING
  | StageStatus_IN_PROGRESS
  | StageStatus_WAITING
  | StageStatus_SUCCEEDED
  | StageStatus_FAILED
  | StageStatus_BLOCKED
  | StageStatus_SKIPPED
  | StageStatus_SUPERSEDED
  | StageStatus_CANCELED

fun stage_status_value :: "stage_status \<Rightarrow> string" where
  "stage_status_value StageStatus_PENDING = ''pending''"
| "stage_status_value StageStatus_IN_PROGRESS = ''in_progress''"
| "stage_status_value StageStatus_WAITING = ''waiting''"
| "stage_status_value StageStatus_SUCCEEDED = ''succeeded''"
| "stage_status_value StageStatus_FAILED = ''failed''"
| "stage_status_value StageStatus_BLOCKED = ''blocked''"
| "stage_status_value StageStatus_SKIPPED = ''skipped''"
| "stage_status_value StageStatus_SUPERSEDED = ''superseded''"
| "stage_status_value StageStatus_CANCELED = ''canceled''"

definition stage_status_members :: "stage_status list" where
  "stage_status_members = [StageStatus_PENDING,
     StageStatus_IN_PROGRESS,
     StageStatus_WAITING,
     StageStatus_SUCCEEDED,
     StageStatus_FAILED,
     StageStatus_BLOCKED,
     StageStatus_SKIPPED,
     StageStatus_SUPERSEDED,
     StageStatus_CANCELED]"

datatype finding_severity =
    FindingSeverity_BLOCKER
  | FindingSeverity_MAJOR
  | FindingSeverity_MINOR
  | FindingSeverity_INFO

fun finding_severity_value :: "finding_severity \<Rightarrow> string" where
  "finding_severity_value FindingSeverity_BLOCKER = ''blocker''"
| "finding_severity_value FindingSeverity_MAJOR = ''major''"
| "finding_severity_value FindingSeverity_MINOR = ''minor''"
| "finding_severity_value FindingSeverity_INFO = ''info''"

definition finding_severity_members :: "finding_severity list" where
  "finding_severity_members = [FindingSeverity_BLOCKER,
     FindingSeverity_MAJOR,
     FindingSeverity_MINOR,
     FindingSeverity_INFO]"

datatype finding_status =
    FindingStatus_OPEN
  | FindingStatus_RESOLVED
  | FindingStatus_WAIVED
  | FindingStatus_OBSOLETE

fun finding_status_value :: "finding_status \<Rightarrow> string" where
  "finding_status_value FindingStatus_OPEN = ''open''"
| "finding_status_value FindingStatus_RESOLVED = ''resolved''"
| "finding_status_value FindingStatus_WAIVED = ''waived''"
| "finding_status_value FindingStatus_OBSOLETE = ''obsolete''"

definition finding_status_members :: "finding_status list" where
  "finding_status_members = [FindingStatus_OPEN,
     FindingStatus_RESOLVED,
     FindingStatus_WAIVED,
     FindingStatus_OBSOLETE]"

datatype finding_origin =
    FindingOrigin_AGENT
  | FindingOrigin_HUMAN
  | FindingOrigin_CI

fun finding_origin_value :: "finding_origin \<Rightarrow> string" where
  "finding_origin_value FindingOrigin_AGENT = ''agent''"
| "finding_origin_value FindingOrigin_HUMAN = ''human''"
| "finding_origin_value FindingOrigin_CI = ''ci''"

definition finding_origin_members :: "finding_origin list" where
  "finding_origin_members = [FindingOrigin_AGENT,
     FindingOrigin_HUMAN,
     FindingOrigin_CI]"

datatype gate_status =
    GateStatus_PENDING
  | GateStatus_PASSED
  | GateStatus_FAILED
  | GateStatus_SKIPPED

fun gate_status_value :: "gate_status \<Rightarrow> string" where
  "gate_status_value GateStatus_PENDING = ''pending''"
| "gate_status_value GateStatus_PASSED = ''passed''"
| "gate_status_value GateStatus_FAILED = ''failed''"
| "gate_status_value GateStatus_SKIPPED = ''skipped''"

definition gate_status_members :: "gate_status list" where
  "gate_status_members = [GateStatus_PENDING,
     GateStatus_PASSED,
     GateStatus_FAILED,
     GateStatus_SKIPPED]"

datatype release_status =
    ReleaseStatus_RELEASED
  | ReleaseStatus_RELEASE_FAILED

fun release_status_value :: "release_status \<Rightarrow> string" where
  "release_status_value ReleaseStatus_RELEASED = ''released''"
| "release_status_value ReleaseStatus_RELEASE_FAILED = ''release_failed''"

definition release_status_members :: "release_status list" where
  "release_status_members = [ReleaseStatus_RELEASED,
     ReleaseStatus_RELEASE_FAILED]"

datatype decision_outcome =
    DecisionOutcome_APPROVED
  | DecisionOutcome_REJECTED
  | DecisionOutcome_WAIVED

fun decision_outcome_value :: "decision_outcome \<Rightarrow> string" where
  "decision_outcome_value DecisionOutcome_APPROVED = ''approved''"
| "decision_outcome_value DecisionOutcome_REJECTED = ''rejected''"
| "decision_outcome_value DecisionOutcome_WAIVED = ''waived''"

definition decision_outcome_members :: "decision_outcome list" where
  "decision_outcome_members = [DecisionOutcome_APPROVED,
     DecisionOutcome_REJECTED,
     DecisionOutcome_WAIVED]"

datatype decision_source =
    DecisionSource_HUMAN
  | DecisionSource_POLICY
  | DecisionSource_AGENT

fun decision_source_value :: "decision_source \<Rightarrow> string" where
  "decision_source_value DecisionSource_HUMAN = ''human''"
| "decision_source_value DecisionSource_POLICY = ''policy''"
| "decision_source_value DecisionSource_AGENT = ''agent''"

definition decision_source_members :: "decision_source list" where
  "decision_source_members = [DecisionSource_HUMAN,
     DecisionSource_POLICY,
     DecisionSource_AGENT]"

datatype decision_class =
    DecisionClass_KNOWN_PATH
  | DecisionClass_BOUNDED_CHOICE
  | DecisionClass_NEW_PATH

fun decision_class_value :: "decision_class \<Rightarrow> string" where
  "decision_class_value DecisionClass_KNOWN_PATH = ''known_path''"
| "decision_class_value DecisionClass_BOUNDED_CHOICE = ''bounded_choice''"
| "decision_class_value DecisionClass_NEW_PATH = ''new_path''"

definition decision_class_members :: "decision_class list" where
  "decision_class_members = [DecisionClass_KNOWN_PATH,
     DecisionClass_BOUNDED_CHOICE,
     DecisionClass_NEW_PATH]"

datatype human_participation =
    HumanParticipation_IN_THE_LOOP
  | HumanParticipation_ON_THE_LOOP
  | HumanParticipation_OFF_THE_LOOP

fun human_participation_value :: "human_participation \<Rightarrow> string" where
  "human_participation_value HumanParticipation_IN_THE_LOOP = ''human_in_the_loop''"
| "human_participation_value HumanParticipation_ON_THE_LOOP = ''human_on_the_loop''"
| "human_participation_value HumanParticipation_OFF_THE_LOOP = ''human_off_the_loop''"

definition human_participation_members :: "human_participation list" where
  "human_participation_members = [HumanParticipation_IN_THE_LOOP,
     HumanParticipation_ON_THE_LOOP,
     HumanParticipation_OFF_THE_LOOP]"

datatype change_source =
    ChangeSource_TRACKER
  | ChangeSource_CONSOLE
  | ChangeSource_CLI
  | ChangeSource_API

fun change_source_value :: "change_source \<Rightarrow> string" where
  "change_source_value ChangeSource_TRACKER = ''tracker''"
| "change_source_value ChangeSource_CONSOLE = ''console''"
| "change_source_value ChangeSource_CLI = ''cli''"
| "change_source_value ChangeSource_API = ''api''"

definition change_source_members :: "change_source list" where
  "change_source_members = [ChangeSource_TRACKER,
     ChangeSource_CONSOLE,
     ChangeSource_CLI,
     ChangeSource_API]"

datatype scenario =
    Scenario_SPECS_ONLY
  | Scenario_FULL

fun scenario_value :: "scenario \<Rightarrow> string" where
  "scenario_value Scenario_SPECS_ONLY = ''specs_only''"
| "scenario_value Scenario_FULL = ''full''"

definition scenario_members :: "scenario list" where
  "scenario_members = [Scenario_SPECS_ONLY,
     Scenario_FULL]"

datatype brief_status =
    BriefStatus_DRAFT
  | BriefStatus_COMPLETE

fun brief_status_value :: "brief_status \<Rightarrow> string" where
  "brief_status_value BriefStatus_DRAFT = ''draft''"
| "brief_status_value BriefStatus_COMPLETE = ''complete''"

definition brief_status_members :: "brief_status list" where
  "brief_status_members = [BriefStatus_DRAFT,
     BriefStatus_COMPLETE]"

datatype brief_author =
    BriefAuthor_OPERATOR
  | BriefAuthor_AGENT

fun brief_author_value :: "brief_author \<Rightarrow> string" where
  "brief_author_value BriefAuthor_OPERATOR = ''operator''"
| "brief_author_value BriefAuthor_AGENT = ''agent''"

definition brief_author_members :: "brief_author list" where
  "brief_author_members = [BriefAuthor_OPERATOR,
     BriefAuthor_AGENT]"

datatype change_request_status =
    ChangeRequestStatus_DRAFT
  | ChangeRequestStatus_OPEN
  | ChangeRequestStatus_MERGED
  | ChangeRequestStatus_CLOSED

fun change_request_status_value :: "change_request_status \<Rightarrow> string" where
  "change_request_status_value ChangeRequestStatus_DRAFT = ''draft''"
| "change_request_status_value ChangeRequestStatus_OPEN = ''open''"
| "change_request_status_value ChangeRequestStatus_MERGED = ''merged''"
| "change_request_status_value ChangeRequestStatus_CLOSED = ''closed''"

definition change_request_status_members :: "change_request_status list" where
  "change_request_status_members = [ChangeRequestStatus_DRAFT,
     ChangeRequestStatus_OPEN,
     ChangeRequestStatus_MERGED,
     ChangeRequestStatus_CLOSED]"

datatype product_status =
    ProductStatus_CREATED
  | ProductStatus_VALIDATING
  | ProductStatus_READY
  | ProductStatus_ERROR

fun product_status_value :: "product_status \<Rightarrow> string" where
  "product_status_value ProductStatus_CREATED = ''created''"
| "product_status_value ProductStatus_VALIDATING = ''validating''"
| "product_status_value ProductStatus_READY = ''ready''"
| "product_status_value ProductStatus_ERROR = ''error''"

definition product_status_members :: "product_status list" where
  "product_status_members = [ProductStatus_CREATED,
     ProductStatus_VALIDATING,
     ProductStatus_READY,
     ProductStatus_ERROR]"

datatype evidence_type =
    EvidenceType_LOG
  | EvidenceType_REPORT
  | EvidenceType_SCREENSHOT
  | EvidenceType_SBOM
  | EvidenceType_SPEC
  | EvidenceType_DIFF
  | EvidenceType_TEST_RESULTS
  | EvidenceType_DEPLOYMENT
  | EvidenceType_SMOKE
  | EvidenceType_OTHER

fun evidence_type_value :: "evidence_type \<Rightarrow> string" where
  "evidence_type_value EvidenceType_LOG = ''log''"
| "evidence_type_value EvidenceType_REPORT = ''report''"
| "evidence_type_value EvidenceType_SCREENSHOT = ''screenshot''"
| "evidence_type_value EvidenceType_SBOM = ''sbom''"
| "evidence_type_value EvidenceType_SPEC = ''spec''"
| "evidence_type_value EvidenceType_DIFF = ''diff''"
| "evidence_type_value EvidenceType_TEST_RESULTS = ''test_results''"
| "evidence_type_value EvidenceType_DEPLOYMENT = ''deployment''"
| "evidence_type_value EvidenceType_SMOKE = ''smoke''"
| "evidence_type_value EvidenceType_OTHER = ''other''"

definition evidence_type_members :: "evidence_type list" where
  "evidence_type_members = [EvidenceType_LOG,
     EvidenceType_REPORT,
     EvidenceType_SCREENSHOT,
     EvidenceType_SBOM,
     EvidenceType_SPEC,
     EvidenceType_DIFF,
     EvidenceType_TEST_RESULTS,
     EvidenceType_DEPLOYMENT,
     EvidenceType_SMOKE,
     EvidenceType_OTHER]"

datatype stop_outcome =
    StopOutcome_BLOCKED
  | StopOutcome_FAILED
  | StopOutcome_CANCELED

fun stop_outcome_value :: "stop_outcome \<Rightarrow> string" where
  "stop_outcome_value StopOutcome_BLOCKED = ''blocked''"
| "stop_outcome_value StopOutcome_FAILED = ''failed''"
| "stop_outcome_value StopOutcome_CANCELED = ''canceled''"

definition stop_outcome_members :: "stop_outcome list" where
  "stop_outcome_members = [StopOutcome_BLOCKED,
     StopOutcome_FAILED,
     StopOutcome_CANCELED]"

datatype escalation_rule =
    EscalationRule_IMPLEMENTATION_CONTRACT_UNAPPROVED
  | EscalationRule_REQUIREMENTS_DEFICIENT
  | EscalationRule_SCOPE_EXIT
  | EscalationRule_BOUNDARY_CHANGE
  | EscalationRule_NEW_ADR_PROPOSAL
  | EscalationRule_RISK_RAISED_TO_R2
  | EscalationRule_UNRECOVERABLE_GATE_FAILURE
  | EscalationRule_AUTONOMY_BUDGET_EXHAUSTED
  | EscalationRule_UI_UNVERIFIABLE
  | EscalationRule_IRREVERSIBLE_OPERATION

fun escalation_rule_value :: "escalation_rule \<Rightarrow> string" where
  "escalation_rule_value EscalationRule_IMPLEMENTATION_CONTRACT_UNAPPROVED = ''implementation_contract_unapproved''"
| "escalation_rule_value EscalationRule_REQUIREMENTS_DEFICIENT = ''requirements_deficient''"
| "escalation_rule_value EscalationRule_SCOPE_EXIT = ''scope_exit''"
| "escalation_rule_value EscalationRule_BOUNDARY_CHANGE = ''boundary_change''"
| "escalation_rule_value EscalationRule_NEW_ADR_PROPOSAL = ''new_adr_proposal''"
| "escalation_rule_value EscalationRule_RISK_RAISED_TO_R2 = ''risk_raised_to_r2''"
| "escalation_rule_value EscalationRule_UNRECOVERABLE_GATE_FAILURE = ''unrecoverable_gate_failure''"
| "escalation_rule_value EscalationRule_AUTONOMY_BUDGET_EXHAUSTED = ''autonomy_budget_exhausted''"
| "escalation_rule_value EscalationRule_UI_UNVERIFIABLE = ''ui_unverifiable''"
| "escalation_rule_value EscalationRule_IRREVERSIBLE_OPERATION = ''irreversible_operation''"

definition escalation_rule_members :: "escalation_rule list" where
  "escalation_rule_members = [EscalationRule_IMPLEMENTATION_CONTRACT_UNAPPROVED,
     EscalationRule_REQUIREMENTS_DEFICIENT,
     EscalationRule_SCOPE_EXIT,
     EscalationRule_BOUNDARY_CHANGE,
     EscalationRule_NEW_ADR_PROPOSAL,
     EscalationRule_RISK_RAISED_TO_R2,
     EscalationRule_UNRECOVERABLE_GATE_FAILURE,
     EscalationRule_AUTONOMY_BUDGET_EXHAUSTED,
     EscalationRule_UI_UNVERIFIABLE,
     EscalationRule_IRREVERSIBLE_OPERATION]"

datatype phase =
    Phase_INITIATIVE
  | Phase_REQUIREMENTS
  | Phase_ARCHITECTURE
  | Phase_INTERFACE
  | Phase_PLAN
  | Phase_EXECUTION
  | Phase_DEMONSTRATION
  | Phase_DELIVERY
  | Phase_DONE

fun phase_value :: "phase \<Rightarrow> string" where
  "phase_value Phase_INITIATIVE = ''initiative''"
| "phase_value Phase_REQUIREMENTS = ''requirements''"
| "phase_value Phase_ARCHITECTURE = ''architecture''"
| "phase_value Phase_INTERFACE = ''interface''"
| "phase_value Phase_PLAN = ''plan''"
| "phase_value Phase_EXECUTION = ''execution''"
| "phase_value Phase_DEMONSTRATION = ''demonstration''"
| "phase_value Phase_DELIVERY = ''delivery''"
| "phase_value Phase_DONE = ''done''"

definition phase_members :: "phase list" where
  "phase_members = [Phase_INITIATIVE,
     Phase_REQUIREMENTS,
     Phase_ARCHITECTURE,
     Phase_INTERFACE,
     Phase_PLAN,
     Phase_EXECUTION,
     Phase_DEMONSTRATION,
     Phase_DELIVERY,
     Phase_DONE]"

datatype answer_kind =
    AnswerKind_CHOICE
  | AnswerKind_TEXT
  | AnswerKind_NUMBER

fun answer_kind_value :: "answer_kind \<Rightarrow> string" where
  "answer_kind_value AnswerKind_CHOICE = ''choice''"
| "answer_kind_value AnswerKind_TEXT = ''text''"
| "answer_kind_value AnswerKind_NUMBER = ''number''"

definition answer_kind_members :: "answer_kind list" where
  "answer_kind_members = [AnswerKind_CHOICE,
     AnswerKind_TEXT,
     AnswerKind_NUMBER]"

datatype question_status =
    QuestionStatus_OPEN
  | QuestionStatus_ANSWERED
  | QuestionStatus_RESOLVED
  | QuestionStatus_STALE

fun question_status_value :: "question_status \<Rightarrow> string" where
  "question_status_value QuestionStatus_OPEN = ''open''"
| "question_status_value QuestionStatus_ANSWERED = ''answered''"
| "question_status_value QuestionStatus_RESOLVED = ''resolved''"
| "question_status_value QuestionStatus_STALE = ''stale''"

definition question_status_members :: "question_status list" where
  "question_status_members = [QuestionStatus_OPEN,
     QuestionStatus_ANSWERED,
     QuestionStatus_RESOLVED,
     QuestionStatus_STALE]"

datatype comment_status =
    CommentStatus_OPEN
  | CommentStatus_ADDRESSED
  | CommentStatus_CLOSED

fun comment_status_value :: "comment_status \<Rightarrow> string" where
  "comment_status_value CommentStatus_OPEN = ''open''"
| "comment_status_value CommentStatus_ADDRESSED = ''addressed''"
| "comment_status_value CommentStatus_CLOSED = ''closed''"

definition comment_status_members :: "comment_status list" where
  "comment_status_members = [CommentStatus_OPEN,
     CommentStatus_ADDRESSED,
     CommentStatus_CLOSED]"

datatype anchor_state =
    AnchorState_ATTACHED
  | AnchorState_DETACHED

fun anchor_state_value :: "anchor_state \<Rightarrow> string" where
  "anchor_state_value AnchorState_ATTACHED = ''attached''"
| "anchor_state_value AnchorState_DETACHED = ''detached''"

definition anchor_state_members :: "anchor_state list" where
  "anchor_state_members = [AnchorState_ATTACHED,
     AnchorState_DETACHED]"

datatype rework_order_status =
    ReworkOrderStatus_PENDING
  | ReworkOrderStatus_IN_PROGRESS
  | ReworkOrderStatus_DONE
  | ReworkOrderStatus_ESCALATED

fun rework_order_status_value :: "rework_order_status \<Rightarrow> string" where
  "rework_order_status_value ReworkOrderStatus_PENDING = ''pending''"
| "rework_order_status_value ReworkOrderStatus_IN_PROGRESS = ''in_progress''"
| "rework_order_status_value ReworkOrderStatus_DONE = ''done''"
| "rework_order_status_value ReworkOrderStatus_ESCALATED = ''escalated''"

definition rework_order_status_members :: "rework_order_status list" where
  "rework_order_status_members = [ReworkOrderStatus_PENDING,
     ReworkOrderStatus_IN_PROGRESS,
     ReworkOrderStatus_DONE,
     ReworkOrderStatus_ESCALATED]"

section \<open>Reading a wire value back\<close>

definition from_value :: "'a list \<Rightarrow> ('a \<Rightarrow> string) \<Rightarrow> string \<Rightarrow> 'a option" where
  "from_value members value_of raw = find (\<lambda>m. value_of m = raw) members"

locale wire_enum =
  fixes members :: "'a list" and value_of :: "'a \<Rightarrow> string"
  assumes complete: "x \<in> set members"
    and distinct_values: "distinct (map value_of members)"
begin

lemma value_inject: "value_of x = value_of y \<longleftrightarrow> x = y"
  using distinct_values complete by (auto simp: distinct_map inj_on_def)

lemma from_value_sound: "from_value members value_of raw = Some x \<Longrightarrow> value_of x = raw"
  by (auto simp: from_value_def find_Some_iff)

lemma from_value_roundtrip: "from_value members value_of (value_of x) = Some x"
proof -
  have "\<exists>y\<in>set members. value_of y = value_of x" using complete by blast
  then have "from_value members value_of (value_of x) \<noteq> None"
    by (auto simp: from_value_def find_None_iff)
  then obtain y where y: "from_value members value_of (value_of x) = Some y" by blast
  then have "value_of y = value_of x" by (rule from_value_sound)
  with y show ?thesis by (simp add: value_inject)
qed

lemma from_value_None_iff: "from_value members value_of raw = None \<longleftrightarrow> (\<forall>x. value_of x \<noteq> raw)"
  using complete by (auto simp: from_value_def find_None_iff)

lemma members_UNIV: "set members = UNIV"
  using complete by auto

lemma finite_type: "finite (UNIV :: 'a set)"
  using members_UNIV by (metis List.finite_set)

end

interpretation provider_wire: wire_enum provider_members provider_value
proof unfold_locales
  show "x \<in> set provider_members" for x by (cases x) (simp_all add: provider_members_def)
  show "distinct (map provider_value provider_members)" by (simp add: provider_members_def)
qed

interpretation route_wire: wire_enum route_members route_value
proof unfold_locales
  show "x \<in> set route_members" for x by (cases x) (simp_all add: route_members_def)
  show "distinct (map route_value route_members)" by (simp add: route_members_def)
qed

interpretation risk_class_wire: wire_enum risk_class_members risk_class_value
proof unfold_locales
  show "x \<in> set risk_class_members" for x by (cases x) (simp_all add: risk_class_members_def)
  show "distinct (map risk_class_value risk_class_members)" by (simp add: risk_class_members_def)
qed

interpretation boundary_area_wire: wire_enum boundary_area_members boundary_area_value
proof unfold_locales
  show "x \<in> set boundary_area_members" for x by (cases x) (simp_all add: boundary_area_members_def)
  show "distinct (map boundary_area_value boundary_area_members)" by (simp add: boundary_area_members_def)
qed

interpretation role_wire: wire_enum role_members role_value
proof unfold_locales
  show "x \<in> set role_members" for x by (cases x) (simp_all add: role_members_def)
  show "distinct (map role_value role_members)" by (simp add: role_members_def)
qed

interpretation stage_wire: wire_enum stage_members stage_value
proof unfold_locales
  show "x \<in> set stage_members" for x by (cases x) (simp_all add: stage_members_def)
  show "distinct (map stage_value stage_members)" by (simp add: stage_members_def)
qed

interpretation gate_wire: wire_enum gate_members gate_value
proof unfold_locales
  show "x \<in> set gate_members" for x by (cases x) (simp_all add: gate_members_def)
  show "distinct (map gate_value gate_members)" by (simp add: gate_members_def)
qed

interpretation control_point_wire: wire_enum control_point_members control_point_value
proof unfold_locales
  show "x \<in> set control_point_members" for x by (cases x) (simp_all add: control_point_members_def)
  show "distinct (map control_point_value control_point_members)" by (simp add: control_point_members_def)
qed

interpretation run_status_wire: wire_enum run_status_members run_status_value
proof unfold_locales
  show "x \<in> set run_status_members" for x by (cases x) (simp_all add: run_status_members_def)
  show "distinct (map run_status_value run_status_members)" by (simp add: run_status_members_def)
qed

interpretation stage_status_wire: wire_enum stage_status_members stage_status_value
proof unfold_locales
  show "x \<in> set stage_status_members" for x by (cases x) (simp_all add: stage_status_members_def)
  show "distinct (map stage_status_value stage_status_members)" by (simp add: stage_status_members_def)
qed

interpretation finding_severity_wire: wire_enum finding_severity_members finding_severity_value
proof unfold_locales
  show "x \<in> set finding_severity_members" for x by (cases x) (simp_all add: finding_severity_members_def)
  show "distinct (map finding_severity_value finding_severity_members)" by (simp add: finding_severity_members_def)
qed

interpretation finding_status_wire: wire_enum finding_status_members finding_status_value
proof unfold_locales
  show "x \<in> set finding_status_members" for x by (cases x) (simp_all add: finding_status_members_def)
  show "distinct (map finding_status_value finding_status_members)" by (simp add: finding_status_members_def)
qed

interpretation finding_origin_wire: wire_enum finding_origin_members finding_origin_value
proof unfold_locales
  show "x \<in> set finding_origin_members" for x by (cases x) (simp_all add: finding_origin_members_def)
  show "distinct (map finding_origin_value finding_origin_members)" by (simp add: finding_origin_members_def)
qed

interpretation gate_status_wire: wire_enum gate_status_members gate_status_value
proof unfold_locales
  show "x \<in> set gate_status_members" for x by (cases x) (simp_all add: gate_status_members_def)
  show "distinct (map gate_status_value gate_status_members)" by (simp add: gate_status_members_def)
qed

interpretation release_status_wire: wire_enum release_status_members release_status_value
proof unfold_locales
  show "x \<in> set release_status_members" for x by (cases x) (simp_all add: release_status_members_def)
  show "distinct (map release_status_value release_status_members)" by (simp add: release_status_members_def)
qed

interpretation decision_outcome_wire: wire_enum decision_outcome_members decision_outcome_value
proof unfold_locales
  show "x \<in> set decision_outcome_members" for x by (cases x) (simp_all add: decision_outcome_members_def)
  show "distinct (map decision_outcome_value decision_outcome_members)" by (simp add: decision_outcome_members_def)
qed

interpretation decision_source_wire: wire_enum decision_source_members decision_source_value
proof unfold_locales
  show "x \<in> set decision_source_members" for x by (cases x) (simp_all add: decision_source_members_def)
  show "distinct (map decision_source_value decision_source_members)" by (simp add: decision_source_members_def)
qed

interpretation decision_class_wire: wire_enum decision_class_members decision_class_value
proof unfold_locales
  show "x \<in> set decision_class_members" for x by (cases x) (simp_all add: decision_class_members_def)
  show "distinct (map decision_class_value decision_class_members)" by (simp add: decision_class_members_def)
qed

interpretation human_participation_wire: wire_enum human_participation_members human_participation_value
proof unfold_locales
  show "x \<in> set human_participation_members" for x by (cases x) (simp_all add: human_participation_members_def)
  show "distinct (map human_participation_value human_participation_members)" by (simp add: human_participation_members_def)
qed

interpretation change_source_wire: wire_enum change_source_members change_source_value
proof unfold_locales
  show "x \<in> set change_source_members" for x by (cases x) (simp_all add: change_source_members_def)
  show "distinct (map change_source_value change_source_members)" by (simp add: change_source_members_def)
qed

interpretation scenario_wire: wire_enum scenario_members scenario_value
proof unfold_locales
  show "x \<in> set scenario_members" for x by (cases x) (simp_all add: scenario_members_def)
  show "distinct (map scenario_value scenario_members)" by (simp add: scenario_members_def)
qed

interpretation brief_status_wire: wire_enum brief_status_members brief_status_value
proof unfold_locales
  show "x \<in> set brief_status_members" for x by (cases x) (simp_all add: brief_status_members_def)
  show "distinct (map brief_status_value brief_status_members)" by (simp add: brief_status_members_def)
qed

interpretation brief_author_wire: wire_enum brief_author_members brief_author_value
proof unfold_locales
  show "x \<in> set brief_author_members" for x by (cases x) (simp_all add: brief_author_members_def)
  show "distinct (map brief_author_value brief_author_members)" by (simp add: brief_author_members_def)
qed

interpretation change_request_status_wire: wire_enum change_request_status_members change_request_status_value
proof unfold_locales
  show "x \<in> set change_request_status_members" for x by (cases x) (simp_all add: change_request_status_members_def)
  show "distinct (map change_request_status_value change_request_status_members)" by (simp add: change_request_status_members_def)
qed

interpretation product_status_wire: wire_enum product_status_members product_status_value
proof unfold_locales
  show "x \<in> set product_status_members" for x by (cases x) (simp_all add: product_status_members_def)
  show "distinct (map product_status_value product_status_members)" by (simp add: product_status_members_def)
qed

interpretation evidence_type_wire: wire_enum evidence_type_members evidence_type_value
proof unfold_locales
  show "x \<in> set evidence_type_members" for x by (cases x) (simp_all add: evidence_type_members_def)
  show "distinct (map evidence_type_value evidence_type_members)" by (simp add: evidence_type_members_def)
qed

interpretation stop_outcome_wire: wire_enum stop_outcome_members stop_outcome_value
proof unfold_locales
  show "x \<in> set stop_outcome_members" for x by (cases x) (simp_all add: stop_outcome_members_def)
  show "distinct (map stop_outcome_value stop_outcome_members)" by (simp add: stop_outcome_members_def)
qed

interpretation escalation_rule_wire: wire_enum escalation_rule_members escalation_rule_value
proof unfold_locales
  show "x \<in> set escalation_rule_members" for x by (cases x) (simp_all add: escalation_rule_members_def)
  show "distinct (map escalation_rule_value escalation_rule_members)" by (simp add: escalation_rule_members_def)
qed

interpretation phase_wire: wire_enum phase_members phase_value
proof unfold_locales
  show "x \<in> set phase_members" for x by (cases x) (simp_all add: phase_members_def)
  show "distinct (map phase_value phase_members)" by (simp add: phase_members_def)
qed

interpretation answer_kind_wire: wire_enum answer_kind_members answer_kind_value
proof unfold_locales
  show "x \<in> set answer_kind_members" for x by (cases x) (simp_all add: answer_kind_members_def)
  show "distinct (map answer_kind_value answer_kind_members)" by (simp add: answer_kind_members_def)
qed

interpretation question_status_wire: wire_enum question_status_members question_status_value
proof unfold_locales
  show "x \<in> set question_status_members" for x by (cases x) (simp_all add: question_status_members_def)
  show "distinct (map question_status_value question_status_members)" by (simp add: question_status_members_def)
qed

interpretation comment_status_wire: wire_enum comment_status_members comment_status_value
proof unfold_locales
  show "x \<in> set comment_status_members" for x by (cases x) (simp_all add: comment_status_members_def)
  show "distinct (map comment_status_value comment_status_members)" by (simp add: comment_status_members_def)
qed

interpretation anchor_state_wire: wire_enum anchor_state_members anchor_state_value
proof unfold_locales
  show "x \<in> set anchor_state_members" for x by (cases x) (simp_all add: anchor_state_members_def)
  show "distinct (map anchor_state_value anchor_state_members)" by (simp add: anchor_state_members_def)
qed

interpretation rework_order_status_wire: wire_enum rework_order_status_members rework_order_status_value
proof unfold_locales
  show "x \<in> set rework_order_status_members" for x by (cases x) (simp_all add: rework_order_status_members_def)
  show "distinct (map rework_order_status_value rework_order_status_members)" by (simp add: rework_order_status_members_def)
qed

section \<open>The order of risk\<close>

text \<open>
  \<open>RISK_ORDER\<close> (\<open>changes/risk.py\<close>) enumerates \<open>RiskClass\<close> in declaration order; it is the linear
  order of the type, so that \<open>max\<close> and \<open>\<le>\<close> on risk classes are the code's comparisons.
\<close>

fun risk_order :: "risk_class \<Rightarrow> nat" where
  "risk_order RiskClass_R0 = 0"
| "risk_order RiskClass_R1 = 1"
| "risk_order RiskClass_R2 = 2"
| "risk_order RiskClass_R3 = 3"
| "risk_order RiskClass_R4 = 4"

lemma risk_order_inject: "risk_order a = risk_order b \<longleftrightarrow> a = b"
  by (cases a; cases b) simp_all

instantiation risk_class :: linorder
begin

definition less_eq_risk_class :: "risk_class \<Rightarrow> risk_class \<Rightarrow> bool" where
  "less_eq_risk_class a b \<longleftrightarrow> risk_order a \<le> risk_order b"

definition less_risk_class :: "risk_class \<Rightarrow> risk_class \<Rightarrow> bool" where
  "less_risk_class a b \<longleftrightarrow> risk_order a < risk_order b"

instance
  by standard (auto simp: less_eq_risk_class_def less_risk_class_def risk_order_inject)

end

lemmas risk_order_defs = less_eq_risk_class_def less_risk_class_def

lemma risk_R0_least [simp]: "RiskClass_R0 \<le> r"
  by (simp add: less_eq_risk_class_def)

lemma risk_R4_greatest [simp]: "r \<le> RiskClass_R4"
  by (cases r) (simp_all add: less_eq_risk_class_def)

end
