(* ===== verification/Lifecycle.thy ===== *)
theory Lifecycle
  imports Enums
begin

text \<open>
  The contract every status-carrying entity of the domain shares: a table of allowed transitions and
  one \<open>apply_status\<close> method that is the only way to change the status. The interface
  \<open>status_entity\<close> states it once; the entities (\<open>StageRun\<close>, \<open>ChangeRun\<close>, \<open>Question\<close>, \<open>Comment\<close>,
  \<open>ReworkOrder\<close>, \<open>Product\<close>) are shown to provide it in the theories that model them.
\<close>

datatype 's status_error = InvalidStatusTransition 's 's

definition table_terminal :: "('s \<Rightarrow> 's set) \<Rightarrow> 's \<Rightarrow> bool" where
  "table_terminal table s \<longleftrightarrow> table s = {}"

definition table_edges :: "('s \<Rightarrow> 's set) \<Rightarrow> ('s \<times> 's) set" where
  "table_edges table = {(a, b). b \<in> table a}"

text \<open>A sequence of moves of one entity, stopping at the first refusal.\<close>

fun run_moves :: "('s \<Rightarrow> 'e \<Rightarrow> 'x + 'e) \<Rightarrow> 's list \<Rightarrow> 'e \<Rightarrow> 'x + 'e" where
  "run_moves move [] e = Inr e"
| "run_moves move (t # ts) e = (case move t e of Inl x \<Rightarrow> Inl x | Inr e' \<Rightarrow> run_moves move ts e')"

locale status_entity =
  fixes status_of :: "'e \<Rightarrow> 's"
    and table :: "'s \<Rightarrow> 's set"
    and move :: "'s \<Rightarrow> 'e \<Rightarrow> 'x + 'e"
  assumes move_sound: "move t e = Inr e' \<Longrightarrow> t \<in> table (status_of e) \<and> status_of e' = t"
    and move_complete: "t \<in> table (status_of e) \<Longrightarrow> \<exists>e'. move t e = Inr e'"
begin

lemma move_ok_iff: "(\<exists>e'. move t e = Inr e') \<longleftrightarrow> t \<in> table (status_of e)"
  using move_sound move_complete by blast

lemma terminal_is_final: "table_terminal table (status_of e) \<Longrightarrow> \<exists>x. move t e = Inl x"
  by (metis move_sound table_terminal_def empty_iff sum.exhaust)

lemma moves_follow_table:
  "run_moves move ts e = Inr e' \<Longrightarrow> (status_of e, status_of e') \<in> (table_edges table)\<^sup>*"
proof (induction ts arbitrary: e)
  case Nil
  then show ?case by simp
next
  case (Cons t ts)
  then obtain e1 where e1: "move t e = Inr e1" "run_moves move ts e1 = Inr e'"
    by (auto split: sum.splits)
  then have "(status_of e, status_of e1) \<in> table_edges table"
    using move_sound by (auto simp: table_edges_def)
  with Cons.IH [OF e1(2)] show ?case by (metis converse_rtrancl_into_rtrancl)
qed

lemma moves_from_terminal:
  "table_terminal table (status_of e) \<Longrightarrow> run_moves move ts e = Inr e' \<Longrightarrow> ts = [] \<and> e' = e"
  by (cases ts) (auto split: sum.splits dest: terminal_is_final move_sound simp: table_terminal_def)

lemma moves_last_status:
  "run_moves move ts e = Inr e' \<Longrightarrow> ts \<noteq> [] \<Longrightarrow> status_of e' = last ts"
proof (induction ts arbitrary: e)
  case Nil
  then show ?case by simp
next
  case (Cons t ts)
  then show ?case
    by (cases ts) (auto split: sum.splits dest: move_sound)
qed

end

end
