(* ===== verification/Conversations.thy ===== *)
theory Conversations
  imports Lifecycle
begin

text \<open>
  The discussion around a ChangeSet (\<open>changes/conversations.py\<close>): typed questions and answers,
  anchored comments, rework orders, their three transition tables and their methods. A pydantic
  constructor that validates is a function into \<open>validation_error + _\<close>; a method that mutates the
  entity and may raise is a state-and-exception function over it. \<open>utc_now()\<close> is the argument \<open>clk\<close>.
\<close>

datatype validation_error = ValidationError

section \<open>Transition tables\<close>

fun question_transitions :: "question_status \<Rightarrow> question_status set" where
  "question_transitions QuestionStatus_OPEN = {QuestionStatus_ANSWERED, QuestionStatus_STALE}"
| "question_transitions QuestionStatus_ANSWERED = {QuestionStatus_RESOLVED, QuestionStatus_STALE}"
| "question_transitions QuestionStatus_RESOLVED = {}"
| "question_transitions QuestionStatus_STALE = {}"

fun comment_transitions :: "comment_status \<Rightarrow> comment_status set" where
  "comment_transitions CommentStatus_OPEN = {CommentStatus_ADDRESSED, CommentStatus_CLOSED}"
| "comment_transitions CommentStatus_ADDRESSED = {CommentStatus_OPEN, CommentStatus_CLOSED}"
| "comment_transitions CommentStatus_CLOSED = {}"

fun rework_order_transitions :: "rework_order_status \<Rightarrow> rework_order_status set" where
  "rework_order_transitions ReworkOrderStatus_PENDING =
     {ReworkOrderStatus_IN_PROGRESS, ReworkOrderStatus_ESCALATED}"
| "rework_order_transitions ReworkOrderStatus_IN_PROGRESS =
     {ReworkOrderStatus_DONE, ReworkOrderStatus_ESCALATED}"
| "rework_order_transitions ReworkOrderStatus_DONE = {}"
| "rework_order_transitions ReworkOrderStatus_ESCALATED = {}"

section \<open>Data\<close>

record artifact_anchor =
  aa_artifact :: string
  aa_anchor_id :: "string option"
  aa_revision :: "string option"

record answer =
  an_value :: string
  an_comment :: "string option"
  an_answered_by :: string
  an_answered_at :: instant

record question_draft =
  qd_text :: string
  qd_kind :: answer_kind
  qd_options :: "string list"
  qd_anchor :: "artifact_anchor option"
  qd_blocking :: bool

record question = question_draft +
  q_id :: string
  q_change_id :: string
  q_phase :: phase
  q_run_id :: "string option"
  q_asked_by :: "role option"
  q_status :: question_status
  q_answer :: "answer option"
  q_asked_at :: instant
  q_updated_at :: instant

record comment =
  c_id :: string
  c_change_id :: string
  c_phase :: phase
  c_anchor :: artifact_anchor
  c_body :: string
  c_author :: string
  c_status :: comment_status
  c_rework_order_id :: "string option"
  c_addressed_note :: "string option"
  c_created_at :: instant
  c_updated_at :: instant

record rework_summary =
  rs_changed :: "string list"
  rs_remaining :: "string list"
  rs_addressed_comment_ids :: "string list"

record rework_order =
  ro_id :: string
  ro_change_id :: string
  ro_phase :: phase
  ro_revisions :: "(string \<times> string) list"
  ro_comment_ids :: "string list"
  ro_question_ids :: "string list"
  ro_instruction :: "string option"
  ro_decision_ids :: "string list"
  ro_issued_by :: string
  ro_status :: rework_order_status
  ro_round :: "int option"
  ro_run_id :: "string option"
  ro_summary :: "rework_summary option"
  ro_escalation_reason :: "string option"
  ro_created_at :: instant
  ro_updated_at :: instant

section \<open>Validating constructors\<close>

definition clean_lines :: "string list \<Rightarrow> string list" where
  "clean_lines items = filter (\<lambda>s. s \<noteq> []) (map py_strip items)"

definition mk_artifact_anchor ::
    "string \<Rightarrow> string option \<Rightarrow> string option \<Rightarrow> validation_error + artifact_anchor" where
  "mk_artifact_anchor artifact anchor_id revision =
     (if artifact = [] then Inl ValidationError
      else Inr \<lparr>aa_artifact = artifact, aa_anchor_id = clean_text anchor_id,
                aa_revision = clean_text revision\<rparr>)"

definition mk_answer :: "string \<Rightarrow> string option \<Rightarrow> string \<Rightarrow> instant \<Rightarrow> validation_error + answer" where
  "mk_answer val comment answered_by answered_at =
     (if val = [] \<or> answered_by = [] then Inl ValidationError
      else Inr \<lparr>an_value = val, an_comment = comment, an_answered_by = answered_by,
                an_answered_at = answered_at\<rparr>)"

definition mk_question_draft ::
    "string \<Rightarrow> answer_kind \<Rightarrow> string list \<Rightarrow> artifact_anchor option \<Rightarrow> bool
      \<Rightarrow> validation_error + question_draft" where
  "mk_question_draft txt kind options anchor blocking =
     (let t = py_strip txt; os = clean_lines options in
      if t = [] then Inl ValidationError
      else if kind = AnswerKind_CHOICE \<and> length os < 2 then Inl ValidationError
      else if kind \<noteq> AnswerKind_CHOICE \<and> os \<noteq> [] then Inl ValidationError
      else Inr \<lparr>qd_text = t, qd_kind = kind, qd_options = os, qd_anchor = anchor,
                qd_blocking = blocking\<rparr>)"

definition mk_rework_summary :: "string list \<Rightarrow> string list \<Rightarrow> string list \<Rightarrow> rework_summary" where
  "mk_rework_summary changed remaining ids =
     \<lparr>rs_changed = clean_lines changed, rs_remaining = clean_lines remaining,
      rs_addressed_comment_ids = clean_lines ids\<rparr>"

definition mk_rework_order ::
    "string \<Rightarrow> string \<Rightarrow> phase \<Rightarrow> (string \<times> string) list \<Rightarrow> string list \<Rightarrow> string list
      \<Rightarrow> string option \<Rightarrow> string list \<Rightarrow> string \<Rightarrow> instant \<Rightarrow> validation_error + rework_order" where
  "mk_rework_order i change ph revisions comment_ids question_ids instruction decision_ids issued_by clk =
     (let instr = clean_text instruction in
      if i = [] \<or> change = [] \<or> issued_by = [] then Inl ValidationError
      else if comment_ids = [] \<and> question_ids = [] \<and> instr = None then Inl ValidationError
      else Inr \<lparr>ro_id = i, ro_change_id = change, ro_phase = ph, ro_revisions = revisions,
                ro_comment_ids = comment_ids, ro_question_ids = question_ids,
                ro_instruction = instr, ro_decision_ids = decision_ids, ro_issued_by = issued_by,
                ro_status = ReworkOrderStatus_PENDING, ro_round = None, ro_run_id = None,
                ro_summary = None, ro_escalation_reason = None,
                ro_created_at = clk, ro_updated_at = clk\<rparr>)"

section \<open>Numbers as \<open>decimal.Decimal\<close> reads them\<close>

definition is_digit :: "char \<Rightarrow> bool" where
  "is_digit c \<longleftrightarrow> (let n = (of_char c :: nat) in 48 \<le> n \<and> n \<le> 57)"

definition lower_char :: "char \<Rightarrow> char" where
  "lower_char c = (let n = (of_char c :: nat) in
     if (65 \<le> n \<and> n \<le> 90) \<or> (192 \<le> n \<and> n \<le> 222 \<and> n \<noteq> 215) then char_of (n + 32) else c)"

definition drop_sign :: "string \<Rightarrow> string" where
  "drop_sign s = (case s of c # q \<Rightarrow> if c = CHR ''+'' \<or> c = CHR ''-'' then q else s | [] \<Rightarrow> [])"

definition decimal_exponent :: "string \<Rightarrow> bool" where
  "decimal_exponent s = (case s of [] \<Rightarrow> True
     | c # q \<Rightarrow> lower_char c = CHR ''e'' \<and> drop_sign q \<noteq> [] \<and> list_all is_digit (drop_sign q))"

definition decimal_finite :: "string \<Rightarrow> bool" where
  "decimal_finite s =
     (let ip = takeWhile is_digit s; r = dropWhile is_digit s;
          fp = (case r of c # q \<Rightarrow> if c = CHR ''.'' then takeWhile is_digit q else [] | [] \<Rightarrow> []);
          r' = (case r of c # q \<Rightarrow> if c = CHR ''.'' then dropWhile is_digit q else r | [] \<Rightarrow> [])
      in (ip \<noteq> [] \<or> fp \<noteq> []) \<and> decimal_exponent r')"

definition decimal_special :: "string \<Rightarrow> bool" where
  "decimal_special s =
     (let l = map lower_char s;
          n = (case l of c # q \<Rightarrow> if c = CHR ''s'' then q else l | [] \<Rightarrow> [])
      in l = ''inf'' \<or> l = ''infinity'' \<or> (take 3 n = ''nan'' \<and> list_all is_digit (drop 3 n)))"

definition decimal_syntax :: "string \<Rightarrow> bool" where
  "decimal_syntax s =
     (let t = drop_sign (filter (\<lambda>c. c \<noteq> CHR ''_'') (py_strip s)) in decimal_finite t \<or> decimal_special t)"

section \<open>Questions\<close>

datatype answer_error =
    BlankAnswer
  | NotAnOption string "string list"
  | NotANumber string

datatype question_error =
    Question_InvalidAnswer answer_error
  | Question_InvalidStatus "question_status status_error"
  | Question_Validation

definition question_is_open :: "question \<Rightarrow> bool" where
  "question_is_open q \<longleftrightarrow> q_status q = QuestionStatus_OPEN"

definition question_blocks_gate :: "question \<Rightarrow> bool" where
  "question_blocks_gate q \<longleftrightarrow> qd_blocking q \<and> q_status q = QuestionStatus_OPEN"

definition question_apply_status ::
    "instant \<Rightarrow> question_status \<Rightarrow> question \<Rightarrow> question_status status_error + question" where
  "question_apply_status clk target q =
     (if target \<in> question_transitions (q_status q)
      then Inr (q\<lparr>q_status := target, q_updated_at := clk\<rparr>)
      else Inl (InvalidStatusTransition (q_status q) target))"

definition validate_answer :: "question \<Rightarrow> string \<Rightarrow> answer_error + string" where
  "validate_answer q val =
     (let cleaned = py_strip val in
      if cleaned = [] then Inl BlankAnswer
      else case qd_kind q of
        AnswerKind_CHOICE \<Rightarrow>
          if cleaned \<in> set (qd_options q) then Inr cleaned else Inl (NotAnOption cleaned (qd_options q))
      | AnswerKind_NUMBER \<Rightarrow>
          if decimal_syntax cleaned then Inr cleaned else Inl (NotANumber cleaned)
      | AnswerKind_TEXT \<Rightarrow> Inr cleaned)"

definition answer_with ::
    "instant \<Rightarrow> string \<Rightarrow> string \<Rightarrow> string option \<Rightarrow> (question, question_error, answer) sem" where
  "answer_with clk val answered_by comment = (\<lambda>q.
     case validate_answer q val of
       Inl e \<Rightarrow> (Inl (Question_InvalidAnswer e), q)
     | Inr normalized \<Rightarrow>
         (case question_apply_status clk QuestionStatus_ANSWERED q of
            Inl e \<Rightarrow> (Inl (Question_InvalidStatus e), q)
          | Inr q1 \<Rightarrow>
              (case mk_answer normalized (clean_text comment) answered_by clk of
                 Inl _ \<Rightarrow> (Inl Question_Validation, q1)
               | Inr a \<Rightarrow> (Inr a, q1\<lparr>q_answer := Some a\<rparr>))))"

section \<open>Comments\<close>

definition comment_is_open :: "comment \<Rightarrow> bool" where
  "comment_is_open c \<longleftrightarrow> c_status c \<noteq> CommentStatus_CLOSED"

definition comment_apply_status ::
    "instant \<Rightarrow> comment_status \<Rightarrow> comment \<Rightarrow> comment_status status_error + comment" where
  "comment_apply_status clk target c =
     (if target \<in> comment_transitions (c_status c)
      then Inr (c\<lparr>c_status := target, c_updated_at := clk\<rparr>)
      else Inl (InvalidStatusTransition (c_status c) target))"

definition mark_addressed ::
    "instant \<Rightarrow> string option \<Rightarrow> comment \<Rightarrow> comment_status status_error + comment" where
  "mark_addressed clk note c =
     (case comment_apply_status clk CommentStatus_ADDRESSED c of
        Inl e \<Rightarrow> Inl e
      | Inr c' \<Rightarrow> Inr (c'\<lparr>c_addressed_note := clean_text note\<rparr>))"

definition close_comment :: "instant \<Rightarrow> comment \<Rightarrow> comment_status status_error + comment" where
  "close_comment clk c = comment_apply_status clk CommentStatus_CLOSED c"

definition reopen_comment :: "instant \<Rightarrow> comment \<Rightarrow> comment_status status_error + comment" where
  "reopen_comment clk c = comment_apply_status clk CommentStatus_OPEN c"

section \<open>Rework orders\<close>

definition rework_order_is_pending :: "rework_order \<Rightarrow> bool" where
  "rework_order_is_pending r \<longleftrightarrow> ro_status r = ReworkOrderStatus_PENDING"

definition rework_order_apply_status ::
    "instant \<Rightarrow> rework_order_status \<Rightarrow> rework_order \<Rightarrow> rework_order_status status_error + rework_order" where
  "rework_order_apply_status clk target r =
     (if target \<in> rework_order_transitions (ro_status r)
      then Inr (r\<lparr>ro_status := target, ro_updated_at := clk\<rparr>)
      else Inl (InvalidStatusTransition (ro_status r) target))"

definition start_order ::
    "instant \<Rightarrow> int \<Rightarrow> string \<Rightarrow> rework_order \<Rightarrow> rework_order_status status_error + rework_order" where
  "start_order clk rnd run r =
     (case rework_order_apply_status clk ReworkOrderStatus_IN_PROGRESS r of
        Inl e \<Rightarrow> Inl e
      | Inr r' \<Rightarrow> Inr (r'\<lparr>ro_round := Some rnd, ro_run_id := Some run\<rparr>))"

definition finish_order ::
    "instant \<Rightarrow> rework_summary \<Rightarrow> rework_order \<Rightarrow> rework_order_status status_error + rework_order" where
  "finish_order clk summary r =
     (case rework_order_apply_status clk ReworkOrderStatus_DONE r of
        Inl e \<Rightarrow> Inl e
      | Inr r' \<Rightarrow> Inr (r'\<lparr>ro_summary := Some summary\<rparr>))"

definition escalate_order ::
    "instant \<Rightarrow> string \<Rightarrow> rework_order \<Rightarrow> rework_order_status status_error + rework_order" where
  "escalate_order clk reason r =
     (case rework_order_apply_status clk ReworkOrderStatus_ESCALATED r of
        Inl e \<Rightarrow> Inl e
      | Inr r' \<Rightarrow> Inr (r'\<lparr>ro_escalation_reason := Some reason\<rparr>))"

section \<open>The entities keep their lifecycle contract\<close>

interpretation question_life: status_entity q_status question_transitions "question_apply_status clk"
  for clk
  by unfold_locales (auto simp: question_apply_status_def split: if_splits)

interpretation comment_life: status_entity c_status comment_transitions "comment_apply_status clk"
  for clk
  by unfold_locales (auto simp: comment_apply_status_def split: if_splits)

interpretation rework_life:
  status_entity ro_status rework_order_transitions "rework_order_apply_status clk"
  for clk
  by unfold_locales (auto simp: rework_order_apply_status_def split: if_splits)

end
