(* ===== verification/Domain.thy ===== *)
theory Domain
  imports Conversations
begin

text \<open>
  The change domain (\<open>changes/\<close>): references, findings and decisions, usage and budgets, the
  Implementation Contract, the \<open>NextAction\<close> union, intake, products, the run and stage entities with
  their transition tables, stage results, the completion invariants and the idempotency keys.

  Human-readable diagnostics are values of \<open>message\<close>: one constructor per message template of the
  code, carrying the interpolated values; \<open>Txt\<close> is text supplied from outside and \<open>Joined\<close> is
  \<open>"; ".join(...)\<close>. \<open>utc_now()\<close> is the argument \<open>clk\<close>; an operation that reads the clock more than
  once reads one value.
\<close>

section \<open>Diagnostics\<close>

datatype message =
    Txt string
  | Joined "message list"
  | RuleMessage escalation_rule message
  | RequiredEvidenceUnavailable string stage
  | OpenBlockerFinding string stage
  | ReworkLimitExhausted int int
  | ReworkRoundExceeds int int
  | TokenBudgetExhausted int "int option"
  | CostBudgetExhausted decimal "decimal option"
  | DeadlinePassed instant
  | NoContractAttached
  | ContractNotApproved string
  | RequirementsDeficient "string list"
  | ScopeLeft "string list"
  | BoundaryNotCovered boundary_area
  | BoundaryIncompatible boundary_area
  | AdrProposed string
  | RiskObligationsNotMet risk_class "message list"
  | RouteRefusesRisk route risk_class risk_class risk_class
  | ControlPointsUnapproved stage "control_point list"
  | PolicyViolated "string list"
  | ReworkBudgetExhausted
  | AutonomyBudgetExhausted int int
  | UiNotConfirmed "string option"
  | IrreversibleRequested string
  | MergeByAgent
  | MergeShaUnknown
  | MergeShaMismatch sha sha
  | MergeGatesNotSatisfied sha "gate list"
  | MergeControlPointsUnapproved risk_class sha "control_point list"
  | MergeNoHumanApproval gate sha
  | MergeDecisionNotApproval gate sha decision_outcome
  | AutoMergeNotEnabled risk_class
  | GatesNotSatisfied "gate list"
  | BandRefusesRisk risk_class route risk_class risk_class
  | NoMergeContext
  | MergeBlockedByPolicy
  | WaitingForHumanMerge message
  | HumanMergeRequired
  | ReviewGateFailed "string list" sha
  | ReviewGatePassed nat sha nat

definition message_truthy :: "message option \<Rightarrow> bool" where
  "message_truthy m \<longleftrightarrow> (case m of None \<Rightarrow> False | Some (Txt s) \<Rightarrow> s \<noteq> [] | Some (Joined ms) \<Rightarrow> ms \<noteq> []
     | Some _ \<Rightarrow> True)"

definition message_or :: "message option \<Rightarrow> message \<Rightarrow> message" where
  "message_or m d = (if message_truthy m then the m else d)"

section \<open>References and evidence (\<open>refs.py\<close>)\<close>

record repository_ref =
  rr_provider :: provider
  rr_slug :: string

record change_request_ref =
  crr_repository :: repository_ref
  crr_number :: int
  crr_url :: "string option"
  crr_status :: change_request_status

record artifact_ref =
  ar_artifact_type :: string
  ar_uri :: string
  ar_revision :: "string option"
  ar_sha256 :: "string option"
  ar_producer :: "string option"

record evidence =
  ev_id :: string
  ev_type :: evidence_type
  ev_uri :: string
  ev_checksum :: "string option"
  ev_produced_at :: "instant option"
  ev_required :: bool
  ev_available :: bool

section \<open>Findings, gate results, decisions (\<open>findings.py\<close>)\<close>

record finding =
  f_id :: string
  f_origin :: finding_origin
  f_role :: "role option"
  f_severity :: finding_severity
  f_category :: "string option"
  f_file :: "string option"
  f_line :: "int option"
  f_reviewed_sha :: "sha option"
  f_required_action :: "string option"
  f_status :: finding_status
  f_confidence :: "rat option"
  f_evidence_ids :: "string list"

record gate_result =
  gr_gate :: gate
  gr_status :: gate_status
  gr_sha :: "sha option"
  gr_summary :: "message option"
  gr_evidence_ids :: "string list"

record decision =
  d_id :: string
  d_gate :: gate
  d_outcome :: decision_outcome
  d_decided_by :: decision_source
  d_role :: "role option"
  d_decided_at :: instant
  d_commit_sha :: "sha option"
  d_comment :: "string option"
  d_evidence_ids :: "string list"
  d_phase :: "phase option"

section \<open>Usage and budgets (\<open>usage.py\<close>)\<close>

record usage =
  u_prompt_tokens :: int
  u_completion_tokens :: int
  u_total_tokens :: "int option"
  u_cost :: "decimal option"

record role_usage =
  ru_role :: role
  ru_usage :: usage
  ru_calls :: int
  ru_reserved :: usage

record budget_snapshot =
  bs_max_rework_rounds :: int
  bs_used_rework_rounds :: int
  bs_token_budget :: "int option"
  bs_tokens_used :: int
  bs_cost_budget :: "decimal option"
  bs_cost_used :: decimal
  bs_deadline :: "instant option"

definition default_budget :: budget_snapshot where
  "default_budget = \<lparr>bs_max_rework_rounds = 3, bs_used_rework_rounds = 0, bs_token_budget = None,
     bs_tokens_used = 0, bs_cost_budget = None, bs_cost_used = 0, bs_deadline = None\<rparr>"

definition rework_rounds_remaining :: "budget_snapshot \<Rightarrow> int" where
  "rework_rounds_remaining b = max (bs_max_rework_rounds b - bs_used_rework_rounds b) 0"

definition rework_exhausted :: "budget_snapshot \<Rightarrow> bool" where
  "rework_exhausted b \<longleftrightarrow> bs_used_rework_rounds b \<ge> bs_max_rework_rounds b"

definition token_budget_exhausted :: "budget_snapshot \<Rightarrow> bool" where
  "token_budget_exhausted b \<longleftrightarrow>
     (case bs_token_budget b of None \<Rightarrow> False | Some t \<Rightarrow> bs_tokens_used b \<ge> t)"

definition cost_budget_exhausted :: "budget_snapshot \<Rightarrow> bool" where
  "cost_budget_exhausted b \<longleftrightarrow>
     (case bs_cost_budget b of None \<Rightarrow> False | Some c \<Rightarrow> bs_cost_used b \<ge> c)"

section \<open>The Implementation Contract (\<open>implementation_contract.py\<close>, \<open>escalations.py\<close>)\<close>

record change_scope =
  cs_in_scope :: "string list"
  cs_out_of_scope :: "string list"

record acceptance_criterion =
  ac_id :: string
  ac_description :: string

record contract_budget =
  cb_max_autonomous_iterations :: int
  cb_deadline :: "instant option"
  cb_max_cost :: "decimal option"

record contract_approval =
  ca_approved_by :: role
  ca_decided_at :: instant
  ca_comment :: "string option"

record implementation_contract =
  ic_id :: string
  ic_scope :: change_scope
  ic_acceptance_criteria :: "acceptance_criterion list"
  ic_architectural_constraints :: "string list"
  ic_ui_evidence :: "artifact_ref list"
  ic_risk_class :: risk_class
  ic_budget :: contract_budget
  ic_allowed_boundaries :: "boundary_area list"
  ic_escalation_rules :: "escalation_rule list"
  ic_approval :: "contract_approval option"

record escalation_violation =
  xv_rule :: escalation_rule
  xv_reason :: message
  xv_manual_assessment :: bool

section \<open>NextAction (\<open>next_action.py\<close>)\<close>

datatype next_action =
    ExecuteStageAction stage "message option"
  | WaitForInputAction message
  | WaitForCIAction message "change_request_ref option"
  | ReworkAction int int message
  | PhaseRoundAction phase "message option"
  | RequestApprovalAction gate "role option" "message option"
  | MergeAction change_request_ref "message option"
  | ReleaseAction string "message option"
  | StopAction stop_outcome message

datatype next_action_type =
    AT_execute_stage | AT_wait_for_input | AT_wait_for_ci | AT_rework | AT_phase_round
  | AT_request_approval | AT_merge | AT_release | AT_stop

fun action_type :: "next_action \<Rightarrow> next_action_type" where
  "action_type (ExecuteStageAction _ _) = AT_execute_stage"
| "action_type (WaitForInputAction _) = AT_wait_for_input"
| "action_type (WaitForCIAction _ _) = AT_wait_for_ci"
| "action_type (ReworkAction _ _ _) = AT_rework"
| "action_type (PhaseRoundAction _ _) = AT_phase_round"
| "action_type (RequestApprovalAction _ _ _) = AT_request_approval"
| "action_type (MergeAction _ _) = AT_merge"
| "action_type (ReleaseAction _ _) = AT_release"
| "action_type (StopAction _ _) = AT_stop"

section \<open>Release evidence (\<open>release_records.py\<close>)\<close>

record smoke_probe_evidence =
  sp_name :: string
  sp_passed :: bool
  sp_detail :: "string option"

record release_evidence =
  re_verified_at :: instant
  re_decision :: release_status
  re_reason :: "string option"
  re_expected_digest :: "string option"
  re_observed_digest :: "string option"
  re_argo_sync_status :: "string option"
  re_argo_health_status :: "string option"
  re_application :: "string option"
  re_smoke :: "smoke_probe_evidence list"
  re_rollback_signal :: "string option"

section \<open>Intake (\<open>intake.py\<close>)\<close>

record intake_brief =
  ib_problem :: "string option"
  ib_goal :: "string option"
  ib_constraints :: "string list"
  ib_out_of_scope :: "string list"
  ib_source_text :: "string option"
  ib_status :: brief_status
  ib_formulated_by :: "brief_author option"
  ib_error :: "string option"

definition mk_intake_brief ::
    "string option \<Rightarrow> string option \<Rightarrow> string list \<Rightarrow> string list \<Rightarrow> string option
      \<Rightarrow> brief_status \<Rightarrow> brief_author option \<Rightarrow> string option \<Rightarrow> intake_brief" where
  "mk_intake_brief problem goal constraints out_of_scope source_text submitted author err =
     (let p = clean_text problem; g = clean_text goal;
          derived = (if p \<noteq> None \<and> g \<noteq> None then BriefStatus_COMPLETE else BriefStatus_DRAFT)
      in \<lparr>ib_problem = p, ib_goal = g, ib_constraints = clean_lines constraints,
          ib_out_of_scope = clean_lines out_of_scope, ib_source_text = clean_text source_text,
          ib_status = (if submitted \<noteq> derived then derived else submitted),
          ib_formulated_by = author, ib_error = clean_text err\<rparr>)"

definition brief_is_complete :: "intake_brief \<Rightarrow> bool" where
  "brief_is_complete b \<longleftrightarrow> ib_status b = BriefStatus_COMPLETE"

definition brief_missing :: "intake_brief \<Rightarrow> string list" where
  "brief_missing b =
     map fst (filter (\<lambda>(_, v). v = None) [(''problem'', ib_problem b), (''goal'', ib_goal b)])"

record spend_limit =
  sl_cost_budget_usd :: decimal
  sl_token_budget :: "int option"

definition to_budget :: "spend_limit \<Rightarrow> budget_snapshot option \<Rightarrow> budget_snapshot" where
  "to_budget l base =
     (let snapshot = (case base of None \<Rightarrow> default_budget | Some b \<Rightarrow> b)
      in snapshot\<lparr>bs_cost_budget := Some (sl_cost_budget_usd l), bs_token_budget := sl_token_budget l\<rparr>)"

section \<open>Runs and stages (\<open>run.py\<close>)\<close>

fun run_status_transitions :: "run_status \<Rightarrow> run_status set" where
  "run_status_transitions RunStatus_PENDING =
     {RunStatus_RUNNING, RunStatus_CANCELED, RunStatus_SUPERSEDED}"
| "run_status_transitions RunStatus_RUNNING =
     {RunStatus_WAITING, RunStatus_BLOCKED, RunStatus_SUCCEEDED, RunStatus_FAILED,
      RunStatus_CANCELED, RunStatus_SUPERSEDED}"
| "run_status_transitions RunStatus_WAITING =
     {RunStatus_RUNNING, RunStatus_BLOCKED, RunStatus_FAILED, RunStatus_CANCELED,
      RunStatus_SUPERSEDED}"
| "run_status_transitions RunStatus_BLOCKED =
     {RunStatus_RUNNING, RunStatus_FAILED, RunStatus_CANCELED, RunStatus_SUPERSEDED}"
| "run_status_transitions RunStatus_SUCCEEDED = {}"
| "run_status_transitions RunStatus_FAILED = {}"
| "run_status_transitions RunStatus_CANCELED = {}"
| "run_status_transitions RunStatus_SUPERSEDED = {}"

fun stage_status_transitions :: "stage_status \<Rightarrow> stage_status set" where
  "stage_status_transitions StageStatus_PENDING =
     {StageStatus_IN_PROGRESS, StageStatus_SKIPPED, StageStatus_CANCELED, StageStatus_SUPERSEDED}"
| "stage_status_transitions StageStatus_IN_PROGRESS =
     {StageStatus_WAITING, StageStatus_SUCCEEDED, StageStatus_FAILED, StageStatus_BLOCKED,
      StageStatus_CANCELED, StageStatus_SUPERSEDED}"
| "stage_status_transitions StageStatus_WAITING =
     {StageStatus_IN_PROGRESS, StageStatus_FAILED, StageStatus_BLOCKED, StageStatus_CANCELED,
      StageStatus_SUPERSEDED}"
| "stage_status_transitions StageStatus_BLOCKED =
     {StageStatus_IN_PROGRESS, StageStatus_FAILED, StageStatus_CANCELED, StageStatus_SUPERSEDED}"
| "stage_status_transitions StageStatus_FAILED =
     {StageStatus_IN_PROGRESS, StageStatus_CANCELED, StageStatus_SUPERSEDED}"
| "stage_status_transitions StageStatus_SUCCEEDED = {}"
| "stage_status_transitions StageStatus_SKIPPED = {}"
| "stage_status_transitions StageStatus_SUPERSEDED = {}"
| "stage_status_transitions StageStatus_CANCELED = {}"

definition run_terminal :: "run_status \<Rightarrow> bool" where
  "run_terminal s \<longleftrightarrow> table_terminal run_status_transitions s"

definition stage_terminal :: "stage_status \<Rightarrow> bool" where
  "stage_terminal s \<longleftrightarrow> table_terminal stage_status_transitions s"

definition retryable_stage_statuses :: "stage_status set" where
  "retryable_stage_statuses = {StageStatus_FAILED, StageStatus_BLOCKED}"

definition result_statuses :: "stage_status set" where
  "result_statuses =
     {StageStatus_WAITING, StageStatus_SUCCEEDED, StageStatus_FAILED, StageStatus_BLOCKED}"

record change =
  ch_id :: string
  ch_title :: string
  ch_description :: "string option"
  ch_source :: change_source
  ch_external_ref :: "string option"
  ch_product :: repository_ref
  ch_product_id :: "string option"
  ch_risk_class :: risk_class
  ch_brief :: "intake_brief option"
  ch_scenario :: scenario
  ch_spend_limit :: "spend_limit option"
  ch_change_request :: "change_request_ref option"
  ch_created_at :: instant

record stage_run =
  sr_id :: string
  sr_stage :: stage
  sr_status :: stage_status
  sr_attempt_number :: int
  sr_input_revision :: "string option"
  sr_state_revision :: int
  sr_started_at :: "instant option"
  sr_finished_at :: "instant option"

definition new_stage_run :: "string \<Rightarrow> stage \<Rightarrow> stage_run" where
  "new_stage_run i st = \<lparr>sr_id = i, sr_stage = st, sr_status = StageStatus_PENDING,
     sr_attempt_number = 1, sr_input_revision = None, sr_state_revision = 1,
     sr_started_at = None, sr_finished_at = None\<rparr>"

definition stage_apply_status ::
    "instant \<Rightarrow> stage_status \<Rightarrow> stage_run \<Rightarrow> stage_status status_error + stage_run" where
  "stage_apply_status clk target s =
     (if target \<in> stage_status_transitions (sr_status s)
      then Inr (s\<lparr>sr_status := target, sr_state_revision := sr_state_revision s + 1,
                  sr_finished_at := (if stage_terminal target then Some clk else sr_finished_at s)\<rparr>)
      else Inl (InvalidStatusTransition (sr_status s) target))"

datatype retry_error =
    NotRetryable stage_status
  | NotNextAttempt int int int

definition begin_retry :: "int \<Rightarrow> stage_run \<Rightarrow> retry_error + stage_run" where
  "begin_retry attempt s =
     (if sr_status s \<notin> retryable_stage_statuses then Inl (NotRetryable (sr_status s))
      else let expected = sr_attempt_number s + 1 in
        if attempt \<noteq> expected then Inl (NotNextAttempt (sr_attempt_number s) expected attempt)
        else Inr (s\<lparr>sr_attempt_number := attempt\<rparr>))"

record change_run =
  cr_id :: string
  cr_change_id :: string
  cr_route :: route
  cr_provider :: provider
  cr_status :: run_status
  cr_state_revision :: int
  cr_stages :: "stage_run list"
  cr_budget :: budget_snapshot
  cr_implementation_contract :: "implementation_contract option"
  cr_created_at :: instant
  cr_updated_at :: instant
  cr_finished_at :: "instant option"

definition run_apply_status ::
    "instant \<Rightarrow> run_status \<Rightarrow> change_run \<Rightarrow> run_status status_error + change_run" where
  "run_apply_status clk target r =
     (if target \<in> run_status_transitions (cr_status r)
      then Inr (r\<lparr>cr_status := target, cr_state_revision := cr_state_revision r + 1,
                  cr_updated_at := clk,
                  cr_finished_at := (if run_terminal target then Some clk else cr_finished_at r)\<rparr>)
      else Inl (InvalidStatusTransition (cr_status r) target))"

record stage_result =
  res_stage :: stage
  res_run_id :: string
  res_change_id :: string
  res_attempt_number :: int
  res_input_revision :: "string option"
  res_status :: stage_status
  res_next_action :: next_action
  res_artifacts :: "artifact_ref list"
  res_evidence :: "evidence list"
  res_gate_results :: "gate_result list"
  res_findings :: "finding list"
  res_escalations :: "escalation_violation list"
  res_release :: "release_evidence option"
  res_usage :: "usage option"
  res_questions :: "question_draft list"
  res_rework_summary :: "rework_summary option"
  res_conversation_errors :: "string list"
  res_phase :: "phase option"
  res_produced_at :: instant

definition stage_result_valid :: "stage_result \<Rightarrow> bool" where
  "stage_result_valid r \<longleftrightarrow> res_run_id r \<noteq> [] \<and> res_change_id r \<noteq> [] \<and> res_attempt_number r \<ge> 1
     \<and> res_status r \<in> result_statuses"

definition result_violations :: "stage_result \<Rightarrow> message list" where
  "result_violations r =
     map (\<lambda>e. RequiredEvidenceUnavailable (ev_id e) (res_stage r))
         (filter (\<lambda>e. ev_required e \<and> \<not> ev_available e) (res_evidence r)) @
     map (\<lambda>f. OpenBlockerFinding (f_id f) (res_stage r))
         (filter (\<lambda>f. f_severity f = FindingSeverity_BLOCKER \<and> f_status f = FindingStatus_OPEN)
                 (res_findings r))"

definition completion_violations :: "run_status \<Rightarrow> stage_result list \<Rightarrow> message list" where
  "completion_violations status results =
     (if status \<noteq> RunStatus_SUCCEEDED then [] else concat (map result_violations results))"

section \<open>Products (\<open>product.py\<close>)\<close>

fun product_status_transitions :: "product_status \<Rightarrow> product_status set" where
  "product_status_transitions ProductStatus_CREATED = {ProductStatus_VALIDATING}"
| "product_status_transitions ProductStatus_VALIDATING = {ProductStatus_READY, ProductStatus_ERROR}"
| "product_status_transitions ProductStatus_READY = {ProductStatus_VALIDATING}"
| "product_status_transitions ProductStatus_ERROR = {ProductStatus_VALIDATING}"

record product =
  pr_id :: string
  pr_name :: string
  pr_description :: "string option"
  pr_repository :: repository_ref
  pr_repository_url :: "string option"
  pr_baseline_ref :: "string option"
  pr_dev_env_ref :: "string option"
  pr_status :: product_status
  pr_status_reason :: "string option"
  pr_state_revision :: int
  pr_created_at :: instant

datatype product_error =
    Product_InvalidStatus "product_status status_error"
  | ErrorNeedsReason
  | ReasonOnlyForError

definition product_apply_status ::
    "product_status \<Rightarrow> string option \<Rightarrow> product \<Rightarrow> product_error + product" where
  "product_apply_status target reason p =
     (if target \<notin> product_status_transitions (pr_status p)
      then Inl (Product_InvalidStatus (InvalidStatusTransition (pr_status p) target))
      else if target = ProductStatus_ERROR \<and> reason = None then Inl ErrorNeedsReason
      else if reason \<noteq> None \<and> target \<noteq> ProductStatus_ERROR then Inl ReasonOnlyForError
      else Inr (p\<lparr>pr_status := target, pr_status_reason := reason,
                  pr_state_revision := pr_state_revision p + 1\<rparr>))"

section \<open>Idempotency keys (\<open>keys.py\<close>)\<close>

definition operation_key :: "string \<Rightarrow> stage \<Rightarrow> string \<Rightarrow> string" where
  "operation_key execution_id st input_revision =
     execution_id @ CHR '':'' # stage_value st @ CHR '':'' # input_revision"

definition attempt_id :: "string \<Rightarrow> int \<Rightarrow> string" where
  "attempt_id key attempt_number = key @ CHR '':'' # show_int attempt_number"

definition effect_key :: "string \<Rightarrow> string \<Rightarrow> string \<Rightarrow> string" where
  "effect_key key effect_type effect_target = key @ CHR '':'' # effect_type @ CHR '':'' # effect_target"

section \<open>The entities keep the lifecycle contract\<close>

lemma stage_apply_status_Inr [simp]:
  "stage_apply_status clk target s = Inr s' \<longleftrightarrow> target \<in> stage_status_transitions (sr_status s) \<and>
     s' = s\<lparr>sr_status := target, sr_state_revision := sr_state_revision s + 1,
            sr_finished_at := (if stage_terminal target then Some clk else sr_finished_at s)\<rparr>"
  by (auto simp: stage_apply_status_def)

lemma run_apply_status_Inr [simp]:
  "run_apply_status clk target r = Inr r' \<longleftrightarrow> target \<in> run_status_transitions (cr_status r) \<and>
     r' = r\<lparr>cr_status := target, cr_state_revision := cr_state_revision r + 1,
            cr_updated_at := clk,
            cr_finished_at := (if run_terminal target then Some clk else cr_finished_at r)\<rparr>"
  by (auto simp: run_apply_status_def)

interpretation stage_life: status_entity sr_status stage_status_transitions "stage_apply_status clk" for clk
  by unfold_locales simp_all

interpretation run_life: status_entity cr_status run_status_transitions "run_apply_status clk" for clk
  by unfold_locales simp_all

interpretation product_life: status_entity pr_status product_status_transitions
    "\<lambda>t. product_apply_status t (if t = ProductStatus_ERROR then Some why else None)" for why
  by unfold_locales (auto simp: product_apply_status_def split: if_splits)

lemma run_terminal_iff [simp]:
  "run_terminal s \<longleftrightarrow> s \<in> {RunStatus_SUCCEEDED, RunStatus_FAILED, RunStatus_CANCELED, RunStatus_SUPERSEDED}"
  by (cases s) (simp_all add: run_terminal_def table_terminal_def)

lemma stage_terminal_iff [simp]:
  "stage_terminal s \<longleftrightarrow>
     s \<in> {StageStatus_SUCCEEDED, StageStatus_SKIPPED, StageStatus_SUPERSEDED, StageStatus_CANCELED}"
  by (cases s) (simp_all add: stage_terminal_def table_terminal_def)

lemma terminal_run_no_edge: "run_terminal s \<Longrightarrow> run_status_transitions s = {}"
  by (auto simp: run_terminal_def table_terminal_def)

section \<open>Keys identify what they name\<close>

lemma colon_notin_stage_value [simp]: "CHR '':'' \<notin> set (stage_value st)"
  by (cases st) auto

lemma stage_value_inject [simp]: "stage_value a = stage_value b \<longleftrightarrow> a = b"
  by (rule stage_wire.value_inject)

lemma operation_key_inject:
  assumes eq: "operation_key e st inp = operation_key e' st' inp'"
    and e: "CHR '':'' \<notin> set e" "CHR '':'' \<notin> set e'"
  shows "e = e' \<and> st = st' \<and> inp = inp'"
proof -
  from eq have "e = e' \<and> stage_value st @ CHR '':'' # inp = stage_value st' @ CHR '':'' # inp'"
    unfolding operation_key_def by (rule split_at_first_sep) (use e in auto)
  moreover from this have "stage_value st = stage_value st' \<and> inp = inp'"
    by (intro split_at_first_sep [where c = "CHR '':''"]) auto
  ultimately show ?thesis by simp
qed

lemma attempt_id_inject:
  assumes eq: "attempt_id k n = attempt_id k' n'" and n: "0 \<le> n" "0 \<le> n'"
  shows "k = k' \<and> n = n'"
proof -
  from eq have "k = k' \<and> show_int n = show_int n'"
    unfolding attempt_id_def by (rule split_at_last_sep) auto
  with n show ?thesis by (simp add: show_int_inject)
qed

end
