(* ===== verification/Risk.thy ===== *)
theory Risk
  imports Domain
begin

text \<open>
  Risk classes, routes, gates and human control points: \<open>changes/risk.py\<close>,
  \<open>context/sdd/strictness.py\<close>, \<open>orchestration/routes.py\<close>, \<open>orchestration/rules/gates.py\<close> and
  \<open>orchestration/policy/risk.py\<close>. The lemmas show that the effective class never falls below its
  inputs, that route selection is total and tightens the least, and that gates and control points
  are decided by the last result and by version-bound human approvals.
\<close>

section \<open>Classification (\<open>changes/risk.py\<close>)\<close>

definition R2_THRESHOLD :: risk_class where
  "R2_THRESHOLD = RiskClass_R2"

definition is_r2_or_higher :: "risk_class \<Rightarrow> bool" where
  "is_r2_or_higher r \<longleftrightarrow> risk_order r \<ge> risk_order R2_THRESHOLD"

record risk_facts =
  rf_boundaries :: "boundary_area list"
  rf_decision_class :: decision_class
  rf_irreversible :: bool
  rf_regulated_data :: bool
  rf_documentation_only :: bool
  rf_factory_self_modification :: bool

definition default_facts :: risk_facts where
  "default_facts = \<lparr>rf_boundaries = [], rf_decision_class = DecisionClass_KNOWN_PATH,
     rf_irreversible = False, rf_regulated_data = False, rf_documentation_only = False,
     rf_factory_self_modification = False\<rparr>"

definition classify_risk :: "risk_facts \<Rightarrow> risk_class" where
  "classify_risk facts =
     (if rf_factory_self_modification facts then RiskClass_R4
      else if rf_irreversible facts \<or> rf_regulated_data facts then RiskClass_R3
      else if rf_boundaries facts \<noteq> [] \<or> rf_decision_class facts = DecisionClass_NEW_PATH
        then RiskClass_R2
      else if rf_documentation_only facts then RiskClass_R0
      else RiskClass_R1)"

definition effective_risk_class :: "risk_class \<Rightarrow> risk_facts \<Rightarrow> risk_class \<Rightarrow> risk_class" where
  "effective_risk_class declared facts route_floor = max (max declared (classify_risk facts)) route_floor"

section \<open>Strictness profiles (\<open>strictness.py\<close>)\<close>

datatype workflow_profile =
    BUGFIX_R0
  | PRODUCT_FEATURE
  | UI_RESEARCH
  | ARCHITECTURE_CHANGE
  | REPOSITORY_REBUILD
  | PLATFORM_CHANGE

datatype artifact_slot =
    INTENT
  | SPEC
  | DESIGN
  | TASKS
  | VERIFICATION
  | EVIDENCE
  | RECONCILIATION

definition default_required :: "artifact_slot set" where
  "default_required = {INTENT, SPEC, DESIGN, TASKS, VERIFICATION, EVIDENCE}"

definition high_risk :: "risk_class set" where
  "high_risk = {RiskClass_R2, RiskClass_R3, RiskClass_R4}"

fun PROFILE_ROUTE :: "workflow_profile \<Rightarrow> route" where
  "PROFILE_ROUTE BUGFIX_R0 = Route_QUICK"
| "PROFILE_ROUTE PRODUCT_FEATURE = Route_STANDARD"
| "PROFILE_ROUTE UI_RESEARCH = Route_STANDARD"
| "PROFILE_ROUTE ARCHITECTURE_CHANGE = Route_ARCHITECTURE"
| "PROFILE_ROUTE REPOSITORY_REBUILD = Route_FOUNDATION"
| "PROFILE_ROUTE PLATFORM_CHANGE = Route_FOUNDATION"

definition required_artifacts :: "workflow_profile \<Rightarrow> risk_class \<Rightarrow> artifact_slot set" where
  "required_artifacts profile risk =
     (if profile = BUGFIX_R0 then {}
      else if risk \<in> high_risk then insert RECONCILIATION default_required
      else default_required)"

section \<open>Route profiles (\<open>routes.py\<close>)\<close>

definition STAGE_SEQUENCE :: "stage list" where
  "STAGE_SEQUENCE = [Stage_SPECIFICATION, Stage_PLANNING, Stage_CONSTRUCTION,
     Stage_REVIEW_VERIFICATION, Stage_RELEASE]"

fun ROUTE_STRICTNESS :: "route \<Rightarrow> nat" where
  "ROUTE_STRICTNESS Route_QUICK = 0"
| "ROUTE_STRICTNESS Route_STANDARD = 1"
| "ROUTE_STRICTNESS Route_ARCHITECTURE = 2"
| "ROUTE_STRICTNESS Route_FOUNDATION = 3"

record route_profile =
  rp_route :: route
  rp_stages :: "stage list"
  rp_min_risk_class :: risk_class
  rp_max_risk_class :: risk_class

definition initial_stage :: "route_profile \<Rightarrow> stage" where
  "initial_stage p = rp_stages p ! 0"

definition next_stage :: "route_profile \<Rightarrow> stage \<Rightarrow> stage option" where
  "next_stage p st =
     (case index_of st (rp_stages p) of None \<Rightarrow> None
      | Some i \<Rightarrow> if i + 1 \<ge> length (rp_stages p) then None else Some (rp_stages p ! (i + 1)))"

fun ROUTE_PROFILES :: "route \<Rightarrow> route_profile" where
  "ROUTE_PROFILES Route_QUICK = \<lparr>rp_route = Route_QUICK, rp_stages = STAGE_SEQUENCE,
     rp_min_risk_class = RiskClass_R0, rp_max_risk_class = RiskClass_R1\<rparr>"
| "ROUTE_PROFILES Route_STANDARD = \<lparr>rp_route = Route_STANDARD, rp_stages = STAGE_SEQUENCE,
     rp_min_risk_class = RiskClass_R0, rp_max_risk_class = RiskClass_R4\<rparr>"
| "ROUTE_PROFILES Route_ARCHITECTURE = \<lparr>rp_route = Route_ARCHITECTURE, rp_stages = STAGE_SEQUENCE,
     rp_min_risk_class = RiskClass_R2, rp_max_risk_class = RiskClass_R4\<rparr>"
| "ROUTE_PROFILES Route_FOUNDATION = \<lparr>rp_route = Route_FOUNDATION, rp_stages = STAGE_SEQUENCE,
     rp_min_risk_class = RiskClass_R3, rp_max_risk_class = RiskClass_R4\<rparr>"

definition route_floor_of :: "route \<Rightarrow> risk_class" where
  "route_floor_of rt = rp_min_risk_class (ROUTE_PROFILES rt)"

definition route_allows_risk :: "route \<Rightarrow> risk_class \<Rightarrow> bool" where
  "route_allows_risk rt risk \<longleftrightarrow>
     (let profile = ROUTE_PROFILES rt in
      risk_order (rp_min_risk_class profile) \<le> risk_order risk
      \<and> risk_order risk \<le> risk_order (rp_max_risk_class profile))"

definition select_route :: "workflow_profile \<Rightarrow> risk_class \<Rightarrow> route option" where
  "select_route profile risk =
     (let base = ROUTE_PROFILES (PROFILE_ROUTE profile) in
      if risk_order risk \<le> risk_order (rp_max_risk_class base) then Some (rp_route base)
      else min_by ROUTE_STRICTNESS (filter (\<lambda>rt. route_allows_risk rt risk) route_members))"

section \<open>Gate policy (\<open>rules/gates.py\<close>)\<close>

fun stage_gates :: "stage \<Rightarrow> gate set" where
  "stage_gates Stage_SPECIFICATION = {Gate_SPECIFICATION}"
| "stage_gates Stage_PLANNING = {Gate_PLANNING}"
| "stage_gates Stage_CONSTRUCTION = {Gate_CODE}"
| "stage_gates Stage_REVIEW_VERIFICATION = {Gate_REVIEW, Gate_VERIFICATION}"
| "stage_gates Stage_RELEASE = {Gate_RELEASE}"

definition route_extra_gates :: "route \<Rightarrow> stage \<Rightarrow> gate set" where
  "route_extra_gates rt st =
     (case rt of Route_QUICK \<Rightarrow> {}
      | _ \<Rightarrow> (if st = Stage_SPECIFICATION then {Gate_UI} else {}))"

definition gate_satisfied :: "gate_status set" where
  "gate_satisfied = {GateStatus_PASSED, GateStatus_SKIPPED}"

definition HUMAN_GATES :: "gate set" where
  "HUMAN_GATES = {Gate_SPECIFICATION, Gate_UI, Gate_REVIEW}"

fun RISK_HUMAN_GATES :: "risk_class \<Rightarrow> gate set" where
  "RISK_HUMAN_GATES RiskClass_R0 = {}"
| "RISK_HUMAN_GATES RiskClass_R1 = {Gate_UI}"
| "RISK_HUMAN_GATES RiskClass_R2 = {Gate_UI, Gate_PLANNING}"
| "RISK_HUMAN_GATES RiskClass_R3 = set gate_members"
| "RISK_HUMAN_GATES RiskClass_R4 = set gate_members"

definition required_gates :: "route \<Rightarrow> stage \<Rightarrow> gate set" where
  "required_gates rt st = stage_gates st \<union> route_extra_gates rt st"

definition required_human_gates :: "route \<Rightarrow> stage \<Rightarrow> risk_class \<Rightarrow> gate set" where
  "required_human_gates rt st risk = (HUMAN_GATES \<union> RISK_HUMAN_GATES risk) \<inter> required_gates rt st"

definition latest_gate_statuses :: "gate_result list \<Rightarrow> (gate \<rightharpoonup> gate_status)" where
  "latest_gate_statuses results =
     foldl (\<lambda>latest item. latest(gr_gate item \<mapsto> gr_status item)) Map.empty results"

definition unsatisfied_gates :: "route \<Rightarrow> stage \<Rightarrow> gate_result list \<Rightarrow> gate list" where
  "unsatisfied_gates rt st results =
     (let latest = latest_gate_statuses results in
      filter (\<lambda>g. case latest g of None \<Rightarrow> True | Some s \<Rightarrow> s \<notin> gate_satisfied)
        (sort_key gate_value (filter (\<lambda>g. g \<in> required_gates rt st) gate_members)))"

section \<open>Risk policy and control points (\<open>policy/risk.py\<close>)\<close>

definition TRUSTED_CHANGE_PATHS :: "string list" where
  "TRUSTED_CHANGE_PATHS = [''src/dark_factory/orchestration/rules/'',
     ''src/dark_factory/orchestration/policy/'', ''src/dark_factory/changes/risk.py'',
     ''src/dark_factory/quality/gates/'']"

definition is_trusted_change :: "string \<Rightarrow> bool" where
  "is_trusted_change item =
     (let path = remove_prefix ''./'' (py_strip item)
      in list_ex (\<lambda>p. starts_with p path) TRUSTED_CHANGE_PATHS)"

definition contract_risk_facts :: "implementation_contract \<Rightarrow> risk_facts" where
  "contract_risk_facts c = default_facts\<lparr>rf_boundaries := ic_allowed_boundaries c,
     rf_factory_self_modification := list_ex is_trusted_change (cs_in_scope (ic_scope c))\<rparr>"

definition effective_change_risk_class :: "implementation_contract option \<Rightarrow> route \<Rightarrow> risk_class" where
  "effective_change_risk_class contract rt =
     (case contract of
        Some c \<Rightarrow> if ic_approval c \<noteq> None
                  then effective_risk_class (ic_risk_class c) (contract_risk_facts c) (route_floor_of rt)
                  else effective_risk_class RiskClass_R0 default_facts (route_floor_of rt)
      | None \<Rightarrow> effective_risk_class RiskClass_R0 default_facts (route_floor_of rt))"

datatype risk_policy_error = AgentCannotLower risk_class risk_class

definition transition_risk_class ::
    "risk_class \<Rightarrow> risk_class \<Rightarrow> decision_source \<Rightarrow> risk_policy_error + risk_class" where
  "transition_risk_class current target decided_by =
     (if decided_by = DecisionSource_AGENT \<and> risk_order target < risk_order current
      then Inl (AgentCannotLower current target) else Inr target)"

fun CONTROL_POINT_BINDING :: "control_point \<Rightarrow> stage \<times> gate" where
  "CONTROL_POINT_BINDING ControlPoint_PROBLEM = (Stage_SPECIFICATION, Gate_SPECIFICATION)"
| "CONTROL_POINT_BINDING ControlPoint_SOLUTION = (Stage_PLANNING, Gate_PLANNING)"
| "CONTROL_POINT_BINDING ControlPoint_UX = (Stage_SPECIFICATION, Gate_UI)"
| "CONTROL_POINT_BINDING ControlPoint_DISCOVERY_RELEASE = (Stage_REVIEW_VERIFICATION, Gate_REVIEW)"

definition required_control_points :: "route \<Rightarrow> stage \<Rightarrow> risk_class \<Rightarrow> control_point set" where
  "required_control_points rt st risk =
     (let human_gates = required_human_gates rt st risk in
      set (filter (\<lambda>p. fst (CONTROL_POINT_BINDING p) = st \<and> snd (CONTROL_POINT_BINDING p) \<in> human_gates)
                  control_point_members))"

definition human_approvals :: "decision list \<Rightarrow> sha option \<Rightarrow> gate set" where
  "human_approvals decisions sha =
     set (map d_gate (filter (\<lambda>d. d_decided_by d = DecisionSource_HUMAN
                                  \<and> d_outcome d = DecisionOutcome_APPROVED
                                  \<and> d_commit_sha d = sha) decisions))"

definition missing_control_points ::
    "route \<Rightarrow> stage \<Rightarrow> risk_class \<Rightarrow> decision list \<Rightarrow> sha option \<Rightarrow> control_point set" where
  "missing_control_points rt st risk decisions sha =
     {p \<in> required_control_points rt st risk.
        snd (CONTROL_POINT_BINDING p) \<notin> human_approvals decisions sha}"

section \<open>What the policy guarantees\<close>

lemma classify_default [simp]: "classify_risk default_facts = RiskClass_R1"
  by (simp add: classify_risk_def default_facts_def)

lemma risk_order_le [simp]: "risk_order a \<le> risk_order b \<longleftrightarrow> a \<le> b"
  by (simp add: risk_order_defs)

lemma risk_order_less [simp]: "risk_order a < risk_order b \<longleftrightarrow> a < b"
  by (simp add: risk_order_defs)

lemma effective_lub:
  "effective_risk_class d f fl \<le> r \<longleftrightarrow> d \<le> r \<and> classify_risk f \<le> r \<and> fl \<le> r"
  by (auto simp: effective_risk_class_def)

text \<open>
  The effective class of a run is the least class at or above the class the approved contract
  declares, the class its observed facts classify to (the R1 fallback without an approved contract)
  and the floor of the run's route: no input can lower it, and nothing else raises it.
\<close>

theorem effective_class_least_upper_bound:
  "effective_change_risk_class contract rt \<le> r \<longleftrightarrow>
     route_floor_of rt \<le> r \<and>
     (case contract of
        Some c \<Rightarrow> if ic_approval c \<noteq> None then ic_risk_class c \<le> r \<and> classify_risk (contract_risk_facts c) \<le> r
                  else RiskClass_R1 \<le> r
      | None \<Rightarrow> RiskClass_R1 \<le> r)"
  by (auto simp: effective_change_risk_class_def effective_lub split: option.splits)

lemma trusted_scope_is_R4:
  assumes "ic_approval c \<noteq> None" and "item \<in> set (cs_in_scope (ic_scope c))" and "is_trusted_change item"
  shows "effective_change_risk_class (Some c) rt = RiskClass_R4"
proof -
  from assms have "classify_risk (contract_risk_facts c) = RiskClass_R4"
    by (auto simp: classify_risk_def contract_risk_facts_def list_ex_iff)
  with assms(1) show ?thesis
    by (auto simp: effective_change_risk_class_def effective_risk_class_def max_def
        intro: antisym)
qed

lemma is_trusted_change_strip [simp]: "is_trusted_change (py_strip item) = is_trusted_change item"
  by (simp add: is_trusted_change_def)

lemma route_allows_simps [table_simps]:
  "route_allows_risk Route_QUICK r \<longleftrightarrow> r \<le> RiskClass_R1"
  "route_allows_risk Route_STANDARD r \<longleftrightarrow> True"
  "route_allows_risk Route_ARCHITECTURE r \<longleftrightarrow> RiskClass_R2 \<le> r"
  "route_allows_risk Route_FOUNDATION r \<longleftrightarrow> RiskClass_R3 \<le> r"
  by (simp_all add: route_allows_risk_def)

lemma route_floor_simps [table_simps]:
  "route_floor_of Route_QUICK = RiskClass_R0" "route_floor_of Route_STANDARD = RiskClass_R0"
  "route_floor_of Route_ARCHITECTURE = RiskClass_R2" "route_floor_of Route_FOUNDATION = RiskClass_R3"
  by (simp_all add: route_floor_of_def)

text \<open>
  Route selection is total and tightens the least. For every strictness profile and risk class a
  route is returned; it is at least as strict as the profile's base route, it admits the class once
  its own floor is applied, and no less strict route that is still at least the base admits it.
\<close>

theorem select_route_least_tightening:
  "\<exists>rt. select_route profile risk = Some rt \<and>
        ROUTE_STRICTNESS (PROFILE_ROUTE profile) \<le> ROUTE_STRICTNESS rt \<and>
        route_allows_risk rt (max risk (route_floor_of rt)) \<and>
        \<not> (\<exists>rt'. ROUTE_STRICTNESS (PROFILE_ROUTE profile) \<le> ROUTE_STRICTNESS rt' \<and>
                 route_allows_risk rt' (max risk (route_floor_of rt')) \<and>
                 ROUTE_STRICTNESS rt' < ROUTE_STRICTNESS rt)"
proof -
  have base: "rp_route (ROUTE_PROFILES rt) = rt" for rt by (cases rt) simp_all
  have quick: "\<not> route_allows_risk Route_QUICK risk \<Longrightarrow>
      min_by ROUTE_STRICTNESS (filter (\<lambda>rt. route_allows_risk rt risk) route_members) = Some Route_STANDARD"
    by (cases risk) (simp_all add: route_members_def table_simps risk_order_defs)
  have weaker: "ROUTE_STRICTNESS rt' < ROUTE_STRICTNESS Route_STANDARD \<Longrightarrow> rt' = Route_QUICK" for rt'
    by (cases rt') simp_all
  show ?thesis
  proof (cases "risk \<le> rp_max_risk_class (ROUTE_PROFILES (PROFILE_ROUTE profile))")
    case True
    then have "select_route profile risk = Some (PROFILE_ROUTE profile)"
      by (simp add: select_route_def Let_def base)
    moreover from True have "route_allows_risk (PROFILE_ROUTE profile)
        (max risk (route_floor_of (PROFILE_ROUTE profile)))"
      by (cases profile) (auto simp: table_simps max_def)
    ultimately show ?thesis by auto
  next
    case False
    then have "PROFILE_ROUTE profile = Route_QUICK" by (cases profile) simp_all
    moreover from this False have "\<not> route_allows_risk Route_QUICK risk"
      by (simp add: table_simps)
    moreover from this have "select_route profile risk = Some Route_STANDARD"
      using quick False by (simp add: select_route_def Let_def)
    moreover have "max risk RiskClass_R0 = risk" by (simp add: max_def) (metis antisym risk_R0_least)
    ultimately have "route_allows_risk rt' (max risk (route_floor_of rt')) \<Longrightarrow>
        \<not> ROUTE_STRICTNESS rt' < ROUTE_STRICTNESS Route_STANDARD" for rt'
      using weaker by (metis route_floor_simps(1))
    with \<open>PROFILE_ROUTE profile = Route_QUICK\<close> \<open>select_route profile risk = Some Route_STANDARD\<close>
    show ?thesis by (auto simp: table_simps)
  qed
qed

text \<open>
  The risk class only widens human control. At a class at or above another, every gate that
  needed a human decision still needs one, so do the control points, and no approval that was
  missing becomes unnecessary.
\<close>

theorem human_control_monotone:
  assumes "low \<le> high"
  shows "required_human_gates rt st low \<subseteq> required_human_gates rt st high \<and>
    required_control_points rt st low \<subseteq> required_control_points rt st high \<and>
    missing_control_points rt st low ds sha \<subseteq> missing_control_points rt st high ds sha"
proof -
  have all: "g \<in> set gate_members" for g by (cases g) (simp_all add: gate_members_def)
  have "RISK_HUMAN_GATES low \<subseteq> RISK_HUMAN_GATES high"
    using assms by (cases low; cases high) (auto simp: risk_order_defs all)
  then have "required_human_gates rt st low \<subseteq> required_human_gates rt st high"
    by (auto simp: required_human_gates_def)
  then show ?thesis
    by (auto simp: required_control_points_def missing_control_points_def)
qed

theorem human_control_monotone_witness:
  "required_human_gates Route_STANDARD Stage_PLANNING RiskClass_R1 = {} \<and>
   required_human_gates Route_STANDARD Stage_PLANNING RiskClass_R2 = {Gate_PLANNING} \<and>
   required_human_gates Route_STANDARD Stage_PLANNING RiskClass_R1
     \<subseteq> required_human_gates Route_STANDARD Stage_PLANNING RiskClass_R2"
  using human_control_monotone [of RiskClass_R1 RiskClass_R2 Route_STANDARD Stage_PLANNING]
  by (auto simp: risk_order_defs required_human_gates_def required_gates_def HUMAN_GATES_def
        route_extra_gates_def)

lemma latest_gate_statuses_snoc [simp]:
  "latest_gate_statuses (rs @ [r]) = (latest_gate_statuses rs)(gr_gate r \<mapsto> gr_status r)"
  by (simp add: latest_gate_statuses_def)

lemma latest_gate_statuses_eq:
  "latest_gate_statuses rs g =
     (case find (\<lambda>r. gr_gate r = g) (rev rs) of None \<Rightarrow> None | Some r \<Rightarrow> Some (gr_status r))"
proof (induction rs rule: rev_induct)
  case Nil
  then show ?case by (simp add: latest_gate_statuses_def)
next
  case (snoc r rs)
  then show ?case by auto
qed

lemma gate_member [simp]: "g \<in> set gate_members"
  by (cases g) (simp_all add: gate_members_def)

lemma set_unsatisfied_gates:
  "g \<in> set (unsatisfied_gates rt st rs) \<longleftrightarrow>
     g \<in> required_gates rt st \<and>
     latest_gate_statuses rs g \<notin> {Some GateStatus_PASSED, Some GateStatus_SKIPPED}"
  by (auto simp: unsatisfied_gates_def Let_def gate_satisfied_def split: option.splits)

text \<open>
  A stage's gates are satisfied exactly when the last result recorded for every gate its route
  and stage require is \<open>passed\<close> or \<open>skipped\<close>; a later result always supersedes an earlier one, so a
  failed re-evaluation reopens a gate that had passed.
\<close>

theorem gates_decided_by_last_result:
  "(unsatisfied_gates rt st rs = [] \<longleftrightarrow>
      required_gates rt st \<subseteq>
        {g. \<exists>r. find (\<lambda>r. gr_gate r = g) (rev rs) = Some r \<and>
                gr_status r \<in> {GateStatus_PASSED, GateStatus_SKIPPED}}) \<and>
   (gr_gate r \<in> set (unsatisfied_gates rt st (rs @ [r])) \<longleftrightarrow>
      gr_gate r \<in> required_gates rt st \<and> gr_status r \<notin> {GateStatus_PASSED, GateStatus_SKIPPED})"
proof -
  have "unsatisfied_gates rt st rs = [] \<longleftrightarrow> (\<forall>g. g \<notin> set (unsatisfied_gates rt st rs))"
    by (metis list.set_intros(1) list.set_sel(1) list.set(1) empty_iff list.exhaust)
  then show ?thesis
    unfolding set_unsatisfied_gates by (auto simp: latest_gate_statuses_eq split: option.splits)
qed

lemma missing_control_points_mem:
  "p \<in> missing_control_points rt st risk ds sha \<longleftrightarrow>
     p \<in> required_control_points rt st risk \<and>
     \<not> (\<exists>d\<in>set ds. d_gate d = snd (CONTROL_POINT_BINDING p) \<and> d_decided_by d = DecisionSource_HUMAN
          \<and> d_outcome d = DecisionOutcome_APPROVED \<and> d_commit_sha d = sha)"
  by (force simp: missing_control_points_def human_approvals_def)

lemma required_control_points_mem [simp]:
  "p \<in> required_control_points rt st risk \<longleftrightarrow>
     fst (CONTROL_POINT_BINDING p) = st \<and> snd (CONTROL_POINT_BINDING p) \<in> required_human_gates rt st risk"
  by (cases p) (auto simp: required_control_points_def control_point_members_def Let_def)

text \<open>The review approval is a control point of every route and every class.\<close>

lemma discovery_release_always_required:
  "ControlPoint_DISCOVERY_RELEASE \<in> required_control_points rt Stage_REVIEW_VERIFICATION risk"
  by (simp add: required_human_gates_def required_gates_def HUMAN_GATES_def)

lemma next_stage_ROUTE_PROFILES [table_simps]:
  "next_stage (ROUTE_PROFILES rt) Stage_SPECIFICATION = Some Stage_PLANNING"
  "next_stage (ROUTE_PROFILES rt) Stage_PLANNING = Some Stage_CONSTRUCTION"
  "next_stage (ROUTE_PROFILES rt) Stage_CONSTRUCTION = Some Stage_REVIEW_VERIFICATION"
  "next_stage (ROUTE_PROFILES rt) Stage_REVIEW_VERIFICATION = Some Stage_RELEASE"
  "next_stage (ROUTE_PROFILES rt) Stage_RELEASE = None"
  by (cases rt; simp add: next_stage_def STAGE_SEQUENCE_def)+

end
