(* ===== verification/Policy.thy ===== *)
theory Policy
  imports Risk
begin

text \<open>
  The deterministic policies the flow engine consults: limits (\<open>rules/limits.py\<close>), escalation checks
  (\<open>policy/escalation.py\<close>), the merge policy (\<open>policy/merge.py\<close>), the decision classifier
  (\<open>policy/decision_class.py\<close>), participation modes (\<open>policy/participation.py\<close>) and the branch
  protection requirements (\<open>rules/merge_protection.py\<close>). The lemmas show what an authorised merge
  implies and that every declared obligation is checked.
\<close>

section \<open>Limits (\<open>rules/limits.py\<close>)\<close>

datatype limit_rule = Rework_limit | Token_budget | Cost_budget | Deadline

record limit_violation =
  lv_rule :: limit_rule
  lv_reason :: message

definition rework_violation :: "budget_snapshot \<Rightarrow> int \<Rightarrow> limit_violation option" where
  "rework_violation budget requested_round =
     (if rework_exhausted budget
      then Some \<lparr>lv_rule = Rework_limit,
                 lv_reason = ReworkLimitExhausted (bs_used_rework_rounds budget) (bs_max_rework_rounds budget)\<rparr>
      else if requested_round > bs_max_rework_rounds budget
      then Some \<lparr>lv_rule = Rework_limit,
                 lv_reason = ReworkRoundExceeds requested_round (bs_max_rework_rounds budget)\<rparr>
      else None)"

definition continuation_violations :: "budget_snapshot \<Rightarrow> instant \<Rightarrow> limit_violation list" where
  "continuation_violations budget now =
     (if token_budget_exhausted budget
      then [\<lparr>lv_rule = Token_budget,
             lv_reason = TokenBudgetExhausted (bs_tokens_used budget) (bs_token_budget budget)\<rparr>] else []) @
     (if cost_budget_exhausted budget
      then [\<lparr>lv_rule = Cost_budget,
             lv_reason = CostBudgetExhausted (bs_cost_used budget) (bs_cost_budget budget)\<rparr>] else []) @
     (case bs_deadline budget of
        None \<Rightarrow> []
      | Some d \<Rightarrow> if now > d then [\<lparr>lv_rule = Deadline, lv_reason = DeadlinePassed d\<rparr>] else [])"

section \<open>Escalation checks (\<open>policy/escalation.py\<close>)\<close>

record boundary_change =
  bc_area :: boundary_area
  bc_compatible :: bool
  bc_migration_plan_approved :: bool

definition escalation :: "escalation_rule \<Rightarrow> message \<Rightarrow> escalation_violation" where
  "escalation rule why = \<lparr>xv_rule = rule, xv_reason = why, xv_manual_assessment = False\<rparr>"

definition contract_entry_violation :: "implementation_contract option \<Rightarrow> escalation_violation option" where
  "contract_entry_violation contract =
     (case contract of
        None \<Rightarrow> Some (escalation EscalationRule_IMPLEMENTATION_CONTRACT_UNAPPROVED NoContractAttached)
      | Some c \<Rightarrow>
          if ic_approval c = None
          then Some (escalation EscalationRule_IMPLEMENTATION_CONTRACT_UNAPPROVED (ContractNotApproved (ic_id c)))
          else None)"

definition requirements_violation :: "string list \<Rightarrow> escalation_violation option" where
  "requirements_violation conflicts =
     (if conflicts = [] then None
      else Some (escalation EscalationRule_REQUIREMENTS_DEFICIENT (RequirementsDeficient conflicts)))"

definition scope_exit_violation :: "string list \<Rightarrow> change_scope \<Rightarrow> escalation_violation option" where
  "scope_exit_violation items scope =
     (let out_of_scope = filter (\<lambda>item. item \<notin> set (cs_in_scope scope)) items
      in if out_of_scope = [] then None
         else Some (escalation EscalationRule_SCOPE_EXIT (ScopeLeft out_of_scope)))"

definition boundary_change_violation ::
    "boundary_change \<Rightarrow> implementation_contract option \<Rightarrow> escalation_violation option" where
  "boundary_change_violation chg contract =
     (let covered = (case contract of None \<Rightarrow> False | Some c \<Rightarrow> bc_area chg \<in> set (ic_allowed_boundaries c))
      in if covered \<and> (bc_compatible chg \<or> bc_migration_plan_approved chg) then None
         else if \<not> covered
         then Some (escalation EscalationRule_BOUNDARY_CHANGE (BoundaryNotCovered (bc_area chg)))
         else Some (escalation EscalationRule_BOUNDARY_CHANGE (BoundaryIncompatible (bc_area chg))))"

definition adr_proposal_violation :: "string option \<Rightarrow> escalation_violation option" where
  "adr_proposal_violation proposal =
     map_option (\<lambda>p. escalation EscalationRule_NEW_ADR_PROPOSAL (AdrProposed p)) proposal"

definition sorted_points :: "control_point set \<Rightarrow> control_point list" where
  "sorted_points ps = sort_key control_point_value (filter (\<lambda>p. p \<in> ps) control_point_members)"

definition risk_escalation_violation ::
    "risk_class \<Rightarrow> route \<Rightarrow> stage \<Rightarrow> decision list \<Rightarrow> sha option \<Rightarrow> escalation_violation option" where
  "risk_escalation_violation risk rt st decisions sha =
     (if \<not> is_r2_or_higher risk then None
      else
        let profile = ROUTE_PROFILES rt;
            band = (if \<not> route_allows_risk rt risk
                    then [RouteRefusesRisk rt risk (rp_min_risk_class profile) (rp_max_risk_class profile)]
                    else []);
            missing = missing_control_points rt st risk decisions sha;
            unmet = band @ (if missing \<noteq> {} then [ControlPointsUnapproved st (sorted_points missing)] else [])
        in if unmet = [] then None
           else Some (escalation EscalationRule_RISK_RAISED_TO_R2 (RiskObligationsNotMet risk unmet)))"

definition gate_failure_violation :: "string list \<Rightarrow> bool \<Rightarrow> escalation_violation option" where
  "gate_failure_violation policy_violations rework_budget_exhausted =
     (if policy_violations \<noteq> []
      then Some (escalation EscalationRule_UNRECOVERABLE_GATE_FAILURE (PolicyViolated policy_violations))
      else if rework_budget_exhausted
      then Some (escalation EscalationRule_UNRECOVERABLE_GATE_FAILURE ReworkBudgetExhausted)
      else None)"

definition autonomy_budget_violation ::
    "implementation_contract option \<Rightarrow> int \<Rightarrow> escalation_violation option" where
  "autonomy_budget_violation contract iterations_used =
     (case contract of
        None \<Rightarrow> None
      | Some c \<Rightarrow>
          let allowed = cb_max_autonomous_iterations (ic_budget c)
          in if iterations_used < allowed then None
             else Some (escalation EscalationRule_AUTONOMY_BUDGET_EXHAUSTED
                         (AutonomyBudgetExhausted iterations_used allowed)))"

definition ui_verification_violation :: "bool \<Rightarrow> string option \<Rightarrow> escalation_violation option" where
  "ui_verification_violation auto_verifiable detail =
     (if auto_verifiable then None
      else Some (escalation EscalationRule_UI_UNVERIFIABLE (UiNotConfirmed detail)))"

definition irreversible_operation_violation :: "string option \<Rightarrow> escalation_violation option" where
  "irreversible_operation_violation operation =
     map_option (\<lambda>o'. escalation EscalationRule_IRREVERSIBLE_OPERATION (IrreversibleRequested o')) operation"

definition escalation_stop_reason :: "escalation_violation list \<Rightarrow> message option" where
  "escalation_stop_reason escalations =
     (if escalations = [] then None
      else Some (Joined (map (\<lambda>v. RuleMessage (xv_rule v) (xv_reason v)) escalations)))"

section \<open>Merge policy (\<open>policy/merge.py\<close>)\<close>

datatype merge_executor = ByHuman | ByTrustedFinalizer | ByAgent

datatype merge_decision_kind =
    Blocked
  | Manual_merge_required
  | Human_merge_authorized
  | Finalizer_merge_allowed

record merge_policy =
  mp_auto_merge_risk_classes :: "risk_class set"
  mp_merge_methods :: "string list"
  mp_merge_authorization_gate :: gate

definition DEFAULT_MERGE_POLICY :: merge_policy where
  "DEFAULT_MERGE_POLICY = \<lparr>mp_auto_merge_risk_classes = {}, mp_merge_methods = [''squash''],
     mp_merge_authorization_gate = Gate_REVIEW\<rparr>"

record merge_request_context =
  mc_executor :: merge_executor
  mc_risk_class :: risk_class
  mc_route :: route
  mc_stage :: stage
  mc_expected_sha :: "sha option"
  mc_head_sha :: "sha option"
  mc_human_approvals :: "decision list"
  mc_gate_results :: "gate_result list"

record merge_decision =
  md_kind :: merge_decision_kind
  md_reason :: "message option"
  md_merge_method :: "string option"

definition merge_verdict :: "merge_decision_kind \<Rightarrow> message option \<Rightarrow> merge_decision" where
  "merge_verdict kind why = \<lparr>md_kind = kind, md_reason = why, md_merge_method = None\<rparr>"

definition gates_not_satisfied_at_head :: "merge_request_context \<Rightarrow> sha \<Rightarrow> gate list" where
  "gates_not_satisfied_at_head ctx sha =
     unsatisfied_gates (mc_route ctx) (mc_stage ctx)
       (filter (\<lambda>item. gr_sha item = Some sha) (mc_gate_results ctx))"

definition latest_human_decision ::
    "merge_request_context \<Rightarrow> merge_policy \<Rightarrow> sha \<Rightarrow> decision option" where
  "latest_human_decision ctx policy sha =
     (let candidates = filter (\<lambda>d. d_decided_by d = DecisionSource_HUMAN
                                 \<and> d_gate d = mp_merge_authorization_gate policy
                                 \<and> d_commit_sha d = Some sha) (mc_human_approvals ctx)
      in if candidates \<noteq> [] then Some (last candidates) else None)"

definition single_method :: "merge_policy \<Rightarrow> string option" where
  "single_method policy =
     (case remdups (mp_merge_methods policy) of [m] \<Rightarrow> Some m | _ \<Rightarrow> None)"

definition evaluate_merge :: "merge_request_context \<Rightarrow> merge_policy \<Rightarrow> merge_decision" where
  "evaluate_merge ctx policy =
     (if mc_executor ctx = ByAgent then merge_verdict Blocked (Some MergeByAgent)
      else case (mc_expected_sha ctx, mc_head_sha ctx) of
        (Some expected, Some head) \<Rightarrow>
          if expected \<noteq> head then merge_verdict Blocked (Some (MergeShaMismatch expected head))
          else
            let unsatisfied = gates_not_satisfied_at_head ctx expected;
                missing = (if is_r2_or_higher (mc_risk_class ctx)
                           then missing_control_points (mc_route ctx) (mc_stage ctx) (mc_risk_class ctx)
                                  (mc_human_approvals ctx) (Some expected)
                           else {})
            in if unsatisfied \<noteq> []
               then merge_verdict Blocked (Some (MergeGatesNotSatisfied expected unsatisfied))
               else if missing \<noteq> {}
               then merge_verdict Blocked
                      (Some (MergeControlPointsUnapproved (mc_risk_class ctx) expected (sorted_points missing)))
               else case latest_human_decision ctx policy expected of
                 None \<Rightarrow> merge_verdict Manual_merge_required
                           (Some (MergeNoHumanApproval (mp_merge_authorization_gate policy) expected))
               | Some latest \<Rightarrow>
                   if d_outcome latest \<noteq> DecisionOutcome_APPROVED
                   then merge_verdict Manual_merge_required
                          (Some (MergeDecisionNotApproval (mp_merge_authorization_gate policy) expected
                                   (d_outcome latest)))
                   else if mc_executor ctx = ByHuman then merge_verdict Human_merge_authorized None
                   else if mc_risk_class ctx \<in> mp_auto_merge_risk_classes policy
                   then \<lparr>md_kind = Finalizer_merge_allowed, md_reason = None,
                         md_merge_method = single_method policy\<rparr>
                   else merge_verdict Manual_merge_required (Some (AutoMergeNotEnabled (mc_risk_class ctx)))
      | _ \<Rightarrow> merge_verdict Blocked (Some MergeShaUnknown))"

section \<open>Decision classes and participation\<close>

fun decision_class_order :: "decision_class \<Rightarrow> nat" where
  "decision_class_order DecisionClass_KNOWN_PATH = 0"
| "decision_class_order DecisionClass_BOUNDED_CHOICE = 1"
| "decision_class_order DecisionClass_NEW_PATH = 2"

record decision_facts =
  df_pinned_by_adr :: bool
  df_allowed_options :: "string list"
  df_new_boundary :: bool

record decision_verdict =
  dv_decision_class :: decision_class
  dv_requires_human :: bool
  dv_requires_adr :: bool
  dv_requires_rationale :: bool

definition KNOWN_PATH_verdict :: decision_verdict where
  "KNOWN_PATH_verdict = \<lparr>dv_decision_class = DecisionClass_KNOWN_PATH, dv_requires_human = False,
     dv_requires_adr = False, dv_requires_rationale = False\<rparr>"

definition BOUNDED_CHOICE_verdict :: decision_verdict where
  "BOUNDED_CHOICE_verdict = \<lparr>dv_decision_class = DecisionClass_BOUNDED_CHOICE, dv_requires_human = False,
     dv_requires_adr = False, dv_requires_rationale = True\<rparr>"

definition NEW_PATH_verdict :: decision_verdict where
  "NEW_PATH_verdict = \<lparr>dv_decision_class = DecisionClass_NEW_PATH, dv_requires_human = True,
     dv_requires_adr = True, dv_requires_rationale = False\<rparr>"

definition classify_decision :: "decision_facts \<Rightarrow> decision_verdict" where
  "classify_decision facts =
     (if df_new_boundary facts then NEW_PATH_verdict
      else if df_pinned_by_adr facts then KNOWN_PATH_verdict
      else if df_allowed_options facts \<noteq> [] then BOUNDED_CHOICE_verdict
      else NEW_PATH_verdict)"

datatype decision_policy_error = AgentCannotLowerDecision decision_class decision_class

definition transition_decision_class ::
    "decision_class \<Rightarrow> decision_class \<Rightarrow> decision_source \<Rightarrow> decision_policy_error + decision_class" where
  "transition_decision_class current target decided_by =
     (if decided_by = DecisionSource_AGENT \<and> decision_class_order target < decision_class_order current
      then Inl (AgentCannotLowerDecision current target) else Inr target)"

fun stage_participation :: "stage \<Rightarrow> human_participation" where
  "stage_participation Stage_SPECIFICATION = HumanParticipation_IN_THE_LOOP"
| "stage_participation Stage_PLANNING = HumanParticipation_IN_THE_LOOP"
| "stage_participation Stage_CONSTRUCTION = HumanParticipation_OFF_THE_LOOP"
| "stage_participation Stage_REVIEW_VERIFICATION = HumanParticipation_IN_THE_LOOP"
| "stage_participation Stage_RELEASE = HumanParticipation_OFF_THE_LOOP"

section \<open>Branch protection (\<open>rules/merge_protection.py\<close>)\<close>

datatype merge_protection_rule =
    Branch_not_protected
  | Insufficient_required_approvals int int
  | Required_checks_missing
  | Non_squash_merge_allowed "string set" "string set"
  | Stale_approvals_not_dismissed

record branch_protection =
  bp_protected_branch :: bool
  bp_required_approving_reviews :: int
  bp_required_status_checks :: bool
  bp_allowed_merge_methods :: "string set"
  bp_dismiss_stale_approvals :: bool

definition DEFAULT_MERGE_PROTECTION :: branch_protection where
  "DEFAULT_MERGE_PROTECTION = \<lparr>bp_protected_branch = True, bp_required_approving_reviews = 1,
     bp_required_status_checks = True, bp_allowed_merge_methods = {''squash''},
     bp_dismiss_stale_approvals = True\<rparr>"

definition protection_violations ::
    "branch_protection \<Rightarrow> branch_protection \<Rightarrow> merge_protection_rule list" where
  "protection_violations observed policy =
     (if bp_protected_branch policy \<and> \<not> bp_protected_branch observed then [Branch_not_protected] else []) @
     (if bp_required_approving_reviews observed < bp_required_approving_reviews policy
      then [Insufficient_required_approvals (bp_required_approving_reviews observed)
              (bp_required_approving_reviews policy)] else []) @
     (if bp_required_status_checks policy \<and> \<not> bp_required_status_checks observed
      then [Required_checks_missing] else []) @
     (if bp_allowed_merge_methods policy \<noteq> {} \<and>
         bp_allowed_merge_methods observed \<noteq> bp_allowed_merge_methods policy
      then [Non_squash_merge_allowed (bp_allowed_merge_methods observed) (bp_allowed_merge_methods policy)]
      else []) @
     (if bp_dismiss_stale_approvals policy \<and> \<not> bp_dismiss_stale_approvals observed
      then [Stale_approvals_not_dismissed] else [])"

section \<open>What the policies guarantee\<close>

lemma merge_verdict_simps [simp]:
  "md_kind (merge_verdict k w) = k" "md_reason (merge_verdict k w) = w"
  by (simp_all add: merge_verdict_def)

lemma is_r2_iff [simp]: "is_r2_or_higher r \<longleftrightarrow> RiskClass_R2 \<le> r"
  by (simp add: is_r2_or_higher_def R2_THRESHOLD_def less_eq_risk_class_def del: risk_order_le)

lemma latest_human_decision_Some:
  assumes "latest_human_decision ctx policy sha = Some d"
  shows "d \<in> set (mc_human_approvals ctx) \<and> d_decided_by d = DecisionSource_HUMAN
    \<and> d_gate d = mp_merge_authorization_gate policy \<and> d_commit_sha d = Some sha"
proof -
  let ?c = "filter (\<lambda>d. d_decided_by d = DecisionSource_HUMAN
     \<and> d_gate d = mp_merge_authorization_gate policy \<and> d_commit_sha d = Some sha) (mc_human_approvals ctx)"
  from assms have "?c \<noteq> []" "d = last ?c"
    by (auto simp: latest_human_decision_def Let_def split: if_splits)
  then have "d \<in> set ?c" by (metis last_in_set)
  then show ?thesis by simp
qed

definition merge_authorized :: "merge_decision_kind \<Rightarrow> bool" where
  "merge_authorized k \<longleftrightarrow> k = Human_merge_authorized \<or> k = Finalizer_merge_allowed"

lemma evaluate_merge_authorizedD:
  assumes "merge_authorized (md_kind (evaluate_merge ctx policy))"
  shows "\<exists>sha d. mc_executor ctx \<noteq> ByAgent \<and>
     mc_expected_sha ctx = Some sha \<and> mc_head_sha ctx = Some sha \<and>
     gates_not_satisfied_at_head ctx sha = [] \<and>
     (mc_risk_class ctx < RiskClass_R2 \<or>
        missing_control_points (mc_route ctx) (mc_stage ctx) (mc_risk_class ctx)
          (mc_human_approvals ctx) (Some sha) = {}) \<and>
     latest_human_decision ctx policy sha = Some d \<and> d_outcome d = DecisionOutcome_APPROVED \<and>
     (mc_executor ctx = ByHuman \<or> mc_risk_class ctx \<in> mp_auto_merge_risk_classes policy)"
  using assms
  by (auto simp: evaluate_merge_def merge_authorized_def Let_def not_le
      split: if_splits option.splits)

lemma default_policy_human_only:
  "merge_authorized (md_kind (evaluate_merge ctx DEFAULT_MERGE_POLICY)) \<Longrightarrow> mc_executor ctx = ByHuman"
  by (drule evaluate_merge_authorizedD) (auto simp: DEFAULT_MERGE_POLICY_def)

text \<open>
  The merge policy authorises a merge exactly when the executor is not an agent, the expected and
  the observed head SHA are known and equal, every gate the route and stage require is satisfied by
  results evaluated at that SHA, for R2 and above every mandatory control point carries a human
  approval of that SHA, the latest human decision on the authorisation gate bound to that SHA is an
  approval, and the merge is performed by a human or its risk class is listed for auto-merge.
\<close>

theorem evaluate_merge_authorizes_iff:
  "md_kind (evaluate_merge ctx policy) \<in> {Human_merge_authorized, Finalizer_merge_allowed} \<longleftrightarrow>
   (\<exists>sha d. mc_executor ctx \<noteq> ByAgent \<and>
     mc_expected_sha ctx = Some sha \<and> mc_head_sha ctx = Some sha \<and>
     unsatisfied_gates (mc_route ctx) (mc_stage ctx)
       (filter (\<lambda>item. gr_sha item = Some sha) (mc_gate_results ctx)) = [] \<and>
     (mc_risk_class ctx < RiskClass_R2 \<or>
        missing_control_points (mc_route ctx) (mc_stage ctx) (mc_risk_class ctx)
          (mc_human_approvals ctx) (Some sha) = {}) \<and>
     latest_human_decision ctx policy sha = Some d \<and> d_outcome d = DecisionOutcome_APPROVED \<and>
     (mc_executor ctx = ByHuman \<or> mc_risk_class ctx \<in> mp_auto_merge_risk_classes policy))"
    (is "?lhs \<longleftrightarrow> ?rhs")
proof
  assume ?lhs
  then have "merge_authorized (md_kind (evaluate_merge ctx policy))"
    by (auto simp: merge_authorized_def)
  then show ?rhs
    by (drule_tac evaluate_merge_authorizedD) (simp add: gates_not_satisfied_at_head_def)
next
  assume ?rhs
  then obtain sha d where *: "mc_executor ctx \<noteq> ByAgent"
      "mc_expected_sha ctx = Some sha" "mc_head_sha ctx = Some sha"
      "gates_not_satisfied_at_head ctx sha = []"
      "mc_risk_class ctx < RiskClass_R2 \<or> missing_control_points (mc_route ctx) (mc_stage ctx)
         (mc_risk_class ctx) (mc_human_approvals ctx) (Some sha) = {}"
      "latest_human_decision ctx policy sha = Some d" "d_outcome d = DecisionOutcome_APPROVED"
      "mc_executor ctx = ByHuman \<or> mc_risk_class ctx \<in> mp_auto_merge_risk_classes policy"
    by (auto simp: gates_not_satisfied_at_head_def)
  from *(5) have "(if RiskClass_R2 \<le> mc_risk_class ctx then missing_control_points (mc_route ctx)
      (mc_stage ctx) (mc_risk_class ctx) (mc_human_approvals ctx) (Some sha) else {}) = {}"
    by auto
  with * show ?lhs by (simp add: evaluate_merge_def) blast
qed

text \<open>The escalation of a raised class fires exactly when one of its obligations is unmet.\<close>

lemma risk_escalation_None_iff:
  "risk_escalation_violation risk rt st ds sha = None \<longleftrightarrow>
     risk < RiskClass_R2 \<or>
     (route_allows_risk rt risk \<and> missing_control_points rt st risk ds sha = {})"
  by (auto simp: risk_escalation_violation_def Let_def not_le)

lemma escalation_stop_None_iff [simp]: "escalation_stop_reason es = None \<longleftrightarrow> es = []"
  by (simp add: escalation_stop_reason_def)

lemma continuation_ok_iff:
  "continuation_violations b now = [] \<longleftrightarrow>
     \<not> token_budget_exhausted b \<and> \<not> cost_budget_exhausted b \<and>
     (case bs_deadline b of None \<Rightarrow> True | Some d \<Rightarrow> now \<le> d)"
  by (auto simp: continuation_violations_def split: option.splits)

lemma rework_violation_None:
  "rework_violation b n = None \<longleftrightarrow>
     bs_used_rework_rounds b < bs_max_rework_rounds b \<and> n \<le> bs_max_rework_rounds b"
  by (auto simp: rework_violation_def rework_exhausted_def)

lemma protection_ok_iff:
  "protection_violations observed DEFAULT_MERGE_PROTECTION = [] \<longleftrightarrow>
     bp_protected_branch observed \<and> bp_required_approving_reviews observed \<ge> 1 \<and>
     bp_required_status_checks observed \<and> bp_allowed_merge_methods observed = {''squash''} \<and>
     bp_dismiss_stale_approvals observed"
  by (auto simp: protection_violations_def DEFAULT_MERGE_PROTECTION_def)

text \<open>
  An agent can only move a class towards more caution. A requested transition of the risk class
  or of the decision class is accepted exactly when it does not lower the class, and then it is
  applied as requested.
\<close>

theorem agent_transitions_never_lower:
  "(transition_risk_class cur tgt DecisionSource_AGENT = Inr out \<longleftrightarrow> out = tgt \<and> cur \<le> tgt) \<and>
   (transition_decision_class dcur dtgt DecisionSource_AGENT = Inr dout \<longleftrightarrow>
      dout = dtgt \<and> decision_class_order dcur \<le> decision_class_order dtgt)"
  by (auto simp: transition_risk_class_def transition_decision_class_def)

end
