(* ===== verification/Flow.thy ===== *)
theory Flow
  imports Policy
begin

text \<open>
  The inter-stage transition core (\<open>orchestration/flow.py\<close>): the transition table, the status a result
  must carry, and \<open>apply_result\<close> with all its handlers, as functions on the run.

  A stage run held by the code in a local variable is the position of that object in
  \<open>run.stages\<close>; the list is only ever appended to, so positions are stable. A function that mutates
  the run and may raise is in the state-and-exception style of the prelude: the run it leaves behind
  on an exception is the mutated one. \<open>clk\<close> is the wall clock read by \<open>apply_status\<close>, \<open>now\<close> the
  reference time of the limits.
\<close>

section \<open>The table\<close>

fun FLOW_TRANSITIONS :: "stage \<Rightarrow> next_action_type set" where
  "FLOW_TRANSITIONS Stage_SPECIFICATION =
     {AT_execute_stage, AT_wait_for_input, AT_rework, AT_phase_round, AT_request_approval, AT_stop}"
| "FLOW_TRANSITIONS Stage_PLANNING =
     {AT_execute_stage, AT_wait_for_input, AT_wait_for_ci, AT_rework, AT_request_approval, AT_stop}"
| "FLOW_TRANSITIONS Stage_CONSTRUCTION =
     {AT_execute_stage, AT_wait_for_input, AT_wait_for_ci, AT_rework, AT_request_approval, AT_stop}"
| "FLOW_TRANSITIONS Stage_REVIEW_VERIFICATION =
     {AT_merge, AT_wait_for_input, AT_wait_for_ci, AT_rework, AT_request_approval, AT_stop}"
| "FLOW_TRANSITIONS Stage_RELEASE = {AT_release, AT_wait_for_ci, AT_stop}"

fun REWORK_TARGET :: "stage \<Rightarrow> stage" where
  "REWORK_TARGET Stage_SPECIFICATION = Stage_SPECIFICATION"
| "REWORK_TARGET Stage_PLANNING = Stage_PLANNING"
| "REWORK_TARGET Stage_CONSTRUCTION = Stage_CONSTRUCTION"
| "REWORK_TARGET Stage_REVIEW_VERIFICATION = Stage_CONSTRUCTION"
| "REWORK_TARGET Stage_RELEASE = Stage_RELEASE"

fun STOP_STATUS :: "stop_outcome \<Rightarrow> stage_status \<times> run_status" where
  "STOP_STATUS StopOutcome_BLOCKED = (StageStatus_BLOCKED, RunStatus_BLOCKED)"
| "STOP_STATUS StopOutcome_FAILED = (StageStatus_FAILED, RunStatus_FAILED)"
| "STOP_STATUS StopOutcome_CANCELED = (StageStatus_CANCELED, RunStatus_CANCELED)"

definition MERGE_POLICY :: merge_policy where
  "MERGE_POLICY = DEFAULT_MERGE_POLICY"

datatype flow_error =
    RunIsTerminal string run_status
  | InvalidFlowTransition stage next_action_type
  | ResultStatusMismatch stage stage_status next_action_type stage_status
  | MustAdvanceTo stage route "stage option" stage
  | NoStageFollows stage route
  | NoActiveStageRun stage int
  | StaleAttempt stage int int
  | StageStatusError "stage_status status_error"
  | RunStatusError "run_status status_error"

record flow_decision =
  fd_stage :: stage
  fd_action :: next_action
  fd_stage_status :: stage_status
  fd_run_status :: run_status
  fd_next_stage :: "stage option"

type_synonym 'a flow = "(change_run, flow_error, 'a) sem"

fun expected_result_status :: "next_action \<Rightarrow> stage_status" where
  "expected_result_status (ExecuteStageAction _ _) = StageStatus_SUCCEEDED"
| "expected_result_status (MergeAction _ _) = StageStatus_SUCCEEDED"
| "expected_result_status (ReleaseAction _ _) = StageStatus_SUCCEEDED"
| "expected_result_status (PhaseRoundAction _ _) = StageStatus_SUCCEEDED"
| "expected_result_status (WaitForInputAction _) = StageStatus_WAITING"
| "expected_result_status (WaitForCIAction _ _) = StageStatus_WAITING"
| "expected_result_status (RequestApprovalAction _ _ _) = StageStatus_WAITING"
| "expected_result_status (ReworkAction _ _ _) = StageStatus_FAILED"
| "expected_result_status (StopAction outcome _) = fst (STOP_STATUS outcome)"

section \<open>Status changes of the run and of one of its stage runs\<close>

definition stage_to :: "instant \<Rightarrow> nat \<Rightarrow> stage_status \<Rightarrow> unit flow" where
  "stage_to clk i target = (\<lambda>r.
     case stage_apply_status clk target (cr_stages r ! i) of
       Inl e \<Rightarrow> (Inl (StageStatusError e), r)
     | Inr s \<Rightarrow> (Inr (), r\<lparr>cr_stages := (cr_stages r)[i := s]\<rparr>))"

definition run_to :: "instant \<Rightarrow> run_status \<Rightarrow> unit flow" where
  "run_to clk target = (\<lambda>r.
     case run_apply_status clk target r of
       Inl e \<Rightarrow> (Inl (RunStatusError e), r)
     | Inr r' \<Rightarrow> (Inr (), r'))"

definition decision_of :: "nat \<Rightarrow> next_action \<Rightarrow> stage option \<Rightarrow> flow_decision flow" where
  "decision_of i action nxt = sm_gets (\<lambda>r.
     \<lparr>fd_stage = sr_stage (cr_stages r ! i), fd_action = action,
      fd_stage_status = sr_status (cr_stages r ! i), fd_run_status = cr_status r, fd_next_stage = nxt\<rparr>)"

section \<open>Stage runs\<close>

definition stage_occurrences :: "change_run \<Rightarrow> stage \<Rightarrow> nat" where
  "stage_occurrences r st = length (filter (\<lambda>s. sr_stage s = st) (cr_stages r))"

definition stage_run_id :: "change_run \<Rightarrow> stage \<Rightarrow> string" where
  "stage_run_id r st =
     cr_id r @ CHR '':'' # stage_value st @ CHR '':'' # show_nat (stage_occurrences r st + 1)"

definition active_stage_run :: "change_run \<Rightarrow> stage \<Rightarrow> nat option" where
  "active_stage_run r st =
     (let active = filter (\<lambda>i. sr_stage (cr_stages r ! i) = st \<and> \<not> stage_terminal (sr_status (cr_stages r ! i)))
                     [0..<length (cr_stages r)]
      in if active \<noteq> [] then Some (last active) else None)"

definition restart :: "stage \<Rightarrow> nat flow" where
  "restart st = (\<lambda>r. (Inr (length (cr_stages r)),
     r\<lparr>cr_stages := cr_stages r @ [new_stage_run (stage_run_id r st) st]\<rparr>))"

definition start_stage :: "stage \<Rightarrow> nat flow" where
  "start_stage st = (\<lambda>r. case active_stage_run r st of Some i \<Rightarrow> (Inr i, r) | None \<Rightarrow> restart st r)"

definition advance :: "instant \<Rightarrow> nat \<Rightarrow> stage \<Rightarrow> unit flow" where
  "advance clk i target =
     sm_bind (stage_to clk i StageStatus_SUCCEEDED) (\<lambda>_.
     sm_bind (start_stage target) (\<lambda>_. sm_return ()))"

definition flow_begin_retry :: "nat \<Rightarrow> stage_result \<Rightarrow> unit flow" where
  "flow_begin_retry i result = (\<lambda>r.
     case begin_retry (res_attempt_number result) (cr_stages r ! i) of
       Inl _ \<Rightarrow> (Inl (StaleAttempt (res_stage result) (res_attempt_number result)
                       (sr_attempt_number (cr_stages r ! i))), r)
     | Inr s \<Rightarrow> (Inr (), r\<lparr>cr_stages := (cr_stages r)[i := s]\<rparr>))"

definition ensure_stage_run :: "instant \<Rightarrow> stage_result \<Rightarrow> nat flow" where
  "ensure_stage_run clk result =
     sm_bind
       (\<lambda>r. case active_stage_run r (res_stage result) of
          Some i \<Rightarrow>
            (if sr_attempt_number (cr_stages r ! i) \<noteq> res_attempt_number result
             then sm_bind (flow_begin_retry i result) (\<lambda>_. sm_return i) r
             else (Inr i, r))
        | None \<Rightarrow>
            (if res_attempt_number result \<noteq> 1
             then (Inl (NoActiveStageRun (res_stage result) (res_attempt_number result)), r)
             else restart (res_stage result) r))
       (\<lambda>i r. if sr_status (cr_stages r ! i) \<noteq> StageStatus_IN_PROGRESS
              then sm_bind (stage_to clk i StageStatus_IN_PROGRESS) (\<lambda>_. sm_return i) r
              else (Inr i, r))"

section \<open>Reasons to stop\<close>

definition accumulate_usage :: "usage option \<Rightarrow> budget_snapshot \<Rightarrow> budget_snapshot" where
  "accumulate_usage u budget =
     (case u of None \<Rightarrow> budget
      | Some u \<Rightarrow>
          let tokens = (case u_total_tokens u of None \<Rightarrow> u_prompt_tokens u + u_completion_tokens u | Some t \<Rightarrow> t);
              b = budget\<lparr>bs_tokens_used := bs_tokens_used budget + tokens\<rparr>
          in case u_cost u of None \<Rightarrow> b | Some c \<Rightarrow> b\<lparr>bs_cost_used := bs_cost_used b + c\<rparr>)"

definition run_risk_class :: "change_run \<Rightarrow> risk_class" where
  "run_risk_class r = effective_change_risk_class (cr_implementation_contract r) (cr_route r)"

definition block_reason :: "change_run \<Rightarrow> stage \<Rightarrow> gate_result list \<Rightarrow> instant \<Rightarrow> message option" where
  "block_reason r st gate_results now =
     (let unsatisfied = unsatisfied_gates (cr_route r) st gate_results;
          violations = continuation_violations (cr_budget r) now
      in if unsatisfied \<noteq> [] then Some (GatesNotSatisfied unsatisfied)
         else if violations \<noteq> [] then Some (Joined (map lv_reason violations))
         else None)"

definition control_point_sha :: "change_run \<Rightarrow> stage_result \<Rightarrow> sha option" where
  "control_point_sha r result =
     (let human_gates = required_human_gates (cr_route r) (res_stage result) (run_risk_class r)
      in case find (\<lambda>g. gr_gate g \<in> human_gates \<and> gr_status g = GateStatus_PASSED) (res_gate_results result) of
           Some g \<Rightarrow> (if gr_sha g \<noteq> None \<and> gr_sha g \<noteq> Some [] then gr_sha g else res_input_revision result)
         | None \<Rightarrow> res_input_revision result)"

definition risk_band_reason :: "change_run \<Rightarrow> message option" where
  "risk_band_reason r =
     (let risk = run_risk_class r; profile = ROUTE_PROFILES (cr_route r)
      in if route_allows_risk (cr_route r) risk then None
         else Some (BandRefusesRisk risk (cr_route r) (rp_min_risk_class profile) (rp_max_risk_class profile)))"

definition autonomy_budget_reason :: "change_run \<Rightarrow> message option" where
  "autonomy_budget_reason r =
     map_option xv_reason
       (autonomy_budget_violation (cr_implementation_contract r) (int (length (cr_stages r))))"

definition escalation_reason :: "change_run \<Rightarrow> stage_result \<Rightarrow> decision list \<Rightarrow> message option" where
  "escalation_reason r result human_decisions =
     (case escalation_stop_reason (res_escalations result) of
        Some declared \<Rightarrow> Some declared
      | None \<Rightarrow>
          (case risk_escalation_violation (run_risk_class r) (cr_route r) (res_stage result)
                  human_decisions (control_point_sha r result) of
             Some v \<Rightarrow> Some (RuleMessage (xv_rule v) (xv_reason v))
           | None \<Rightarrow> autonomy_budget_reason r))"

section \<open>Handlers\<close>

definition stop_blocked :: "instant \<Rightarrow> nat \<Rightarrow> message \<Rightarrow> flow_decision flow" where
  "stop_blocked clk i reason =
     sm_bind (stage_to clk i StageStatus_BLOCKED) (\<lambda>_.
     sm_bind (run_to clk RunStatus_BLOCKED) (\<lambda>_.
     decision_of i (StopAction StopOutcome_BLOCKED reason) None))"

definition park :: "instant \<Rightarrow> nat \<Rightarrow> next_action \<Rightarrow> flow_decision flow" where
  "park clk i action =
     sm_bind (stage_to clk i StageStatus_WAITING) (\<lambda>_.
     sm_bind (run_to clk RunStatus_WAITING) (\<lambda>_.
     decision_of i action None))"

definition wait_for_human_merge :: "instant \<Rightarrow> nat \<Rightarrow> message option \<Rightarrow> flow_decision flow" where
  "wait_for_human_merge clk i reason =
     park clk i (WaitForInputAction (WaitingForHumanMerge (message_or reason HumanMergeRequired)))"

definition handle_execute ::
    "instant \<Rightarrow> nat \<Rightarrow> stage_result \<Rightarrow> stage \<Rightarrow> instant \<Rightarrow> decision list \<Rightarrow> flow_decision flow" where
  "handle_execute clk i result nxt now human_decisions = (\<lambda>r.
     let expected = next_stage (ROUTE_PROFILES (cr_route r)) (res_stage result)
     in if expected \<noteq> Some nxt
        then (Inl (MustAdvanceTo (res_stage result) (cr_route r) expected nxt), r)
        else case first_some [block_reason r (res_stage result) (res_gate_results result) now,
                              escalation_reason r result human_decisions] of
          Some reason \<Rightarrow> stop_blocked clk i reason r
        | None \<Rightarrow>
            sm_bind (advance clk i nxt) (\<lambda>_. sm_gets (\<lambda>r.
              \<lparr>fd_stage = res_stage result, fd_action = res_next_action result,
               fd_stage_status = StageStatus_SUCCEEDED, fd_run_status = cr_status r,
               fd_next_stage = Some nxt\<rparr>)) r)"

definition handle_rework :: "instant \<Rightarrow> nat \<Rightarrow> stage_result \<Rightarrow> int \<Rightarrow> flow_decision flow" where
  "handle_rework clk i result requested_round = (\<lambda>r.
     case first_some [escalation_stop_reason (res_escalations result), autonomy_budget_reason r] of
       Some reason \<Rightarrow> stop_blocked clk i reason r
     | None \<Rightarrow>
         (case rework_violation (cr_budget r) requested_round of
            Some violation \<Rightarrow> stop_blocked clk i (lv_reason violation) r
          | None \<Rightarrow>
              sm_bind (sm_modify (\<lambda>r. r\<lparr>cr_budget := (cr_budget r)
                 \<lparr>bs_used_rework_rounds := bs_used_rework_rounds (cr_budget r) + 1\<rparr>\<rparr>)) (\<lambda>_.
              sm_bind (stage_to clk i StageStatus_FAILED) (\<lambda>_.
              let rework_target = REWORK_TARGET (res_stage result) in
              sm_bind (if rework_target = res_stage result then restart rework_target
                       else start_stage rework_target) (\<lambda>_.
              decision_of i (res_next_action result) (Some rework_target)))) r))"

definition merge_policy_decision ::
    "change_run \<Rightarrow> stage_result \<Rightarrow> merge_request_context option \<Rightarrow> merge_decision" where
  "merge_policy_decision r result merge_context =
     (case merge_context of
        None \<Rightarrow> merge_verdict Manual_merge_required (Some NoMergeContext)
      | Some ctx \<Rightarrow>
          evaluate_merge (ctx\<lparr>mc_route := cr_route r, mc_stage := res_stage result,
                              mc_risk_class := run_risk_class r,
                              mc_gate_results := res_gate_results result\<rparr>) MERGE_POLICY)"

definition handle_merge ::
    "instant \<Rightarrow> nat \<Rightarrow> stage_result \<Rightarrow> instant \<Rightarrow> merge_request_context option \<Rightarrow> flow_decision flow" where
  "handle_merge clk i result now merge_context = (\<lambda>r.
     case next_stage (ROUTE_PROFILES (cr_route r)) (res_stage result) of
       None \<Rightarrow> (Inl (NoStageFollows (res_stage result) (cr_route r)), r)
     | Some target \<Rightarrow>
         (case first_some [block_reason r (res_stage result) (res_gate_results result) now,
                           escalation_stop_reason (res_escalations result), risk_band_reason r] of
            Some reason \<Rightarrow> stop_blocked clk i reason r
          | None \<Rightarrow>
              let verdict = merge_policy_decision r result merge_context
              in (case md_kind verdict of
                    Blocked \<Rightarrow> stop_blocked clk i (message_or (md_reason verdict) MergeBlockedByPolicy) r
                  | Manual_merge_required \<Rightarrow> wait_for_human_merge clk i (md_reason verdict) r
                  | _ \<Rightarrow> sm_bind (advance clk i target) (\<lambda>_.
                         decision_of i (res_next_action result) (Some target)) r)))"

definition handle_release ::
    "instant \<Rightarrow> nat \<Rightarrow> stage_result \<Rightarrow> stage_result list \<Rightarrow> instant \<Rightarrow> flow_decision flow" where
  "handle_release clk i result history now = (\<lambda>r.
     case first_some [block_reason r (res_stage result) (res_gate_results result) now,
                      escalation_stop_reason (res_escalations result), risk_band_reason r] of
       Some reason \<Rightarrow> stop_blocked clk i reason r
     | None \<Rightarrow>
         let violations = completion_violations RunStatus_SUCCEEDED (history @ [result])
         in if violations \<noteq> [] then stop_blocked clk i (Joined violations) r
            else sm_bind (stage_to clk i StageStatus_SUCCEEDED) (\<lambda>_.
                 sm_bind (run_to clk RunStatus_SUCCEEDED) (\<lambda>_.
                 decision_of i (res_next_action result) None)) r)"

definition handle_phase_round :: "instant \<Rightarrow> nat \<Rightarrow> stage_result \<Rightarrow> flow_decision flow" where
  "handle_phase_round clk i result =
     sm_bind (stage_to clk i StageStatus_SUCCEEDED) (\<lambda>_.
     sm_bind (restart (res_stage result)) (\<lambda>_.
     decision_of i (res_next_action result) (Some (res_stage result))))"

definition handle_stop :: "instant \<Rightarrow> nat \<Rightarrow> stage_result \<Rightarrow> stop_outcome \<Rightarrow> flow_decision flow" where
  "handle_stop clk i result outcome =
     sm_bind (stage_to clk i (fst (STOP_STATUS outcome))) (\<lambda>_.
     sm_bind (run_to clk (snd (STOP_STATUS outcome))) (\<lambda>_.
     decision_of i (res_next_action result) None))"

definition handle_action ::
    "instant \<Rightarrow> nat \<Rightarrow> stage_result \<Rightarrow> stage_result list \<Rightarrow> instant
      \<Rightarrow> merge_request_context option \<Rightarrow> decision list \<Rightarrow> flow_decision flow" where
  "handle_action clk i result history now merge_context human_decisions =
     sm_bind (sm_modify (\<lambda>r. r\<lparr>cr_budget := accumulate_usage (res_usage result) (cr_budget r)\<rparr>)) (\<lambda>_.
       case res_next_action result of
         ExecuteStageAction nxt _ \<Rightarrow> handle_execute clk i result nxt now human_decisions
       | WaitForInputAction _ \<Rightarrow> park clk i (res_next_action result)
       | WaitForCIAction _ _ \<Rightarrow> park clk i (res_next_action result)
       | RequestApprovalAction _ _ _ \<Rightarrow> park clk i (res_next_action result)
       | ReworkAction requested_round _ _ \<Rightarrow> handle_rework clk i result requested_round
       | PhaseRoundAction _ _ \<Rightarrow> handle_phase_round clk i result
       | MergeAction _ _ \<Rightarrow> handle_merge clk i result now merge_context
       | ReleaseAction _ _ \<Rightarrow> handle_release clk i result history now
       | StopAction outcome _ \<Rightarrow> handle_stop clk i result outcome)"

definition apply_result ::
    "instant \<Rightarrow> stage_result \<Rightarrow> stage_result list \<Rightarrow> instant
      \<Rightarrow> merge_request_context option \<Rightarrow> decision list \<Rightarrow> flow_decision flow" where
  "apply_result clk result history now merge_context human_decisions = (\<lambda>r.
     let act = action_type (res_next_action result);
         expected_status = expected_result_status (res_next_action result)
     in if run_terminal (cr_status r) then (Inl (RunIsTerminal (cr_id r) (cr_status r)), r)
        else if act \<notin> FLOW_TRANSITIONS (res_stage result)
        then (Inl (InvalidFlowTransition (res_stage result) act), r)
        else if res_status result \<noteq> expected_status
        then (Inl (ResultStatusMismatch (res_stage result) (res_status result) act expected_status), r)
        else sm_bind (ensure_stage_run clk result) (\<lambda>i.
             sm_bind (\<lambda>r. if cr_status r \<noteq> RunStatus_RUNNING then run_to clk RunStatus_RUNNING r
                          else (Inr (), r)) (\<lambda>_.
             handle_action clk i result history now merge_context human_decisions)) r)"

section \<open>Running the handlers\<close>

text \<open>
  A stage run moved to a status, and the run left when stage run \<open>i\<close> and the run itself are settled
  together: the closed forms of what the handlers do to a stage that is in progress.
\<close>

definition stage_moved :: "instant \<Rightarrow> stage_status \<Rightarrow> stage_run \<Rightarrow> stage_run" where
  "stage_moved clk target s = s\<lparr>sr_status := target, sr_state_revision := sr_state_revision s + 1,
     sr_finished_at := (if stage_terminal target then Some clk else sr_finished_at s)\<rparr>"

definition with_stage :: "nat \<Rightarrow> stage_run \<Rightarrow> change_run \<Rightarrow> change_run" where
  "with_stage i s r = r\<lparr>cr_stages := (cr_stages r)[i := s]\<rparr>"

definition run_moved :: "instant \<Rightarrow> run_status \<Rightarrow> change_run \<Rightarrow> change_run" where
  "run_moved clk target r = r\<lparr>cr_status := target, cr_state_revision := cr_state_revision r + 1,
     cr_updated_at := clk,
     cr_finished_at := (if run_terminal target then Some clk else cr_finished_at r)\<rparr>"

definition settle :: "instant \<Rightarrow> nat \<Rightarrow> stage_status \<Rightarrow> run_status \<Rightarrow> change_run \<Rightarrow> change_run" where
  "settle clk i sst rst r = run_moved clk rst (with_stage i (stage_moved clk sst (cr_stages r ! i)) r)"

definition in_progress :: "change_run \<Rightarrow> nat \<Rightarrow> bool" where
  "in_progress r i \<longleftrightarrow> i < length (cr_stages r) \<and> cr_status r = RunStatus_RUNNING \<and>
     sr_status (cr_stages r ! i) = StageStatus_IN_PROGRESS"

lemma stage_moved_simps [simp]:
  "sr_id (stage_moved clk t s) = sr_id s" "sr_stage (stage_moved clk t s) = sr_stage s"
  "sr_status (stage_moved clk t s) = t" "sr_attempt_number (stage_moved clk t s) = sr_attempt_number s"
  "sr_state_revision (stage_moved clk t s) = sr_state_revision s + 1"
  by (simp_all add: stage_moved_def)

lemma with_stage_simps [simp]:
  "cr_stages (with_stage i s r) = (cr_stages r)[i := s]"
  "cr_id (with_stage i s r) = cr_id r" "cr_change_id (with_stage i s r) = cr_change_id r"
  "cr_route (with_stage i s r) = cr_route r" "cr_provider (with_stage i s r) = cr_provider r"
  "cr_status (with_stage i s r) = cr_status r"
  "cr_state_revision (with_stage i s r) = cr_state_revision r"
  "cr_budget (with_stage i s r) = cr_budget r"
  "cr_implementation_contract (with_stage i s r) = cr_implementation_contract r"
  "cr_created_at (with_stage i s r) = cr_created_at r"
  by (simp_all add: with_stage_def)

lemma run_moved_simps [simp]:
  "cr_stages (run_moved clk t r) = cr_stages r"
  "cr_id (run_moved clk t r) = cr_id r" "cr_change_id (run_moved clk t r) = cr_change_id r"
  "cr_route (run_moved clk t r) = cr_route r" "cr_provider (run_moved clk t r) = cr_provider r"
  "cr_status (run_moved clk t r) = t"
  "cr_state_revision (run_moved clk t r) = cr_state_revision r + 1"
  "cr_budget (run_moved clk t r) = cr_budget r"
  "cr_implementation_contract (run_moved clk t r) = cr_implementation_contract r"
  "cr_created_at (run_moved clk t r) = cr_created_at r"
  by (simp_all add: run_moved_def)

lemma stage_to_run [sem_simps]:
  "t \<in> stage_status_transitions (sr_status (cr_stages r ! i)) \<Longrightarrow>
     stage_to clk i t r = (Inr (), with_stage i (stage_moved clk t (cr_stages r ! i)) r)"
  by (simp add: stage_to_def stage_apply_status_def stage_moved_def with_stage_def)

lemma stage_to_refused:
  "t \<notin> stage_status_transitions (sr_status (cr_stages r ! i)) \<Longrightarrow>
     stage_to clk i t r = (Inl (StageStatusError (InvalidStatusTransition (sr_status (cr_stages r ! i)) t)), r)"
  by (simp add: stage_to_def stage_apply_status_def)

lemma run_to_run [sem_simps]:
  "t \<in> run_status_transitions (cr_status r) \<Longrightarrow> run_to clk t r = (Inr (), run_moved clk t r)"
  by (simp add: run_to_def run_apply_status_def run_moved_def)

lemma run_to_refused:
  "t \<notin> run_status_transitions (cr_status r) \<Longrightarrow>
     run_to clk t r = (Inl (RunStatusError (InvalidStatusTransition (cr_status r) t)), r)"
  by (simp add: run_to_def run_apply_status_def)

lemma decision_of_run [sem_simps]:
  "decision_of i a n r = (Inr \<lparr>fd_stage = sr_stage (cr_stages r ! i), fd_action = a,
      fd_stage_status = sr_status (cr_stages r ! i), fd_run_status = cr_status r, fd_next_stage = n\<rparr>, r)"
  by (simp add: decision_of_def sem_simps)

lemma sm_bind_run [sem_simps]:
  "sm_bind m f r = (case m r of (Inl e, s') \<Rightarrow> (Inl e, s') | (Inr a, s') \<Rightarrow> f a s')"
  by (simp add: sm_bind_def)

abbreviation settled_decision ::
    "change_run \<Rightarrow> nat \<Rightarrow> next_action \<Rightarrow> stage_status \<Rightarrow> run_status \<Rightarrow> flow_decision" where
  "settled_decision r i a sst rst \<equiv>
     \<lparr>fd_stage = sr_stage (cr_stages r ! i), fd_action = a, fd_stage_status = sst,
      fd_run_status = rst, fd_next_stage = None\<rparr>"

lemma stop_blocked_run:
  "in_progress r i \<Longrightarrow> stop_blocked clk i why r =
     (Inr (settled_decision r i (StopAction StopOutcome_BLOCKED why) StageStatus_BLOCKED RunStatus_BLOCKED),
      settle clk i StageStatus_BLOCKED RunStatus_BLOCKED r)"
  by (simp add: stop_blocked_def in_progress_def sem_simps settle_def)

lemma park_run:
  "in_progress r i \<Longrightarrow> park clk i a r =
     (Inr (settled_decision r i a StageStatus_WAITING RunStatus_WAITING),
      settle clk i StageStatus_WAITING RunStatus_WAITING r)"
  by (simp add: park_def in_progress_def sem_simps settle_def)

lemma handle_stop_run:
  "in_progress r i \<Longrightarrow> handle_stop clk i result outcome r =
     (Inr (settled_decision r i (res_next_action result) (fst (STOP_STATUS outcome)) (snd (STOP_STATUS outcome))),
      settle clk i (fst (STOP_STATUS outcome)) (snd (STOP_STATUS outcome)) r)"
  by (cases outcome) (simp_all add: handle_stop_def in_progress_def sem_simps settle_def)

lemma restart_run [sem_simps]:
  "restart st r = (Inr (length (cr_stages r)),
     r\<lparr>cr_stages := cr_stages r @ [new_stage_run (stage_run_id r st) st]\<rparr>)"
  by (simp add: restart_def)

lemma start_stage_Inr: "\<exists>j r'. start_stage st r = (Inr j, r')"
  by (cases "active_stage_run r st") (simp_all add: start_stage_def restart_def)

lemma active_stage_run_Some:
  assumes "active_stage_run r st = Some i"
  shows "i < length (cr_stages r)" "sr_stage (cr_stages r ! i) = st"
    "\<not> stage_terminal (sr_status (cr_stages r ! i))"
proof -
  let ?a = "filter (\<lambda>i. sr_stage (cr_stages r ! i) = st \<and> \<not> stage_terminal (sr_status (cr_stages r ! i)))
      [0..<length (cr_stages r)]"
  from assms have "?a \<noteq> []" "i = last ?a"
    by (auto simp: active_stage_run_def Let_def split: if_splits)
  then have "i \<in> set ?a" by (metis last_in_set)
  then show "i < length (cr_stages r)" "sr_stage (cr_stages r ! i) = st"
    "\<not> stage_terminal (sr_status (cr_stages r ! i))" by auto
qed

lemma active_stage_run_None:
  "active_stage_run r st = None \<longleftrightarrow>
     (\<forall>s\<in>set (cr_stages r). sr_stage s \<noteq> st \<or> stage_terminal (sr_status s))"
  by (auto simp: active_stage_run_def Let_def filter_empty_conv all_set_conv_all_nth
      simp del: stage_terminal_iff)

text \<open>Entering the stage: which attempts are accepted, and the state they leave.\<close>

definition attempt_accepted :: "change_run \<Rightarrow> stage_result \<Rightarrow> bool" where
  "attempt_accepted r result \<longleftrightarrow>
     (case active_stage_run r (res_stage result) of
        None \<Rightarrow> res_attempt_number result = 1
      | Some i \<Rightarrow>
          let s = cr_stages r ! i in
          sr_attempt_number s = res_attempt_number result \<or>
          (sr_status s \<in> retryable_stage_statuses \<and> res_attempt_number result = sr_attempt_number s + 1))"

lemma in_progress_reachable:
  "\<not> stage_terminal s \<Longrightarrow> s \<noteq> StageStatus_IN_PROGRESS \<Longrightarrow> StageStatus_IN_PROGRESS \<in> stage_status_transitions s"
  by (cases s) simp_all

lemma ensure_stage_run_accepts:
  assumes "attempt_accepted r result"
  shows "\<exists>i r1. ensure_stage_run clk result r = (Inr i, r1) \<and> r1 = r\<lparr>cr_stages := cr_stages r1\<rparr> \<and>
     i < length (cr_stages r1) \<and> sr_stage (cr_stages r1 ! i) = res_stage result \<and>
     sr_status (cr_stages r1 ! i) = StageStatus_IN_PROGRESS"
proof (cases "active_stage_run r (res_stage result)")
  case None
  with assms show ?thesis
    by (simp add: ensure_stage_run_def attempt_accepted_def sem_simps new_stage_run_def with_stage_def nth_append
        stage_moved_def)
next
  case (Some i)
  note act = active_stage_run_Some [OF Some]
  let ?s = "cr_stages r ! i"
  have go: "StageStatus_IN_PROGRESS \<in> stage_status_transitions (sr_status ?s)"
    if "sr_status ?s \<noteq> StageStatus_IN_PROGRESS"
    using act(3) that by (rule in_progress_reachable)
  show ?thesis
  proof (cases "sr_attempt_number ?s = res_attempt_number result")
    case True
    with Some act go show ?thesis
      by (cases "sr_status ?s = StageStatus_IN_PROGRESS")
        (auto simp: ensure_stage_run_def sem_simps with_stage_def nth_append)
  next
    case False
    with assms Some have retry: "sr_status ?s \<in> retryable_stage_statuses"
        "res_attempt_number result = sr_attempt_number ?s + 1"
      by (auto simp: attempt_accepted_def Let_def)
    then have "sr_status ?s \<noteq> StageStatus_IN_PROGRESS" by (auto simp: retryable_stage_statuses_def)
    with go False retry Some act(1,2) show ?thesis
      by (simp add: ensure_stage_run_def flow_begin_retry_def begin_retry_def sem_simps with_stage_def)
  qed
qed

lemma ensure_stage_run_rejects:
  assumes "\<not> attempt_accepted r result"
  shows "\<exists>e. ensure_stage_run clk result r = (Inl e, r) \<and>
    (e = NoActiveStageRun (res_stage result) (res_attempt_number result) \<or>
     (\<exists>n. e = StaleAttempt (res_stage result) (res_attempt_number result) n))"
proof (cases "active_stage_run r (res_stage result)")
  case None
  with assms show ?thesis by (simp add: ensure_stage_run_def attempt_accepted_def sem_simps)
next
  case (Some i)
  with assms show ?thesis
    by (auto simp: ensure_stage_run_def attempt_accepted_def flow_begin_retry_def begin_retry_def
        sem_simps Let_def)
qed

section \<open>How a run may evolve\<close>

text \<open>
  The relation every operation of the engine keeps between the run before and after: identity, route,
  provider, contract and budget limits are fixed; the run and each of its stage runs follow their
  status tables; attempts and revisions never go back; stage runs are never removed or relabelled;
  identifiers stay canonical; and the rework counter only grows, within its limit.
\<close>

definition stage_evolves :: "stage_run \<Rightarrow> stage_run \<Rightarrow> bool" where
  "stage_evolves s s' \<longleftrightarrow> sr_id s' = sr_id s \<and> sr_stage s' = sr_stage s \<and>
     (sr_status s, sr_status s') \<in> (table_edges stage_status_transitions)\<^sup>* \<and>
     sr_attempt_number s \<le> sr_attempt_number s' \<and> sr_state_revision s \<le> sr_state_revision s'"

definition canonical_ids :: "string \<Rightarrow> stage list \<Rightarrow> string list" where
  "canonical_ids rid sts = map (\<lambda>i. rid @ CHR '':'' # stage_value (sts ! i) @ CHR '':'' #
     show_nat (length (filter (\<lambda>s. s = sts ! i) (take i sts)) + 1)) [0..<length sts]"

definition ids_canonical :: "change_run \<Rightarrow> bool" where
  "ids_canonical r \<longleftrightarrow> map sr_id (cr_stages r) = canonical_ids (cr_id r) (map sr_stage (cr_stages r))"

definition limits_kept :: "budget_snapshot \<Rightarrow> budget_snapshot \<Rightarrow> bool" where
  "limits_kept b b' \<longleftrightarrow> bs_max_rework_rounds b' = bs_max_rework_rounds b \<and>
     bs_token_budget b' = bs_token_budget b \<and> bs_cost_budget b' = bs_cost_budget b \<and>
     bs_deadline b' = bs_deadline b \<and> bs_used_rework_rounds b \<le> bs_used_rework_rounds b' \<and>
     (bs_used_rework_rounds b \<le> bs_max_rework_rounds b \<longrightarrow> bs_used_rework_rounds b' \<le> bs_max_rework_rounds b)"

definition evolves :: "change_run \<Rightarrow> change_run \<Rightarrow> bool" where
  "evolves r r' \<longleftrightarrow> cr_id r' = cr_id r \<and> cr_change_id r' = cr_change_id r \<and> cr_route r' = cr_route r \<and>
     cr_provider r' = cr_provider r \<and> cr_implementation_contract r' = cr_implementation_contract r \<and>
     cr_created_at r' = cr_created_at r \<and> limits_kept (cr_budget r) (cr_budget r') \<and>
     (cr_status r, cr_status r') \<in> (table_edges run_status_transitions)\<^sup>* \<and>
     cr_state_revision r \<le> cr_state_revision r' \<and>
     length (cr_stages r) \<le> length (cr_stages r') \<and>
     (\<forall>i<length (cr_stages r). stage_evolves (cr_stages r ! i) (cr_stages r' ! i)) \<and>
     (ids_canonical r \<longrightarrow> ids_canonical r')"

lemma stage_evolves_refl [simp, intro]: "stage_evolves s s"
  by (simp add: stage_evolves_def)

lemma stage_evolves_trans: "stage_evolves a b \<Longrightarrow> stage_evolves b c \<Longrightarrow> stage_evolves a c"
  by (auto simp: stage_evolves_def intro: rtrancl_trans)

lemma limits_kept_refl [simp, intro]: "limits_kept b b"
  by (simp add: limits_kept_def)

lemma limits_kept_trans: "limits_kept a b \<Longrightarrow> limits_kept b c \<Longrightarrow> limits_kept a c"
  by (auto simp: limits_kept_def)

lemma evolves_refl [simp, intro]: "evolves r r"
  by (simp add: evolves_def)

lemma evolves_trans [trans]:
  assumes "evolves a b" "evolves b c" shows "evolves a c"
proof -
  have "stage_evolves (cr_stages a ! i) (cr_stages c ! i)" if "i < length (cr_stages a)" for i
    using assms that stage_evolves_trans [of "cr_stages a ! i" "cr_stages b ! i" "cr_stages c ! i"]
    by (auto simp: evolves_def)
  moreover have "limits_kept (cr_budget a) (cr_budget c)"
    using assms by (auto simp: evolves_def intro: limits_kept_trans)
  moreover have "(cr_status a, cr_status c) \<in> (table_edges run_status_transitions)\<^sup>*"
    using assms by (auto simp: evolves_def intro: rtrancl_trans)
  ultimately show ?thesis using assms by (simp add: evolves_def)
qed

lemma canonical_ids_snoc:
  "canonical_ids rid (sts @ [st]) = canonical_ids rid sts @
     [rid @ CHR '':'' # stage_value st @ CHR '':'' # show_nat (length (filter (\<lambda>s. s = st) sts) + 1)]"
  by (simp add: canonical_ids_def nth_append)

lemma map_update_same: "f s = f (xs ! i) \<Longrightarrow> map f (xs[i := s]) = map f xs"
  by (metis list_update_id map_update)

lemma evolves_stage_update:
  assumes "stage_evolves (cr_stages r ! i) s"
  shows "evolves r (r\<lparr>cr_stages := (cr_stages r)[i := s]\<rparr>)"
proof -
  have "map sr_id ((cr_stages r)[i := s]) = map sr_id (cr_stages r) \<and>
        map sr_stage ((cr_stages r)[i := s]) = map sr_stage (cr_stages r)"
    using assms by (auto simp: stage_evolves_def map_update_same simp del: map_update)
  moreover have "stage_evolves (cr_stages r ! j) ((cr_stages r)[i := s] ! j)"
    if "j < length (cr_stages r)" for j
    using assms that by (cases "i = j") simp_all
  ultimately show ?thesis by (simp add: evolves_def ids_canonical_def)
qed

lemma evolves_run_moved:
  "t \<in> run_status_transitions (cr_status r) \<Longrightarrow> evolves r (run_moved clk t r)"
  by (auto simp: evolves_def ids_canonical_def table_edges_def)

lemma evolves_restarted: "evolves r (r\<lparr>cr_stages := cr_stages r @ [new_stage_run (stage_run_id r st) st]\<rparr>)"
  by (simp add: evolves_def ids_canonical_def canonical_ids_snoc new_stage_run_def stage_run_id_def
      stage_occurrences_def nth_append comp_def)

lemma evolves_stage_moved:
  "t \<in> stage_status_transitions (sr_status s) \<Longrightarrow> stage_evolves s (stage_moved clk t s)"
  by (auto simp: stage_evolves_def table_edges_def)

lemma keeps_evolves_prims:
  "keeps evolves (stage_to clk i t)" "keeps evolves (run_to clk t')" "keeps evolves (restart st)"
  "keeps evolves (flow_begin_retry i result)"
proof -
  show "keeps evolves (stage_to clk i t)"
    unfolding keeps_def
  proof
    fix r
    show "evolves r (snd (stage_to clk i t r))"
      by (cases "t \<in> stage_status_transitions (sr_status (cr_stages r ! i))")
        (simp_all add: sem_simps stage_to_refused with_stage_def evolves_stage_update evolves_stage_moved)
  qed
  show "keeps evolves (run_to clk t')"
    unfolding keeps_def
  proof
    fix r
    show "evolves r (snd (run_to clk t' r))"
      by (cases "t' \<in> run_status_transitions (cr_status r)")
        (simp_all add: sem_simps run_to_refused evolves_run_moved)
  qed
  show "keeps evolves (restart st)"
    by (simp add: keeps_def restart_def evolves_restarted)
  show "keeps evolves (flow_begin_retry i result)"
    by (auto simp: keeps_def flow_begin_retry_def begin_retry_def Let_def stage_evolves_def
        intro!: evolves_stage_update)
qed

lemma keeps_evolves_then:
  assumes "keeps evolves m" shows "evolves r (snd (sm_bind m (\<lambda>_. sm_return i) r))"
proof -
  have "keeps evolves (sm_bind m (\<lambda>_. sm_return i))"
    by (rule keeps_bind) (auto intro: evolves_trans assms keeps_pure)
  then show ?thesis by (simp add: keeps_def)
qed

lemma keeps_evolves_ensure: "keeps evolves (ensure_stage_run clk result)"
  unfolding ensure_stage_run_def
proof (rule keeps_bind)
  have retry: "evolves r (snd (sm_bind (flow_begin_retry i result) (\<lambda>_. sm_return i) r))" for i r
    by (rule keeps_evolves_then) (rule keeps_evolves_prims)
  have new: "evolves r (snd (restart st r))" for st r
    using keeps_evolves_prims(3) by (simp add: keeps_def)
  show "keeps evolves (\<lambda>r. case active_stage_run r (res_stage result) of
      Some i \<Rightarrow> (if sr_attempt_number (cr_stages r ! i) \<noteq> res_attempt_number result
                 then sm_bind (flow_begin_retry i result) (\<lambda>_. sm_return i) r else (Inr i, r))
    | None \<Rightarrow> (if res_attempt_number result \<noteq> 1
               then (Inl (NoActiveStageRun (res_stage result) (res_attempt_number result)), r)
               else restart (res_stage result) r))"
    by (auto simp: keeps_def retry new split: option.split)
  fix i
  have enter: "evolves r (snd (sm_bind (stage_to clk i StageStatus_IN_PROGRESS) (\<lambda>_. sm_return i) r))" for r
    by (rule keeps_evolves_then) (rule keeps_evolves_prims)
  show "keeps evolves (\<lambda>r. if sr_status (cr_stages r ! i) \<noteq> StageStatus_IN_PROGRESS
      then sm_bind (stage_to clk i StageStatus_IN_PROGRESS) (\<lambda>_. sm_return i) r else (Inr i, r))"
    by (auto simp: keeps_def enter)
qed (rule evolves_trans)

section \<open>Closed forms of the handlers\<close>

definition started :: "stage \<Rightarrow> change_run \<Rightarrow> change_run" where
  "started st r = (case active_stage_run r st of Some _ \<Rightarrow> r
     | None \<Rightarrow> r\<lparr>cr_stages := cr_stages r @ [new_stage_run (stage_run_id r st) st]\<rparr>)"

definition restarted :: "stage \<Rightarrow> change_run \<Rightarrow> change_run" where
  "restarted st r = r\<lparr>cr_stages := cr_stages r @ [new_stage_run (stage_run_id r st) st]\<rparr>"

definition stage_done :: "instant \<Rightarrow> nat \<Rightarrow> stage_status \<Rightarrow> change_run \<Rightarrow> change_run" where
  "stage_done clk i sst r = with_stage i (stage_moved clk sst (cr_stages r ! i)) r"

definition charged :: "usage option \<Rightarrow> change_run \<Rightarrow> change_run" where
  "charged u r = r\<lparr>cr_budget := accumulate_usage u (cr_budget r)\<rparr>"

definition round_spent :: "change_run \<Rightarrow> change_run" where
  "round_spent r = r\<lparr>cr_budget := (cr_budget r)\<lparr>bs_used_rework_rounds := bs_used_rework_rounds (cr_budget r) + 1\<rparr>\<rparr>"

lemma started_simps [simp]:
  "cr_id (started st r) = cr_id r" "cr_change_id (started st r) = cr_change_id r"
  "cr_route (started st r) = cr_route r" "cr_provider (started st r) = cr_provider r"
  "cr_status (started st r) = cr_status r" "cr_state_revision (started st r) = cr_state_revision r"
  "cr_budget (started st r) = cr_budget r"
  "cr_implementation_contract (started st r) = cr_implementation_contract r"
  "cr_created_at (started st r) = cr_created_at r"
  by (simp_all add: started_def split: option.splits)

lemma restarted_simps [simp]:
  "cr_id (restarted st r) = cr_id r" "cr_change_id (restarted st r) = cr_change_id r"
  "cr_route (restarted st r) = cr_route r" "cr_provider (restarted st r) = cr_provider r"
  "cr_status (restarted st r) = cr_status r" "cr_state_revision (restarted st r) = cr_state_revision r"
  "cr_budget (restarted st r) = cr_budget r"
  "cr_implementation_contract (restarted st r) = cr_implementation_contract r"
  "cr_created_at (restarted st r) = cr_created_at r"
  "cr_stages (restarted st r) = cr_stages r @ [new_stage_run (stage_run_id r st) st]"
  by (simp_all add: restarted_def)

lemma stage_done_simps [simp]:
  "cr_stages (stage_done clk i t r) = (cr_stages r)[i := stage_moved clk t (cr_stages r ! i)]"
  "cr_id (stage_done clk i t r) = cr_id r" "cr_change_id (stage_done clk i t r) = cr_change_id r"
  "cr_route (stage_done clk i t r) = cr_route r" "cr_provider (stage_done clk i t r) = cr_provider r"
  "cr_status (stage_done clk i t r) = cr_status r"
  "cr_state_revision (stage_done clk i t r) = cr_state_revision r"
  "cr_budget (stage_done clk i t r) = cr_budget r"
  "cr_implementation_contract (stage_done clk i t r) = cr_implementation_contract r"
  "cr_created_at (stage_done clk i t r) = cr_created_at r"
  by (simp_all add: stage_done_def)

lemma charged_simps [simp]:
  "cr_stages (charged u r) = cr_stages r" "cr_id (charged u r) = cr_id r"
  "cr_change_id (charged u r) = cr_change_id r" "cr_route (charged u r) = cr_route r"
  "cr_provider (charged u r) = cr_provider r" "cr_status (charged u r) = cr_status r"
  "cr_state_revision (charged u r) = cr_state_revision r"
  "cr_budget (charged u r) = accumulate_usage u (cr_budget r)"
  "cr_implementation_contract (charged u r) = cr_implementation_contract r"
  "cr_created_at (charged u r) = cr_created_at r"
  "run_risk_class (charged u r) = run_risk_class r"
  "in_progress (charged u r) i = in_progress r i"
  by (simp_all add: charged_def run_risk_class_def in_progress_def)

lemma round_spent_simps [simp]:
  "cr_stages (round_spent r) = cr_stages r" "cr_id (round_spent r) = cr_id r"
  "cr_change_id (round_spent r) = cr_change_id r" "cr_route (round_spent r) = cr_route r"
  "cr_provider (round_spent r) = cr_provider r" "cr_status (round_spent r) = cr_status r"
  "cr_state_revision (round_spent r) = cr_state_revision r"
  "cr_budget (round_spent r) = (cr_budget r)\<lparr>bs_used_rework_rounds := bs_used_rework_rounds (cr_budget r) + 1\<rparr>"
  "cr_implementation_contract (round_spent r) = cr_implementation_contract r"
  "cr_created_at (round_spent r) = cr_created_at r"
  "in_progress (round_spent r) i = in_progress r i"
  by (simp_all add: round_spent_def in_progress_def)

lemma start_stage_started: "\<exists>j. start_stage st r = (Inr j, started st r)"
  by (cases "active_stage_run r st") (simp_all add: start_stage_def started_def restart_def)

lemma advance_run:
  "in_progress r i \<Longrightarrow> advance clk i target r = (Inr (), started target (stage_done clk i StageStatus_SUCCEEDED r))"
  using start_stage_started [of target "stage_done clk i StageStatus_SUCCEEDED r"]
  by (auto simp: advance_def in_progress_def sem_simps stage_done_def)

lemma decision_after_start:
  assumes "in_progress r i"
  shows "decision_of i a n (started st (stage_done clk i sst r)) =
    (Inr \<lparr>fd_stage = sr_stage (cr_stages r ! i), fd_action = a, fd_stage_status = sst,
          fd_run_status = RunStatus_RUNNING, fd_next_stage = n\<rparr>, started st (stage_done clk i sst r))"
    and "decision_of i a n (restarted st (stage_done clk i sst r)) =
    (Inr \<lparr>fd_stage = sr_stage (cr_stages r ! i), fd_action = a, fd_stage_status = sst,
          fd_run_status = RunStatus_RUNNING, fd_next_stage = n\<rparr>, restarted st (stage_done clk i sst r))"
  using assms
  by (auto simp: sem_simps in_progress_def started_def restarted_def nth_append split: option.splits)

lemma handle_execute_run:
  assumes "in_progress r i"
  shows "handle_execute clk i result nxt now ds r =
    (if next_stage (ROUTE_PROFILES (cr_route r)) (res_stage result) \<noteq> Some nxt
     then (Inl (MustAdvanceTo (res_stage result) (cr_route r)
             (next_stage (ROUTE_PROFILES (cr_route r)) (res_stage result)) nxt), r)
     else case first_some [block_reason r (res_stage result) (res_gate_results result) now,
                           escalation_reason r result ds] of
       Some why \<Rightarrow>
         (Inr (settled_decision r i (StopAction StopOutcome_BLOCKED why) StageStatus_BLOCKED RunStatus_BLOCKED),
          settle clk i StageStatus_BLOCKED RunStatus_BLOCKED r)
     | None \<Rightarrow>
         (Inr \<lparr>fd_stage = res_stage result, fd_action = res_next_action result,
               fd_stage_status = StageStatus_SUCCEEDED, fd_run_status = RunStatus_RUNNING,
               fd_next_stage = Some nxt\<rparr>,
          started nxt (stage_done clk i StageStatus_SUCCEEDED r)))"
  using assms
  by (simp add: handle_execute_def stop_blocked_run sm_bind_run advance_run sm_run del: first_some.simps split: option.split)
    (simp add: in_progress_def)

lemma handle_rework_run:
  assumes "in_progress r i"
  shows "handle_rework clk i result n r =
    (case first_some [escalation_stop_reason (res_escalations result), autonomy_budget_reason r] of
       Some why \<Rightarrow>
         (Inr (settled_decision r i (StopAction StopOutcome_BLOCKED why) StageStatus_BLOCKED RunStatus_BLOCKED),
          settle clk i StageStatus_BLOCKED RunStatus_BLOCKED r)
     | None \<Rightarrow>
       (case rework_violation (cr_budget r) n of
          Some v \<Rightarrow>
            (Inr (settled_decision r i (StopAction StopOutcome_BLOCKED (lv_reason v)) StageStatus_BLOCKED RunStatus_BLOCKED),
             settle clk i StageStatus_BLOCKED RunStatus_BLOCKED r)
        | None \<Rightarrow>
            (Inr \<lparr>fd_stage = sr_stage (cr_stages r ! i), fd_action = res_next_action result,
                  fd_stage_status = StageStatus_FAILED, fd_run_status = RunStatus_RUNNING,
                  fd_next_stage = Some (REWORK_TARGET (res_stage result))\<rparr>,
             (if REWORK_TARGET (res_stage result) = res_stage result then restarted else started)
               (REWORK_TARGET (res_stage result)) (stage_done clk i StageStatus_FAILED (round_spent r)))))"
proof -
  have ip: "in_progress (round_spent r) i" using assms by simp
  have to: "stage_to clk i StageStatus_FAILED (round_spent r) = (Inr (), stage_done clk i StageStatus_FAILED (round_spent r))"
    using assms by (simp add: in_progress_def sem_simps stage_done_def)
  obtain j where st: "start_stage (REWORK_TARGET (res_stage result)) (stage_done clk i StageStatus_FAILED (round_spent r))
      = (Inr j, started (REWORK_TARGET (res_stage result)) (stage_done clk i StageStatus_FAILED (round_spent r)))"
    using start_stage_started by blast
  show ?thesis
    using assms to st decision_after_start [OF ip]
    by (simp add: handle_rework_def stop_blocked_run sm_bind_run sm_run restart_def Let_def
        flip: round_spent_def restarted_def del: first_some.simps split: option.split)
qed

abbreviation blocked_outcome ::
    "instant \<Rightarrow> nat \<Rightarrow> message \<Rightarrow> change_run \<Rightarrow> (flow_error + flow_decision) \<times> change_run" where
  "blocked_outcome clk i why r \<equiv>
     (Inr (settled_decision r i (StopAction StopOutcome_BLOCKED why) StageStatus_BLOCKED RunStatus_BLOCKED),
      settle clk i StageStatus_BLOCKED RunStatus_BLOCKED r)"

lemma handle_merge_run:
  assumes "in_progress r i" and "next_stage (ROUTE_PROFILES (cr_route r)) (res_stage result) = Some target"
  shows "handle_merge clk i result now ctx r =
    (case first_some [block_reason r (res_stage result) (res_gate_results result) now,
                      escalation_stop_reason (res_escalations result), risk_band_reason r] of
       Some why \<Rightarrow> blocked_outcome clk i why r
     | None \<Rightarrow>
       (let verdict = merge_policy_decision r result ctx in
        case md_kind verdict of
          Blocked \<Rightarrow> blocked_outcome clk i (message_or (md_reason verdict) MergeBlockedByPolicy) r
        | Manual_merge_required \<Rightarrow>
            (Inr (settled_decision r i (WaitForInputAction
                (WaitingForHumanMerge (message_or (md_reason verdict) HumanMergeRequired)))
                StageStatus_WAITING RunStatus_WAITING),
             settle clk i StageStatus_WAITING RunStatus_WAITING r)
        | _ \<Rightarrow>
            (Inr \<lparr>fd_stage = sr_stage (cr_stages r ! i), fd_action = res_next_action result,
                  fd_stage_status = StageStatus_SUCCEEDED, fd_run_status = RunStatus_RUNNING,
                  fd_next_stage = Some target\<rparr>,
             started target (stage_done clk i StageStatus_SUCCEEDED r))))"
  using assms decision_after_start [OF assms(1)]
  by (simp add: handle_merge_def wait_for_human_merge_def stop_blocked_run park_run sm_bind_run advance_run
      Let_def del: first_some.simps split: option.split merge_decision_kind.split)

lemma handle_release_run:
  assumes "in_progress r i"
  shows "handle_release clk i result history now r =
    (case first_some [block_reason r (res_stage result) (res_gate_results result) now,
                      escalation_stop_reason (res_escalations result), risk_band_reason r] of
       Some why \<Rightarrow> blocked_outcome clk i why r
     | None \<Rightarrow>
       (if completion_violations RunStatus_SUCCEEDED (history @ [result]) \<noteq> []
        then blocked_outcome clk i (Joined (completion_violations RunStatus_SUCCEEDED (history @ [result]))) r
        else (Inr (settled_decision r i (res_next_action result) StageStatus_SUCCEEDED RunStatus_SUCCEEDED),
              settle clk i StageStatus_SUCCEEDED RunStatus_SUCCEEDED r)))"
proof -
  have "sm_bind (stage_to clk i StageStatus_SUCCEEDED) (\<lambda>_. sm_bind (run_to clk RunStatus_SUCCEEDED)
      (\<lambda>_. decision_of i (res_next_action result) None)) r =
      (Inr (settled_decision r i (res_next_action result) StageStatus_SUCCEEDED RunStatus_SUCCEEDED),
       settle clk i StageStatus_SUCCEEDED RunStatus_SUCCEEDED r)"
    using assms by (simp add: in_progress_def sem_simps settle_def)
  with assms show ?thesis
    by (simp add: handle_release_def stop_blocked_run Let_def del: first_some.simps split: option.split)
qed

lemma handle_phase_round_run:
  assumes "in_progress r i"
  shows "handle_phase_round clk i result r =
    (Inr \<lparr>fd_stage = sr_stage (cr_stages r ! i), fd_action = res_next_action result,
          fd_stage_status = StageStatus_SUCCEEDED, fd_run_status = RunStatus_RUNNING,
          fd_next_stage = Some (res_stage result)\<rparr>,
     restarted (res_stage result) (stage_done clk i StageStatus_SUCCEEDED r))"
proof -
  have "stage_to clk i StageStatus_SUCCEEDED r = (Inr (), stage_done clk i StageStatus_SUCCEEDED r)"
    using assms by (simp add: in_progress_def sem_simps stage_done_def)
  then show ?thesis
    using decision_after_start(2) [OF assms]
    by (simp add: handle_phase_round_def sm_bind_run restart_def flip: restarted_def)
qed

lemmas handler_runs = handle_execute_run handle_rework_run handle_merge_run handle_release_run
  handle_phase_round_run park_run handle_stop_run

section \<open>Accepting and refusing a result\<close>

definition result_accepted :: "change_run \<Rightarrow> stage_result \<Rightarrow> bool" where
  "result_accepted r result \<longleftrightarrow>
     \<not> run_terminal (cr_status r) \<and>
     action_type (res_next_action result) \<in> FLOW_TRANSITIONS (res_stage result) \<and>
     res_status result = expected_result_status (res_next_action result) \<and>
     attempt_accepted r result"

lemma apply_result_refuses:
  "\<not> result_accepted r result \<Longrightarrow> \<exists>e. apply_result clk result history now ctx ds r = (Inl e, r)"
  using ensure_stage_run_rejects [of r result clk]
  by (auto simp: apply_result_def result_accepted_def Let_def sm_bind_run)

definition entered :: "change_run \<Rightarrow> change_run \<Rightarrow> nat \<Rightarrow> stage_result \<Rightarrow> bool" where
  "entered r r1 i result \<longleftrightarrow> in_progress r1 i \<and> sr_stage (cr_stages r1 ! i) = res_stage result \<and>
     cr_id r1 = cr_id r \<and> cr_route r1 = cr_route r \<and> cr_budget r1 = cr_budget r \<and>
     cr_implementation_contract r1 = cr_implementation_contract r \<and>
     run_risk_class r1 = run_risk_class r \<and> evolves r r1"

lemma apply_result_enters:
  assumes "result_accepted r result"
  shows "\<exists>i r1. entered r r1 i result \<and>
     apply_result clk result history now ctx ds r = handle_action clk i result history now ctx ds r1"
proof -
  from assms have acc: "attempt_accepted r result" by (simp add: result_accepted_def)
  from ensure_stage_run_accepts [OF this, of clk] obtain i r1 where
    e: "ensure_stage_run clk result r = (Inr i, r1)" and r1: "r1 = r\<lparr>cr_stages := cr_stages r1\<rparr>"
      "i < length (cr_stages r1)" "sr_stage (cr_stages r1 ! i) = res_stage result"
      "sr_status (cr_stages r1 ! i) = StageStatus_IN_PROGRESS" by blast
  let ?r2 = "if cr_status r1 \<noteq> RunStatus_RUNNING then run_moved clk RunStatus_RUNNING r1 else r1"
  have status: "cr_status r1 = cr_status r" by (subst r1(1)) simp
  with assms have running:
      "cr_status r1 \<noteq> RunStatus_RUNNING \<Longrightarrow> RunStatus_RUNNING \<in> run_status_transitions (cr_status r1)"
    by (cases "cr_status r") (simp_all add: result_accepted_def)
  then have step: "apply_result clk result history now ctx ds r = handle_action clk i result history now ctx ds ?r2"
    using assms e by (simp add: apply_result_def result_accepted_def sem_simps)
  have "cr_id r1 = cr_id r" "cr_route r1 = cr_route r" "cr_budget r1 = cr_budget r"
      "cr_implementation_contract r1 = cr_implementation_contract r"
    by (subst r1(1), simp)+
  moreover have "evolves r r1" using keepsD [OF keeps_evolves_ensure e] .
  then have "evolves r ?r2" using running by (auto intro: evolves_trans evolves_run_moved)
  ultimately have "entered r ?r2 i result"
    using r1(2-4) by (simp add: entered_def in_progress_def run_risk_class_def)
  with step show ?thesis by blast
qed

end
