(* ===== verification/Flow_Safety.thy ===== *)
theory Flow_Safety
  imports Flow
begin

text \<open>
  What the flow engine guarantees of every result it applies: when it returns at all, that a refusal
  changes nothing, what an advance, an authorised merge, a completion and a rework round imply, that
  the run only moves along the status tables and never loses spend or stage runs, and that stage run
  identifiers are unique.
\<close>

section \<open>One step of the engine\<close>

lemma handle_action_run:
  "handle_action clk i result history now ctx ds r =
     (case res_next_action result of
         ExecuteStageAction nxt _ \<Rightarrow> handle_execute clk i result nxt now ds
       | WaitForInputAction _ \<Rightarrow> park clk i (res_next_action result)
       | WaitForCIAction _ _ \<Rightarrow> park clk i (res_next_action result)
       | RequestApprovalAction _ _ _ \<Rightarrow> park clk i (res_next_action result)
       | ReworkAction n _ _ \<Rightarrow> handle_rework clk i result n
       | PhaseRoundAction _ _ \<Rightarrow> handle_phase_round clk i result
       | MergeAction _ _ \<Rightarrow> handle_merge clk i result now ctx
       | ReleaseAction _ _ \<Rightarrow> handle_release clk i result history now
       | StopAction outcome _ \<Rightarrow> handle_stop clk i result outcome) (charged (res_usage result) r)"
  by (simp add: handle_action_def sm_bind_run sm_run flip: charged_def)

lemma apply_result_Inr:
  assumes "apply_result clk result history now ctx ds r = (Inr d, r')"
  shows "result_accepted r result"
    and "\<exists>i r1. entered r r1 i result \<and> handle_action clk i result history now ctx ds r1 = (Inr d, r')"
proof -
  show acc: "result_accepted r result"
    using assms apply_result_refuses [of r result clk history now ctx ds] by fastforce
  from apply_result_enters [OF this, of clk history now ctx ds] assms
  show "\<exists>i r1. entered r r1 i result \<and> handle_action clk i result history now ctx ds r1 = (Inr d, r')"
    by metis
qed

lemma merge_only_from_review:
  "AT_merge \<in> FLOW_TRANSITIONS st \<longleftrightarrow> st = Stage_REVIEW_VERIFICATION"
  "AT_release \<in> FLOW_TRANSITIONS st \<longleftrightarrow> st = Stage_RELEASE"
  "AT_phase_round \<in> FLOW_TRANSITIONS st \<longleftrightarrow> st = Stage_SPECIFICATION"
  "AT_execute_stage \<in> FLOW_TRANSITIONS st \<longleftrightarrow>
     st \<in> {Stage_SPECIFICATION, Stage_PLANNING, Stage_CONSTRUCTION}"
  "AT_rework \<in> FLOW_TRANSITIONS st \<longleftrightarrow> st \<noteq> Stage_RELEASE"
  by (cases st; simp)+

lemma stage_value_show_nat_inj:
  "stage_value a @ CHR '':'' # show_nat m = stage_value b @ CHR '':'' # show_nat n \<longleftrightarrow> a = b \<and> m = n"
  using split_at_first_sep [of "stage_value a" "CHR '':''" "show_nat m" "stage_value b" "show_nat n"] by auto

lemma handle_action_returns:
  assumes e: "in_progress r1 i" and acc: "result_accepted r result" and "cr_route r1 = cr_route r"
  shows "(\<exists>d r'. handle_action clk i result history now ctx ds r1 = (Inr d, r')) \<longleftrightarrow>
    (case res_next_action result of
       ExecuteStageAction nxt _ \<Rightarrow> next_stage (ROUTE_PROFILES (cr_route r)) (res_stage result) = Some nxt
     | _ \<Rightarrow> True)"
proof -
  have ip: "in_progress (charged u r1) i" for u using e by simp
  have merge: "next_stage (ROUTE_PROFILES (cr_route (charged u r1))) (res_stage result) = Some Stage_RELEASE"
    if "res_next_action result = MergeAction cr w" for u cr w
    using acc that by (auto simp: result_accepted_def merge_only_from_review table_simps)
  show ?thesis
    using assms(3)
    by (cases "res_next_action result")
      (auto simp: handle_action_run handler_runs [OF ip] handle_merge_run [OF ip merge] Let_def
        simp del: first_some.simps split: option.split merge_decision_kind.split)
qed

text \<open>
  C4: the engine returns a decision for exactly the results it must honour: the run is not terminal,
  the action is in the transition table of the stage, the result carries the status its action
  demands, its attempt is the active one or the next attempt of a failed or blocked stage run (the
  first attempt when none is active), and an advance names the next stage of the route. In every such
  case no status transition inside the handlers can be refused.
\<close>

theorem apply_result_returns_iff:
  "(\<exists>d r'. apply_result clk result history now ctx ds r = (Inr d, r')) \<longleftrightarrow>
     result_accepted r result \<and>
     (case res_next_action result of
        ExecuteStageAction nxt _ \<Rightarrow> next_stage (ROUTE_PROFILES (cr_route r)) (res_stage result) = Some nxt
      | _ \<Rightarrow> True)"
proof (cases "result_accepted r result")
  case True
  from apply_result_enters [OF True, of clk history now ctx ds] obtain i r1
    where e: "entered r r1 i result"
      and eq: "apply_result clk result history now ctx ds r = handle_action clk i result history now ctx ds r1"
    by blast
  from e have "in_progress r1 i" "cr_route r1 = cr_route r" by (simp_all add: entered_def)
  from handle_action_returns [OF this(1) True this(2)] True eq show ?thesis by simp
next
  case False
  then show ?thesis
    using apply_result_refuses [OF False, of clk history now ctx ds] by auto
qed

text \<open>
  A refused result leaves the run exactly as it was. Whenever a result is not acceptable the
  engine raises and no field of the run, no stage run and no budget counter has changed.
\<close>

theorem refused_result_changes_nothing:
  "result_accepted r result \<or> (\<exists>e. apply_result clk result history now ctx ds r = (Inl e, r))"
  using apply_result_refuses by blast

section \<open>What an applied result implies\<close>

lemma block_reason_None_iff:
  "block_reason r st gs now = None \<longleftrightarrow>
     unsatisfied_gates (cr_route r) st gs = [] \<and> continuation_violations (cr_budget r) now = []"
  by (simp add: block_reason_def Let_def)

lemma escalation_reason_None:
  "escalation_reason r result ds = None \<longleftrightarrow>
     res_escalations result = [] \<and>
     risk_escalation_violation (run_risk_class r) (cr_route r) (res_stage result) ds (control_point_sha r result) = None \<and>
     autonomy_budget_reason r = None"
  by (auto simp: escalation_reason_def escalation_stop_reason_def split: option.splits)

lemma risk_band_None_iff:
  "risk_band_reason r = None \<longleftrightarrow> route_allows_risk (cr_route r) (run_risk_class r)"
  by (simp add: risk_band_reason_def Let_def)

lemma control_point_sha_cong:
  "cr_route a = cr_route b \<Longrightarrow> run_risk_class a = run_risk_class b \<Longrightarrow>
     control_point_sha a result = control_point_sha b result"
  by (simp add: control_point_sha_def)

lemmas stop_reason_simps = block_reason_None_iff escalation_reason_None risk_band_None_iff


lemma autonomy_None:
  "autonomy_budget_reason r = None \<longleftrightarrow>
     (case cr_implementation_contract r of None \<Rightarrow> True
      | Some c \<Rightarrow> int (length (cr_stages r)) < cb_max_autonomous_iterations (ic_budget c))"
  by (simp add: autonomy_budget_reason_def autonomy_budget_violation_def Let_def split: option.split)

lemma first_some_nil_iff:
  "first_some [a, b] = None \<longleftrightarrow> a = None \<and> b = None"
  "first_some [a, b, c] = None \<longleftrightarrow> a = None \<and> b = None \<and> c = None"
  by (simp_all add: first_some_None_iff del: first_some.simps)

lemma length_started: "length (cr_stages (started st r)) \<le> length (cr_stages r) + 1"
  by (simp add: started_def split: option.split)

text \<open>What a decision that names a next stage says about the action that led to it.\<close>

lemma advance_by_execute:
  assumes "in_progress r i" "handle_execute clk i result nxt now ds r = (Inr d, r')"
    and "fd_next_stage d = Some st"
  shows "st = nxt \<and> next_stage (ROUTE_PROFILES (cr_route r)) (res_stage result) = Some nxt \<and>
    block_reason r (res_stage result) (res_gate_results result) now = None \<and>
    escalation_reason r result ds = None \<and> r' = started nxt (stage_done clk i StageStatus_SUCCEEDED r)"
  using assms
  by (auto simp: handle_execute_run first_some_nil_iff simp del: first_some.simps
      split: if_splits option.splits)

lemma advance_by_merge:
  assumes "in_progress r i" "next_stage (ROUTE_PROFILES (cr_route r)) (res_stage result) = Some target"
    and "handle_merge clk i result now ctx r = (Inr d, r')" and "fd_next_stage d = Some st"
  shows "st = target \<and> block_reason r (res_stage result) (res_gate_results result) now = None \<and>
    res_escalations result = [] \<and> risk_band_reason r = None \<and>
    merge_authorized (md_kind (merge_policy_decision r result ctx)) \<and>
    r' = started target (stage_done clk i StageStatus_SUCCEEDED r)"
  using assms(3,4)
  by (auto simp: handle_merge_run [OF assms(1,2)] first_some_nil_iff Let_def merge_authorized_def
      simp del: first_some.simps split: option.splits merge_decision_kind.splits)

section \<open>A sample run\<close>

text \<open>Concrete values at which the properties with hypotheses are instantiated.\<close>

definition sample_run :: "stage_run list \<Rightarrow> change_run" where
  "sample_run ss = \<lparr>cr_id = ''r1'', cr_change_id = ''c1'', cr_route = Route_QUICK, cr_provider = Provider_GITHUB,
     cr_status = RunStatus_PENDING, cr_state_revision = 1, cr_stages = ss, cr_budget = default_budget,
     cr_implementation_contract = None, cr_created_at = 0, cr_updated_at = 0, cr_finished_at = None\<rparr>"

definition sample_gate :: "gate \<Rightarrow> gate_result" where
  "sample_gate g = \<lparr>gr_gate = g, gr_status = GateStatus_PASSED, gr_sha = Some ''abc'', gr_summary = None,
     gr_evidence_ids = []\<rparr>"

definition sample_result :: "stage \<Rightarrow> stage_status \<Rightarrow> next_action \<Rightarrow> gate list \<Rightarrow> stage_result" where
  "sample_result st status action gates = \<lparr>res_stage = st, res_run_id = ''r1'', res_change_id = ''c1'',
     res_attempt_number = 1, res_input_revision = Some ''abc'', res_status = status, res_next_action = action,
     res_artifacts = [], res_evidence = [], res_gate_results = map sample_gate gates, res_findings = [],
     res_escalations = [], res_release = None,
     res_usage = Some \<lparr>u_prompt_tokens = 3, u_completion_tokens = 4, u_total_tokens = None, u_cost = Some 1\<rparr>,
     res_questions = [], res_rework_summary = None, res_conversation_errors = [], res_phase = None,
     res_produced_at = 0\<rparr>"

definition sample_approval :: decision where
  "sample_approval = \<lparr>d_id = ''d1'', d_gate = Gate_REVIEW, d_outcome = DecisionOutcome_APPROVED,
     d_decided_by = DecisionSource_HUMAN, d_role = None, d_decided_at = 0, d_commit_sha = Some ''abc'',
     d_comment = None, d_evidence_ids = [], d_phase = None\<rparr>"

definition sample_context :: merge_request_context where
  "sample_context = \<lparr>mc_executor = ByHuman, mc_risk_class = RiskClass_R0, mc_route = Route_QUICK,
     mc_stage = Stage_REVIEW_VERIFICATION, mc_expected_sha = Some ''abc'', mc_head_sha = Some ''abc'',
     mc_human_approvals = [sample_approval], mc_gate_results = []\<rparr>"

definition sample_ref :: change_request_ref where
  "sample_ref = \<lparr>crr_repository = \<lparr>rr_provider = Provider_GITHUB, rr_slug = ''o/p''\<rparr>, crr_number = 7,
     crr_url = None, crr_status = ChangeRequestStatus_OPEN\<rparr>"

abbreviation sample_plan :: stage_result where
  "sample_plan \<equiv> sample_result Stage_PLANNING StageStatus_SUCCEEDED
     (ExecuteStageAction Stage_CONSTRUCTION None) [Gate_PLANNING]"

abbreviation sample_merge :: stage_result where
  "sample_merge \<equiv> sample_result Stage_REVIEW_VERIFICATION StageStatus_SUCCEEDED
     (MergeAction sample_ref None) [Gate_REVIEW, Gate_VERIFICATION]"

abbreviation sample_release :: stage_result where
  "sample_release \<equiv> sample_result Stage_RELEASE StageStatus_SUCCEEDED (ReleaseAction ''dev'' None) [Gate_RELEASE]"

abbreviation sample_rework :: stage_result where
  "sample_rework \<equiv> sample_result Stage_REVIEW_VERIFICATION StageStatus_FAILED (ReworkAction 1 3 (Txt ''fix'')) []"

lemma sample_simps [simp]:
  "cr_route (sample_run ss) = Route_QUICK" "cr_stages (sample_run ss) = ss"
  "cr_budget (sample_run ss) = default_budget" "cr_status (sample_run ss) = RunStatus_PENDING"
  "cr_id (sample_run ss) = ''r1''" "cr_implementation_contract (sample_run ss) = None"
  "res_stage (sample_result st s a gs) = st" "res_next_action (sample_result st s a gs) = a"
  "res_gate_results (sample_result st s a gs) = map sample_gate gs"
  "res_escalations (sample_result st s a gs) = []"
  by (simp_all add: sample_run_def sample_result_def)

lemma outcome_returned: "fst x = Inr d \<Longrightarrow> x = (Inr d, snd x)"
  by (cases x) simp

section \<open>Properties of an applied result\<close>

text \<open>
  C2: the engine advances to the next stage of the route on \<open>execute_stage\<close> only when every required
  gate of the stage is satisfied by its last result, no token, cost or deadline limit is exhausted
  after the result's own usage is charged, no escalation is declared, for an effective class of R2 or
  above the route admits the class and every mandatory control point carries a human approval bound to
  the revision of the stage, and the contract's autonomy budget still covers the run's stage
  occurrences, the new one included.
\<close>

theorem execute_advances_only_when_clear:
  assumes "apply_result clk result history now ctx ds r = (Inr d, r')"
    and "res_next_action result = ExecuteStageAction nxt w"
    and "fd_next_stage d = Some st"
  shows "st = nxt \<and> next_stage (ROUTE_PROFILES (cr_route r)) (res_stage result) = Some nxt \<and>
    unsatisfied_gates (cr_route r) (res_stage result) (res_gate_results result) = [] \<and>
    continuation_violations (accumulate_usage (res_usage result) (cr_budget r)) now = [] \<and>
    res_escalations result = [] \<and>
    (run_risk_class r < RiskClass_R2 \<or>
       route_allows_risk (cr_route r) (run_risk_class r) \<and>
       missing_control_points (cr_route r) (res_stage result) (run_risk_class r) ds
         (control_point_sha r result) = {}) \<and>
    (case cr_implementation_contract r of None \<Rightarrow> True
     | Some c \<Rightarrow> int (length (cr_stages r')) \<le> cb_max_autonomous_iterations (ic_budget c))"
proof -
  from apply_result_Inr(2) [OF assms(1)] obtain i r1 where e: "entered r r1 i result"
    and h: "handle_action clk i result history now ctx ds r1 = (Inr d, r')" by blast
  let ?r = "charged (res_usage result) r1"
  from e have ip: "in_progress ?r i" by (simp add: entered_def)
  from h assms(2) have "handle_execute clk i result nxt now ds ?r = (Inr d, r')"
    by (simp add: handle_action_run)
  from advance_by_execute [OF ip this assms(3)] have a: "st = nxt"
    "next_stage (ROUTE_PROFILES (cr_route ?r)) (res_stage result) = Some nxt"
    "block_reason ?r (res_stage result) (res_gate_results result) now = None"
    "escalation_reason ?r result ds = None" "r' = started nxt (stage_done clk i StageStatus_SUCCEEDED ?r)"
    by auto
  from e have eq: "cr_route ?r = cr_route r" "run_risk_class ?r = run_risk_class r"
      "cr_implementation_contract ?r = cr_implementation_contract r"
      "cr_budget ?r = accumulate_usage (res_usage result) (cr_budget r)"
    by (simp_all add: entered_def)
  have "control_point_sha ?r result = control_point_sha r result"
    using eq by (intro control_point_sha_cong)
  moreover have "length (cr_stages r') \<le> length (cr_stages ?r) + 1"
    using length_started [of nxt "stage_done clk i StageStatus_SUCCEEDED ?r"] a(5) by simp
  ultimately show ?thesis
    using a(1-4) eq by (auto simp: stop_reason_simps risk_escalation_None_iff autonomy_None split: option.splits)
qed

theorem execute_advances_only_when_clear_witness:
  "\<exists>d r'. apply_result 0 sample_plan [] 0 None [] (sample_run []) = (Inr d, r') \<and>
     fd_next_stage d = Some Stage_CONSTRUCTION \<and>
     unsatisfied_gates Route_QUICK Stage_PLANNING [sample_gate Gate_PLANNING] = []"
proof -
  let ?x = "apply_result 0 sample_plan [] 0 None [] (sample_run [])"
  have "fst ?x = Inr (projr (fst ?x))" by code_simp
  note eq = outcome_returned [OF this]
  have nxt: "fd_next_stage (projr (fst ?x)) = Some Stage_CONSTRUCTION" by code_simp
  have "unsatisfied_gates Route_QUICK Stage_PLANNING [sample_gate Gate_PLANNING] = []"
    using execute_advances_only_when_clear [OF eq _ nxt] by simp
  with eq nxt show ?thesis by blast
qed

lemma release_only_by_merge:
  assumes "result_accepted r result" "in_progress r1 i" "cr_route r1 = cr_route r"
    and h: "handle_action clk i result history now ctx ds r1 = (Inr d, r')"
    and n: "fd_next_stage d = Some Stage_RELEASE"
  shows "\<exists>cr w. res_next_action result = MergeAction cr w"
proof -
  have ip: "in_progress (charged u r1) i" for u using assms(2) by simp
  show ?thesis
  proof (cases "res_next_action result")
    case (ExecuteStageAction nxt w)
    with h have "handle_execute clk i result nxt now ds (charged (res_usage result) r1) = (Inr d, r')"
      by (simp add: handle_action_run)
    from advance_by_execute [OF ip this n] assms(3)
    have "next_stage (ROUTE_PROFILES (cr_route r)) (res_stage result) = Some Stage_RELEASE" by simp
    moreover from ExecuteStageAction assms(1)
    have "res_stage result \<in> {Stage_SPECIFICATION, Stage_PLANNING, Stage_CONSTRUCTION}"
      using merge_only_from_review(4) by (simp add: result_accepted_def)
    ultimately show ?thesis by (auto simp: table_simps)
  next
    case (ReworkAction n' m w)
    with assms(1) have "res_stage result \<noteq> Stage_RELEASE"
      using merge_only_from_review(5) by (simp add: result_accepted_def)
    then have "REWORK_TARGET (res_stage result) \<noteq> Stage_RELEASE" by (cases "res_stage result") simp_all
    with ReworkAction h n show ?thesis
      by (auto simp: handle_action_run handle_rework_run [OF ip] simp del: first_some.simps split: option.splits)
  next
    case (PhaseRoundAction ph w)
    with assms(1) have "res_stage result = Stage_SPECIFICATION"
      using merge_only_from_review(3) by (simp add: result_accepted_def)
    with PhaseRoundAction h n show ?thesis
      by (auto simp: handle_action_run handle_phase_round_run [OF ip])
  next
    case (ReleaseAction e w)
    with h n show ?thesis
      by (auto simp: handle_action_run handle_release_run [OF ip] simp del: first_some.simps
          split: option.splits if_splits)
  next
    case (MergeAction cr w)
    then show ?thesis by blast
  qed (use h n in \<open>auto simp: handle_action_run park_run [OF ip] handle_stop_run [OF ip]\<close>)
qed

text \<open>
  C1: the release stage is unlocked only by a human-authorised merge. Whatever result is applied, if
  the engine's decision names the release stage next, then the result is a merge of the review stage
  whose merge facts name a human executor and one SHA as both expected and observed head, a human has
  approved the review gate at exactly that SHA as the last human decision there, every required gate
  is satisfied by results evaluated at that SHA, no escalation is declared, and the effective class of
  the run is inside the band of its route.
\<close>

theorem release_unlocked_only_by_human_merge:
  assumes "apply_result clk result history now ctx ds r = (Inr d, r')"
    and "fd_next_stage d = Some Stage_RELEASE"
  shows "res_stage result = Stage_REVIEW_VERIFICATION \<and> res_escalations result = [] \<and>
    route_allows_risk (cr_route r) (run_risk_class r) \<and>
    (\<exists>cx sha dec. ctx = Some cx \<and> mc_executor cx = ByHuman \<and>
       mc_expected_sha cx = Some sha \<and> mc_head_sha cx = Some sha \<and>
       dec \<in> set (mc_human_approvals cx) \<and> d_decided_by dec = DecisionSource_HUMAN \<and>
       d_gate dec = Gate_REVIEW \<and> d_commit_sha dec = Some sha \<and> d_outcome dec = DecisionOutcome_APPROVED \<and>
       latest_human_decision cx DEFAULT_MERGE_POLICY sha = Some dec \<and>
       unsatisfied_gates (cr_route r) Stage_REVIEW_VERIFICATION
         (filter (\<lambda>item. gr_sha item = Some sha) (res_gate_results result)) = [])"
proof -
  note acc = apply_result_Inr(1) [OF assms(1)]
  from apply_result_Inr(2) [OF assms(1)] obtain i r1 where e: "entered r r1 i result"
    and h: "handle_action clk i result history now ctx ds r1 = (Inr d, r')" by blast
  let ?r = "charged (res_usage result) r1"
  from e have ip: "in_progress r1 i" "in_progress ?r i" and eq: "cr_route r1 = cr_route r"
      "run_risk_class ?r = run_risk_class r" by (simp_all add: entered_def)
  from release_only_by_merge [OF acc ip(1) eq(1) h assms(2)] obtain cr w
    where m: "res_next_action result = MergeAction cr w" by blast
  with acc have st: "res_stage result = Stage_REVIEW_VERIFICATION"
    using merge_only_from_review(1) by (simp add: result_accepted_def)
  then have nx: "next_stage (ROUTE_PROFILES (cr_route ?r)) (res_stage result) = Some Stage_RELEASE"
    by (simp add: table_simps)
  from h m have "handle_merge clk i result now ctx ?r = (Inr d, r')" by (simp add: handle_action_run)
  from advance_by_merge [OF ip(2) nx this assms(2)] have a: "res_escalations result = []"
    "risk_band_reason ?r = None" "merge_authorized (md_kind (merge_policy_decision ?r result ctx))" by auto
  then obtain cx where cx: "ctx = Some cx"
    by (cases ctx) (auto simp: merge_policy_decision_def merge_authorized_def)
  let ?c = "cx\<lparr>mc_route := cr_route ?r, mc_stage := res_stage result, mc_risk_class := run_risk_class ?r,
      mc_gate_results := res_gate_results result\<rparr>"
  from a(3) cx have auth: "merge_authorized (md_kind (evaluate_merge ?c DEFAULT_MERGE_POLICY))"
    by (simp add: merge_policy_decision_def MERGE_POLICY_def)
  from evaluate_merge_authorizedD [OF this] obtain sha dec where s:
    "mc_expected_sha cx = Some sha" "mc_head_sha cx = Some sha" "gates_not_satisfied_at_head ?c sha = []"
    "latest_human_decision ?c DEFAULT_MERGE_POLICY sha = Some dec" "d_outcome dec = DecisionOutcome_APPROVED"
    by auto
  have lat: "latest_human_decision cx DEFAULT_MERGE_POLICY sha = Some dec"
    using s(4) by (simp add: latest_human_decision_def)
  have "mc_executor cx = ByHuman" using default_policy_human_only [OF auth] by simp
  with s a st eq cx lat latest_human_decision_Some [OF lat] show ?thesis
    by (auto simp: gates_not_satisfied_at_head_def risk_band_None_iff DEFAULT_MERGE_POLICY_def)
qed

theorem release_unlocked_only_by_human_merge_witness:
  "\<exists>d r'. apply_result 0 sample_merge [] 0 (Some sample_context) [] (sample_run []) = (Inr d, r') \<and>
     fd_next_stage d = Some Stage_RELEASE \<and> mc_executor sample_context = ByHuman"
proof -
  let ?x = "apply_result 0 sample_merge [] 0 (Some sample_context) [] (sample_run [])"
  have "fst ?x = Inr (projr (fst ?x))" by code_simp
  note eq = outcome_returned [OF this]
  have nxt: "fd_next_stage (projr (fst ?x)) = Some Stage_RELEASE" by code_simp
  from release_unlocked_only_by_human_merge [OF eq nxt] have "mc_executor sample_context = ByHuman" by simp
  with eq nxt show ?thesis by blast
qed

text \<open>
  C3: a run succeeds only through an applied release result: if the engine leaves the run in
  \<open>succeeded\<close>, the result is a \<open>release\<close> of the release stage, its gate is satisfied, no limit is
  exhausted, no escalation is declared, the effective class is inside the route's band, and neither the
  history nor the result itself carries an unavailable required evidence or an open blocker finding.
\<close>

theorem success_only_by_clean_release:
  assumes "apply_result clk result history now ctx ds r = (Inr d, r')"
    and "cr_status r' = RunStatus_SUCCEEDED"
  shows "res_stage result = Stage_RELEASE \<and> action_type (res_next_action result) = AT_release \<and>
    unsatisfied_gates (cr_route r) Stage_RELEASE (res_gate_results result) = [] \<and>
    continuation_violations (accumulate_usage (res_usage result) (cr_budget r)) now = [] \<and>
    res_escalations result = [] \<and> route_allows_risk (cr_route r) (run_risk_class r) \<and>
    concat (map result_violations (history @ [result])) = [] \<and>
    fd_run_status d = RunStatus_SUCCEEDED \<and> fd_next_stage d = None"
proof -
  note acc = apply_result_Inr(1) [OF assms(1)]
  from apply_result_Inr(2) [OF assms(1)] obtain i r1 where e: "entered r r1 i result"
    and h: "handle_action clk i result history now ctx ds r1 = (Inr d, r')" by blast
  let ?r = "charged (res_usage result) r1"
  from e have ip: "in_progress ?r i" and run: "cr_status ?r = RunStatus_RUNNING" and
    eq: "cr_route ?r = cr_route r" "run_risk_class ?r = run_risk_class r"
      "cr_budget ?r = accumulate_usage (res_usage result) (cr_budget r)"
    by (simp_all add: entered_def in_progress_def)
  have merge: "next_stage (ROUTE_PROFILES (cr_route ?r)) (res_stage result) = Some Stage_RELEASE"
    if "res_next_action result = MergeAction cr w" for cr w
    using acc that by (auto simp: result_accepted_def merge_only_from_review table_simps)
  obtain env w where rel: "res_next_action result = ReleaseAction env w"
  proof (cases "res_next_action result")
    case (StopAction outcome w)
    with h assms(2) show ?thesis
      by (cases outcome) (auto simp: handle_action_run handle_stop_run [OF ip] settle_def)
  qed (use h assms(2) run in \<open>auto simp: handle_action_run handler_runs [OF ip] handle_merge_run [OF ip merge]
        settle_def Let_def simp del: first_some.simps
        split: option.splits if_splits merge_decision_kind.splits\<close>)
  with acc have st: "res_stage result = Stage_RELEASE"
    using merge_only_from_review(2) by (simp add: result_accepted_def)
  from h rel have "handle_release clk i result history now ?r = (Inr d, r')" by (simp add: handle_action_run)
  with assms(2) show ?thesis
    using eq st rel
    by (auto simp: handle_release_run [OF ip] first_some_nil_iff stop_reason_simps settle_def
        completion_violations_def simp del: first_some.simps split: option.splits if_splits)
qed

theorem success_only_by_clean_release_witness:
  "\<exists>d r'. apply_result 0 sample_release [sample_merge] 0 None [] (sample_run []) = (Inr d, r') \<and>
     cr_status r' = RunStatus_SUCCEEDED \<and> fd_next_stage d = None"
proof -
  let ?x = "apply_result 0 sample_release [sample_merge] 0 None [] (sample_run [])"
  have "fst ?x = Inr (projr (fst ?x))" by code_simp
  note eq = outcome_returned [OF this]
  have fin: "cr_status (snd ?x) = RunStatus_SUCCEEDED" by code_simp
  from success_only_by_clean_release [OF eq fin] eq fin show ?thesis by blast
qed

section \<open>The decision and the budget\<close>

definition has_open_stage :: "change_run \<Rightarrow> stage \<Rightarrow> bool" where
  "has_open_stage r st \<longleftrightarrow> (\<exists>s\<in>set (cr_stages r). sr_stage s = st \<and> \<not> stage_terminal (sr_status s))"

lemma has_open_stage_started [simp]: "has_open_stage (started st r) st"
proof (cases "active_stage_run r st")
  case None
  then show ?thesis by (simp add: has_open_stage_def started_def new_stage_run_def)
next
  case (Some i)
  then have "cr_stages r ! i \<in> set (cr_stages r)" by (simp add: active_stage_run_Some)
  with Some show ?thesis
    unfolding has_open_stage_def started_def using active_stage_run_Some [OF Some] by auto
qed

lemma has_open_stage_restarted [simp]: "has_open_stage (restarted st r) st"
  by (simp add: has_open_stage_def new_stage_run_def)

lemma settle_simps [simp]:
  "cr_status (settle clk i sst rst r) = rst" "cr_budget (settle clk i sst rst r) = cr_budget r"
  by (simp_all add: settle_def)

definition decision_matches :: "stage_result \<Rightarrow> flow_decision \<Rightarrow> change_run \<Rightarrow> bool" where
  "decision_matches result d r' \<longleftrightarrow> fd_stage d = res_stage result \<and> fd_run_status d = cr_status r' \<and>
     (case fd_next_stage d of
        Some st \<Rightarrow> cr_status r' = RunStatus_RUNNING \<and> has_open_stage r' st
      | None \<Rightarrow> cr_status r' \<in> {RunStatus_WAITING, RunStatus_BLOCKED, RunStatus_SUCCEEDED, RunStatus_FAILED,
                               RunStatus_CANCELED})"

lemma handle_action_decision:
  assumes acc: "result_accepted r result" and e: "entered r r1 i result"
    and h: "handle_action clk i result history now ctx ds r1 = (Inr d, r')"
  shows "decision_matches result d r'"
proof -
  let ?r = "charged (res_usage result) r1"
  from e have ip: "in_progress ?r i" and run: "cr_status ?r = RunStatus_RUNNING"
    and st: "sr_stage (cr_stages r1 ! i) = res_stage result"
    by (simp_all add: entered_def in_progress_def)
  have merge: "next_stage (ROUTE_PROFILES (cr_route ?r)) (res_stage result) = Some Stage_RELEASE"
    if "res_next_action result = MergeAction cr w" for cr w
    using acc that by (auto simp: result_accepted_def merge_only_from_review table_simps)
  show ?thesis
  proof (cases "res_next_action result")
    case (StopAction oc w)
    with h st show ?thesis
      by (cases oc) (auto simp: decision_matches_def handle_action_run handle_stop_run [OF ip])
  qed (use h st run in \<open>auto simp: decision_matches_def handle_action_run handler_runs [OF ip]
        handle_merge_run [OF ip merge] Let_def simp del: first_some.simps
        split: option.splits if_splits merge_decision_kind.splits\<close>)
qed

text \<open>
  The decision returned to the driver agrees with the run left behind: it reports the run's
  status, it names a next stage exactly when the run is still running, and then that stage has an
  active (non-terminal) stage run to execute; otherwise the run is parked, blocked or terminal.
\<close>

theorem decision_agrees_with_run:
  assumes "apply_result clk result history now ctx ds r = (Inr d, r')"
  shows "fd_stage d = res_stage result \<and> fd_run_status d = cr_status r' \<and>
    (fd_next_stage d \<noteq> None \<longleftrightarrow> cr_status r' = RunStatus_RUNNING) \<and>
    (fd_next_stage d = None \<longleftrightarrow> cr_status r' \<in> {RunStatus_WAITING, RunStatus_BLOCKED, RunStatus_SUCCEEDED,
       RunStatus_FAILED, RunStatus_CANCELED}) \<and>
    (case fd_next_stage d of None \<Rightarrow> True
     | Some st \<Rightarrow> \<exists>s\<in>set (cr_stages r'). sr_stage s = st \<and> \<not> stage_terminal (sr_status s))"
proof -
  from apply_result_Inr [OF assms] obtain i r1 where "result_accepted r result" "entered r r1 i result"
    "handle_action clk i result history now ctx ds r1 = (Inr d, r')" by blast
  from handle_action_decision [OF this] show ?thesis
    by (auto simp: decision_matches_def has_open_stage_def split: option.splits)
qed

theorem decision_agrees_with_run_witness:
  "\<exists>d r'. apply_result 0 sample_plan [] 0 None [] (sample_run []) = (Inr d, r') \<and>
     fd_run_status d = cr_status r' \<and> fd_next_stage d = Some Stage_CONSTRUCTION"
proof -
  let ?x = "apply_result 0 sample_plan [] 0 None [] (sample_run [])"
  have "fst ?x = Inr (projr (fst ?x))" by code_simp
  note eq = outcome_returned [OF this]
  have nxt: "fd_next_stage (projr (fst ?x)) = Some Stage_CONSTRUCTION" by code_simp
  from decision_agrees_with_run [OF eq] eq nxt show ?thesis by blast
qed





section \<open>How every outcome leaves the run\<close>

lemma limits_kept_accumulate: "limits_kept b (accumulate_usage u b)"
  by (auto simp: limits_kept_def accumulate_usage_def Let_def split: option.splits)

lemma evolves_charged: "evolves r (charged u r)"
  by (simp add: evolves_def ids_canonical_def limits_kept_accumulate)

lemma evolves_round_spent:
  "bs_used_rework_rounds (cr_budget r) < bs_max_rework_rounds (cr_budget r) \<Longrightarrow> evolves r (round_spent r)"
  by (simp add: evolves_def ids_canonical_def limits_kept_def)

lemma evolves_stage_done:
  "t \<in> stage_status_transitions (sr_status (cr_stages r ! i)) \<Longrightarrow> evolves r (stage_done clk i t r)"
  by (simp add: stage_done_def with_stage_def evolves_stage_update evolves_stage_moved)

lemma evolves_settle:
  assumes "in_progress r i" and "sst \<in> stage_status_transitions StageStatus_IN_PROGRESS"
    and "rst \<in> run_status_transitions RunStatus_RUNNING"
  shows "evolves r (settle clk i sst rst r)"
proof -
  have "evolves r (stage_done clk i sst r)"
    using assms by (intro evolves_stage_done) (simp add: in_progress_def)
  moreover have "evolves (stage_done clk i sst r) (run_moved clk rst (stage_done clk i sst r))"
    using assms by (intro evolves_run_moved) (simp add: in_progress_def)
  ultimately show ?thesis
    unfolding settle_def stage_done_def by (rule evolves_trans)
qed

lemma evolves_started: "evolves r (started st r)"
  by (simp add: started_def evolves_restarted split: option.split)

lemma evolves_moved_on:
  assumes "in_progress r i" and "t \<in> stage_status_transitions StageStatus_IN_PROGRESS"
  shows "evolves r (started st (stage_done clk i t r))" "evolves r (restarted st (stage_done clk i t r))"
proof -
  have d: "evolves r (stage_done clk i t r)"
    using assms by (intro evolves_stage_done) (simp add: in_progress_def)
  show "evolves r (started st (stage_done clk i t r))"
    using d evolves_started by (rule evolves_trans)
  show "evolves r (restarted st (stage_done clk i t r))"
    using d evolves_restarted unfolding restarted_def by (rule evolves_trans)
qed

lemma handle_rework_evolves:
  assumes ip: "in_progress r i"
  shows "evolves r (snd (handle_rework clk i result n r))"
proof -
  have block: "evolves r (settle clk i StageStatus_BLOCKED RunStatus_BLOCKED r)"
    using ip by (rule evolves_settle) simp_all
  have "evolves r (started st (stage_done clk i StageStatus_FAILED (round_spent r)))"
       "evolves r (restarted st (stage_done clk i StageStatus_FAILED (round_spent r)))"
    if "rework_violation (cr_budget r) n = None" for st
    using that ip evolves_moved_on [of "round_spent r" i StageStatus_FAILED]
    by (auto intro: evolves_trans evolves_round_spent simp: rework_violation_None)
  with block show ?thesis
    by (simp add: handle_rework_run [OF ip] del: first_some.simps split: option.split)
qed

lemma handle_action_evolves:
  assumes acc: "result_accepted r result" and ip: "in_progress r1 i" and route: "cr_route r1 = cr_route r"
  shows "evolves r1 (snd (handle_action clk i result history now ctx ds r1))"
proof -
  let ?r = "charged (res_usage result) r1"
  have ip': "in_progress ?r i" using ip by simp
  have merge: "next_stage (ROUTE_PROFILES (cr_route ?r)) (res_stage result) = Some Stage_RELEASE"
    if "res_next_action result = MergeAction cr w" for cr w
    using acc that by (auto simp: result_accepted_def merge_only_from_review table_simps)
  have settle: "evolves ?r (settle clk i sst rst ?r)"
    if "sst \<in> {StageStatus_BLOCKED, StageStatus_WAITING, StageStatus_SUCCEEDED, StageStatus_FAILED, StageStatus_CANCELED}"
      "rst \<in> {RunStatus_BLOCKED, RunStatus_WAITING, RunStatus_SUCCEEDED, RunStatus_FAILED, RunStatus_CANCELED}"
    for sst rst
    using ip' that by (intro evolves_settle) auto
  have stop: "fst (STOP_STATUS oc) \<in> {StageStatus_BLOCKED, StageStatus_FAILED, StageStatus_CANCELED}"
    "snd (STOP_STATUS oc) \<in> {RunStatus_BLOCKED, RunStatus_FAILED, RunStatus_CANCELED}" for oc
    by (cases oc; simp)+
  note moved = evolves_moved_on [OF ip', of StageStatus_SUCCEEDED]
  have "evolves ?r (snd (handle_action clk i result history now ctx ds r1))"
  proof (cases "res_next_action result")
    case (StopAction oc w)
    then show ?thesis using stop [of oc] by (auto simp: handle_action_run handle_stop_run [OF ip'] intro!: settle)
  qed (simp_all add: handle_action_run handle_rework_evolves [OF ip'] park_run [OF ip'] handle_execute_run [OF ip']
      handle_release_run [OF ip'] handle_phase_round_run [OF ip'] handle_merge_run [OF ip' merge]
      settle moved Let_def del: first_some.simps split: option.split merge_decision_kind.split)
  with evolves_charged show ?thesis by (rule evolves_trans)
qed

lemma apply_result_evolves: "evolves r (snd (apply_result clk result history now ctx ds r))"
proof (cases "result_accepted r result")
  case True
  from apply_result_enters [OF True, of clk history now ctx ds] obtain i r1
    where e: "entered r r1 i result"
      and eq: "apply_result clk result history now ctx ds r = handle_action clk i result history now ctx ds r1"
    by blast
  from e have "evolves r r1" "in_progress r1 i" "cr_route r1 = cr_route r" by (simp_all add: entered_def)
  with handle_action_evolves [OF True this(2,3), of clk history now ctx ds] eq show ?thesis
    by (simp add: evolves_trans)
next
  case False
  from apply_result_refuses [OF False, of clk history now ctx ds] show ?thesis by auto
qed

section \<open>Whole histories of a run\<close>

text \<open>The runs reachable from a run by applying results in any order, refused ones included.\<close>

inductive flow_reaches :: "change_run \<Rightarrow> change_run \<Rightarrow> bool" where
  reach_refl: "flow_reaches r r"
| reach_step: "flow_reaches r r1 \<Longrightarrow> snd (apply_result clk result history now ctx ds r1) = r2 \<Longrightarrow> flow_reaches r r2"

lemma flow_reaches_evolves: "flow_reaches r r' \<Longrightarrow> evolves r r'"
proof (induction rule: flow_reaches.induct)
  case (reach_refl r)
  then show ?case by simp
next
  case (reach_step r r1 clk result history now ctx ds r2)
  then show ?case using apply_result_evolves evolves_trans by blast
qed

lemma reach_one: "flow_reaches r (snd (apply_result clk result history now ctx ds r))"
  using reach_step [OF reach_refl refl] .

lemma terminal_status_stuck:
  "run_terminal s \<Longrightarrow> (s, t) \<in> (table_edges run_status_transitions)\<^sup>* \<Longrightarrow> t = s"
  by (erule converse_rtranclE) (auto simp: table_edges_def dest: terminal_run_no_edge)

text \<open>
  C5: whatever results are applied, and in whatever order, a run keeps its identity, route, provider
  and contract, its status and the status of each of its stage runs only move along their transition
  tables, its revision never decreases, no stage run is ever removed or relabelled, and its attempt
  numbers never go back.
\<close>

theorem run_history_follows_tables:
  assumes "flow_reaches r r'"
  shows "cr_id r' = cr_id r \<and> cr_route r' = cr_route r \<and> cr_provider r' = cr_provider r \<and>
    cr_implementation_contract r' = cr_implementation_contract r \<and>
    (cr_status r, cr_status r') \<in> (table_edges run_status_transitions)\<^sup>* \<and>
    cr_state_revision r \<le> cr_state_revision r' \<and>
    length (cr_stages r) \<le> length (cr_stages r') \<and>
    (\<forall>i<length (cr_stages r).
       sr_id (cr_stages r' ! i) = sr_id (cr_stages r ! i) \<and>
       sr_stage (cr_stages r' ! i) = sr_stage (cr_stages r ! i) \<and>
       (sr_status (cr_stages r ! i), sr_status (cr_stages r' ! i)) \<in> (table_edges stage_status_transitions)\<^sup>* \<and>
       sr_attempt_number (cr_stages r ! i) \<le> sr_attempt_number (cr_stages r' ! i))"
  using flow_reaches_evolves [OF assms] by (auto simp: evolves_def stage_evolves_def)

theorem run_history_follows_tables_witness:
  "cr_state_revision (sample_run []) \<le>
     cr_state_revision (snd (apply_result 0 sample_plan [] 0 None [] (sample_run []))) \<and>
   length (cr_stages (snd (apply_result 0 sample_plan [] 0 None [] (sample_run [])))) = 2"
proof
  show "cr_state_revision (sample_run []) \<le>
     cr_state_revision (snd (apply_result 0 sample_plan [] 0 None [] (sample_run [])))"
    using run_history_follows_tables [OF reach_one] by blast
  show "length (cr_stages (snd (apply_result 0 sample_plan [] 0 None [] (sample_run [])))) = 2"
    by code_simp
qed

text \<open>
  A terminal run is final: once a run has succeeded, failed, or been cancelled or superseded, no
  sequence of results changes anything in it.
\<close>

theorem terminal_run_is_final:
  assumes "flow_reaches r r'" and "run_terminal (cr_status r)"
  shows "r' = r"
  using assms
proof (induction rule: flow_reaches.induct)
  case (reach_refl r)
  then show ?case by simp
next
  case (reach_step r r1 clk result history now ctx ds r2)
  then have "r1 = r" by simp
  with reach_step.prems have "\<not> result_accepted r1 result" by (simp add: result_accepted_def)
  from apply_result_refuses [OF this, of clk history now ctx ds] reach_step.hyps(2) \<open>r1 = r\<close>
  show ?case by auto
qed

theorem terminal_run_is_final_witness:
  "snd (apply_result 1 sample_plan [] 1 None []
      (snd (apply_result 0 sample_release [] 0 None [] (sample_run [])))) =
   snd (apply_result 0 sample_release [] 0 None [] (sample_run []))"
proof -
  have "run_terminal (cr_status (snd (apply_result 0 sample_release [] 0 None [] (sample_run []))))"
    by code_simp
  then show ?thesis by (rule terminal_run_is_final [OF reach_one])
qed

text \<open>
  C6: rework is bounded. Along any history the number of rework rounds spent never decreases and, for
  a run that starts within its limit, never exceeds the limit fixed when the run was created.
\<close>

theorem rework_rounds_bounded:
  assumes "flow_reaches r r'" and "bs_used_rework_rounds (cr_budget r) \<le> bs_max_rework_rounds (cr_budget r)"
  shows "bs_used_rework_rounds (cr_budget r) \<le> bs_used_rework_rounds (cr_budget r') \<and>
    bs_used_rework_rounds (cr_budget r') \<le> bs_max_rework_rounds (cr_budget r) \<and>
    bs_max_rework_rounds (cr_budget r') = bs_max_rework_rounds (cr_budget r)"
  using flow_reaches_evolves [OF assms(1)] assms(2) by (auto simp: evolves_def limits_kept_def)

theorem rework_rounds_bounded_witness:
  "bs_used_rework_rounds (cr_budget (snd (apply_result 0 sample_rework [] 0 None [] (sample_run [])))) = 1 \<and>
   bs_used_rework_rounds (cr_budget (snd (apply_result 0 sample_rework [] 0 None [] (sample_run [])))) \<le> 3"
proof
  show "bs_used_rework_rounds (cr_budget (snd (apply_result 0 sample_rework [] 0 None [] (sample_run [])))) = 1"
    by code_simp
  show "bs_used_rework_rounds (cr_budget (snd (apply_result 0 sample_rework [] 0 None [] (sample_run [])))) \<le> 3"
    using rework_rounds_bounded [OF reach_one, of "sample_run []" 0 sample_rework "[]" 0 None "[]"]
    by (simp add: default_budget_def)
qed

section \<open>Stage run identifiers\<close>

lemma canonical_ids_nth:
  "i < length sts \<Longrightarrow> canonical_ids rid sts ! i = rid @ CHR '':'' # stage_value (sts ! i) @ CHR '':'' #
     show_nat (length (filter (\<lambda>s. s = sts ! i) (take i sts)) + 1)"
  by (simp add: canonical_ids_def)

lemma occurrence_less:
  assumes "i < j" "j < length sts" "sts ! i = sts ! j"
  shows "length (filter (\<lambda>s. s = sts ! i) (take i sts)) < length (filter (\<lambda>s. s = sts ! j) (take j sts))"
proof -
  obtain rest where "take j sts = take i sts @ sts ! i # rest"
    using assms id_take_nth_drop [of i "take j sts"] by (simp add: min_def)
  then have "filter (\<lambda>s. s = sts ! j) (take j sts) = filter (\<lambda>s. s = sts ! j) (take i sts) @
      sts ! j # filter (\<lambda>s. s = sts ! j) rest"
    by (simp add: assms(3))
  then show ?thesis by (simp add: assms(3))
qed

lemma distinct_canonical_ids: "distinct (canonical_ids rid sts)"
  unfolding distinct_conv_nth
proof (intro allI impI)
  have len: "length (canonical_ids rid sts) = length sts" by (simp add: canonical_ids_def)
  have lt: "canonical_ids rid sts ! i \<noteq> canonical_ids rid sts ! j" if "i < j" "j < length sts" for i j
    using that occurrence_less [OF that]
    by (auto simp: canonical_ids_nth stage_value_show_nat_inj)
  fix i j
  assume "i < length (canonical_ids rid sts)" "j < length (canonical_ids rid sts)" "i \<noteq> j"
  then show "canonical_ids rid sts ! i \<noteq> canonical_ids rid sts ! j"
    using lt [of i j] lt [of j i] len by (cases "i < j") (auto simp: nat_neq_iff)
qed

text \<open>
  The identifiers of a run's stage runs are unique. In every run reached from one without stage
  runs, the identifier of a stage run is the run's identifier, the stage and the number of that
  occurrence of the stage, and no two stage runs share one.
\<close>

theorem stage_run_ids_unique:
  assumes "flow_reaches r r'" and "cr_stages r = []"
  shows "map sr_id (cr_stages r') = canonical_ids (cr_id r) (map sr_stage (cr_stages r')) \<and>
    distinct (map sr_id (cr_stages r'))"
proof -
  from assms(2) have "ids_canonical r" by (simp add: ids_canonical_def canonical_ids_def)
  with flow_reaches_evolves [OF assms(1)] have "ids_canonical r'" "cr_id r' = cr_id r"
    by (simp_all add: evolves_def)
  then show ?thesis using distinct_canonical_ids by (simp add: ids_canonical_def)
qed

theorem stage_run_ids_unique_witness:
  "map sr_id (cr_stages (snd (apply_result 0 sample_plan [] 0 None [] (sample_run [])))) =
     [''r1:planning:1'', ''r1:construction:1''] \<and>
   distinct (map sr_id (cr_stages (snd (apply_result 0 sample_plan [] 0 None [] (sample_run [])))))"
proof
  show "map sr_id (cr_stages (snd (apply_result 0 sample_plan [] 0 None [] (sample_run [])))) =
     [''r1:planning:1'', ''r1:construction:1'']" by code_simp
  show "distinct (map sr_id (cr_stages (snd (apply_result 0 sample_plan [] 0 None [] (sample_run [])))))"
    using stage_run_ids_unique [OF reach_one sample_simps(2)] by blast
qed

end
