(* ===== verification/State.thy ===== *)
theory State
  imports Flow_Safety
begin

text \<open>
  The operational state store (\<open>orchestration/state/repositories.py\<close>, \<open>state/enums.py\<close>, the rows of
  \<open>state/models.py\<close>) and operation-level idempotency (\<open>orchestration/idempotency.py\<close>). A table is a
  map from its primary key to its row; \<open>INSERT ... ON CONFLICT DO NOTHING / DO UPDATE WHERE\<close> and
  \<open>UPDATE ... WHERE ... RETURNING\<close> are written out on that map. A row stores enumeration members
  directly; \<open>wire_enum\<close> makes the stored wire string equivalent. \<open>now\<close> is the value of \<open>utc_now()\<close>.

  The lemmas show that leases fence stale writers, that persisted statuses follow the run table, that
  creation is idempotent, and that an external effect is performed at most once under crashes.
\<close>

section \<open>Rows\<close>

datatype effect_status = Effect_PLANNED | Effect_IN_PROGRESS | Effect_SUCCEEDED | Effect_UNKNOWN

datatype delivery_status =
    Delivery_PENDING
  | Delivery_DELIVERED
  | Delivery_FAILED
  | Delivery_DEAD
  | Delivery_WAIVED

record execution_row =
  ex_id :: string
  ex_change_id :: string
  ex_route :: route
  ex_provider :: provider
  ex_status :: run_status
  ex_state_revision :: int
  ex_updated_at :: instant
  ex_finished_at :: "instant option"

record operation_row =
  og_id :: string
  og_execution_id :: string
  og_stage :: stage
  og_status :: stage_status
  og_input_revision :: string
  og_operation_key :: string
  og_state_revision :: int
  og_attempt_count :: int

record attempt_row =
  at_id :: string
  at_operation_key :: string
  at_stage_id :: string
  at_attempt_number :: int
  at_status :: stage_status

record lease_row =
  le_owner_id :: string
  le_fencing_token :: int
  le_acquired_at :: instant
  le_expires_at :: instant
  le_heartbeat_at :: instant

record effect_row =
  ef_key :: string
  ef_status :: effect_status
  ef_external_ref :: "string option"
  ef_created_at :: instant
  ef_updated_at :: instant

record state_store =
  ss_executions :: "string \<rightharpoonup> execution_row"
  ss_stages :: "string \<rightharpoonup> operation_row"
  ss_attempts :: "string \<rightharpoonup> attempt_row"
  ss_leases :: "string \<times> string \<rightharpoonup> lease_row"
  ss_effects :: "string \<rightharpoonup> effect_row"

definition empty_store :: state_store where
  "empty_store = \<lparr>ss_executions = Map.empty, ss_stages = Map.empty, ss_attempts = Map.empty,
     ss_leases = Map.empty, ss_effects = Map.empty\<rparr>"

datatype state_error =
    StateConflict string
  | StaleFencingToken string "int option" int
  | LeaseLost string string
  | IllegalRunStatus "run_status status_error"
  | IntegrityError

section \<open>Executions, operations and attempts (\<open>ExecutionRepository\<close>)\<close>

definition run_status_path :: "run_status \<Rightarrow> run_status \<Rightarrow> run_status status_error + run_status list" where
  "run_status_path current target =
     (if current = target then Inr []
      else if target \<in> run_status_transitions current then Inr [target]
      else if RunStatus_RUNNING \<in> run_status_transitions current \<and>
              target \<in> run_status_transitions RunStatus_RUNNING
      then Inr [RunStatus_RUNNING, target]
      else Inl (InvalidStatusTransition current target))"

definition create_execution ::
    "instant \<Rightarrow> string \<Rightarrow> string \<Rightarrow> route \<Rightarrow> provider \<Rightarrow> state_store \<Rightarrow> execution_row \<times> state_store" where
  "create_execution now execution_id change_id rt prov s =
     (case ss_executions s execution_id of
        Some row \<Rightarrow> (row, s)
      | None \<Rightarrow>
          let row = \<lparr>ex_id = execution_id, ex_change_id = change_id, ex_route = rt, ex_provider = prov,
                     ex_status = RunStatus_PENDING, ex_state_revision = 1, ex_updated_at = now,
                     ex_finished_at = None\<rparr>
          in (row, s\<lparr>ss_executions := (ss_executions s)(execution_id \<mapsto> row)\<rparr>))"

definition get_or_create_stage ::
    "string \<Rightarrow> stage \<Rightarrow> string \<Rightarrow> (state_store, state_error, operation_row) sem" where
  "get_or_create_stage execution_id st input_revision = (\<lambda>s.
     let key = operation_key execution_id st input_revision in
     case ss_stages s key of
       Some row \<Rightarrow> (Inr row, s)
     | None \<Rightarrow>
         if ss_executions s execution_id = None then (Inl IntegrityError, s)
         else
           let row = \<lparr>og_id = key, og_execution_id = execution_id, og_stage = st, og_status = StageStatus_PENDING,
                      og_input_revision = input_revision, og_operation_key = key, og_state_revision = 1,
                      og_attempt_count = 0\<rparr>
           in (Inr row, s\<lparr>ss_stages := (ss_stages s)(key \<mapsto> row)\<rparr>))"

definition append_attempt ::
    "operation_row \<Rightarrow> int \<Rightarrow> (state_store, state_error, attempt_row) sem" where
  "append_attempt row attempt_number = (\<lambda>s.
     let key = attempt_id (og_operation_key row) attempt_number;
         fresh = \<lparr>at_id = key, at_operation_key = og_operation_key row, at_stage_id = og_id row,
                  at_attempt_number = attempt_number, at_status = StageStatus_IN_PROGRESS\<rparr>;
         bumped = row\<lparr>og_attempt_count := max (og_attempt_count row) attempt_number\<rparr>
     in case ss_attempts s key of
          Some existing \<Rightarrow> (Inr existing, s\<lparr>ss_stages := (ss_stages s)(og_id row \<mapsto> bumped)\<rparr>)
        | None \<Rightarrow>
            if attempt_number < 1 \<or> ss_stages s (og_id row) = None then (Inl IntegrityError, s)
            else (Inr fresh, s\<lparr>ss_attempts := (ss_attempts s)(key \<mapsto> fresh),
                              ss_stages := (ss_stages s)(og_id row \<mapsto> bumped)\<rparr>))"

definition update_status ::
    "instant \<Rightarrow> string \<Rightarrow> run_status \<Rightarrow> int \<Rightarrow> int \<Rightarrow> (state_store, state_error, execution_row) sem" where
  "update_status now execution_id target expected_revision fencing_token = (\<lambda>s.
     case ss_executions s execution_id of
       None \<Rightarrow> (Inl (StateConflict execution_id), s)
     | Some row \<Rightarrow>
         let lease = ss_leases s (''execution'', execution_id) in
         if map_option le_fencing_token lease \<noteq> Some fencing_token
         then (Inl (StaleFencingToken execution_id (map_option le_fencing_token lease) fencing_token), s)
         else if ex_state_revision row \<noteq> expected_revision then (Inl (StateConflict execution_id), s)
         else case run_status_path (ex_status row) target of
           Inl e \<Rightarrow> (Inl (IllegalRunStatus e), s)
         | Inr _ \<Rightarrow>
             let row' = row\<lparr>ex_status := target, ex_state_revision := ex_state_revision row + 1,
                            ex_updated_at := now,
                            ex_finished_at := (if run_terminal target then Some now else ex_finished_at row)\<rparr>
             in (Inr row', s\<lparr>ss_executions := (ss_executions s)(execution_id \<mapsto> row')\<rparr>))"

section \<open>Leases (\<open>LeaseRepository\<close>)\<close>

definition acquire ::
    "instant \<Rightarrow> string \<Rightarrow> string \<Rightarrow> string \<Rightarrow> duration \<Rightarrow> (state_store, state_error, int) sem" where
  "acquire now resource_type resource_id owner_id ttl = (\<lambda>s.
     let lease = (\<lambda>token. \<lparr>le_owner_id = owner_id, le_fencing_token = token, le_acquired_at = now,
                           le_expires_at = now + ttl, le_heartbeat_at = now\<rparr>);
         store = (\<lambda>token. (Inr token,
                    s\<lparr>ss_leases := (ss_leases s)((resource_type, resource_id) \<mapsto> lease token)\<rparr>))
     in case ss_leases s (resource_type, resource_id) of
          None \<Rightarrow> store 1
        | Some l \<Rightarrow>
            if le_expires_at l \<le> now \<or> le_owner_id l = owner_id then store (le_fencing_token l + 1)
            else (Inl (LeaseLost resource_type resource_id), s))"

definition renew ::
    "instant \<Rightarrow> string \<Rightarrow> string \<Rightarrow> string \<Rightarrow> int \<Rightarrow> duration \<Rightarrow> (state_store, state_error, int) sem" where
  "renew now resource_type resource_id owner_id fencing_token ttl = (\<lambda>s.
     case ss_leases s (resource_type, resource_id) of
       Some l \<Rightarrow>
         if le_owner_id l = owner_id \<and> le_fencing_token l = fencing_token
         then (Inr fencing_token, s\<lparr>ss_leases := (ss_leases s)((resource_type, resource_id) \<mapsto>
                  l\<lparr>le_expires_at := now + ttl, le_heartbeat_at := now\<rparr>)\<rparr>)
         else (Inl (LeaseLost resource_type resource_id), s)
     | None \<Rightarrow> (Inl (LeaseLost resource_type resource_id), s))"

definition release ::
    "string \<Rightarrow> string \<Rightarrow> string \<Rightarrow> int \<Rightarrow> state_store \<Rightarrow> bool \<times> state_store" where
  "release resource_type resource_id owner_id fencing_token s =
     (case ss_leases s (resource_type, resource_id) of
        Some l \<Rightarrow>
          if le_owner_id l = owner_id \<and> le_fencing_token l = fencing_token
          then (True, s\<lparr>ss_leases := (ss_leases s)((resource_type, resource_id) := None)\<rparr>)
          else (False, s)
      | None \<Rightarrow> (False, s))"

section \<open>The effect ledger (\<open>EffectLedger\<close>, \<open>ensure_effect\<close>)\<close>

definition effect_plan :: "instant \<Rightarrow> string \<Rightarrow> state_store \<Rightarrow> effect_row \<times> state_store" where
  "effect_plan now key s =
     (case ss_effects s key of
        Some row \<Rightarrow> (row, s)
      | None \<Rightarrow>
          let row = \<lparr>ef_key = key, ef_status = Effect_PLANNED, ef_external_ref = None, ef_created_at = now,
                     ef_updated_at = now\<rparr>
          in (row, s\<lparr>ss_effects := (ss_effects s)(key \<mapsto> row)\<rparr>))"

definition effect_mark_in_progress :: "instant \<Rightarrow> effect_row \<Rightarrow> effect_row" where
  "effect_mark_in_progress now e = e\<lparr>ef_status := Effect_IN_PROGRESS, ef_updated_at := now\<rparr>"

definition effect_mark_unknown :: "instant \<Rightarrow> string option \<Rightarrow> effect_row \<Rightarrow> effect_row" where
  "effect_mark_unknown now ref e = e\<lparr>ef_status := Effect_UNKNOWN,
     ef_external_ref := (case ref of None \<Rightarrow> ef_external_ref e | Some x \<Rightarrow> Some x), ef_updated_at := now\<rparr>"

definition effect_succeed :: "instant \<Rightarrow> string \<Rightarrow> effect_row \<Rightarrow> effect_row" where
  "effect_succeed now ref e = e\<lparr>ef_status := Effect_SUCCEEDED, ef_external_ref := Some ref, ef_updated_at := now\<rparr>"

definition put_effect :: "effect_row \<Rightarrow> state_store \<Rightarrow> state_store" where
  "put_effect e s = s\<lparr>ss_effects := (ss_effects s)(ef_key e \<mapsto> e)\<rparr>"

text \<open>
  The external system is a parameter: its state \<open>w\<close>, the marker lookup, and the call, which returns the
  external reference and changes that state.
\<close>

definition ensure_effect ::
    "instant \<Rightarrow> ('w \<Rightarrow> string \<Rightarrow> string option) \<Rightarrow> ('w \<Rightarrow> string \<times> 'w) \<Rightarrow> string
      \<Rightarrow> state_store \<times> 'w \<Rightarrow> string \<times> state_store \<times> 'w" where
  "ensure_effect now lookup_external call key sw =
     (let (s, w) = sw; (entry, s1) = effect_plan now key s in
      if ef_status entry = Effect_SUCCEEDED \<and> ef_external_ref entry \<noteq> None
      then (the (ef_external_ref entry), s1, w)
      else case lookup_external w key of
        Some existing \<Rightarrow> (existing, put_effect (effect_succeed now existing entry) s1, w)
      | None \<Rightarrow>
          let (external_ref, w') = call w
          in (external_ref,
              put_effect (effect_succeed now external_ref (effect_mark_in_progress now entry)) s1, w'))"

section \<open>Operation-level idempotency (\<open>idempotency.py\<close>)\<close>

definition replayable_result_statuses :: "stage_status set" where
  "replayable_result_statuses = {StageStatus_SUCCEEDED, StageStatus_WAITING}"

definition stage_operation_key :: "stage_result \<Rightarrow> string option" where
  "stage_operation_key r =
     map_option (operation_key (res_run_id r) (res_stage r)) (res_input_revision r)"

text \<open>
  The evidence file is its text, \<open>None\<close> when absent or unreadable. \<open>parse\<close> and \<open>render\<close> stand for the
  JSON codec of the result model; \<open>parse\<close> yields \<open>None\<close> for a torn or invalid text.
\<close>

definition find_existing ::
    "(string \<Rightarrow> stage_result option) \<Rightarrow> string \<Rightarrow> string option \<Rightarrow> stage_result option" where
  "find_existing parse key file =
     (case Option.bind file parse of
        None \<Rightarrow> None
      | Some result \<Rightarrow> if stage_operation_key result \<noteq> Some key then None else Some result)"

datatype evidence_error = KeyMismatch string string

definition record_result ::
    "(stage_result \<Rightarrow> string) \<Rightarrow> string \<Rightarrow> stage_result \<Rightarrow> (string option, evidence_error, unit) sem" where
  "record_result render key result = (\<lambda>file.
     case stage_operation_key result of
       Some composed \<Rightarrow>
         if composed \<noteq> key then (Inl (KeyMismatch composed key), file) else (Inr (), Some (render result))
     | None \<Rightarrow> (Inr (), Some (render result)))"

section \<open>Persisted statuses\<close>





lemma update_status_Inr:
  assumes "update_status now eid t n k s = (Inr row, s')"
  shows "\<exists>old l. ss_executions s eid = Some old \<and> ss_leases s (''execution'', eid) = Some l \<and>
     le_fencing_token l = k \<and> ex_state_revision old = n \<and>
     (\<exists>p. run_status_path (ex_status old) t = Inr p) \<and>
     ss_executions s' eid = Some row \<and> ex_status row = t \<and> ex_state_revision row = n + 1 \<and>
     ss_leases s' = ss_leases s"
  using assms by (auto simp: update_status_def Let_def split: option.splits if_splits sum.splits)

text \<open>
  An execution is changed only under the current fencing token, at the expected revision and along
  the run table; the revision then grows by one, so a second writer that read the same revision is
  refused and leaves the store untouched: no update is lost.
\<close>

theorem update_status_guarded:
  assumes "update_status now eid t n k s = (Inr row, s')"
  shows "(\<exists>old. ss_executions s eid = Some old \<and> ex_state_revision old = n \<and>
            (ex_status old, t) \<in> (table_edges run_status_transitions)\<^sup>*) \<and>
    map_option le_fencing_token (ss_leases s (''execution'', eid)) = Some k \<and>
    ss_executions s' eid = Some row \<and> ex_status row = t \<and> ex_state_revision row = n + 1 \<and>
    (\<exists>e. update_status now' eid t' n k' s' = (Inl e, s'))"
proof -
  obtain old l where u: "ss_executions s eid = Some old" "ss_leases s (''execution'', eid) = Some l"
      "le_fencing_token l = k" "ex_state_revision old = n"
      "\<exists>p. run_status_path (ex_status old) t = Inr p"
      "ss_executions s' eid = Some row" "ex_status row = t" "ex_state_revision row = n + 1"
    using update_status_Inr [OF assms] by blast
  from u(5) obtain p where p: "run_status_path (ex_status old) t = Inr p" by blast
  have "(ex_status old, t) \<in> (table_edges run_status_transitions)\<^sup>*"
    using p by (auto simp: run_status_path_def table_edges_def split: if_splits
        intro: rtrancl_into_rtrancl [OF r_into_rtrancl])
  moreover have "\<exists>e. update_status now' eid t' n k' s' = (Inl e, s')"
    using u(6,8) by (auto simp: update_status_def Let_def)
  ultimately show ?thesis using u by auto
qed

section \<open>Leases\<close>

definition lease_token :: "state_store \<Rightarrow> string \<times> string \<Rightarrow> int" where
  "lease_token s res = (case ss_leases s res of None \<Rightarrow> 0 | Some l \<Rightarrow> le_fencing_token l)"

definition tokens_positive :: "state_store \<Rightarrow> bool" where
  "tokens_positive s \<longleftrightarrow> (\<forall>res l. ss_leases s res = Some l \<longrightarrow> 1 \<le> le_fencing_token l)"

lemma acquire_Inr:
  assumes "acquire now ty i ow ttl s = (Inr t, s')"
  shows "t = lease_token s (ty, i) + 1" "lease_token s' (ty, i) = t"
    "ss_executions s' = ss_executions s"
    "ss_leases s (ty, i) = None \<or> le_expires_at (the (ss_leases s (ty, i))) \<le> now \<or>
       le_owner_id (the (ss_leases s (ty, i))) = ow"
  using assms by (auto simp: acquire_def Let_def lease_token_def split: option.splits if_splits)

text \<open>Everything that can happen to the leases while one resource is not released.\<close>

inductive lease_steps :: "string \<times> string \<Rightarrow> state_store \<Rightarrow> state_store \<Rightarrow> bool" for res where
  ls_refl: "lease_steps res s s"
| ls_acquire: "lease_steps res s s1 \<Longrightarrow> snd (acquire now ty i ow ttl s1) = s2 \<Longrightarrow> lease_steps res s s2"
| ls_renew: "lease_steps res s s1 \<Longrightarrow> snd (renew now ty i ow k ttl s1) = s2 \<Longrightarrow> lease_steps res s s2"
| ls_release: "lease_steps res s s1 \<Longrightarrow> (ty, i) \<noteq> res \<Longrightarrow> snd (release ty i ow k s1) = s2 \<Longrightarrow>
     lease_steps res s s2"
| ls_status: "lease_steps res s s1 \<Longrightarrow> snd (update_status now eid t n k s1) = s2 \<Longrightarrow> lease_steps res s s2"

lemma tokens_positive_token: "tokens_positive s \<Longrightarrow> 0 \<le> lease_token s res"
  unfolding tokens_positive_def lease_token_def by (fastforce split: option.splits)

lemma acquire_step:
  assumes "tokens_positive s"
  shows "tokens_positive (snd (acquire now ty i ow ttl s)) \<and>
    lease_token s res \<le> lease_token (snd (acquire now ty i ow ttl s)) res"
  using assms by (auto simp: tokens_positive_def lease_token_def acquire_def Let_def split: option.splits)
    (fastforce)+

lemma renew_step:
  assumes "tokens_positive s"
  shows "tokens_positive (snd (renew now ty i ow k ttl s)) \<and>
    lease_token (snd (renew now ty i ow k ttl s)) res = lease_token s res"
  using assms by (auto simp: tokens_positive_def lease_token_def renew_def split: option.splits)

lemma release_step:
  assumes "tokens_positive s" and "(ty, i) \<noteq> res"
  shows "tokens_positive (snd (release ty i ow k s)) \<and> lease_token (snd (release ty i ow k s)) res = lease_token s res"
  using assms by (auto simp: tokens_positive_def lease_token_def release_def split: option.splits if_splits)

lemma status_leases: "ss_leases (snd (update_status now eid t n k s)) = ss_leases s"
  by (auto simp: update_status_def Let_def split: option.splits if_splits sum.splits)

lemma lease_steps_monotone:
  assumes "lease_steps res s s'" and "tokens_positive s"
  shows "tokens_positive s' \<and> lease_token s res \<le> lease_token s' res"
  using assms
proof (induction rule: lease_steps.induct)
  case (ls_refl s)
  then show ?case by simp
next
  case (ls_acquire s s1 now ty i ow ttl s2)
  then show ?case using acquire_step [of s1 now ty i ow ttl res] by auto
next
  case (ls_renew s s1 now ty i ow k ttl s2)
  then show ?case using renew_step [of s1 now ty i ow k ttl res] by auto
next
  case (ls_release s s1 ty i ow k s2)
  then show ?case using release_step [of s1 ty i res ow k] by auto
next
  case (ls_status s s1 now eid t n k s2)
  then show ?case using status_leases [of now eid t n k s1]
    by (auto simp: tokens_positive_def lease_token_def)
qed

text \<open>
  C21: fencing works while the lease is not released. Once a second acquisition of an execution's lease
  has succeeded, whoever holds an earlier token can no longer change the execution: every later
  \<open>update_status\<close> under it raises \<open>StaleFencingTokenError\<close> (or finds no execution) and leaves the
  store untouched, whatever acquisitions, renewals and status changes happen in between.
\<close>

theorem stale_holder_is_fenced:
  assumes "tokens_positive s0"
    and "acquire now1 ''execution'' eid owner1 ttl1 s0 = (Inr old_token, s1)"
    and "lease_steps (''execution'', eid) s1 s2"
    and "acquire now2 ''execution'' eid owner2 ttl2 s2 = (Inr new_token, s3)"
    and "lease_steps (''execution'', eid) s3 s4"
  shows "old_token < new_token \<and> (\<exists>e. update_status now eid t n old_token s4 = (Inl e, s4))"
proof -
  let ?res = "(''execution'', eid)"
  have p1: "tokens_positive s1" using acquire_step [OF assms(1)] assms(2) by (metis snd_conv)
  have p2: "tokens_positive s2" "lease_token s1 ?res \<le> lease_token s2 ?res"
    using lease_steps_monotone [OF assms(3) p1] by auto
  have p3: "tokens_positive s3" using acquire_step [OF p2(1)] assms(4) by (metis snd_conv)
  have "old_token < new_token" "new_token \<le> lease_token s4 ?res"
    using acquire_Inr [OF assms(2)] acquire_Inr [OF assms(4)] p2(2) lease_steps_monotone [OF assms(5) p3]
    by auto
  then have "map_option le_fencing_token (ss_leases s4 ?res) \<noteq> Some old_token"
    by (auto simp: lease_token_def split: option.splits)
  then have "\<exists>e. update_status now eid t n old_token s4 = (Inl e, s4)"
    by (auto simp: update_status_def Let_def split: option.split)
  with \<open>old_token < new_token\<close> show ?thesis by simp
qed

section \<open>A sample store\<close>

definition sample_store :: state_store where
  "sample_store = snd (create_execution 0 ''e1'' ''c1'' Route_QUICK Provider_GITHUB empty_store)"

definition store_after_first :: state_store where
  "store_after_first = snd (acquire 0 ''execution'' ''e1'' ''a'' 5 sample_store)"

definition store_after_steal :: state_store where
  "store_after_steal = snd (acquire 10 ''execution'' ''e1'' ''b'' 5 store_after_first)"

lemma sample_acquires:
  "acquire 0 ''execution'' ''e1'' ''a'' 5 sample_store = (Inr 1, store_after_first)"
  "acquire 10 ''execution'' ''e1'' ''b'' 5 store_after_first = (Inr 2, store_after_steal)"
proof -
  have "fst (acquire 0 ''execution'' ''e1'' ''a'' 5 sample_store) = Inr 1" by code_simp
  then show "acquire 0 ''execution'' ''e1'' ''a'' 5 sample_store = (Inr 1, store_after_first)"
    unfolding store_after_first_def by (rule outcome_returned)
  have "fst (acquire 10 ''execution'' ''e1'' ''b'' 5 store_after_first) = Inr 2" by code_simp
  then show "acquire 10 ''execution'' ''e1'' ''b'' 5 store_after_first = (Inr 2, store_after_steal)"
    unfolding store_after_steal_def by (rule outcome_returned)
qed

lemma sample_tokens_positive: "tokens_positive sample_store"
  by (simp add: tokens_positive_def sample_store_def create_execution_def empty_store_def Let_def)

theorem stale_holder_is_fenced_witness:
  "(1::int) < 2 \<and> (\<exists>e. update_status 11 ''e1'' RunStatus_RUNNING 1 1 store_after_steal = (Inl e, store_after_steal))"
  by (rule stale_holder_is_fenced [OF sample_tokens_positive sample_acquires(1) ls_refl sample_acquires(2) ls_refl])

theorem update_status_guarded_witness:
  "\<exists>row s'. update_status 11 ''e1'' RunStatus_RUNNING 1 2 store_after_steal = (Inr row, s') \<and>
     ex_status row = RunStatus_RUNNING \<and>
     (\<exists>e. update_status 12 ''e1'' RunStatus_FAILED 1 2 s' = (Inl e, s'))"
proof -
  let ?x = "update_status 11 ''e1'' RunStatus_RUNNING 1 2 store_after_steal"
  have "fst ?x = Inr (projr (fst ?x))" by code_simp
  note eq = outcome_returned [OF this]
  from update_status_guarded [OF eq, of 12 RunStatus_FAILED 2] eq show ?thesis by blast
qed

text \<open>
  The fence does not survive a release. A released lease row is deleted, so the next acquisition
  starts again at token 1: a holder whose expired lease was stolen (token 2) and then released can
  write again once a third owner has acquired the lease, although \<open>acquire\<close> documents that an older
  holder can never mutate state again.
\<close>

theorem released_lease_reuses_tokens:
  "fst (acquire 0 ''execution'' ''e1'' ''a'' 5 sample_store) = Inr 1 \<and>
   fst (acquire 10 ''execution'' ''e1'' ''b'' 5 store_after_first) = Inr 2 \<and>
   fst (release ''execution'' ''e1'' ''b'' 2 store_after_steal) = True \<and>
   fst (acquire 11 ''execution'' ''e1'' ''c'' 5
          (snd (release ''execution'' ''e1'' ''b'' 2 store_after_steal))) = Inr 1 \<and>
   isl (fst (update_status 12 ''e1'' RunStatus_RUNNING 1 1
          (snd (acquire 11 ''execution'' ''e1'' ''c'' 5
             (snd (release ''execution'' ''e1'' ''b'' 2 store_after_steal)))))) = False"
  by (intro conjI; code_simp)

section \<open>Effects happen at most once\<close>

text \<open>
  Attempts at one effect under crashes. A committed attempt keeps its ledger entry; a crash before the
  external call changes nothing; a crash after it loses the uncommitted ledger entry but not the
  external effect.
\<close>

inductive effect_attempts ::
    "('w \<Rightarrow> string \<Rightarrow> string option) \<Rightarrow> ('w \<Rightarrow> string \<times> 'w) \<Rightarrow> string
      \<Rightarrow> state_store \<times> 'w \<Rightarrow> state_store \<times> 'w \<Rightarrow> bool"
  for lookup call key where
  ea_none: "effect_attempts lookup call key sw sw"
| ea_committed: "effect_attempts lookup call key sw (s1, w1) \<Longrightarrow>
     ensure_effect now lookup call key (s1, w1) = (ref, s2, w2) \<Longrightarrow> effect_attempts lookup call key sw (s2, w2)"
| ea_crashed: "effect_attempts lookup call key sw (s1, w1) \<Longrightarrow>
     ensure_effect now lookup call key (s1, w1) = (ref, s2, w2) \<Longrightarrow> effect_attempts lookup call key sw (s1, w2)"

lemma ensure_effect_world:
  assumes "ensure_effect now lookup call key (s, w) = (ref, s', w')"
  shows "w' = w \<or> (lookup w key = None \<and> w' = snd (call w))"
  using assms
  by (auto simp: ensure_effect_def Let_def split: prod.splits if_splits option.splits)

lemma ensure_effect_recorded:
  assumes "ensure_effect now lookup call key (s, w) = (ref, s', w')" and "\<And>e. ss_effects s key = Some e \<Longrightarrow> ef_key e = key"
  shows "\<exists>e. ss_effects s' key = Some e \<and> ef_status e = Effect_SUCCEEDED \<and> ef_external_ref e = Some ref"
  using assms
  by (auto simp: ensure_effect_def effect_plan_def put_effect_def effect_succeed_def effect_mark_in_progress_def
      Let_def split: prod.splits if_splits option.splits)

lemma ensure_effect_replay:
  assumes "ss_effects s key = Some e" "ef_status e = Effect_SUCCEEDED" "ef_external_ref e = Some ref"
  shows "ensure_effect now lookup call key (s, w) = (ref, s, w)"
  using assms by (simp add: ensure_effect_def effect_plan_def)

text \<open>
  C23: an external effect is performed at most once. If the external system finds the effect by its
  marker after the call was made, then after any number of attempts, each of them committed or
  crashed before or after the external call, the external system is either untouched or in the state
  one single call leaves it in.
\<close>

theorem effect_performed_at_most_once:
  assumes "effect_attempts lookup call key (s0, w0) (s, w)"
    and marker: "lookup (snd (call w0)) key \<noteq> None"
  shows "w = w0 \<or> w = snd (call w0)"
proof -
  have "snd sw' = w0 \<or> snd sw' = snd (call w0)"
    if "effect_attempts lookup call key sw sw'" "snd sw = w0" for sw sw'
    using that
  proof (induction rule: effect_attempts.induct)
    case (ea_none sw)
    then show ?case by simp
  next
    case (ea_committed sw s1 w1 now ref s2 w2)
    then show ?case using ensure_effect_world [OF ea_committed.hyps(2)] marker by auto
  next
    case (ea_crashed sw s1 w1 now ref s2 w2)
    then show ?case using ensure_effect_world [OF ea_crashed.hyps(2)] marker by auto
  qed
  from this [OF assms(1)] show ?thesis by simp
qed

text \<open>The external system of the sample: the list of references created for each marker.\<close>

definition sample_lookup :: "(string \<times> string) list \<Rightarrow> string \<Rightarrow> string option" where
  "sample_lookup w key = map_of w key"

definition sample_call :: "(string \<times> string) list \<Rightarrow> string \<times> (string \<times> string) list" where
  "sample_call w = (''pr-7'', (''k'', ''pr-7'') # w)"

theorem effect_performed_at_most_once_witness:
  "let (r1, s1, w1) = ensure_effect 0 sample_lookup sample_call ''k'' (empty_store, []);
       (r2, s2, w2) = ensure_effect 1 sample_lookup sample_call ''k'' (empty_store, w1)
   in w2 = [(''k'', ''pr-7'')] \<and> (w2 = [] \<or> w2 = snd (sample_call []))"
proof -
  obtain r1 s1 w1 where e1: "ensure_effect 0 sample_lookup sample_call ''k'' (empty_store, []) = (r1, s1, w1)"
    by (metis prod.exhaust)
  obtain r2 s2 w2 where e2: "ensure_effect 1 sample_lookup sample_call ''k'' (empty_store, w1) = (r2, s2, w2)"
    by (metis prod.exhaust)
  have "effect_attempts sample_lookup sample_call ''k'' (empty_store, []) (s2, w2)"
    using ea_committed [OF ea_crashed [OF ea_none e1] e2] .
  from effect_performed_at_most_once [OF this] have "w2 = [] \<or> w2 = snd (sample_call [])"
    by (simp add: sample_lookup_def sample_call_def)
  moreover have w1: "w1 = [(''k'', ''pr-7'')]"
    using e1 by (auto simp: ensure_effect_def effect_plan_def empty_store_def sample_lookup_def sample_call_def Let_def)
  have "w2 = [(''k'', ''pr-7'')]"
    using e2 unfolding w1
    by (auto simp: ensure_effect_def effect_plan_def empty_store_def sample_lookup_def sample_call_def Let_def)
  ultimately show ?thesis by (simp add: e1 e2)
qed

section \<open>Idempotent creation and replay\<close>

text \<open>
  Creation is idempotent. Asking again for an execution, for the operation of a stage at an input
  revision or for an attempt returns the row stored by the first call and changes nothing, and the
  operation row's attempt counter is the largest attempt number appended.
\<close>

theorem creation_idempotent:
  "(case create_execution now eid cid rt prov s of (row, s') \<Rightarrow>
      create_execution now' eid cid' rt' prov' s' = (row, s')) \<and>
   (case get_or_create_stage eid st inp s of
      (Inr row, s') \<Rightarrow> get_or_create_stage eid st inp s' = (Inr row, s')
    | (Inl _, s') \<Rightarrow> s' = s) \<and>
   (case append_attempt row n s of
      (Inr a, s') \<Rightarrow> append_attempt row n s' = (Inr a, s') \<and>
        map_option og_attempt_count (ss_stages s' (og_id row)) = Some (max (og_attempt_count row) n)
    | (Inl _, s') \<Rightarrow> s' = s)"
  by (auto simp: create_execution_def get_or_create_stage_def append_attempt_def Let_def split: option.splits)

text \<open>
  A committed stage result is found again by its own operation and by no other. After
  \<open>record\<close> succeeds, \<open>find_existing\<close> returns exactly that result for the operation key recomposed from its run,
  stage and input revision, and nothing for any other key; a result recorded under a foreign key is
  refused and the previous evidence stays.
\<close>

theorem recorded_result_roundtrip:
  assumes codec: "parse (render result) = Some result"
  shows "(case record_result render key result file of
      (Inr _, file') \<Rightarrow> find_existing parse k file' =
         (if stage_operation_key result = Some k then Some result else None) \<and>
         (stage_operation_key result = None \<or> stage_operation_key result = Some key)
    | (Inl _, file') \<Rightarrow> file' = file \<and> stage_operation_key result \<notin> {None, Some key})"
  using codec by (auto simp: record_result_def find_existing_def split: option.splits)

theorem recorded_result_roundtrip_witness:
  "find_existing (\<lambda>_. Some sample_plan) ''r1:planning:abc''
     (snd (record_result (\<lambda>_. ''{}'') ''r1:planning:abc'' sample_plan None)) = Some sample_plan"
proof -
  have key: "stage_operation_key sample_plan = Some ''r1:planning:abc''" by code_simp
  have "case record_result (\<lambda>_. ''{}'') ''r1:planning:abc'' sample_plan None of
      (Inr _, file') \<Rightarrow> find_existing (\<lambda>_. Some sample_plan) ''r1:planning:abc'' file' =
         (if stage_operation_key sample_plan = Some ''r1:planning:abc'' then Some sample_plan else None) \<and>
         (stage_operation_key sample_plan = None \<or> stage_operation_key sample_plan = Some ''r1:planning:abc'')
    | (Inl _, file') \<Rightarrow> file' = None \<and> stage_operation_key sample_plan \<notin> {None, Some ''r1:planning:abc''}"
    by (rule recorded_result_roundtrip) simp
  with key show ?thesis by (auto simp: record_result_def)
qed

end
