(* ===== verification/Budget.thy ===== *)
theory Budget
  imports Flow_Safety "HOL-Library.Multiset"
begin

text \<open>
  The budget policy and coordinator (\<open>orchestration/budget/policy.py\<close>, \<open>budget/coordinator.py\<close>): limits
  of the run and of each role, reservations of agent calls and the ledger of settled usage. The
  coordinator's two dictionaries are association lists in insertion order. The lemmas show that an
  allowance only tightens, that reservations and settlements are idempotent and counted once, that a
  role has at most one open reservation, and how far a reservation can overshoot a limit.
\<close>

section \<open>Policy (\<open>budget/policy.py\<close>)\<close>

record budget_limits =
  bl_token_budget :: "int option"
  bl_cost_budget :: "decimal option"
  bl_deadline :: "instant option"

definition no_limits :: budget_limits where
  "no_limits = \<lparr>bl_token_budget = None, bl_cost_budget = None, bl_deadline = None\<rparr>"

definition configured :: "budget_limits \<Rightarrow> bool" where
  "configured l \<longleftrightarrow> bl_token_budget l \<noteq> None \<or> bl_cost_budget l \<noteq> None \<or> bl_deadline l \<noteq> None"

record role_allowance =
  ra_role :: role
  ra_limits :: budget_limits

record budget_policy =
  bp_run_limits :: budget_limits
  bp_role_allowances :: "role_allowance list"

datatype budget_policy_error = DuplicateAllowances "string list"

definition normalize_allowances :: "role_allowance list \<Rightarrow> budget_policy_error + role_allowance list" where
  "normalize_allowances value =
     (let duplicates = sort (map role_value (filter (\<lambda>r. count_list (map ra_role value) r > 1) role_members))
      in if duplicates \<noteq> [] then Inl (DuplicateAllowances duplicates)
         else Inr (sort_key (\<lambda>a. role_value (ra_role a)) value))"

definition mk_budget_policy ::
    "budget_limits \<Rightarrow> role_allowance list \<Rightarrow> budget_policy_error + budget_policy" where
  "mk_budget_policy limits allowances =
     (case normalize_allowances allowances of
        Inl e \<Rightarrow> Inl e
      | Inr as \<Rightarrow> Inr \<lparr>bp_run_limits = limits, bp_role_allowances = as\<rparr>)"

definition DEFAULT_BUDGET_POLICY :: budget_policy where
  "DEFAULT_BUDGET_POLICY = \<lparr>bp_run_limits = no_limits, bp_role_allowances = []\<rparr>"

definition tighter :: "'a::linorder option \<Rightarrow> 'a option \<Rightarrow> 'a option" where
  "tighter left right =
     (case left of None \<Rightarrow> right
      | Some l \<Rightarrow> (case right of None \<Rightarrow> Some l | Some r \<Rightarrow> if l < r then Some l else Some r))"

definition limits_for :: "budget_policy \<Rightarrow> role \<Rightarrow> budget_limits" where
  "limits_for policy role =
     (case find (\<lambda>a. ra_role a = role) (bp_role_allowances policy) of
        None \<Rightarrow> bp_run_limits policy
      | Some a \<Rightarrow>
          let run = bp_run_limits policy; own = ra_limits a
          in \<lparr>bl_token_budget = tighter (bl_token_budget run) (bl_token_budget own),
              bl_cost_budget = tighter (bl_cost_budget run) (bl_cost_budget own),
              bl_deadline = tighter (bl_deadline run) (bl_deadline own)\<rparr>)"

section \<open>The coordinator (\<open>budget/coordinator.py\<close>)\<close>

datatype budget_scope = Scope_RUN | Scope_ROLE

datatype budget_state = WITHIN_LIMITS | AWAITING_DECISION

datatype budget_reason = OfRun message | OfRole role message

record budget_violation =
  bv_scope :: budget_scope
  bv_role :: "role option"
  bv_rule :: limit_rule
  bv_reason :: budget_reason

record budget_check =
  bk_state :: budget_state
  bk_violations :: "budget_violation list"

record reservation =
  rv_reservation_id :: string
  rv_role :: role
  rv_estimated :: usage
  rv_opened_at :: instant
  rv_settled :: bool

record role_ledger =
  rl_usage :: usage
  rl_calls :: int

definition zero_usage :: usage where
  "zero_usage = \<lparr>u_prompt_tokens = 0, u_completion_tokens = 0, u_total_tokens = Some 0, u_cost = None\<rparr>"

definition tokens :: "usage \<Rightarrow> int" where
  "tokens u = (case u_total_tokens u of Some t \<Rightarrow> t | None \<Rightarrow> u_prompt_tokens u + u_completion_tokens u)"

definition cost :: "usage \<Rightarrow> decimal" where
  "cost u = (case u_cost u of Some c \<Rightarrow> c | None \<Rightarrow> 0)"

definition add_cost :: "decimal option \<Rightarrow> decimal option \<Rightarrow> decimal option" where
  "add_cost left right =
     (case left of None \<Rightarrow> right | Some l \<Rightarrow> (case right of None \<Rightarrow> Some l | Some r \<Rightarrow> Some (l + r)))"

definition add_usage :: "usage \<Rightarrow> usage \<Rightarrow> usage" where
  "add_usage left right =
     \<lparr>u_prompt_tokens = u_prompt_tokens left + u_prompt_tokens right,
      u_completion_tokens = u_completion_tokens left + u_completion_tokens right,
      u_total_tokens = Some (tokens left + tokens right),
      u_cost = add_cost (u_cost left) (u_cost right)\<rparr>"

record coordinator =
  co_policy :: budget_policy
  co_ledgers :: "(role \<times> role_ledger) list"
  co_reservations :: "(string \<times> reservation) list"

definition new_coordinator :: "budget_policy \<Rightarrow> coordinator" where
  "new_coordinator policy = \<lparr>co_policy = policy, co_ledgers = [], co_reservations = []\<rparr>"

definition reservation_id :: "role \<Rightarrow> string \<Rightarrow> string" where
  "reservation_id role key = ''rsv_'' @ role_value role @ ''_'' @ key"

definition known_roles :: "coordinator \<Rightarrow> role list" where
  "known_roles c = sort_key role_value (filter (\<lambda>r.
       r \<in> fst ` set (co_ledgers c) \<or> r \<in> (rv_role \<circ> snd) ` set (co_reservations c) \<or>
       r \<in> ra_role ` set (bp_role_allowances (co_policy c))) role_members)"

definition ledger_usage :: "coordinator \<Rightarrow> role \<Rightarrow> usage" where
  "ledger_usage c role =
     (case dict_get (co_ledgers c) role of Some l \<Rightarrow> rl_usage l | None \<Rightarrow> zero_usage)"

definition settled_usage :: "coordinator \<Rightarrow> role option \<Rightarrow> usage" where
  "settled_usage c role =
     (case role of
        Some r \<Rightarrow> ledger_usage c r
      | None \<Rightarrow> foldl (\<lambda>total known. add_usage total (ledger_usage c known)) zero_usage (known_roles c))"

definition reserved_usage :: "coordinator \<Rightarrow> role option \<Rightarrow> usage" where
  "reserved_usage c role =
     foldl (\<lambda>total r. if rv_settled r \<or> (role \<noteq> None \<and> Some (rv_role r) \<noteq> role) then total
                      else add_usage total (rv_estimated r))
       zero_usage (dict_values (co_reservations c))"

definition effective_usage :: "coordinator \<Rightarrow> role option \<Rightarrow> usage" where
  "effective_usage c role = add_usage (settled_usage c role) (reserved_usage c role)"

definition calls_for :: "coordinator \<Rightarrow> role \<Rightarrow> int" where
  "calls_for c role = (case dict_get (co_ledgers c) role of Some l \<Rightarrow> rl_calls l | None \<Rightarrow> 0)"

definition unsettled_reservation :: "coordinator \<Rightarrow> role \<Rightarrow> reservation option" where
  "unsettled_reservation c role =
     find (\<lambda>r. rv_role r = role \<and> \<not> rv_settled r) (dict_values (co_reservations c))"

definition scope_violations ::
    "budget_scope \<Rightarrow> role option \<Rightarrow> budget_limits \<Rightarrow> usage \<Rightarrow> instant \<Rightarrow> budget_violation list" where
  "scope_violations scope role limits u now =
     (let snapshot = default_budget\<lparr>bs_token_budget := bl_token_budget limits, bs_tokens_used := tokens u,
                        bs_cost_budget := bl_cost_budget limits, bs_cost_used := cost u,
                        bs_deadline := bl_deadline limits\<rparr>
      in map (\<lambda>v. \<lparr>bv_scope = scope, bv_role = role, bv_rule = lv_rule v,
                   bv_reason = (case role of None \<Rightarrow> OfRun (lv_reason v) | Some r \<Rightarrow> OfRole r (lv_reason v))\<rparr>)
             (continuation_violations snapshot now))"

definition run_scope :: "coordinator \<Rightarrow> instant \<Rightarrow> budget_violation list" where
  "run_scope c now = scope_violations Scope_RUN None (bp_run_limits (co_policy c)) (effective_usage c None) now"

definition role_scope :: "coordinator \<Rightarrow> role \<Rightarrow> instant \<Rightarrow> budget_violation list" where
  "role_scope c role now =
     scope_violations Scope_ROLE (Some role) (limits_for (co_policy c) role) (effective_usage c (Some role)) now"

definition budget_check_of :: "coordinator \<Rightarrow> role \<Rightarrow> instant \<Rightarrow> budget_check" where
  "budget_check_of c role now =
     (let violations = run_scope c now @ role_scope c role now
      in \<lparr>bk_state = (if violations \<noteq> [] then AWAITING_DECISION else WITHIN_LIMITS), bk_violations = violations\<rparr>)"

datatype budget_error =
    Exhausted budget_check
  | AlreadyReserved budget_check role string
  | UnknownSpend budget_check role
  | UnknownReservation string

definition reserve ::
    "role \<Rightarrow> string \<Rightarrow> usage \<Rightarrow> instant \<Rightarrow> (coordinator, budget_error, reservation) sem" where
  "reserve role key estimated now = (\<lambda>c.
     let rid = reservation_id role key in
     case dict_get (co_reservations c) rid of
       Some known \<Rightarrow> (Inr known, c)
     | None \<Rightarrow>
         let check = budget_check_of c role now in
         if bk_state check = AWAITING_DECISION then (Inl (Exhausted check), c)
         else case unsettled_reservation c role of
           Some r \<Rightarrow> (Inl (AlreadyReserved check role (rv_reservation_id r)), c)
         | None \<Rightarrow>
             if u_total_tokens estimated = None \<and> configured (limits_for (co_policy c) role)
             then (Inl (UnknownSpend check role), c)
             else
               let r = \<lparr>rv_reservation_id = rid, rv_role = role, rv_estimated = estimated, rv_opened_at = now,
                        rv_settled = False\<rparr>
               in (Inr r, c\<lparr>co_reservations := dict_set rid r (co_reservations c)\<rparr>))"

definition settle_reservation :: "string \<Rightarrow> usage option \<Rightarrow> (coordinator, budget_error, reservation) sem" where
  "settle_reservation rid u = (\<lambda>c.
     case dict_get (co_reservations c) rid of
       None \<Rightarrow> (Inl (UnknownReservation rid), c)
     | Some r \<Rightarrow>
         (case u of
            None \<Rightarrow> (Inr r, c)
          | Some used \<Rightarrow>
              if rv_settled r \<or> u_total_tokens used = None then (Inr r, c)
              else
                let old = (case dict_get (co_ledgers c) (rv_role r) of Some l \<Rightarrow> l
                           | None \<Rightarrow> \<lparr>rl_usage = zero_usage, rl_calls = 0\<rparr>);
                    ledger = \<lparr>rl_usage = add_usage (rl_usage old) used, rl_calls = rl_calls old + 1\<rparr>;
                    settled = r\<lparr>rv_settled := True\<rparr>
                in (Inr settled, c\<lparr>co_ledgers := dict_set (rv_role r) ledger (co_ledgers c),
                                   co_reservations := dict_set rid settled (co_reservations c)\<rparr>)))"

record budget_aggregate =
  ba_run :: usage
  ba_roles :: "role_usage list"
  ba_limits :: budget_limits
  ba_state :: budget_state

definition aggregate_state :: "coordinator \<Rightarrow> instant \<Rightarrow> budget_state" where
  "aggregate_state c now =
     (if run_scope c now \<noteq> [] then AWAITING_DECISION
      else if list_ex (\<lambda>r. role_scope c r now \<noteq> []) (known_roles c) then AWAITING_DECISION
      else WITHIN_LIMITS)"

definition aggregate :: "coordinator \<Rightarrow> instant \<Rightarrow> budget_aggregate" where
  "aggregate c now = \<lparr>ba_run = settled_usage c None,
     ba_roles = map (\<lambda>r. \<lparr>ru_role = r, ru_usage = settled_usage c (Some r), ru_calls = calls_for c r,
                          ru_reserved = reserved_usage c (Some r)\<rparr>) (known_roles c),
     ba_limits = bp_run_limits (co_policy c), ba_state = aggregate_state c now\<rparr>"

section \<open>Limits only tighten\<close>

definition at_most :: "'a::linorder option \<Rightarrow> 'a option \<Rightarrow> bool" where
  "at_most a b \<longleftrightarrow> (case b of None \<Rightarrow> True | Some y \<Rightarrow> (case a of None \<Rightarrow> False | Some x \<Rightarrow> x \<le> y))"

lemma tighter_at_most: "at_most (tighter a b) a" "at_most (tighter a b) b"
  by (auto simp: at_most_def tighter_def split: option.splits)

lemma at_most_refl [simp]: "at_most a a"
  by (simp add: at_most_def split: option.splits)

text \<open>
  An allowance can only tighten the run budget: in every dimension the effective limit of a role is
  set whenever the run's is, and is never above it (nor above the role's own allowance).
\<close>

theorem allowance_only_tightens:
  "at_most (bl_token_budget (limits_for p r)) (bl_token_budget (bp_run_limits p)) \<and>
   at_most (bl_cost_budget (limits_for p r)) (bl_cost_budget (bp_run_limits p)) \<and>
   at_most (bl_deadline (limits_for p r)) (bl_deadline (bp_run_limits p)) \<and>
   (case find (\<lambda>a. ra_role a = r) (bp_role_allowances p) of None \<Rightarrow> limits_for p r = bp_run_limits p
    | Some a \<Rightarrow> at_most (bl_token_budget (limits_for p r)) (bl_token_budget (ra_limits a)) \<and>
                at_most (bl_cost_budget (limits_for p r)) (bl_cost_budget (ra_limits a)) \<and>
                at_most (bl_deadline (limits_for p r)) (bl_deadline (ra_limits a)))"
  by (auto simp: limits_for_def Let_def tighter_at_most split: option.splits)

section \<open>Sums of usage\<close>

lemma tokens_add [simp]: "tokens (add_usage a b) = tokens a + tokens b"
  by (simp add: add_usage_def tokens_def)

lemma tokens_zero [simp]: "tokens zero_usage = 0"
  by (simp add: zero_usage_def tokens_def)

lemma tokens_foldl:
  "tokens (foldl (\<lambda>t k. add_usage t (f k)) z ks) = tokens z + sum_list (map (\<lambda>k. tokens (f k)) ks)"
  by (induction ks arbitrary: z) simp_all

lemma sum_list_sort_key: "sum_list (map f (sort_key k xs)) = sum_list (map (f :: 'a \<Rightarrow> int) xs)"
  by (metis mset_map mset_sort sum_mset_sum_list)

lemma role_member [simp]: "r \<in> set role_members"
  by (cases r) (simp_all add: role_members_def)

lemma distinct_role_members [simp]: "distinct role_members"
  by (simp add: role_members_def)

lemma unknown_role_unspent:
  "r \<notin> set (known_roles c) \<Longrightarrow> tokens (ledger_usage c r) = 0"
  by (auto simp: known_roles_def ledger_usage_def image_iff dest!: map_of_SomeD split: option.split)

lemma tokens_settled_run:
  "tokens (settled_usage c None) = sum_list (map (\<lambda>r. tokens (ledger_usage c r)) role_members)"
proof -
  let ?P = "\<lambda>r. r \<in> set (known_roles c)" and ?f = "\<lambda>r. tokens (ledger_usage c r)"
  have known: "known_roles c = sort_key role_value (filter ?P role_members)"
    by (simp add: known_roles_def)
  have "tokens (settled_usage c None) = sum_list (map ?f (known_roles c))"
    by (simp add: settled_usage_def tokens_foldl)
  also have "\<dots> = sum_list (map ?f (filter ?P role_members))"
    by (subst known) (rule sum_list_sort_key)
  also have "\<dots> = sum_list (map (\<lambda>r. if ?P r then ?f r else 0) role_members)"
    by (rule sum_list_map_filter')
  also have "\<dots> = sum_list (map ?f role_members)"
    by (intro arg_cong [where f = sum_list] map_cong) (auto simp: unknown_role_unspent)
  finally show ?thesis .
qed

definition open_estimate :: "role option \<Rightarrow> reservation \<Rightarrow> int" where
  "open_estimate role r = (if rv_settled r \<or> (role \<noteq> None \<and> Some (rv_role r) \<noteq> role) then 0 else tokens (rv_estimated r))"

lemma tokens_reserved:
  "tokens (reserved_usage c role) = sum_list (map (open_estimate role) (dict_values (co_reservations c)))"
proof -
  have "tokens (foldl (\<lambda>total r. if rv_settled r \<or> (role \<noteq> None \<and> Some (rv_role r) \<noteq> role) then total
          else add_usage total (rv_estimated r)) z rs) = tokens z + sum_list (map (open_estimate role) rs)" for z rs
    by (induction rs arbitrary: z) (auto simp: open_estimate_def)
  then show ?thesis by (simp add: reserved_usage_def)
qed

lemma sum_list_one_changed:
  assumes "distinct xs" "x \<in> set xs" "\<And>y. y \<noteq> x \<Longrightarrow> g y = f y"
  shows "sum_list (map g xs) = sum_list (map f xs) + (g x - f x :: int)"
proof -
  have "sum_list (map g xs) = sum g (set xs)" "sum_list (map f xs) = sum f (set xs)"
    using assms(1) by (simp_all add: sum_list_distinct_conv_sum_set)
  moreover have "sum g (set xs) = g x + sum g (set xs - {x})" "sum f (set xs) = f x + sum f (set xs - {x})"
    using assms(2) by (simp_all add: sum.remove)
  moreover have "sum g (set xs - {x}) = sum f (set xs - {x})"
    using assms(3) by (intro sum.cong) auto
  ultimately show ?thesis by simp
qed

section \<open>Reservations\<close>

lemma tokens_effective:
  "tokens (effective_usage c role) = tokens (settled_usage c role) + tokens (reserved_usage c role)"
  by (simp add: effective_usage_def)

lemma scope_violations_tokens:
  "scope_violations scope role limits u now = [] \<Longrightarrow> bl_token_budget limits = Some b \<Longrightarrow> tokens u < b"
  by (auto simp: scope_violations_def continuation_violations_def token_budget_exhausted_def Let_def
      split: if_splits)

definition reserved_by :: "role \<Rightarrow> string \<Rightarrow> usage \<Rightarrow> instant \<Rightarrow> reservation" where
  "reserved_by role key est now = \<lparr>rv_reservation_id = reservation_id role key, rv_role = role, rv_estimated = est,
     rv_opened_at = now, rv_settled = False\<rparr>"

lemma reserve_new:
  assumes "reserve role key est now c = (Inr r, c')" "dict_get (co_reservations c) (reservation_id role key) = None"
  shows "r = reserved_by role key est now" "run_scope c now = []" "role_scope c role now = []"
    "unsettled_reservation c role = None"
    "u_total_tokens est \<noteq> None \<or> \<not> configured (limits_for (co_policy c) role)"
    "c' = c\<lparr>co_reservations := co_reservations c @ [(reservation_id role key, r)]\<rparr>"
proof -
  have "reservation_id role key \<notin> fst ` set (co_reservations c)"
    using assms(2) by (simp add: map_of_eq_None_iff)
  then have d: "dict_set (reservation_id role key) v (co_reservations c) =
      co_reservations c @ [(reservation_id role key, v)]" for v
    by (rule dict_set_new)
  show "r = reserved_by role key est now" "run_scope c now = []" "role_scope c role now = []"
    "unsettled_reservation c role = None"
    "u_total_tokens est \<noteq> None \<or> \<not> configured (limits_for (co_policy c) role)"
    "c' = c\<lparr>co_reservations := co_reservations c @ [(reservation_id role key, r)]\<rparr>"
    using assms by (auto simp: reserve_def budget_check_of_def reserved_by_def d Let_def
        split: option.splits if_splits)
qed

lemma settled_usage_reserve:
  "tokens (settled_usage (c\<lparr>co_reservations := rs\<rparr>) role) = tokens (settled_usage c role)"
  by (cases role) (simp_all add: tokens_settled_run settled_usage_def [of _ "Some _"] ledger_usage_def)

text \<open>
  A new reservation is granted only below the limits and is counted at once. When \<open>reserve\<close> issues
  a reservation, the spend of the run and of the role (settled plus reserved) was strictly below their
  token limits, the estimate is known whenever a limit is configured, and it is added to both; the
  counted spend therefore never exceeds a limit by more than one estimate.
\<close>

theorem reservation_granted_below_limits:
  assumes "reserve role key est now c = (Inr r, c')"
    and "dict_get (co_reservations c) (reservation_id role key) = None"
  shows "(case bl_token_budget (bp_run_limits (co_policy c)) of None \<Rightarrow> True
          | Some b \<Rightarrow> tokens (effective_usage c None) < b \<and> tokens (effective_usage c' None) < b + tokens est) \<and>
    (case bl_token_budget (limits_for (co_policy c) role) of None \<Rightarrow> True
     | Some b \<Rightarrow> tokens (effective_usage c (Some role)) < b \<and> tokens (effective_usage c' (Some role)) < b + tokens est) \<and>
    (u_total_tokens est \<noteq> None \<or> \<not> configured (limits_for (co_policy c) role)) \<and>
    tokens (effective_usage c' None) = tokens (effective_usage c None) + tokens est \<and>
    tokens (effective_usage c' (Some role)) = tokens (effective_usage c (Some role)) + tokens est"
proof -
  note n = reserve_new [OF assms]
  have c': "dict_values (co_reservations c') = dict_values (co_reservations c) @ [r]"
    by (simp add: n(6) dict_values_def)
  have "open_estimate None r = tokens est" "open_estimate (Some role) r = tokens est"
    by (simp_all add: n(1) open_estimate_def reserved_by_def)
  then have eff: "tokens (effective_usage c' None) = tokens (effective_usage c None) + tokens est"
      "tokens (effective_usage c' (Some role)) = tokens (effective_usage c (Some role)) + tokens est"
    unfolding tokens_effective tokens_reserved c' by (simp_all add: n(6) settled_usage_reserve)
  moreover have "tokens (effective_usage c None) < b" if "bl_token_budget (bp_run_limits (co_policy c)) = Some b" for b
    using n(2) that unfolding run_scope_def by (rule scope_violations_tokens)
  moreover have "tokens (effective_usage c (Some role)) < b" if "bl_token_budget (limits_for (co_policy c) role) = Some b" for b
    using n(3) that unfolding role_scope_def by (rule scope_violations_tokens)
  ultimately show ?thesis using n(5) by (auto split: option.split)
qed

section \<open>Settlement\<close>

definition settles :: "coordinator \<Rightarrow> string \<Rightarrow> usage option \<Rightarrow> bool" where
  "settles c rid u \<longleftrightarrow> (case (dict_get (co_reservations c) rid, u) of
     (Some r, Some used) \<Rightarrow> \<not> rv_settled r \<and> u_total_tokens used \<noteq> None | _ \<Rightarrow> False)"

lemma settle_no_effect: "\<not> settles c rid u \<Longrightarrow> snd (settle_reservation rid u c) = c"
  by (auto simp: settles_def settle_reservation_def split: option.splits)

lemma settle_effect:
  assumes "settles c rid (Some used)" and "dict_get (co_reservations c) rid = Some r"
  shows "fst (settle_reservation rid (Some used) c) = Inr (r\<lparr>rv_settled := True\<rparr>)"
    and "co_reservations (snd (settle_reservation rid (Some used) c)) =
      dict_set rid (r\<lparr>rv_settled := True\<rparr>) (co_reservations c)"
    and "co_policy (snd (settle_reservation rid (Some used) c)) = co_policy c"
    and "ledger_usage (snd (settle_reservation rid (Some used) c)) q =
      (if q = rv_role r then add_usage (ledger_usage c q) used else ledger_usage c q)"
    and "calls_for (snd (settle_reservation rid (Some used) c)) q =
      (if q = rv_role r then calls_for c q + 1 else calls_for c q)"
  using assms
  by (auto simp: settles_def settle_reservation_def Let_def ledger_usage_def calls_for_def split: option.splits)

lemma settle_total:
  assumes "settles c rid (Some used)"
  shows "tokens (settled_usage (snd (settle_reservation rid (Some used) c)) None) =
    tokens (settled_usage c None) + tokens used"
proof -
  from assms obtain r where r: "dict_get (co_reservations c) rid = Some r"
    by (auto simp: settles_def split: option.splits)
  note e = settle_effect(4) [OF assms r]
  have "sum_list (map (\<lambda>q. tokens (ledger_usage (snd (settle_reservation rid (Some used) c)) q)) role_members) =
      sum_list (map (\<lambda>q. tokens (ledger_usage c q)) role_members) +
      (tokens (ledger_usage (snd (settle_reservation rid (Some used) c)) (rv_role r)) - tokens (ledger_usage c (rv_role r)))"
    by (rule sum_list_one_changed) (simp_all add: e)
  then show ?thesis by (simp add: tokens_settled_run e)
qed

text \<open>
  A settlement is accounted exactly once. The run's settled tokens grow by the reported usage
  exactly when an open reservation is settled with a known total; an unknown usage, an unknown
  reservation and a repeated settlement leave the coordinator unchanged, and after a settlement every
  further one of the same reservation does.
\<close>

theorem settlement_counted_once:
  "tokens (settled_usage (snd (settle_reservation rid u c)) None) =
     tokens (settled_usage c None) + (if settles c rid u then tokens (the u) else 0) \<and>
   (settles c rid u \<or> snd (settle_reservation rid u c) = c) \<and>
   (if settles c rid u
    then snd (settle_reservation rid u' (snd (settle_reservation rid u c))) = snd (settle_reservation rid u c)
    else True)"
proof (cases "settles c rid u")
  case True
  then obtain used r where u: "u = Some used" "dict_get (co_reservations c) rid = Some r"
    by (auto simp: settles_def split: option.splits)
  have "\<not> settles (snd (settle_reservation rid u c)) rid u'"
    using settle_effect(2) [OF True [unfolded u(1)] u(2)] by (simp add: settles_def u(1) split: option.split)
  then show ?thesis using True settle_total [of c rid used] settle_no_effect u(1) by simp
next
  case False
  then show ?thesis by (simp add: settle_no_effect)
qed

section \<open>One open reservation per role\<close>

inductive coordinator_reaches :: "budget_policy \<Rightarrow> coordinator \<Rightarrow> bool" for policy where
  cr_new: "coordinator_reaches policy (new_coordinator policy)"
| cr_reserve: "coordinator_reaches policy c \<Longrightarrow> coordinator_reaches policy (snd (reserve role key est now c))"
| cr_settle: "coordinator_reaches policy c \<Longrightarrow> coordinator_reaches policy (snd (settle_reservation rid u c))"

definition one_open :: "coordinator \<Rightarrow> bool" where
  "one_open c \<longleftrightarrow> distinct (map fst (co_reservations c)) \<and>
     distinct (map rv_role (filter (\<lambda>r. \<not> rv_settled r) (dict_values (co_reservations c))))"

lemma reserve_cases:
  "snd (reserve role key est now c) = c \<or>
   (\<exists>r. reserve role key est now c = (Inr r, snd (reserve role key est now c)) \<and>
        dict_get (co_reservations c) (reservation_id role key) = None)"
  by (auto simp: reserve_def Let_def split: option.splits)

lemma one_open_reserve:
  assumes "one_open c" shows "one_open (snd (reserve role key est now c))"
proof (cases "snd (reserve role key est now c) = c")
  case True
  with assms show ?thesis by simp
next
  case False
  then obtain r where ok: "reserve role key est now c = (Inr r, snd (reserve role key est now c))"
      "dict_get (co_reservations c) (reservation_id role key) = None"
    using reserve_cases by metis
  note n = reserve_new [OF ok]
  have "rv_role r = role" "\<not> rv_settled r" by (simp_all add: n(1) reserved_by_def)
  moreover have "role \<notin> rv_role ` set (filter (\<lambda>r. \<not> rv_settled r) (dict_values (co_reservations c)))"
    using n(4) by (auto simp: unsettled_reservation_def find_None_iff)
  moreover have "reservation_id role key \<notin> set (map fst (co_reservations c))"
    using ok(2) by (simp add: map_of_eq_None_iff)
  ultimately show ?thesis using assms by (subst n(6)) (auto simp: one_open_def dict_values_def)
qed

lemma one_open_settle:
  assumes "one_open c" shows "one_open (snd (settle_reservation rid u c))"
proof (cases "settles c rid u")
  case True
  then obtain used r where u: "u = Some used" "dict_get (co_reservations c) rid = Some r"
    by (auto simp: settles_def split: option.splits)
  have d: "distinct (map fst (co_reservations c))" using assms by (simp add: one_open_def)
  from dict_set_old [OF d u(2)] obtain as bs where
    split: "co_reservations c = as @ (rid, r) # bs"
      "dict_set rid (r\<lparr>rv_settled := True\<rparr>) (co_reservations c) = as @ (rid, r\<lparr>rv_settled := True\<rparr>) # bs"
    by blast
  have "co_reservations (snd (settle_reservation rid u c)) = as @ (rid, r\<lparr>rv_settled := True\<rparr>) # bs"
    using settle_effect(2) [OF True [unfolded u(1)] u(2)] u(1) split(2) by simp
  moreover have "\<not> rv_settled r" using True u by (simp add: settles_def)
  ultimately show ?thesis using assms split(1) by (auto simp: one_open_def dict_values_def)
next
  case False
  with assms show ?thesis by (simp add: settle_no_effect)
qed

text \<open>
  C25: whatever calls are made, a role never has two open reservations: among the reservations not yet
  settled each role occurs at most once, so two agent calls of one role are never in flight together.
\<close>

theorem at_most_one_open_reservation_per_role:
  assumes "coordinator_reaches policy c"
  shows "distinct (map rv_role (filter (\<lambda>r. \<not> rv_settled r) (dict_values (co_reservations c))))"
proof -
  from assms have "one_open c"
  proof (induction rule: coordinator_reaches.induct)
    case cr_new
    then show ?case by (simp add: one_open_def new_coordinator_def dict_values_def)
  next
    case (cr_reserve c role key est now)
    then show ?case by (simp add: one_open_reserve)
  next
    case (cr_settle c rid u)
    then show ?case by (simp add: one_open_settle)
  qed
  then show ?thesis by (simp add: one_open_def)
qed

section \<open>Samples\<close>

definition sample_policy :: budget_policy where
  "sample_policy = \<lparr>bp_run_limits = no_limits\<lparr>bl_token_budget := Some 100\<rparr>,
     bp_role_allowances = [\<lparr>ra_role = Role_DEVELOP, ra_limits = no_limits\<lparr>bl_token_budget := Some 60\<rparr>\<rparr>]\<rparr>"

definition sample_estimate :: usage where
  "sample_estimate = zero_usage\<lparr>u_total_tokens := Some 40\<rparr>"

abbreviation sample_reserved :: coordinator where
  "sample_reserved \<equiv> snd (reserve Role_DEVELOP ''k1'' sample_estimate 0 (new_coordinator sample_policy))"

theorem reservation_granted_below_limits_witness:
  "\<exists>r c'. reserve Role_DEVELOP ''k1'' sample_estimate 0 (new_coordinator sample_policy) = (Inr r, c') \<and>
     tokens (effective_usage c' None) = tokens (effective_usage (new_coordinator sample_policy) None) + 40"
proof -
  let ?x = "reserve Role_DEVELOP ''k1'' sample_estimate 0 (new_coordinator sample_policy)"
  have "fst ?x = Inr (projr (fst ?x))" by code_simp
  note eq = outcome_returned [OF this]
  have "dict_get (co_reservations (new_coordinator sample_policy)) (reservation_id Role_DEVELOP ''k1'') = None"
    by (simp add: new_coordinator_def)
  from reservation_granted_below_limits [OF eq this]
  have "tokens (effective_usage (snd ?x) None) =
      tokens (effective_usage (new_coordinator sample_policy) None) + tokens sample_estimate" by blast
  moreover have "tokens sample_estimate = 40" by (simp add: sample_estimate_def tokens_def)
  ultimately show ?thesis using eq by metis
qed

theorem at_most_one_open_reservation_per_role_witness:
  "map rv_role (filter (\<lambda>r. \<not> rv_settled r) (dict_values (co_reservations sample_reserved))) = [Role_DEVELOP] \<and>
   distinct (map rv_role (filter (\<lambda>r. \<not> rv_settled r) (dict_values (co_reservations sample_reserved))))"
proof
  show "map rv_role (filter (\<lambda>r. \<not> rv_settled r) (dict_values (co_reservations sample_reserved))) = [Role_DEVELOP]"
    by code_simp
  show "distinct (map rv_role (filter (\<lambda>r. \<not> rv_settled r) (dict_values (co_reservations sample_reserved))))"
    by (rule at_most_one_open_reservation_per_role [OF cr_reserve [OF cr_new]])
qed

end
