(* ===== verification/TaskGraph.thy ===== *)
theory TaskGraph
  imports Prelude "HOL-Library.Multiset"
begin

text \<open>
  The stage-internal task graph (\<open>orchestration/taskgraph.py\<close>): declaring branches and the step that
  folds the join's emissions into the aggregate. The graph library runs the branches and hands the
  buffered emissions to that step in completion order, which is the step's argument here. The lemmas
  show that the aggregate depends on declaration order only and that a lost or foreign emission is
  never folded silently.
\<close>

definition MAX_BRANCHES :: nat where "MAX_BRANCHES = 2"

record 'call branch =
  br_name :: string
  br_call :: 'call

datatype taskgraph_error =
    TooManyBranches string "string list"
  | DuplicateBranchName string
  | NoBranches
  | LostBranchResults "nat list"

record 'out branch_emission =
  em_index :: nat
  em_output :: 'out

definition add_branch :: "'call branch \<Rightarrow> ('call branch list, taskgraph_error, unit) sem" where
  "add_branch b = (\<lambda>branches.
     if length branches \<ge> MAX_BRANCHES then (Inl (TooManyBranches (br_name b) (map br_name branches)), branches)
     else if list_ex (\<lambda>item. br_name item = br_name b) branches then (Inl (DuplicateBranchName (br_name b)), branches)
     else (Inr (), branches @ [b]))"

definition collect_emission :: "'out branch_emission list \<Rightarrow> 'out branch_emission \<Rightarrow> 'out branch_emission list" where
  "collect_emission current emission = current @ [emission]"

definition finalize ::
    "('agg \<Rightarrow> 'out \<Rightarrow> 'agg) \<Rightarrow> 'agg \<Rightarrow> nat \<Rightarrow> 'out branch_emission list \<Rightarrow> taskgraph_error + 'agg" where
  "finalize reducer initial n buffered =
     (let emissions = sort_key em_index buffered in
      if map em_index emissions \<noteq> [0..<n] then Inl (LostBranchResults (map em_index emissions))
      else Inr (foldl (\<lambda>agg e. reducer agg (em_output e)) initial emissions))"

text \<open>One run: every branch's output, tagged by its declaration index, arrives in some order.\<close>

definition run_graph ::
    "('agg \<Rightarrow> 'out \<Rightarrow> 'agg) \<Rightarrow> 'agg \<Rightarrow> 'call branch list \<Rightarrow> 'out branch_emission list \<Rightarrow> taskgraph_error + 'agg" where
  "run_graph reducer initial branches arrivals =
     (if branches = [] then Inl NoBranches
      else finalize reducer initial (length branches) (foldl collect_emission [] arrivals))"

definition emissions_of :: "'out list \<Rightarrow> 'out branch_emission list" where
  "emissions_of outs = map (\<lambda>i. \<lparr>em_index = i, em_output = outs ! i\<rparr>) [0..<length outs]"

section \<open>Determinism of the join\<close>

lemma collect_all: "foldl collect_emission acc arrivals = acc @ arrivals"
  by (induction arrivals arbitrary: acc) (simp_all add: collect_emission_def)

lemma emissions_of_simps:
  "map em_index (emissions_of outs) = [0..<length outs]" "map em_output (emissions_of outs) = outs"
  by (auto simp: emissions_of_def comp_def map_nth)

lemma sorted_distinct_key_unique:
  assumes "mset xs = mset ys" "distinct (map k ys)" "sorted (map (k :: _ \<Rightarrow> nat) ys)"
  shows "sort_key k xs = ys"
  using assms mset_eq_setD [OF assms(1)] by (intro sort_key_inj_key_eq) (simp_all add: distinct_map)

text \<open>
  The aggregate is a function of declaration order only. Whatever order the branches complete in,
  a run returns the reducer folded over the branch outputs in the order the branches were declared; and
  if the join hands over anything but exactly one emission per declared branch, the run fails instead of
  folding a partial or duplicated set.
\<close>

theorem join_is_deterministic:
  assumes "length outs = length branches" and "branches \<noteq> []"
  shows "(mset arrivals = mset (emissions_of outs) \<longrightarrow>
            run_graph reducer initial branches arrivals = Inr (foldl reducer initial outs)) \<and>
    (sort (map em_index arrivals) = [0..<length branches] \<or>
       (\<exists>is. run_graph reducer initial branches arrivals = Inl (LostBranchResults is)))"
proof
  have run: "run_graph reducer initial branches arrivals = finalize reducer initial (length branches) arrivals"
    using assms(2) by (simp add: run_graph_def collect_all)
  show "mset arrivals = mset (emissions_of outs) \<longrightarrow>
      run_graph reducer initial branches arrivals = Inr (foldl reducer initial outs)"
  proof
    assume "mset arrivals = mset (emissions_of outs)"
    then have s: "sort_key em_index arrivals = emissions_of outs"
      by (rule sorted_distinct_key_unique) (simp_all add: emissions_of_simps)
    have "foldl (\<lambda>agg e. reducer agg (em_output e)) initial (emissions_of outs) =
        foldl reducer initial (map em_output (emissions_of outs))"
      by (simp add: foldl_map)
    then show "run_graph reducer initial branches arrivals = Inr (foldl reducer initial outs)"
      using s assms(1) by (simp add: run finalize_def emissions_of_simps)
  qed
  have "map em_index (sort_key em_index arrivals) = sort (map em_index arrivals)"
    by (rule properties_for_sort [symmetric]) simp_all
  then show "sort (map em_index arrivals) = [0..<length branches] \<or>
      (\<exists>is. run_graph reducer initial branches arrivals = Inl (LostBranchResults is))"
    by (simp add: run finalize_def Let_def)
qed

theorem join_is_deterministic_witness:
  "run_graph (\<lambda>a x. a @ [x]) [] [\<lparr>br_name = ''a'', br_call = ()\<rparr>, \<lparr>br_name = ''b'', br_call = ()\<rparr>]
     [\<lparr>em_index = 1, em_output = CHR ''y''\<rparr>, \<lparr>em_index = 0, em_output = CHR ''x''\<rparr>] = Inr ''xy''"
  using join_is_deterministic [of "''xy''" "[\<lparr>br_name = ''a'', br_call = ()\<rparr>, \<lparr>br_name = ''b'', br_call = ()\<rparr>]"
      "[\<lparr>em_index = 1, em_output = CHR ''y''\<rparr>, \<lparr>em_index = 0, em_output = CHR ''x''\<rparr>]" "\<lambda>a x. a @ [x]" "[]"]
  by (simp add: emissions_of_def)

text \<open>At most two branches, with distinct names, are ever declared.\<close>

lemma add_branch_bounded:
  "length branches \<le> MAX_BRANCHES \<and> distinct (map br_name branches) \<Longrightarrow>
     length (snd (add_branch b branches)) \<le> MAX_BRANCHES \<and> distinct (map br_name (snd (add_branch b branches)))"
  by (auto simp: add_branch_def list_ex_iff)

end
