(* ===== verification/Reconcile.thy ===== *)
theory Reconcile
  imports State
begin

text \<open>
  The reconciler (\<open>orchestration/reconcile/\<close>): the anomaly table and the pass over the operational
  store. The workflow engine and the observer are parameters (\<open>None\<close> when not wired); a lookup of a run
  the engine does not know is \<open>None\<close>. A table is a map, so the key column the scans read is an argument:
  \<open>index\<close> holds the ids of the executions in id order and the ids of the attempts. \<open>now\<close> is the instant
  of the pass the rules compare with; the repositories read the real clock, \<open>clk\<close> for the global lease
  and \<open>clks run_id\<close> while a run is processed.

  The lemmas show what one pass may change, that it never overrides a live lease of someone else, that it
  never closes the canonical run of a change as a duplicate, and that it always returns.
\<close>

section \<open>Models (\<open>models.py\<close>, \<open>ports/reconciliation.py\<close>)\<close>

datatype anomaly_kind =
    REPEATED_ERROR
  | EXPIRED_LEASE
  | DUPLICATE_RUNS
  | MERGED_CR_WITHOUT_RUN
  | APPROVED_PASSED_WITHOUT_MERGE
  | BRANCH_BEHIND

datatype reconcile_action_kind =
    LEASE_TAKEOVER
  | SUPERSEDE
  | RECORD_MERGE
  | PLAN_MERGE
  | WAIT_FOR_HUMAN
  | UPDATE_BRANCH
  | ESCALATE

datatype reconcile_reason =
    RepeatedErrorOf "string option"
  | LeaseExpired string instant int
  | DuplicateOf string string
  | MergedWithoutRun "string option"
  | MergePlanned "string option"
  | MergePolicyBlocked "message option"
  | MergeWaits message
  | BranchIsBehind sha int sha

record reconcile_action =
  ra_kind :: reconcile_action_kind
  ra_anomaly :: anomaly_kind
  ra_run_id :: string
  ra_reason :: reconcile_reason
  ra_merged_sha :: "string option"
  ra_merge_method :: "string option"

datatype apply_note =
    SkippedLiveLease
  | LeaseTaken int
  | PlannedForExecutor reconcile_action_kind
  | TransitionNotAllowed run_status run_status
  | SkippedStateError state_error
  | StatusSet run_status int

record run_reconciliation =
  rn_run_id :: string
  rn_change_id :: string
  rn_desired_status :: run_status
  rn_desired_revision :: int
  rn_observed_status :: "run_status option"
  rn_in_sync :: "bool option"
  rn_action :: "reconcile_action option"
  rn_applied :: bool
  rn_note :: "apply_note option"

record reconcile_report =
  rr_lease_acquired :: bool
  rr_owner_id :: string
  rr_scanned :: nat
  rr_entries :: "run_reconciliation list"

record reconcile_desired =
  rcd_run_id :: string
  rcd_status :: run_status
  rcd_state_revision :: int

record reconcile_observed =
  rco_run_id :: string
  rco_status :: run_status

record reconcile_result =
  rcr_run_id :: string
  rcr_in_sync :: bool
  rcr_status :: run_status
  rcr_state_revision :: int

datatype reconcile_error = ScopeMismatch string string | OfState state_error

section \<open>The anomaly table (\<open>rules.py\<close>)\<close>

record lease_facts =
  lf_owner_id :: string
  lf_fencing_token :: int
  lf_expires_at :: instant

record change_request_facts =
  cf_status :: change_request_status
  cf_head_sha :: "sha option"
  cf_merged_sha :: "sha option"

record branch_facts =
  bf_head_sha :: sha
  bf_base_sha :: sha
  bf_behind_count :: int

record external_facts =
  xf_change_request :: "change_request_facts option"
  xf_branch :: "branch_facts option"
  xf_merge :: "merge_request_context option"

record run_facts =
  rf_run_id :: string
  rf_change_id :: string
  rf_desired_status :: run_status
  rf_desired_revision :: int
  rf_observed_status :: "run_status option"
  rf_lease :: "lease_facts option"
  rf_active_sibling_ids :: "string list"
  rf_change_request :: "change_request_facts option"
  rf_branch :: "branch_facts option"
  rf_merge :: "merge_request_context option"
  rf_repeated_error :: bool
  rf_repeated_error_stage :: "string option"

definition ACTIVE_RUN_STATUSES :: "run_status set" where
  "ACTIVE_RUN_STATUSES = {RunStatus_PENDING, RunStatus_RUNNING, RunStatus_WAITING, RunStatus_BLOCKED}"

definition WAITING_ON_WORK :: "run_status set" where
  "WAITING_ON_WORK = {RunStatus_RUNNING, RunStatus_WAITING}"

definition SKIPPED_RUN_STATUSES :: "run_status set" where
  "SKIPPED_RUN_STATUSES = {RunStatus_SUCCEEDED, RunStatus_SUPERSEDED}"

definition plain_action :: "reconcile_action_kind \<Rightarrow> anomaly_kind \<Rightarrow> run_facts \<Rightarrow> reconcile_reason \<Rightarrow> reconcile_action" where
  "plain_action kind anomaly facts why = \<lparr>ra_kind = kind, ra_anomaly = anomaly, ra_run_id = rf_run_id facts,
     ra_reason = why, ra_merged_sha = None, ra_merge_method = None\<rparr>"

definition detect_repeated_error :: "run_facts \<Rightarrow> instant \<Rightarrow> merge_policy \<Rightarrow> reconcile_action option" where
  "detect_repeated_error facts now policy =
     (if \<not> rf_repeated_error facts \<or> rf_desired_status facts \<notin> WAITING_ON_WORK then None
      else Some (plain_action ESCALATE REPEATED_ERROR facts (RepeatedErrorOf (rf_repeated_error_stage facts))))"

definition detect_expired_lease :: "run_facts \<Rightarrow> instant \<Rightarrow> merge_policy \<Rightarrow> reconcile_action option" where
  "detect_expired_lease facts now policy =
     (case rf_lease facts of
        None \<Rightarrow> None
      | Some lease \<Rightarrow>
          if lf_expires_at lease > now then None
          else Some (plain_action LEASE_TAKEOVER EXPIRED_LEASE facts
                 (LeaseExpired (lf_owner_id lease) (lf_expires_at lease) (lf_fencing_token lease))))"

definition detect_duplicate_runs :: "run_facts \<Rightarrow> instant \<Rightarrow> merge_policy \<Rightarrow> reconcile_action option" where
  "detect_duplicate_runs facts now policy =
     (if rf_desired_status facts \<notin> ACTIVE_RUN_STATUSES \<or> rf_active_sibling_ids facts = [] then None
      else
        let canonical = foldl min (rf_run_id facts) (rf_active_sibling_ids facts)
        in if rf_run_id facts = canonical then None
           else Some (plain_action SUPERSEDE DUPLICATE_RUNS facts (DuplicateOf (rf_change_id facts) canonical)))"

definition detect_merged_change_request :: "run_facts \<Rightarrow> instant \<Rightarrow> merge_policy \<Rightarrow> reconcile_action option" where
  "detect_merged_change_request facts now policy =
     (case rf_change_request facts of
        None \<Rightarrow> None
      | Some cr \<Rightarrow>
          if cf_status cr \<noteq> ChangeRequestStatus_MERGED then None
          else if rf_desired_status facts = RunStatus_SUCCEEDED then None
          else Some ((plain_action RECORD_MERGE MERGED_CR_WITHOUT_RUN facts (MergedWithoutRun (cf_merged_sha cr)))
                 \<lparr>ra_merged_sha := cf_merged_sha cr\<rparr>))"

definition detect_approved_passed :: "run_facts \<Rightarrow> instant \<Rightarrow> merge_policy \<Rightarrow> reconcile_action option" where
  "detect_approved_passed facts now policy =
     (case (rf_merge facts, rf_change_request facts) of
        (Some merge, Some cr) \<Rightarrow>
          if cf_status cr \<noteq> ChangeRequestStatus_OPEN then None
          else if rf_desired_status facts \<notin> WAITING_ON_WORK then None
          else
            let decision = evaluate_merge (merge\<lparr>mc_executor := ByTrustedFinalizer\<rparr>) policy
            in (case md_kind decision of
                  Finalizer_merge_allowed \<Rightarrow>
                    Some ((plain_action PLAN_MERGE APPROVED_PASSED_WITHOUT_MERGE facts
                            (MergePlanned (md_merge_method decision)))
                          \<lparr>ra_merge_method := md_merge_method decision\<rparr>)
                | Blocked \<Rightarrow>
                    Some (plain_action ESCALATE APPROVED_PASSED_WITHOUT_MERGE facts
                            (MergePolicyBlocked (md_reason decision)))
                | _ \<Rightarrow>
                    Some (plain_action WAIT_FOR_HUMAN APPROVED_PASSED_WITHOUT_MERGE facts
                            (MergeWaits (message_or (md_reason decision) HumanMergeRequired))))
      | _ \<Rightarrow> None)"

definition detect_branch_behind :: "run_facts \<Rightarrow> instant \<Rightarrow> merge_policy \<Rightarrow> reconcile_action option" where
  "detect_branch_behind facts now policy =
     (case rf_branch facts of
        None \<Rightarrow> None
      | Some b \<Rightarrow>
          if bf_behind_count b \<le> 0 then None
          else if rf_desired_status facts \<notin> WAITING_ON_WORK then None
          else Some (plain_action UPDATE_BRANCH BRANCH_BEHIND facts
                 (BranchIsBehind (bf_head_sha b) (bf_behind_count b) (bf_base_sha b))))"

definition ANOMALY_RULES ::
    "(anomaly_kind \<times> (run_facts \<Rightarrow> instant \<Rightarrow> merge_policy \<Rightarrow> reconcile_action option)) list" where
  "ANOMALY_RULES =
     [(REPEATED_ERROR, detect_repeated_error),
      (EXPIRED_LEASE, detect_expired_lease),
      (DUPLICATE_RUNS, detect_duplicate_runs),
      (MERGED_CR_WITHOUT_RUN, detect_merged_change_request),
      (APPROVED_PASSED_WITHOUT_MERGE, detect_approved_passed),
      (BRANCH_BEHIND, detect_branch_behind)]"

definition plan_action :: "run_facts \<Rightarrow> instant \<Rightarrow> merge_policy \<Rightarrow> reconcile_action option" where
  "plan_action facts now policy =
     (if rf_desired_status facts \<in> SKIPPED_RUN_STATUSES then None
      else first_some (map (\<lambda>(anomaly, detect). detect facts now policy) ANOMALY_RULES))"

definition resolve_drift :: "reconcile_desired \<Rightarrow> reconcile_observed \<Rightarrow> reconcile_error + reconcile_result" where
  "resolve_drift desired observed =
     (if rcd_run_id desired \<noteq> rco_run_id observed
      then Inl (ScopeMismatch (rcd_run_id desired) (rco_run_id observed))
      else Inr \<lparr>rcr_run_id = rcd_run_id desired, rcr_in_sync = (rcd_status desired = rco_status observed),
                rcr_status = rcd_status desired, rcr_state_revision = rcd_state_revision desired\<rparr>)"

section \<open>The pass (\<open>service.py\<close>)\<close>

definition GLOBAL_LEASE_TTL :: duration where "GLOBAL_LEASE_TTL = 5 * 60 * 1000000"

definition GLOBAL_LEASE_RESOURCE_TYPE :: string where "GLOBAL_LEASE_RESOURCE_TYPE = ''reconciler''"
definition GLOBAL_LEASE_RESOURCE_ID :: string where "GLOBAL_LEASE_RESOURCE_ID = ''global''"
definition EXECUTION_LEASE_RESOURCE_TYPE :: string where "EXECUTION_LEASE_RESOURCE_TYPE = ''execution''"

definition SCANNED_RUN_STATUSES :: "run_status set" where
  "SCANNED_RUN_STATUSES =
     {RunStatus_PENDING, RunStatus_RUNNING, RunStatus_WAITING, RunStatus_BLOCKED, RunStatus_FAILED}"

fun ACTION_TARGETS :: "reconcile_action_kind \<Rightarrow> run_status option" where
  "ACTION_TARGETS SUPERSEDE = Some RunStatus_SUPERSEDED"
| "ACTION_TARGETS RECORD_MERGE = Some RunStatus_SUCCEEDED"
| "ACTION_TARGETS ESCALATE = Some RunStatus_BLOCKED"
| "ACTION_TARGETS _ = None"

record table_index =
  ti_executions :: "string list"
  ti_attempts :: "string list"

record reconciler =
  rec_owner_id :: string
  rec_engine :: "(string \<Rightarrow> run_status option) option"
  rec_observer :: "(string \<Rightarrow> string \<Rightarrow> external_facts option) option"
  rec_lease_ttl :: duration
  rec_merge_policy :: merge_policy

definition observe_statuses ::
    "(string \<Rightarrow> run_status option) option \<Rightarrow> string list \<Rightarrow> string \<Rightarrow> run_status option" where
  "observe_statuses engine run_ids =
     (\<lambda>rid. case engine of None \<Rightarrow> None | Some get_status \<Rightarrow> if rid \<in> set run_ids then get_status rid else None)"

definition observe_external :: "reconciler \<Rightarrow> execution_row list \<Rightarrow> string \<Rightarrow> external_facts option" where
  "observe_external rec executions =
     (\<lambda>rid. case rec_observer rec of
        None \<Rightarrow> None
      | Some observe \<Rightarrow>
          Option.bind (find (\<lambda>row. ex_id row = rid) executions) (\<lambda>row. observe (ex_id row) (ex_change_id row)))"

definition repeated_error_of :: "table_index \<Rightarrow> state_store \<Rightarrow> string \<Rightarrow> bool \<times> string option" where
  "repeated_error_of index s execution_id =
     (let rows = filter (\<lambda>a. case ss_stages s (at_stage_id a) of
                       None \<Rightarrow> False | Some st \<Rightarrow> og_execution_id st = execution_id)
                   (List.map_filter (ss_attempts s) (ti_attempts index));
          failing = (\<lambda>stage_id.
            let attempts = rev (sort_key at_attempt_number (filter (\<lambda>a. at_stage_id a = stage_id) rows))
            in (case attempts of
                  a # b # _ \<Rightarrow> at_status a = StageStatus_FAILED \<and> at_status b = StageStatus_FAILED
                | _ \<Rightarrow> False))
      in (case find failing (sort (remdups (map at_stage_id rows))) of
            None \<Rightarrow> (False, None)
          | Some stage_id \<Rightarrow> (True, map_option (\<lambda>st. stage_value (og_stage st)) (ss_stages s stage_id))))"

definition active_ids_of_change :: "execution_row list \<Rightarrow> string \<Rightarrow> string list" where
  "active_ids_of_change executions change_id =
     map ex_id (filter (\<lambda>row. ex_status row \<in> ACTIVE_RUN_STATUSES \<and> ex_change_id row = change_id) executions)"

definition assemble_facts ::
    "table_index \<Rightarrow> state_store \<Rightarrow> execution_row \<Rightarrow> (string \<Rightarrow> run_status option) \<Rightarrow>
      (string \<Rightarrow> external_facts option) \<Rightarrow> (string \<Rightarrow> string list) \<Rightarrow> run_facts" where
  "assemble_facts index s execution observed external active_by_change =
     (let lease = map_option (\<lambda>l. \<lparr>lf_owner_id = le_owner_id l, lf_fencing_token = le_fencing_token l,
                                   lf_expires_at = le_expires_at l\<rparr>)
                    (ss_leases s (EXECUTION_LEASE_RESOURCE_TYPE, ex_id execution));
          repeated = repeated_error_of index s (ex_id execution);
          facts = (case external (ex_id execution) of
                     Some x \<Rightarrow> x
                   | None \<Rightarrow> \<lparr>xf_change_request = None, xf_branch = None, xf_merge = None\<rparr>)
      in \<lparr>rf_run_id = ex_id execution, rf_change_id = ex_change_id execution,
          rf_desired_status = ex_status execution, rf_desired_revision = ex_state_revision execution,
          rf_observed_status = observed (ex_id execution), rf_lease = lease,
          rf_active_sibling_ids =
            sort (filter (\<lambda>sibling. sibling \<noteq> ex_id execution) (active_by_change (ex_change_id execution))),
          rf_change_request = xf_change_request facts, rf_branch = xf_branch facts, rf_merge = xf_merge facts,
          rf_repeated_error = fst repeated, rf_repeated_error_stage = snd repeated\<rparr>)"

fun is_state_error :: "state_error \<Rightarrow> bool" where
  "is_state_error (StateConflict _) = True"
| "is_state_error (StaleFencingToken _ _ _) = True"
| "is_state_error (LeaseLost _ _) = True"
| "is_state_error _ = False"

definition apply_action ::
    "reconciler \<Rightarrow> instant \<Rightarrow> execution_row \<Rightarrow> reconcile_action
      \<Rightarrow> (state_store, reconcile_error, bool \<times> apply_note option) sem" where
  "apply_action rec clk execution action = (\<lambda>s.
     let take = acquire clk EXECUTION_LEASE_RESOURCE_TYPE (ex_id execution) (rec_owner_id rec) (rec_lease_ttl rec) s
     in if ra_kind action = LEASE_TAKEOVER then
          (case take of
             (Inl _, s') \<Rightarrow> (Inr (False, Some SkippedLiveLease), s')
           | (Inr token, s') \<Rightarrow> (Inr (True, Some (LeaseTaken token)), s'))
        else case ACTION_TARGETS (ra_kind action) of
          None \<Rightarrow> (Inr (False, Some (PlannedForExecutor (ra_kind action))), s)
        | Some target \<Rightarrow>
            if target \<notin> run_status_transitions (ex_status execution)
            then (Inr (False, Some (TransitionNotAllowed (ex_status execution) target)), s)
            else (case take of
              (Inl _, s') \<Rightarrow> (Inr (False, Some SkippedLiveLease), s')
            | (Inr token, s') \<Rightarrow>
                (case update_status clk (ex_id execution) target (ex_state_revision execution) token s' of
                   (Inl e, s'') \<Rightarrow>
                     if is_state_error e then (Inr (False, Some (SkippedStateError e)), s'')
                     else (Inl (OfState e), s'')
                 | (Inr _, s'') \<Rightarrow> (Inr (True, Some (StatusSet target token)), s''))))"

definition reconcile_one ::
    "reconciler \<Rightarrow> table_index \<Rightarrow> instant \<Rightarrow> (string \<Rightarrow> instant) \<Rightarrow> (string \<Rightarrow> run_status option) \<Rightarrow>
      (string \<Rightarrow> external_facts option) \<Rightarrow> (string \<Rightarrow> string list) \<Rightarrow> execution_row
      \<Rightarrow> (state_store, reconcile_error, run_reconciliation) sem" where
  "reconcile_one rec index now clks observed external active_by_change execution = (\<lambda>s.
     let facts = assemble_facts index s execution observed external active_by_change;
         action = plan_action facts now (rec_merge_policy rec)
     in sm_bind (case action of
                   None \<Rightarrow> sm_return (False, None)
                 | Some a \<Rightarrow> apply_action rec (clks (ex_id execution)) execution a) (\<lambda>(applied, note) s'.
        let entry = (\<lambda>in_sync. \<lparr>rn_run_id = ex_id execution, rn_change_id = ex_change_id execution,
              rn_desired_status = ex_status execution, rn_desired_revision = ex_state_revision execution,
              rn_observed_status = observed (ex_id execution), rn_in_sync = in_sync, rn_action = action,
              rn_applied = applied, rn_note = note\<rparr>)
        in (case observed (ex_id execution) of
              None \<Rightarrow> (Inr (entry None), s')
            | Some st \<Rightarrow>
                (case resolve_drift \<lparr>rcd_run_id = ex_id execution, rcd_status = ex_status execution,
                                     rcd_state_revision = ex_state_revision execution\<rparr>
                        \<lparr>rco_run_id = ex_id execution, rco_status = st\<rparr> of
                   Inl e \<Rightarrow> (Inl e, s')
                 | Inr drift \<Rightarrow> (Inr (entry (Some (rcr_in_sync drift))), s')))) s)"

fun reconcile_all ::
    "(execution_row \<Rightarrow> (state_store, reconcile_error, run_reconciliation) sem) \<Rightarrow> execution_row list
      \<Rightarrow> (state_store, reconcile_error, run_reconciliation list) sem" where
  "reconcile_all one [] = sm_return []"
| "reconcile_all one (execution # rest) =
     sm_bind (one execution) (\<lambda>entry.
     sm_bind (reconcile_all one rest) (\<lambda>entries. sm_return (entry # entries)))"

definition scanned_executions :: "table_index \<Rightarrow> state_store \<Rightarrow> execution_row list" where
  "scanned_executions index s =
     filter (\<lambda>row. ex_status row \<in> SCANNED_RUN_STATUSES) (List.map_filter (ss_executions s) (ti_executions index))"

definition run_scoped_pass ::
    "reconciler \<Rightarrow> table_index \<Rightarrow> instant \<Rightarrow> (string \<Rightarrow> instant) \<Rightarrow> int
      \<Rightarrow> (state_store, reconcile_error, reconcile_report) sem" where
  "run_scoped_pass rec index now clks global_token = (\<lambda>s.
     let executions = scanned_executions index s;
         observed = observe_statuses (rec_engine rec) (map ex_id executions);
         external = observe_external rec executions
     in sm_bind (reconcile_all
          (reconcile_one rec index now clks observed external (active_ids_of_change executions)) executions)
        (\<lambda>entries s'.
          (Inr \<lparr>rr_lease_acquired = True, rr_owner_id = rec_owner_id rec, rr_scanned = length entries,
                rr_entries = entries\<rparr>,
           snd (release GLOBAL_LEASE_RESOURCE_TYPE GLOBAL_LEASE_RESOURCE_ID (rec_owner_id rec) global_token s'))) s)"

text \<open>\<open>session_scope\<close> commits on return and rolls back on an exception.\<close>

definition reconcile_pass ::
    "reconciler \<Rightarrow> table_index \<Rightarrow> instant \<Rightarrow> instant \<Rightarrow> (string \<Rightarrow> instant)
      \<Rightarrow> (state_store, reconcile_error, reconcile_report) sem" where
  "reconcile_pass rec index now clk clks = (\<lambda>s.
     case acquire clk GLOBAL_LEASE_RESOURCE_TYPE GLOBAL_LEASE_RESOURCE_ID (rec_owner_id rec) (rec_lease_ttl rec) s of
       (Inl _, s') \<Rightarrow>
         (Inr \<lparr>rr_lease_acquired = False, rr_owner_id = rec_owner_id rec, rr_scanned = 0, rr_entries = []\<rparr>, s')
     | (Inr token, s') \<Rightarrow>
         (case run_scoped_pass rec index now clks token s' of
            (Inl e, _) \<Rightarrow> (Inl e, s)
          | (Inr report, s'') \<Rightarrow> (Inr report, s'')))"

section \<open>What one run may see changed\<close>

text \<open>
  Stores agree outside the execution \<open>eid\<close> and its lease; that execution keeps its row or moves to a
  status \<open>allowed\<close> for it; both stay when somebody else holds the lease and it is live.
\<close>

definition foreign_live :: "string \<Rightarrow> instant \<Rightarrow> lease_row option \<Rightarrow> bool" where
  "foreign_live owner clk lease =
     (case lease of None \<Rightarrow> False | Some l \<Rightarrow> le_owner_id l \<noteq> owner \<and> clk < le_expires_at l)"

definition run_kept :: "string \<Rightarrow> state_store \<Rightarrow> state_store \<Rightarrow> bool" where
  "run_kept eid s s' \<longleftrightarrow> ss_executions s' eid = ss_executions s eid \<and>
     ss_leases s' (''execution'', eid) = ss_leases s (''execution'', eid)"

definition run_moves_to :: "run_status set \<Rightarrow> string \<Rightarrow> state_store \<Rightarrow> state_store \<Rightarrow> bool" where
  "run_moves_to targets eid s s' \<longleftrightarrow>
     (\<exists>row row'. ss_executions s eid = Some row \<and> ss_executions s' eid = Some row' \<and>
        ex_status row' \<in> targets \<and> ex_state_revision row' = ex_state_revision row + 1 \<and>
        ex_id row' = ex_id row \<and> ex_change_id row' = ex_change_id row)"

definition run_recovers ::
    "string \<Rightarrow> instant \<Rightarrow> run_status set \<Rightarrow> string \<Rightarrow> state_store \<Rightarrow> state_store \<Rightarrow> bool" where
  "run_recovers owner clk targets eid s s' \<longleftrightarrow>
     (ss_executions s' eid = ss_executions s eid \<or> run_moves_to targets eid s s') \<and>
     (foreign_live owner clk (ss_leases s (''execution'', eid)) \<longrightarrow> run_kept eid s s')"

definition same_beside :: "string set \<Rightarrow> state_store \<Rightarrow> state_store \<Rightarrow> bool" where
  "same_beside eids s s' \<longleftrightarrow>
     (\<forall>eid. eid \<notin> eids \<longrightarrow> ss_executions s' eid = ss_executions s eid) \<and>
     (\<forall>res. res \<notin> Pair ''execution'' ` eids \<longrightarrow> ss_leases s' res = ss_leases s res) \<and>
     ss_stages s' = ss_stages s \<and> ss_attempts s' = ss_attempts s \<and> ss_effects s' = ss_effects s"

lemma same_beside_refl [simp]: "same_beside E s s"
  by (simp add: same_beside_def)

lemma same_beside_trans: "same_beside E s t \<Longrightarrow> same_beside F t u \<Longrightarrow> same_beside (E \<union> F) s u"
  by (auto simp: same_beside_def image_Un)

lemma same_beside_kept: "same_beside E s s' \<Longrightarrow> eid \<notin> E \<Longrightarrow> run_kept eid s s'"
  by (auto simp: same_beside_def run_kept_def)

lemma run_recovers_refl [simp]: "run_recovers owner clk T eid s s"
  by (simp add: run_recovers_def run_kept_def)

lemma run_recovers_kept:
  "run_recovers owner clk T eid s t \<Longrightarrow> run_kept eid t u \<Longrightarrow> run_recovers owner clk T eid s u"
  "run_kept eid s t \<Longrightarrow> run_recovers owner clk T eid t u \<Longrightarrow> run_recovers owner clk T eid s u"
  by (auto simp: run_recovers_def run_kept_def run_moves_to_def)

text \<open>
  The loop of the pass relies on this contract of its body: the body returns, touches only its own run,
  and does to it what is allowed.
\<close>

locale run_recovery =
  fixes one :: "execution_row \<Rightarrow> (state_store, reconcile_error, run_reconciliation) sem"
    and owner :: string
    and clks :: "string \<Rightarrow> instant"
    and targets :: "execution_row \<Rightarrow> run_status set"
  assumes one_recovers:
    "ss_executions s (ex_id row) = Some row \<Longrightarrow>
       \<exists>e s'. one row s = (Inr e, s') \<and> rn_run_id e = ex_id row \<and> same_beside {ex_id row} s s' \<and>
         run_recovers owner (clks (ex_id row)) (targets row) (ex_id row) s s'"
begin

lemma all_recover:
  assumes "distinct (map ex_id rows)" and "\<And>row. row \<in> set rows \<Longrightarrow> ss_executions s (ex_id row) = Some row"
  shows "\<exists>es s'. reconcile_all one rows s = (Inr es, s') \<and> map rn_run_id es = map ex_id rows \<and>
    same_beside (ex_id ` set rows) s s' \<and>
    (\<forall>row\<in>set rows. run_recovers owner (clks (ex_id row)) (targets row) (ex_id row) s s')"
  using assms
proof (induction rows arbitrary: s)
  case Nil
  then show ?case by (simp add: sm_return_def)
next
  case (Cons row rows)
  obtain e t where one: "one row s = (Inr e, t)" "rn_run_id e = ex_id row" "same_beside {ex_id row} s t"
      "run_recovers owner (clks (ex_id row)) (targets row) (ex_id row) s t"
    using one_recovers [of s row] Cons.prems(2) [of row] by auto
  have kept: "run_kept (ex_id r) s t" if "r \<in> set rows" for r
    using that Cons.prems(1) by (intro same_beside_kept [OF one(3)]) (auto simp: image_iff)
  then have "ss_executions t (ex_id r) = Some r" if "r \<in> set rows" for r
    using that Cons.prems(2) [of r] by (simp add: run_kept_def)
  then obtain es u where all: "reconcile_all one rows t = (Inr es, u)" "map rn_run_id es = map ex_id rows"
      "same_beside (ex_id ` set rows) t u"
      "\<forall>r\<in>set rows. run_recovers owner (clks (ex_id r)) (targets r) (ex_id r) t u"
    using Cons.IH [of t] Cons.prems(1) by auto
  have "run_recovers owner (clks (ex_id row)) (targets row) (ex_id row) s u"
    using one(4) same_beside_kept [OF all(3), of "ex_id row"] Cons.prems(1) by (auto intro: run_recovers_kept)
  moreover have "\<forall>r\<in>set rows. run_recovers owner (clks (ex_id r)) (targets r) (ex_id r) s u"
    using all(4) kept run_recovers_kept(2) by blast
  moreover have "same_beside (ex_id ` set (row # rows)) s u"
    using same_beside_trans [OF one(3) all(3)] by simp
  ultimately show ?case using one all by (simp add: sm_bind_def sm_return_def)
qed

end

text \<open>The two guarded writes the pass uses, and the plan it acts on.\<close>

lemma acquire_cases:
  obtains (held) e where "acquire clk ty i ow ttl s = (Inl e, s)" "foreign_live ow clk (ss_leases s (ty, i))"
  | (taken) token l where "acquire clk ty i ow ttl s = (Inr token, s\<lparr>ss_leases := (ss_leases s)((ty, i) \<mapsto> l)\<rparr>)"
      "le_fencing_token l = token" "\<not> foreign_live ow clk (ss_leases s (ty, i))"
proof (cases "foreign_live ow clk (ss_leases s (ty, i))")
  case True
  then show ?thesis
    by (intro held [of "LeaseLost ty i"]) (auto simp: acquire_def foreign_live_def split: option.splits)
next
  case False
  let ?token = "case ss_leases s (ty, i) of None \<Rightarrow> 1 | Some l \<Rightarrow> le_fencing_token l + 1"
  let ?l = "\<lparr>le_owner_id = ow, le_fencing_token = ?token, le_acquired_at = clk, le_expires_at = clk + ttl,
      le_heartbeat_at = clk\<rparr>"
  have "acquire clk ty i ow ttl s = (Inr ?token, s\<lparr>ss_leases := (ss_leases s)((ty, i) \<mapsto> ?l)\<rparr>)"
    using False by (auto simp: acquire_def foreign_live_def split: option.split)
  then show ?thesis using False by (intro taken [of ?token ?l]) simp_all
qed

lemma update_status_fresh:
  assumes "ss_executions s eid = Some row" "ss_leases s (''execution'', eid) = Some l"
    "t \<in> run_status_transitions (ex_status row)"
  shows "\<exists>row'. update_status clk eid t (ex_state_revision row) (le_fencing_token l) s =
      (Inr row', s\<lparr>ss_executions := (ss_executions s)(eid \<mapsto> row')\<rparr>) \<and>
    ex_status row' = t \<and> ex_state_revision row' = ex_state_revision row + 1 \<and> ex_id row' = ex_id row \<and>
    ex_change_id row' = ex_change_id row"
proof -
  have "ex_status row \<noteq> t" using assms(3) by (cases "ex_status row") auto
  then have "run_status_path (ex_status row) t = Inr [t]" using assms(3) by (simp add: run_status_path_def)
  then show ?thesis using assms by (simp add: update_status_def Let_def)
qed

lemma apply_action_recovers:
  assumes "ss_executions s (ex_id row) = Some row"
  shows "\<exists>x s'. apply_action rec clk row a s = (Inr x, s') \<and> same_beside {ex_id row} s s' \<and>
    run_recovers (rec_owner_id rec) clk
      {t. ACTION_TARGETS (ra_kind a) = Some t \<and> t \<in> run_status_transitions (ex_status row)} (ex_id row) s s'"
    (is "\<exists>x s'. _ \<and> _ \<and> run_recovers _ _ ?T _ _ _")
proof (cases rule: acquire_cases [of clk EXECUTION_LEASE_RESOURCE_TYPE "ex_id row" "rec_owner_id rec"
    "rec_lease_ttl rec" s])
  case (held e)
  then show ?thesis by (auto simp: apply_action_def Let_def split: option.split)
next
  case (taken token l)
  let ?s = "s\<lparr>ss_leases := (ss_leases s)((''execution'', ex_id row) \<mapsto> l)\<rparr>"
  have take: "same_beside {ex_id row} s ?s" "run_recovers (rec_owner_id rec) clk ?T (ex_id row) s ?s"
    using taken by (auto simp: same_beside_def run_recovers_def EXECUTION_LEASE_RESOURCE_TYPE_def)
  show ?thesis
  proof (cases "ra_kind a = LEASE_TAKEOVER")
    case True
    then show ?thesis using taken take by (auto simp: apply_action_def Let_def EXECUTION_LEASE_RESOURCE_TYPE_def)
  next
    case kind: False
    show ?thesis
    proof (cases "\<exists>t. ACTION_TARGETS (ra_kind a) = Some t \<and> t \<in> run_status_transitions (ex_status row)")
      case False
      then show ?thesis using kind by (auto simp: apply_action_def Let_def split: option.split)
    next
      case True
      then obtain t where t: "ACTION_TARGETS (ra_kind a) = Some t" "t \<in> run_status_transitions (ex_status row)"
        by blast
      obtain row' where up: "update_status clk (ex_id row) t (ex_state_revision row) token ?s =
          (Inr row', ?s\<lparr>ss_executions := (ss_executions s)(ex_id row \<mapsto> row')\<rparr>)"
          "ex_status row' = t" "ex_state_revision row' = ex_state_revision row + 1" "ex_id row' = ex_id row"
          "ex_change_id row' = ex_change_id row"
        using update_status_fresh [of ?s "ex_id row" row l t clk] assms t(2) taken(2) by auto
      show ?thesis
        using assms kind taken t up
        by (auto simp: apply_action_def Let_def EXECUTION_LEASE_RESOURCE_TYPE_def same_beside_def
            run_recovers_def run_moves_to_def)
    qed
  qed
qed

lemma foldl_min_le: "foldl min x xs = (x :: 'a::linorder) \<or> foldl min x xs \<in> set xs \<and> foldl min x xs < x"
proof (induction xs arbitrary: x)
  case Nil
  then show ?case by simp
next
  case (Cons y ys)
  from Cons [of "min x y"] show ?case by (auto simp: min_def split: if_splits)
qed

lemmas detector_defs = detect_repeated_error_def detect_expired_lease_def detect_duplicate_runs_def
  detect_merged_change_request_def detect_approved_passed_def detect_branch_behind_def plain_action_def

lemma plan_action_cases:
  assumes "plan_action facts now policy = Some a"
  shows "\<exists>d\<in>snd ` set ANOMALY_RULES. d facts now policy = Some a"
  using assms by (auto simp: plan_action_def ANOMALY_RULES_def split: if_splits option.splits)

lemma detector_kinds:
  "detect_repeated_error f n p = Some a \<Longrightarrow> ra_kind a = ESCALATE"
  "detect_expired_lease f n p = Some a \<Longrightarrow> ra_kind a = LEASE_TAKEOVER"
  "detect_duplicate_runs f n p = Some a \<Longrightarrow> ra_kind a = SUPERSEDE"
  "detect_merged_change_request f n p = Some a \<Longrightarrow> ra_kind a = RECORD_MERGE"
  "detect_branch_behind f n p = Some a \<Longrightarrow> ra_kind a = UPDATE_BRANCH"
  by (auto simp: detector_defs Let_def split: if_splits option.splits)

lemma detect_approved_kind:
  assumes "detect_approved_passed f n p = Some a"
  shows "ra_kind a \<in> {PLAN_MERGE, ESCALATE, WAIT_FOR_HUMAN}"
proof -
  from assms obtain m c where "rf_merge f = Some m" "rf_change_request f = Some c"
    by (auto simp: detect_approved_passed_def split: option.splits)
  with assms show ?thesis
    by (auto simp: detect_approved_passed_def plain_action_def Let_def split: if_splits merge_decision_kind.splits)
qed

lemma plan_supersede:
  assumes "plan_action facts now policy = Some a" "ra_kind a = SUPERSEDE"
  shows "\<exists>sib\<in>set (rf_active_sibling_ids facts). sib < rf_run_id facts"
proof -
  from plan_action_cases [OF assms(1)] assms(2) have "detect_duplicate_runs facts now policy = Some a"
    by (auto simp: ANOMALY_RULES_def dest: detector_kinds detect_approved_kind)
  then show ?thesis
    using foldl_min_le [of "rf_run_id facts" "rf_active_sibling_ids facts"]
    by (auto simp: detect_duplicate_runs_def Let_def split: if_splits)
qed

text \<open>The statuses a pass may write: a recovery target along the table, a duplicate only with a smaller active run.\<close>

definition recovery_targets :: "execution_row list \<Rightarrow> execution_row \<Rightarrow> run_status set" where
  "recovery_targets executions row =
     {t \<in> run_status_transitions (ex_status row). t = RunStatus_BLOCKED \<or> t = RunStatus_SUCCEEDED \<or>
        t = RunStatus_SUPERSEDED \<and>
        (\<exists>sib\<in>set (active_ids_of_change executions (ex_change_id row)). sib < ex_id row)}"

lemma run_recovers_mono: "run_recovers ow clk T eid s s' \<Longrightarrow> T \<subseteq> U \<Longrightarrow> run_recovers ow clk U eid s s'"
  unfolding run_recovers_def run_moves_to_def by blast

lemma planned_targets:
  assumes "plan_action (assemble_facts index s row observed external (active_ids_of_change executions)) now policy = Some a"
  shows "{t. ACTION_TARGETS (ra_kind a) = Some t \<and> t \<in> run_status_transitions (ex_status row)}
    \<subseteq> recovery_targets executions row"
  using plan_supersede [OF assms]
  by (cases "ra_kind a") (auto simp: recovery_targets_def assemble_facts_def Let_def)

interpretation pass: run_recovery
  "reconcile_one rec index now clks observed external (active_ids_of_change executions)"
  "rec_owner_id rec" clks "recovery_targets executions"
  for rec index now clks observed external executions
proof
  fix s :: state_store and row
  assume row: "ss_executions s (ex_id row) = Some row"
  let ?a = "plan_action (assemble_facts index s row observed external (active_ids_of_change executions)) now
      (rec_merge_policy rec)"
  show "\<exists>e s'. reconcile_one rec index now clks observed external (active_ids_of_change executions) row s = (Inr e, s') \<and>
     rn_run_id e = ex_id row \<and> same_beside {ex_id row} s s' \<and>
     run_recovers (rec_owner_id rec) (clks (ex_id row)) (recovery_targets executions row) (ex_id row) s s'"
  proof (cases ?a)
    case None
    then show ?thesis
      by (auto simp: reconcile_one_def Let_def sm_bind_def sm_return_def resolve_drift_def split: option.split)
  next
    case (Some a)
    obtain x s' where "apply_action rec (clks (ex_id row)) row a s = (Inr x, s')" "same_beside {ex_id row} s s'"
        "run_recovers (rec_owner_id rec) (clks (ex_id row)) (recovery_targets executions row) (ex_id row) s s'"
      using apply_action_recovers [OF row] run_recovers_mono [OF _ planned_targets [OF Some]] by blast
    with Some show ?thesis
      by (auto simp: reconcile_one_def Let_def sm_bind_def resolve_drift_def split: option.split prod.split)
  qed
qed

section \<open>What one pass may change\<close>

text \<open>Rows are stored under their own id, and the index lists each stored execution once.\<close>

definition indexed :: "table_index \<Rightarrow> state_store \<Rightarrow> bool" where
  "indexed index s \<longleftrightarrow> distinct (ti_executions index) \<and> set (ti_executions index) = dom (ss_executions s) \<and>
     (\<forall>eid row. ss_executions s eid = Some row \<longrightarrow> ex_id row = eid)"

lemma set_map_filter_iff: "y \<in> set (List.map_filter f xs) \<longleftrightarrow> (\<exists>x\<in>set xs. f x = Some y)"
  by (induction xs) (auto simp: List.map_filter_simps split: option.splits)

lemma set_scanned:
  assumes "indexed index s"
  shows "set (scanned_executions index s) =
    {row. ss_executions s (ex_id row) = Some row \<and> ex_status row \<in> SCANNED_RUN_STATUSES}"
  using assms by (auto simp: scanned_executions_def set_map_filter_iff indexed_def)

lemma distinct_map_filter_ids:
  assumes "distinct ids" "\<And>i row. i \<in> set ids \<Longrightarrow> f i = Some row \<Longrightarrow> g row = i"
  shows "distinct (map g (filter P (List.map_filter f ids)))"
  using assms
proof (induction ids)
  case (Cons i ids)
  then show ?case
    by (auto simp: List.map_filter_simps set_map_filter_iff split: option.splits) (metis list.set_intros)
qed (simp add: List.map_filter_simps)

lemma distinct_scanned: "indexed index s \<Longrightarrow> distinct (map ex_id (scanned_executions index s))"
  unfolding scanned_executions_def by (rule distinct_map_filter_ids) (auto simp: indexed_def)

definition global_lease :: "string \<times> string" where
  "global_lease = (GLOBAL_LEASE_RESOURCE_TYPE, GLOBAL_LEASE_RESOURCE_ID)"

lemma global_not_execution: "global_lease \<noteq> (''execution'', eid)"
  by (simp add: global_lease_def GLOBAL_LEASE_RESOURCE_TYPE_def)

lemma pass_result:
  assumes "indexed index s"
  obtains (held) report where "reconcile_pass rec index now clk clks s = (Inr report, s)"
      "\<not> rr_lease_acquired report" "foreign_live (rec_owner_id rec) clk (ss_leases s global_lease)"
  | (done_) report s' where "reconcile_pass rec index now clk clks s = (Inr report, s')"
      "rr_lease_acquired report" "\<not> foreign_live (rec_owner_id rec) clk (ss_leases s global_lease)"
      "map rn_run_id (rr_entries report) = map ex_id (scanned_executions index s)"
      "ss_stages s' = ss_stages s" "ss_attempts s' = ss_attempts s" "ss_effects s' = ss_effects s"
      "\<And>eid. eid \<notin> ex_id ` set (scanned_executions index s) \<Longrightarrow> run_kept eid s s'"
      "\<And>row. row \<in> set (scanned_executions index s) \<Longrightarrow> run_recovers (rec_owner_id rec) (clks (ex_id row))
         (recovery_targets (scanned_executions index s) row) (ex_id row) s s'"
proof (cases rule: acquire_cases [of clk GLOBAL_LEASE_RESOURCE_TYPE GLOBAL_LEASE_RESOURCE_ID "rec_owner_id rec"
    "rec_lease_ttl rec" s])
  case (held e)
  then show ?thesis using that(1) by (simp add: reconcile_pass_def global_lease_def)
next
  case (taken token l)
  let ?t = "s\<lparr>ss_leases := (ss_leases s)((GLOBAL_LEASE_RESOURCE_TYPE, GLOBAL_LEASE_RESOURCE_ID) \<mapsto> l)\<rparr>"
  let ?rows = "scanned_executions index s"
  have rows: "scanned_executions index ?t = ?rows" by (simp add: scanned_executions_def)
  have in_store: "ss_executions ?t (ex_id row) = Some row" if "row \<in> set ?rows" for row
    using that set_scanned [OF assms] by simp
  obtain es u where u: "reconcile_all (reconcile_one rec index now clks
        (observe_statuses (rec_engine rec) (map ex_id ?rows)) (observe_external rec ?rows)
        (active_ids_of_change ?rows)) ?rows ?t = (Inr es, u)" "map rn_run_id es = map ex_id ?rows"
      "same_beside (ex_id ` set ?rows) ?t u"
      "\<forall>row\<in>set ?rows. run_recovers (rec_owner_id rec) (clks (ex_id row)) (recovery_targets ?rows row) (ex_id row) ?t u"
    using pass.all_recover [OF distinct_scanned [OF assms] in_store] by blast
  let ?s' = "snd (release GLOBAL_LEASE_RESOURCE_TYPE GLOBAL_LEASE_RESOURCE_ID (rec_owner_id rec) token u)"
  have start: "run_kept eid s ?t" and finish: "run_kept eid u ?s'" for eid
    using global_not_execution [of eid]
    by (auto simp: run_kept_def release_def global_lease_def split: option.split)
  have rest: "ss_stages ?s' = ss_stages u" "ss_attempts ?s' = ss_attempts u" "ss_effects ?s' = ss_effects u"
    by (auto simp: release_def split: option.split)
  show ?thesis
  proof (rule that(2))
    show "reconcile_pass rec index now clk clks s = (Inr \<lparr>rr_lease_acquired = True, rr_owner_id = rec_owner_id rec,
        rr_scanned = length es, rr_entries = es\<rparr>, ?s')"
      using taken u(1) by (simp add: reconcile_pass_def run_scoped_pass_def rows sm_bind_def)
    show "run_kept eid s ?s'" if "eid \<notin> ex_id ` set ?rows" for eid
      using same_beside_kept [OF u(3) that] start [of eid] finish [of eid] by (simp add: run_kept_def)
    show "run_recovers (rec_owner_id rec) (clks (ex_id row)) (recovery_targets ?rows row) (ex_id row) s ?s'"
      if "row \<in> set ?rows" for row
      using u(4) that start finish run_recovers_kept by blast
  qed (use u taken rest in \<open>auto simp: same_beside_def global_lease_def\<close>)
qed


text \<open>
  C27: closing duplicates never closes the last active run of a change. If a change has an active run
  before the pass, then its active run with the smallest id, the canonical one, is not superseded.
\<close>

theorem canonical_run_survives:
  assumes "indexed index s" and "reconcile_pass rec index now clk clks s = (Inr report, s')"
    and "ss_executions s eid = Some row" and "ex_status row \<in> ACTIVE_RUN_STATUSES"
  shows "\<exists>canon before after. canon \<le> eid \<and> ss_executions s canon = Some before \<and>
    ex_change_id before = ex_change_id row \<and> ex_status before \<in> ACTIVE_RUN_STATUSES \<and>
    ss_executions s' canon = Some after \<and> ex_status after \<noteq> RunStatus_SUPERSEDED"
proof -
  let ?rows = "scanned_executions index s"
  let ?ids = "active_ids_of_change ?rows (ex_change_id row)"
  have mem: "i \<in> set ?ids \<longleftrightarrow> (\<exists>r. ss_executions s i = Some r \<and> ex_status r \<in> ACTIVE_RUN_STATUSES \<and>
      ex_change_id r = ex_change_id row)" for i
  proof -
    have "ex_id r = i" if "ss_executions s i = Some r" for r using that assms(1) by (simp add: indexed_def)
    moreover have "ACTIVE_RUN_STATUSES \<subseteq> SCANNED_RUN_STATUSES"
      by (auto simp: SCANNED_RUN_STATUSES_def ACTIVE_RUN_STATUSES_def)
    ultimately show ?thesis
      unfolding active_ids_of_change_def set_map set_filter set_scanned [OF assms(1)] by blast
  qed
  then have "eid \<in> set ?ids" using assms(3,4) by auto
  then have min: "Min (set ?ids) \<in> set ?ids" "Min (set ?ids) \<le> eid" by (auto intro: Min_in)
  then obtain c where c: "ss_executions s (Min (set ?ids)) = Some c" "ex_status c \<in> ACTIVE_RUN_STATUSES"
      "ex_change_id c = ex_change_id row"
    using mem by blast
  then have id: "ex_id c = Min (set ?ids)" using assms(1) by (auto simp: indexed_def)
  have "\<exists>c'. ss_executions s' (Min (set ?ids)) = Some c' \<and> ex_status c' \<noteq> RunStatus_SUPERSEDED"
    using assms(1)
  proof (cases rule: pass_result [where rec = rec and now = now and clk = clk and clks = clks])
    case (held r)
    then show ?thesis using assms(2) c by (auto simp: ACTIVE_RUN_STATUSES_def)
  next
    case (done_ r t)
    have "c \<in> set ?rows"
      using c id set_scanned [OF assms(1)] by (auto simp: SCANNED_RUN_STATUSES_def ACTIVE_RUN_STATUSES_def)
    moreover have "\<not> (\<exists>sib\<in>set ?ids. sib < ex_id c)"
      unfolding id by (meson List.finite_set Min_le not_le)
    ultimately show ?thesis
      using done_(1) done_(9) [of c] assms(2) c id
      by (auto simp: run_recovers_def run_moves_to_def recovery_targets_def ACTIVE_RUN_STATUSES_def)
  qed
  with min(2) c show ?thesis by blast
qed

section \<open>Sample passes\<close>

definition sample_execution :: "string \<Rightarrow> execution_row" where
  "sample_execution eid = \<lparr>ex_id = eid, ex_change_id = ''c1'', ex_route = Route_STANDARD, ex_provider = Provider_GITHUB,
     ex_status = RunStatus_RUNNING, ex_state_revision = 1, ex_updated_at = 0, ex_finished_at = None\<rparr>"

definition sample_lease :: "instant \<Rightarrow> lease_row" where
  "sample_lease expires = \<lparr>le_owner_id = ''worker'', le_fencing_token = 1, le_acquired_at = 0,
     le_expires_at = expires, le_heartbeat_at = 0\<rparr>"

definition sample_runs :: state_store where
  "sample_runs = empty_store\<lparr>ss_executions := [''r1'' \<mapsto> sample_execution ''r1'', ''r2'' \<mapsto> sample_execution ''r2''],
     ss_leases := [(''execution'', ''r2'') \<mapsto> sample_lease 5]\<rparr>"

definition sample_index :: table_index where
  "sample_index = \<lparr>ti_executions = [''r1'', ''r2''], ti_attempts = []\<rparr>"

definition sample_reconciler :: reconciler where
  "sample_reconciler = \<lparr>rec_owner_id = ''rec'', rec_engine = None, rec_observer = None,
     rec_lease_ttl = GLOBAL_LEASE_TTL, rec_merge_policy = DEFAULT_MERGE_POLICY\<rparr>"

definition sample_pass :: "state_store \<Rightarrow> (reconcile_error + reconcile_report) \<times> state_store" where
  "sample_pass = reconcile_pass sample_reconciler sample_index 10 10 (\<lambda>_. 10)"

lemma sample_indexed: "indexed sample_index sample_runs"
  by (auto simp: indexed_def sample_index_def sample_runs_def sample_execution_def split: if_splits)


theorem canonical_run_survives_witness:
  "\<exists>report s' canon before after. sample_pass sample_runs = (Inr report, s') \<and> canon \<le> ''r2'' \<and>
     ss_executions sample_runs canon = Some before \<and> ex_change_id before = ''c1'' \<and>
     ss_executions s' canon = Some after \<and> ex_status after \<noteq> RunStatus_SUPERSEDED"
proof -
  have "fst (sample_pass sample_runs) = Inr (projr (fst (sample_pass sample_runs)))" by code_simp
  note eq = outcome_returned [OF this]
  have row: "ss_executions sample_runs ''r2'' = Some (sample_execution ''r2'')"
    "ex_status (sample_execution ''r2'') \<in> ACTIVE_RUN_STATUSES" "ex_change_id (sample_execution ''r2'') = ''c1''"
    by (auto simp: sample_runs_def sample_execution_def ACTIVE_RUN_STATUSES_def)
  from canonical_run_survives [OF sample_indexed eq [unfolded sample_pass_def] row(1,2)] row(3) eq
  show ?thesis unfolding sample_pass_def by metis
qed

text \<open>
  A pass is not idempotent on the same observed data. The table handles one anomaly per run and
  pass: a duplicate run whose lease has expired is taken over by the first pass and superseded by the
  second one at the same instant with the same observations, and only the third changes no execution,
  although the pass is documented to change nothing when repeated.
\<close>

theorem repeated_pass_changes_state:
  "(let s1 = snd (sample_pass sample_runs); s2 = snd (sample_pass s1); s3 = snd (sample_pass s2)
    in map_option ex_status (ss_executions s1 ''r2'') = Some RunStatus_RUNNING \<and>
       map_option ex_status (ss_executions s2 ''r2'') = Some RunStatus_SUPERSEDED \<and>
       map (ss_executions s3) [''r1'', ''r2''] = map (ss_executions s2) [''r1'', ''r2''])"
  unfolding Let_def by (intro conjI; code_simp)

section \<open>Planned merges\<close>

text \<open>
  The reconciler plans a merge only where the merge policy would let the trusted finalizer merge: an
  open change request of a running or waiting run, expected and head SHA equal, the latest human
  decision for that SHA an approval, and the risk class listed for auto-merge. With the default policy,
  which lists none, it never plans one.
\<close>

theorem merge_planned_only_when_authorized:
  assumes "plan_action facts now policy = Some a" and "ra_kind a = PLAN_MERGE"
  shows "\<exists>ctx cr sha d. rf_merge facts = Some ctx \<and> rf_change_request facts = Some cr \<and>
    cf_status cr = ChangeRequestStatus_OPEN \<and> rf_desired_status facts \<in> {RunStatus_RUNNING, RunStatus_WAITING} \<and>
    mc_expected_sha ctx = Some sha \<and> mc_head_sha ctx = Some sha \<and>
    latest_human_decision ctx policy sha = Some d \<and> d_outcome d = DecisionOutcome_APPROVED \<and>
    mc_risk_class ctx \<in> mp_auto_merge_risk_classes policy \<and> policy \<noteq> DEFAULT_MERGE_POLICY"
proof -
  from plan_action_cases [OF assms(1)] assms(2) have d: "detect_approved_passed facts now policy = Some a"
    by (auto simp: ANOMALY_RULES_def dest: detector_kinds)
  then obtain ctx cr where c: "rf_merge facts = Some ctx" "rf_change_request facts = Some cr"
    by (auto simp: detect_approved_passed_def split: option.splits)
  let ?ctx = "ctx\<lparr>mc_executor := ByTrustedFinalizer\<rparr>"
  have r: "cf_status cr = ChangeRequestStatus_OPEN" "rf_desired_status facts \<in> WAITING_ON_WORK"
    "md_kind (evaluate_merge ?ctx policy) = Finalizer_merge_allowed"
    using d c assms(2)
    by (auto simp: detect_approved_passed_def plain_action_def Let_def split: if_splits merge_decision_kind.splits)
  from r(3) obtain sha dec where "mc_expected_sha ctx = Some sha" "mc_head_sha ctx = Some sha"
      "latest_human_decision ?ctx policy sha = Some dec" "d_outcome dec = DecisionOutcome_APPROVED"
      "mc_risk_class ctx \<in> mp_auto_merge_risk_classes policy"
    using evaluate_merge_authorizedD [of ?ctx policy] by (auto simp: merge_authorized_def)
  moreover have "policy \<noteq> DEFAULT_MERGE_POLICY"
    using r(3) default_policy_human_only [of ?ctx] by (auto simp: merge_authorized_def)
  ultimately show ?thesis using c r by (auto simp: WAITING_ON_WORK_def latest_human_decision_def)
qed

definition sample_facts :: run_facts where
  "sample_facts = \<lparr>rf_run_id = ''r1'', rf_change_id = ''c1'', rf_desired_status = RunStatus_WAITING,
     rf_desired_revision = 1, rf_observed_status = None, rf_lease = None, rf_active_sibling_ids = [],
     rf_change_request = Some \<lparr>cf_status = ChangeRequestStatus_OPEN, cf_head_sha = None, cf_merged_sha = None\<rparr>,
     rf_branch = None,
     rf_merge = Some (sample_context\<lparr>mc_gate_results := map sample_gate [Gate_REVIEW, Gate_VERIFICATION]\<rparr>), rf_repeated_error = False,
     rf_repeated_error_stage = None\<rparr>"

theorem merge_planned_only_when_authorized_witness:
  "(let policy = DEFAULT_MERGE_POLICY\<lparr>mp_auto_merge_risk_classes := {RiskClass_R0}\<rparr>
    in ra_kind (the (plan_action sample_facts 0 policy)) = PLAN_MERGE \<and> policy \<noteq> DEFAULT_MERGE_POLICY)"
proof -
  let ?policy = "DEFAULT_MERGE_POLICY\<lparr>mp_auto_merge_risk_classes := {RiskClass_R0}\<rparr>"
  have kind: "map_option ra_kind (plan_action sample_facts 0 ?policy) = Some PLAN_MERGE" by code_simp
  then obtain a where "plan_action sample_facts 0 ?policy = Some a" "ra_kind a = PLAN_MERGE" by auto
  from merge_planned_only_when_authorized [OF this] this show ?thesis unfolding Let_def by auto
qed

end
