(* ===== verification/Phases.thy ===== *)
theory Phases
  imports Rework
begin

text \<open>
  The operator phases of a change: revision-bound decisions, the discussion and its rework orders
  (\<open>orchestration/conversations.py\<close>), the gate of a phase (\<open>orchestration/phase_gate.py\<close>), and the phase
  projection (\<open>orchestration/phases.py\<close>) with the path classification of \<open>context/artifacts.py\<close>. The
  texts shown to the operator are structured values with the same ingredients. The anchors a document
  exposes are computed by \<open>anchors_of\<close> from YAML and regular expressions; it is an argument here.

  The lemmas show that the two views of a gate agree, exactly when a gate may be approved, which round
  the specification stage is in, and what an edit does to an approval.
\<close>

section \<open>Revisions, anchors and rework orders (\<open>conversations.py\<close>)\<close>

datatype revision_state = Rev_current | Rev_stale | Rev_unbound

definition revision_state_of :: "string option \<Rightarrow> string option \<Rightarrow> revision_state" where
  "revision_state_of bound current =
     (case bound of
        None \<Rightarrow> Rev_unbound
      | Some b \<Rightarrow> if current = None \<or> Some b \<noteq> current then Rev_stale else Rev_current)"

definition resolve_anchor :: "(string \<Rightarrow> string list) \<Rightarrow> string option \<Rightarrow> string option \<Rightarrow> bool" where
  "resolve_anchor anchors_of content anchor_id =
     (case content of
        None \<Rightarrow> False
      | Some txt \<Rightarrow> (case anchor_id of None \<Rightarrow> True | Some a \<Rightarrow> a \<in> set (anchors_of txt)))"

definition anchor_state_of :: "(string \<Rightarrow> string list) \<Rightarrow> artifact_anchor option \<Rightarrow> string option \<Rightarrow> anchor_state" where
  "anchor_state_of anchors_of anchor content =
     (case anchor of
        None \<Rightarrow> AnchorState_ATTACHED
      | Some a \<Rightarrow> if resolve_anchor anchors_of content (aa_anchor_id a) then AnchorState_ATTACHED
                  else AnchorState_DETACHED)"

record revision_effects =
  re_stale_questions :: "question list"
  re_detached_comments :: "comment list"

definition fragment_gone ::
    "(string \<Rightarrow> string list) \<Rightarrow> (string \<rightharpoonup> string option) \<Rightarrow> artifact_anchor \<Rightarrow> bool" where
  "fragment_gone anchors_of documents a =
     (case documents (aa_artifact a) of
        None \<Rightarrow> False
      | Some content \<Rightarrow> anchor_state_of anchors_of (Some a) content = AnchorState_DETACHED)"

fun mark_stale ::
    "instant \<Rightarrow> (question \<Rightarrow> bool) \<Rightarrow> question list \<Rightarrow> question_status status_error + question list \<times> question list" where
  "mark_stale clk gone [] = Inr ([], [])"
| "mark_stale clk gone (q # qs) =
     (if \<not> gone q then map_sum id (\<lambda>(questions, stale). (q # questions, stale)) (mark_stale clk gone qs)
      else case question_apply_status clk QuestionStatus_STALE q of
        Inl e \<Rightarrow> Inl e
      | Inr q' \<Rightarrow> map_sum id (\<lambda>(questions, stale). (q' # questions, q' # stale)) (mark_stale clk gone qs))"

text \<open>The questions are mutated in place: they are returned with the effects.\<close>

definition apply_revision ::
    "instant \<Rightarrow> (string \<Rightarrow> string list) \<Rightarrow> question list \<Rightarrow> comment list \<Rightarrow> (string \<rightharpoonup> string option)
      \<Rightarrow> question_status status_error + question list \<times> revision_effects" where
  "apply_revision clk anchors_of questions comments documents =
     map_sum id (\<lambda>(questions', stale).
         (questions', \<lparr>re_stale_questions = stale,
            re_detached_comments = filter (\<lambda>c. comment_is_open c \<and> fragment_gone anchors_of documents (c_anchor c)) comments\<rparr>))
       (mark_stale clk (\<lambda>q. (case qd_anchor q of None \<Rightarrow> False | Some a \<Rightarrow> fragment_gone anchors_of documents a) \<and>
                            q_status q \<in> {QuestionStatus_OPEN, QuestionStatus_ANSWERED}) questions)"

definition human_signature :: "string \<Rightarrow> finding_signature" where
  "human_signature category = \<lparr>fs_origin = FindingOrigin_HUMAN, fs_category = Some category, fs_file = None,
     fs_line = None\<rparr>"

definition order_signatures :: "rework_order \<Rightarrow> finding_signature list" where
  "order_signatures order =
     (let signatures = map (\<lambda>cid. human_signature (''comment:'' @ cid)) (ro_comment_ids order) @
            (if ro_instruction order \<noteq> None then [human_signature (''order:'' @ ro_id order)] else [])
      in if signatures = [] then [human_signature (''answers:'' @ ro_id order)] else signatures)"

fun join_with :: "string \<Rightarrow> string list \<Rightarrow> string" where
  "join_with sep [] = []"
| "join_with sep [w] = w"
| "join_with sep (w # ws) = w @ sep @ join_with sep ws"

definition order_revision :: "rework_order \<Rightarrow> string" where
  "order_revision order =
     (if ro_revisions order = [] then ''order:'' @ ro_id order
      else join_with ''+'' (map (\<lambda>(path, revision). path @ ''@'' @ revision) (sort (ro_revisions order))))"

datatype order_error = NoReworkOrder | OfPlan rework_error

definition plan_rework_order :: "budget_snapshot \<Rightarrow> rework_order list \<Rightarrow> order_error + rework_decision" where
  "plan_rework_order budget orders =
     (if orders = [] then Inl NoReworkOrder
      else map_sum OfPlan id (plan_rework budget
        (map (\<lambda>(index, order). \<lparr>rp_round = int index, rp_sha = order_revision order,
                                  rp_blocking = order_signatures order, rp_escalations = []\<rparr>)
           (List.enumerate 1 orders))))"

section \<open>Paths and phases (\<open>context/artifacts.py\<close>, tables)\<close>

datatype artifact_kind = Kind_SPEC | Kind_DESIGN | Kind_ADR | Kind_UI | Kind_PLAN | Kind_OTHER

definition CHANGES_ROOT :: string where "CHANGES_ROOT = ''.factory/changes''"

definition strip_slashes :: "string \<Rightarrow> string" where
  "strip_slashes s = rev (dropWhile (\<lambda>c. c = CHR ''/'') (rev (dropWhile (\<lambda>c. c = CHR ''/'') s)))"

fun split_slash :: "string \<Rightarrow> string list" where
  "split_slash [] = [[]]"
| "split_slash (c # cs) =
     (if c = CHR ''/'' then [] # split_slash cs
      else case split_slash cs of [] \<Rightarrow> [[c]] | w # ws \<Rightarrow> (c # w) # ws)"

definition lower_text :: "string \<Rightarrow> string" where
  "lower_text = map lower_char"

definition adr_name :: "string \<Rightarrow> bool" where
  "adr_name name \<longleftrightarrow> lower_text (take 4 name) = ''adr-'' \<and> length name > 4 \<and> is_digit (name ! 4)"

definition classify_path :: "string \<Rightarrow> artifact_kind" where
  "classify_path path =
     (let normalized = strip_slashes path;
          all_parts = split_slash normalized;
          parts = (if starts_with (CHANGES_ROOT @ ''/'') normalized \<and> length all_parts \<ge> 5
                   then drop 4 all_parts else all_parts)
      in if parts = [] then Kind_OTHER
         else
           let head = lower_text (hd parts);
               name = last parts;
               second = (if length parts > 1 then Some (parts ! 1) else None)
           in if adr_name name then Kind_ADR
              else if head \<in> {''spec'', ''requirements'', ''scenarios'', ''capabilities''} \<or>
                      lower_text name \<in> {''intent.md'', ''change.yaml''} then Kind_SPEC
              else if head = ''decisions'' \<or> head = ''design'' \<and> second = Some ''decisions'' then Kind_ADR
              else if head \<in> {''ui'', ''screens''} \<or>
                      head = ''design'' \<and> map_option lower_text second \<in> {Some ''ui'', Some ''screens''} then Kind_UI
              else if head = ''design'' then Kind_DESIGN
              else if head \<in> {''tasks'', ''plan'', ''verification''} then Kind_PLAN
              else Kind_OTHER)"

definition PHASE_ORDER :: "phase list" where
  "PHASE_ORDER = [Phase_INITIATIVE, Phase_REQUIREMENTS, Phase_ARCHITECTURE, Phase_INTERFACE, Phase_PLAN,
     Phase_EXECUTION, Phase_DEMONSTRATION, Phase_DELIVERY]"

fun PHASE_STAGE :: "phase \<Rightarrow> stage option" where
  "PHASE_STAGE Phase_INITIATIVE = None"
| "PHASE_STAGE Phase_REQUIREMENTS = Some Stage_SPECIFICATION"
| "PHASE_STAGE Phase_ARCHITECTURE = Some Stage_SPECIFICATION"
| "PHASE_STAGE Phase_INTERFACE = Some Stage_SPECIFICATION"
| "PHASE_STAGE Phase_PLAN = Some Stage_PLANNING"
| "PHASE_STAGE Phase_EXECUTION = Some Stage_CONSTRUCTION"
| "PHASE_STAGE Phase_DEMONSTRATION = Some Stage_REVIEW_VERIFICATION"
| "PHASE_STAGE Phase_DELIVERY = Some Stage_RELEASE"
| "PHASE_STAGE Phase_DONE = None"

fun ARTIFACT_PHASE :: "artifact_kind \<Rightarrow> phase option" where
  "ARTIFACT_PHASE Kind_SPEC = Some Phase_REQUIREMENTS"
| "ARTIFACT_PHASE Kind_DESIGN = Some Phase_ARCHITECTURE"
| "ARTIFACT_PHASE Kind_ADR = Some Phase_ARCHITECTURE"
| "ARTIFACT_PHASE Kind_UI = Some Phase_INTERFACE"
| "ARTIFACT_PHASE Kind_PLAN = Some Phase_PLAN"
| "ARTIFACT_PHASE Kind_OTHER = None"

text \<open>\<open>None\<close> is the \<open>KeyError\<close> of a stage without a phase.\<close>

definition stage_phase :: "stage \<Rightarrow> phase option" where
  "stage_phase st = find (\<lambda>ph. PHASE_STAGE ph = Some st) PHASE_ORDER"

definition phase_of_path :: "string \<Rightarrow> phase option" where
  "phase_of_path path = ARTIFACT_PHASE (classify_path path)"

fun PHASE_GATE :: "phase \<Rightarrow> gate option" where
  "PHASE_GATE Phase_INITIATIVE = None"
| "PHASE_GATE Phase_REQUIREMENTS = Some Gate_SPECIFICATION"
| "PHASE_GATE Phase_ARCHITECTURE = Some Gate_SPECIFICATION"
| "PHASE_GATE Phase_INTERFACE = Some Gate_UI"
| "PHASE_GATE Phase_PLAN = Some Gate_PLANNING"
| "PHASE_GATE Phase_EXECUTION = Some Gate_CODE"
| "PHASE_GATE Phase_DEMONSTRATION = Some Gate_VERIFICATION"
| "PHASE_GATE Phase_DELIVERY = Some Gate_RELEASE"
| "PHASE_GATE Phase_DONE = None"

fun GATE_PHASE :: "gate \<Rightarrow> phase" where
  "GATE_PHASE Gate_SPECIFICATION = Phase_REQUIREMENTS"
| "GATE_PHASE Gate_UI = Phase_INTERFACE"
| "GATE_PHASE Gate_PLANNING = Phase_PLAN"
| "GATE_PHASE Gate_CODE = Phase_EXECUTION"
| "GATE_PHASE Gate_REVIEW = Phase_DEMONSTRATION"
| "GATE_PHASE Gate_VERIFICATION = Phase_DEMONSTRATION"
| "GATE_PHASE Gate_RELEASE = Phase_DELIVERY"

section \<open>The gate of a phase (\<open>phase_gate.py\<close>)\<close>

definition discussion_phase :: "change_run option \<Rightarrow> phase \<Rightarrow> phase" where
  "discussion_phase r ph =
     (if r = None \<and> ph \<in> {Phase_INITIATIVE, Phase_DONE} then Phase_REQUIREMENTS else ph)"

definition SPECIFICATION_PHASES :: "phase list" where
  "SPECIFICATION_PHASES = [Phase_REQUIREMENTS, Phase_ARCHITECTURE, Phase_INTERFACE]"

definition ui_required_by_route :: "route \<Rightarrow> bool" where
  "ui_required_by_route rt \<longleftrightarrow> Gate_UI \<in> required_gates rt Stage_SPECIFICATION"

definition specification_phases :: "route \<Rightarrow> phase list" where
  "specification_phases rt =
     (if ui_required_by_route rt then SPECIFICATION_PHASES else [Phase_REQUIREMENTS, Phase_ARCHITECTURE])"

definition decision_phase :: "decision \<Rightarrow> phase" where
  "decision_phase d = (case d_phase d of Some ph \<Rightarrow> ph | None \<Rightarrow> GATE_PHASE (d_gate d))"

definition phase_decisions :: "decision list \<Rightarrow> phase \<Rightarrow> decision list" where
  "phase_decisions decisions ph =
     (case PHASE_GATE ph of
        None \<Rightarrow> []
      | Some g \<Rightarrow> filter (\<lambda>d. d_gate d = g \<and> decision_phase d = ph) decisions)"

datatype ui_source = Ui_route | Ui_agent | Ui_operator | Ui_default

datatype ui_ground = RouteWithoutUi route | Stated string

record ui_requirement =
  ui_required :: bool
  ui_source_of :: ui_source
  ui_reason :: "ui_ground option"

datatype gate_reason =
    PhaseWithoutGate phase
  | RouteWithoutUiGate
  | UiNotRequiredProposed "ui_ground option"
  | NoArtifacts
  | BlockingQuestions nat "string list"
  | ReworkPending
  | ReworkRunning int int

record approval_view =
  av_decision_id :: string
  av_outcome :: decision_outcome
  av_revision :: "string option"
  av_state :: revision_state
  av_comment :: "string option"
  av_phase :: "phase option"

datatype planned_check_status = Check_planned | Check_not_required

record planned_check =
  pc_id :: string
  pc_status :: planned_check_status

record phase_gate_view =
  pg_change_id :: string
  pg_phase :: phase
  pg_gate :: "gate option"
  pg_available :: bool
  pg_reasons :: "gate_reason list"
  pg_current_revision :: "string option"
  pg_approved :: bool
  pg_waived :: bool
  pg_skippable :: bool
  pg_ui_requirement :: "ui_requirement option"
  pg_checks :: "planned_check list"
  pg_approvals :: "approval_view list"
  pg_blocking_questions :: nat
  pg_open_questions :: nat
  pg_answered_questions :: nat
  pg_open_comments :: nat
  pg_addressed_comments :: nat
  pg_detached_comments :: nat
  pg_rework_pending :: bool
  pg_rework_in_progress :: bool
  pg_rework_rounds_used :: int
  pg_rework_rounds_max :: int
  pg_rework_orders_spent :: nat

definition gate_rework_exhausted :: "phase_gate_view \<Rightarrow> bool" where
  "gate_rework_exhausted g \<longleftrightarrow> pg_rework_rounds_used g \<ge> pg_rework_rounds_max g"

definition interface_checks :: "ui_requirement \<Rightarrow> planned_check list" where
  "interface_checks ui =
     (let status = (if ui_required ui then Check_planned else Check_not_required)
      in [\<lparr>pc_id = ''axe'', pc_status = status\<rparr>, \<lparr>pc_id = ''visual_regression'', pc_status = status\<rparr>])"

text \<open>The facts of a change that the gate of one phase is computed from.\<close>

record gate_facts =
  gf_questions :: "question list"
  gf_comments :: "comment list"
  gf_rework_orders :: "rework_order list"
  gf_decisions :: "decision list"
  gf_current_revision :: "string option"
  gf_budget :: "budget_snapshot option"
  gf_detached_comment_ids :: "string list"
  gf_revision_observable :: bool
  gf_route :: "route option"
  gf_ui_requirement :: "ui_requirement option"

definition approvals_of :: "decision list \<Rightarrow> phase \<Rightarrow> string option \<Rightarrow> approval_view list" where
  "approvals_of decisions ph current_revision =
     map (\<lambda>d. \<lparr>av_decision_id = d_id d, av_outcome = d_outcome d, av_revision = d_commit_sha d,
               av_state = revision_state_of (d_commit_sha d) current_revision, av_comment = d_comment d,
               av_phase = d_phase d\<rparr>) (phase_decisions decisions ph)"

definition route_free :: "phase \<Rightarrow> route option \<Rightarrow> bool" where
  "route_free ph rt \<longleftrightarrow> ph = Phase_INTERFACE \<and> (case rt of None \<Rightarrow> False | Some r \<Rightarrow> \<not> ui_required_by_route r)"

definition ui_view_of :: "phase \<Rightarrow> gate_facts \<Rightarrow> approval_view list \<Rightarrow> ui_requirement option" where
  "ui_view_of ph gf approvals =
     (if ph \<noteq> Phase_INTERFACE then None
      else if route_free ph (gf_route gf)
      then Some \<lparr>ui_required = False, ui_source_of = Ui_route,
                 ui_reason = map_option RouteWithoutUi (gf_route gf)\<rparr>
      else case find (\<lambda>v. av_outcome v = DecisionOutcome_WAIVED) (rev approvals) of
        Some waiver \<Rightarrow> Some \<lparr>ui_required = False, ui_source_of = Ui_operator,
                              ui_reason = map_option Stated (av_comment waiver)\<rparr>
      | None \<Rightarrow>
          (case gf_ui_requirement gf of
             Some ui \<Rightarrow> Some ui
           | None \<Rightarrow> Some \<lparr>ui_required = True, ui_source_of = Ui_default, ui_reason = None\<rparr>))"

definition phase_gate :: "string \<Rightarrow> phase \<Rightarrow> gate_facts \<Rightarrow> phase_gate_view" where
  "phase_gate change_id ph gf =
     (let gate = PHASE_GATE ph;
          free = route_free ph (gf_route gf);
          blocking = filter question_blocks_gate (gf_questions gf);
          pending = list_ex (\<lambda>order. ro_status order = ReworkOrderStatus_PENDING) (gf_rework_orders gf);
          in_progress = list_ex (\<lambda>order. ro_status order = ReworkOrderStatus_IN_PROGRESS) (gf_rework_orders gf);
          used = (case gf_budget gf of None \<Rightarrow> 0 | Some b \<Rightarrow> bs_used_rework_rounds b);
          maximum = (case gf_budget gf of None \<Rightarrow> 3 | Some b \<Rightarrow> bs_max_rework_rounds b);
          approvals = approvals_of (gf_decisions gf) ph (gf_current_revision gf);
          approved = list_ex (\<lambda>v. av_outcome v = DecisionOutcome_APPROVED \<and> av_state v = Rev_current) approvals;
          waived = list_ex (\<lambda>v. av_outcome v = DecisionOutcome_WAIVED) approvals;
          ui_view = ui_view_of ph gf approvals;
          reasons =
            (if gate = None then [PhaseWithoutGate ph] else []) @
            (if free then [RouteWithoutUiGate]
             else if gf_current_revision gf = None \<and> gf_revision_observable gf \<and> \<not> waived
             then (case ui_view of
                     Some ui \<Rightarrow> if ui_required ui then [NoArtifacts] else [UiNotRequiredProposed (ui_reason ui)]
                   | None \<Rightarrow> [NoArtifacts])
             else []) @
            (if blocking \<noteq> [] then [BlockingQuestions (length blocking) (map q_id (take 3 blocking))] else []) @
            (if pending then [ReworkPending] else if in_progress then [ReworkRunning used maximum] else [])
      in \<lparr>pg_change_id = change_id, pg_phase = ph, pg_gate = gate, pg_available = (reasons = []),
          pg_reasons = reasons, pg_current_revision = gf_current_revision gf, pg_approved = approved,
          pg_waived = waived, pg_skippable = (gate \<noteq> None \<and> \<not> free), pg_ui_requirement = ui_view,
          pg_checks = (case ui_view of None \<Rightarrow> [] | Some ui \<Rightarrow> interface_checks ui),
          pg_approvals = approvals, pg_blocking_questions = length blocking,
          pg_open_questions = length (filter (\<lambda>q. q_status q = QuestionStatus_OPEN) (gf_questions gf)),
          pg_answered_questions = length (filter (\<lambda>q. q_status q = QuestionStatus_ANSWERED) (gf_questions gf)),
          pg_open_comments = length (filter (\<lambda>c. c_status c = CommentStatus_OPEN) (gf_comments gf)),
          pg_addressed_comments = length (filter (\<lambda>c. c_status c = CommentStatus_ADDRESSED) (gf_comments gf)),
          pg_detached_comments = length (remdups (gf_detached_comment_ids gf)),
          pg_rework_pending = pending, pg_rework_in_progress = in_progress, pg_rework_rounds_used = used,
          pg_rework_rounds_max = maximum,
          pg_rework_orders_spent =
            length (filter (\<lambda>order. ro_status order \<noteq> ReworkOrderStatus_PENDING) (gf_rework_orders gf))\<rparr>)"

section \<open>The phase projection (\<open>phases.py\<close>)\<close>

datatype phase_settlement = Settled_OPEN | Settled_APPROVED | Settled_WAIVED

fun settle_newest :: "string option \<Rightarrow> decision list \<Rightarrow> phase_settlement \<times> decision option" where
  "settle_newest revision [] = (Settled_OPEN, None)"
| "settle_newest revision (d # ds) =
     (if d_outcome d = DecisionOutcome_WAIVED then (Settled_WAIVED, Some d)
      else if d_outcome d = DecisionOutcome_APPROVED \<and> revision_state_of (d_commit_sha d) revision = Rev_current
      then (Settled_APPROVED, Some d)
      else settle_newest revision ds)"

definition phase_settlement_of :: "decision list \<Rightarrow> phase \<Rightarrow> string option \<Rightarrow> phase_settlement \<times> decision option" where
  "phase_settlement_of decisions ph revision = settle_newest revision (rev (phase_decisions decisions ph))"

definition phase_open :: "decision list \<Rightarrow> (phase \<Rightarrow> string option) \<Rightarrow> phase \<Rightarrow> bool" where
  "phase_open decisions revisions ph \<longleftrightarrow> fst (phase_settlement_of decisions ph (revisions ph)) = Settled_OPEN"

text \<open>A phase missing from the mapping has no revision: \<open>revisions\<close> is the total \<open>get\<close>.\<close>

definition specification_phase :: "route \<Rightarrow> decision list \<Rightarrow> (phase \<Rightarrow> string option) \<Rightarrow> phase" where
  "specification_phase rt decisions revisions =
     (case find (phase_open decisions revisions) (specification_phases rt) of
        Some ph \<Rightarrow> ph
      | None \<Rightarrow> last (specification_phases rt))"

definition next_specification_phase :: "route \<Rightarrow> phase \<Rightarrow> phase option" where
  "next_specification_phase rt ph =
     (let phases = specification_phases rt in
      case index_of ph phases of
        None \<Rightarrow> None
      | Some i \<Rightarrow> if i + 1 < length phases then Some (phases ! (i + 1)) else None)"

definition ACTIVE_STAGE_STATUSES :: "stage_status set" where
  "ACTIVE_STAGE_STATUSES = {StageStatus_PENDING, StageStatus_IN_PROGRESS, StageStatus_WAITING, StageStatus_BLOCKED}"

definition current_stage :: "change_run \<Rightarrow> stage option" where
  "current_stage r =
     (case find (\<lambda>sr. sr_status sr \<in> ACTIVE_STAGE_STATUSES) (cr_stages r) of
        Some sr \<Rightarrow> Some (sr_stage sr)
      | None \<Rightarrow> if cr_stages r \<noteq> [] then Some (sr_stage (last (cr_stages r))) else None)"

text \<open>Every stage has a phase, so \<open>the\<close> reads the value \<open>stage_phase\<close> returns.\<close>

definition current_phase :: "change_run option \<Rightarrow> decision list \<Rightarrow> (phase \<Rightarrow> string option) \<Rightarrow> phase" where
  "current_phase run decisions revisions =
     (case run of
        None \<Rightarrow> Phase_INITIATIVE
      | Some r \<Rightarrow>
          if cr_status r = RunStatus_SUCCEEDED then Phase_DONE
          else case current_stage r of
            None \<Rightarrow> Phase_INITIATIVE
          | Some st \<Rightarrow>
              if st = Stage_SPECIFICATION then specification_phase (cr_route r) decisions revisions
              else the (stage_phase st))"

datatype phase_state =
    PS_PENDING
  | PS_ACTIVE
  | PS_NEEDS_DECISION
  | PS_APPROVED
  | PS_WAIVED
  | PS_NOT_REQUIRED
  | PS_STALE
  | PS_DONE
  | PS_BLOCKED

datatype state_reason =
    NotRequiredByRoute
  | ApprovedAt "string option"
  | WaivedBecause "string option"
  | ApprovalStale
  | ReworkOngoing
  | RunIsBlocked
  | RoundToStart phase
  | ConfirmNoUi "ui_ground option"
  | ReadyForDecision
  | AgentWorking
  | BriefReady
  | FillBrief

record phase_view =
  pv_phase :: phase
  pv_index :: nat
  pv_stage :: "stage option"
  pv_gate :: "gate option"
  pv_state :: phase_state
  pv_state_reason :: "state_reason option"
  pv_revision :: "string option"
  pv_approved_revision :: "string option"
  pv_open_questions :: nat
  pv_blocking_questions :: nat
  pv_open_comments :: nat
  pv_iteration :: nat

record phases_projection =
  pp_change_id :: string
  pp_current :: phase
  pp_phases :: "phase_view list"

definition waits_for_operator :: "next_action option \<Rightarrow> bool" where
  "waits_for_operator waiting_on =
     (case waiting_on of
        Some (RequestApprovalAction _ _ _) \<Rightarrow> True
      | Some (WaitForInputAction _) \<Rightarrow> True
      | _ \<Rightarrow> False)"

definition stage_state :: "change_run \<Rightarrow> stage \<Rightarrow> next_action option \<Rightarrow> phase_state" where
  "stage_state r st waiting_on =
     (let runs = filter (\<lambda>item. sr_stage item = st) (cr_stages r) in
      if runs = [] then PS_PENDING
      else case sr_status (last runs) of
        StageStatus_SUCCEEDED \<Rightarrow> PS_DONE
      | StageStatus_BLOCKED \<Rightarrow> PS_BLOCKED
      | StageStatus_WAITING \<Rightarrow> if waits_for_operator waiting_on then PS_NEEDS_DECISION else PS_ACTIVE
      | StageStatus_SKIPPED \<Rightarrow> PS_NOT_REQUIRED
      | _ \<Rightarrow> PS_ACTIVE)"

definition specification_state ::
    "phase \<Rightarrow> phase \<Rightarrow> change_run \<Rightarrow> phase_settlement \<Rightarrow> decision option \<Rightarrow> phase_gate_view option
      \<Rightarrow> next_action option \<Rightarrow> ui_requirement option \<Rightarrow> phase option \<Rightarrow> phase_state \<times> state_reason option" where
  "specification_state ph current r settlement settled_by gate waiting_on ui waiting_phase =
     (let order = specification_phases (cr_route r);
          stale = (case gate of None \<Rightarrow> False | Some g \<Rightarrow> list_ex (\<lambda>v. av_state v = Rev_stale) (pg_approvals g))
      in if ph \<notin> set order then (PS_NOT_REQUIRED, Some NotRequiredByRoute)
         else if settlement = Settled_APPROVED \<and> settled_by \<noteq> None
         then (PS_APPROVED, Some (ApprovedAt (d_commit_sha (the settled_by))))
         else if settlement = Settled_WAIVED \<and> settled_by \<noteq> None
         then (PS_WAIVED, Some (WaivedBecause (d_comment (the settled_by))))
         else if ph \<noteq> current
         then (let behind = (current \<notin> set order \<or> the (index_of ph order) < the (index_of current order))
               in if behind \<or> stale then (PS_STALE, Some ApprovalStale) else (PS_PENDING, None))
         else if (case gate of None \<Rightarrow> False | Some g \<Rightarrow> pg_rework_pending g \<or> pg_rework_in_progress g)
         then (PS_ACTIVE, Some ReworkOngoing)
         else if cr_status r = RunStatus_BLOCKED then (PS_BLOCKED, Some RunIsBlocked)
         else if cr_status r = RunStatus_WAITING \<and> waits_for_operator waiting_on
         then (if waiting_phase \<noteq> None \<and> waiting_phase \<noteq> Some ph
               then (PS_ACTIVE, Some (RoundToStart (the waiting_phase)))
               else if ph = Phase_INTERFACE \<and> (case ui of None \<Rightarrow> False | Some u \<Rightarrow> \<not> ui_required u)
               then (PS_NEEDS_DECISION, Some (ConfirmNoUi (Option.bind ui ui_reason)))
               else if stale then (PS_STALE, Some ApprovalStale)
               else (PS_NEEDS_DECISION, Some ReadyForDecision))
         else (PS_ACTIVE, Some AgentWorking))"

record projection_facts =
  pf_run :: "change_run option"
  pf_decisions :: "decision list"
  pf_revisions :: "phase \<Rightarrow> string option"
  pf_gates :: "phase \<Rightarrow> phase_gate_view option"
  pf_waiting_on :: "next_action option"
  pf_ui_requirement :: "ui_requirement option"
  pf_brief_complete :: bool
  pf_waiting_phase :: "phase option"

definition phase_state_of :: "projection_facts \<Rightarrow> phase \<Rightarrow> phase \<Rightarrow> phase_state \<times> state_reason option" where
  "phase_state_of pf current ph =
     (let (settlement, settled_by) = phase_settlement_of (pf_decisions pf) ph (pf_revisions pf ph)
      in if ph = Phase_INITIATIVE
         then (if pf_run pf \<noteq> None then (PS_DONE, None)
               else if pf_brief_complete pf then (PS_NEEDS_DECISION, Some BriefReady)
               else (PS_ACTIVE, Some FillBrief))
         else case pf_run pf of
           None \<Rightarrow> (PS_PENDING, None)
         | Some r \<Rightarrow>
             if current = Phase_DONE
             then (if settlement = Settled_WAIVED then (PS_WAIVED, None) else (PS_DONE, None))
             else if PHASE_STAGE ph = Some Stage_SPECIFICATION
             then specification_state ph current r settlement settled_by (pf_gates pf ph) (pf_waiting_on pf)
                    (pf_ui_requirement pf) (pf_waiting_phase pf)
             else case PHASE_STAGE ph of
               None \<Rightarrow> (PS_PENDING, None)
             | Some st \<Rightarrow>
                 if settlement = Settled_APPROVED \<and> settled_by \<noteq> None
                 then (PS_APPROVED, Some (ApprovedAt (d_commit_sha (the settled_by))))
                 else (stage_state r st (pf_waiting_on pf), None))"

definition gate_iteration :: "phase_gate_view option \<Rightarrow> nat" where
  "gate_iteration gate = (case gate of None \<Rightarrow> 0 | Some g \<Rightarrow> pg_rework_orders_spent g)"

definition phase_view_of :: "projection_facts \<Rightarrow> phase \<Rightarrow> nat \<times> phase \<Rightarrow> phase_view" where
  "phase_view_of pf current ip =
     (case ip of (index, ph) \<Rightarrow>
        let (settlement, settled_by) = phase_settlement_of (pf_decisions pf) ph (pf_revisions pf ph);
            (state, reason) = phase_state_of pf current ph;
            gate = pf_gates pf ph
        in \<lparr>pv_phase = ph, pv_index = index, pv_stage = PHASE_STAGE ph, pv_gate = PHASE_GATE ph,
            pv_state = state, pv_state_reason = reason, pv_revision = pf_revisions pf ph,
            pv_approved_revision =
              (if settlement = Settled_APPROVED then Option.bind settled_by d_commit_sha else None),
            pv_open_questions = (case gate of None \<Rightarrow> 0 | Some g \<Rightarrow> pg_open_questions g),
            pv_blocking_questions = (case gate of None \<Rightarrow> 0 | Some g \<Rightarrow> pg_blocking_questions g),
            pv_open_comments = (case gate of None \<Rightarrow> 0 | Some g \<Rightarrow> pg_open_comments g),
            pv_iteration = gate_iteration gate\<rparr>)"

definition project_phases :: "string \<Rightarrow> projection_facts \<Rightarrow> phases_projection" where
  "project_phases change_id pf =
     (let current = current_phase (pf_run pf) (pf_decisions pf) (pf_revisions pf)
      in \<lparr>pp_change_id = change_id, pp_current = current,
          pp_phases = map (phase_view_of pf current) (List.enumerate 0 PHASE_ORDER)\<rparr>)"

section \<open>Settled phases\<close>

definition settles_phase :: "string option \<Rightarrow> decision \<Rightarrow> bool" where
  "settles_phase revision d \<longleftrightarrow> d_outcome d = DecisionOutcome_WAIVED \<or>
     d_outcome d = DecisionOutcome_APPROVED \<and> d_commit_sha d \<noteq> None \<and> d_commit_sha d = revision"

lemma revision_current_iff:
  "revision_state_of bound current = Rev_current \<longleftrightarrow> bound \<noteq> None \<and> bound = current"
  by (auto simp: revision_state_of_def split: option.split)

lemma settle_newest_iff:
  "case settle_newest revision ds of (settlement, who) \<Rightarrow>
     (settlement = Settled_OPEN \<longleftrightarrow> \<not> list_ex (settles_phase revision) ds) \<and>
     (settlement = Settled_OPEN \<longleftrightarrow> who = None) \<and>
     (settlement = Settled_APPROVED \<longrightarrow> (\<exists>d\<in>set ds. who = Some d \<and> d_outcome d = DecisionOutcome_APPROVED \<and>
        d_commit_sha d = revision)) \<and>
     (settlement = Settled_WAIVED \<longrightarrow> (\<exists>d\<in>set ds. who = Some d \<and> d_outcome d = DecisionOutcome_WAIVED))"
  by (induction ds) (auto simp: settles_phase_def revision_current_iff split: prod.splits)

lemma open_iff_unsettled:
  "fst (phase_settlement_of ds ph revision) = Settled_OPEN \<longleftrightarrow>
     {d \<in> set (phase_decisions ds ph). settles_phase revision d} = {}"
  using settle_newest_iff [of revision "rev (phase_decisions ds ph)"]
  by (auto simp: phase_settlement_of_def list_ex_iff split: prod.splits)

lemma settled_by:
  assumes "phase_settlement_of ds ph revision = (settlement, who)"
  shows "settlement = Settled_OPEN \<longleftrightarrow> who = None"
    and "settlement = Settled_APPROVED \<Longrightarrow> \<exists>d\<in>set (phase_decisions ds ph). who = Some d \<and>
           d_outcome d = DecisionOutcome_APPROVED \<and> d_commit_sha d = revision"
    and "settlement = Settled_WAIVED \<Longrightarrow> \<exists>d\<in>set (phase_decisions ds ph). who = Some d \<and>
           d_outcome d = DecisionOutcome_WAIVED"
  using settle_newest_iff [of revision "rev (phase_decisions ds ph)"] assms
  by (auto simp: phase_settlement_of_def)

lemma in_phase_decisions:
  "d \<in> set (phase_decisions ds ph) \<longleftrightarrow> d \<in> set ds \<and> PHASE_GATE ph = Some (d_gate d) \<and> decision_phase d = ph"
  by (auto simp: phase_decisions_def split: option.splits)

lemma gate_approved_iff:
  "pg_approved (phase_gate cid ph gf) \<longleftrightarrow> (\<exists>d\<in>set (phase_decisions (gf_decisions gf) ph).
     d_outcome d = DecisionOutcome_APPROVED \<and> d_commit_sha d \<noteq> None \<and> d_commit_sha d = gf_current_revision gf)"
  "pg_waived (phase_gate cid ph gf) \<longleftrightarrow> (\<exists>d\<in>set (phase_decisions (gf_decisions gf) ph).
     d_outcome d = DecisionOutcome_WAIVED)"
  by (simp_all add: phase_gate_def Let_def approvals_of_def list_ex_iff revision_current_iff)

text \<open>
  C28: the two views of a phase gate agree, and an approval counts only at the revision it was given for.
  The settlement the projection reads is open exactly when the gate view reports neither a current
  approval nor a waiver, that is, when no decision of the phase is a waiver or an approval bound to the
  current revision: an edit that moves the revision reopens the phase, and nothing but a waiver
  survives it. A settled phase names the decision that settles it.
\<close>

theorem gate_and_settlement_agree:
  "(case phase_settlement_of (gf_decisions gf) ph (gf_current_revision gf) of (settlement, who) \<Rightarrow>
     (settlement = Settled_OPEN) = (\<not> pg_approved (phase_gate cid ph gf) \<and> \<not> pg_waived (phase_gate cid ph gf)) \<and>
     (settlement = Settled_OPEN) =
       ({d \<in> set (gf_decisions gf). PHASE_GATE ph = Some (d_gate d) \<and> decision_phase d = ph \<and>
           (d_outcome d = DecisionOutcome_WAIVED \<or>
            d_outcome d = DecisionOutcome_APPROVED \<and> d_commit_sha d \<noteq> None \<and>
            d_commit_sha d = gf_current_revision gf)} = {}) \<and>
     (case settlement of
        Settled_OPEN \<Rightarrow> who = None
      | Settled_APPROVED \<Rightarrow> \<exists>d\<in>set (gf_decisions gf). who = Some d \<and> decision_phase d = ph \<and>
          d_outcome d = DecisionOutcome_APPROVED \<and> d_commit_sha d = gf_current_revision gf
      | Settled_WAIVED \<Rightarrow> \<exists>d\<in>set (gf_decisions gf). who = Some d \<and> decision_phase d = ph \<and>
          d_outcome d = DecisionOutcome_WAIVED))"
proof -
  obtain settlement who where eq: "phase_settlement_of (gf_decisions gf) ph (gf_current_revision gf) = (settlement, who)"
    by fastforce
  have "settlement = Settled_OPEN \<longleftrightarrow>
      {d \<in> set (phase_decisions (gf_decisions gf) ph). settles_phase (gf_current_revision gf) d} = {}"
    using open_iff_unsettled [of "gf_decisions gf" ph "gf_current_revision gf"] eq by simp
  then show ?thesis
    using settled_by [OF eq] unfolding eq prod.case gate_approved_iff settles_phase_def in_phase_decisions
    by (cases settlement) (auto simp: in_phase_decisions)
qed

text \<open>
  A rejection recorded after an approval of the same revision leaves the phase approved: it is skipped
  when the settling decision is looked up, although the newest decision is documented to win.
\<close>

lemma rejection_is_ignored:
  assumes "d_outcome d = DecisionOutcome_REJECTED"
  shows "phase_settlement_of (ds @ [d]) ph revision = phase_settlement_of ds ph revision"
  using assms by (simp add: phase_settlement_of_def phase_decisions_def split: option.split)

text \<open>
  Exactly when a gate may be approved. A gate is available if and only if the phase has one, the
  route does not skip the phase, its artifacts exist (unless the revision cannot be observed or the phase
  is waived), no open blocking question waits for the operator, and no rework order is pending or in
  progress; open comments never close it.
\<close>

theorem gate_available_iff:
  "pg_available (phase_gate cid ph gf) \<longleftrightarrow>
     PHASE_GATE ph \<noteq> None \<and> \<not> route_free ph (gf_route gf) \<and>
     \<not> (gf_current_revision gf = None \<and> gf_revision_observable gf \<and> \<not> pg_waived (phase_gate cid ph gf)) \<and>
     {q \<in> set (gf_questions gf). q_status q = QuestionStatus_OPEN \<and> qd_blocking q} = {} \<and>
     {order \<in> set (gf_rework_orders gf).
        ro_status order = ReworkOrderStatus_PENDING \<or> ro_status order = ReworkOrderStatus_IN_PROGRESS} = {}"
proof -
  have b: "filter question_blocks_gate (gf_questions gf) = [] \<longleftrightarrow>
      {q \<in> set (gf_questions gf). q_status q = QuestionStatus_OPEN \<and> qd_blocking q} = {}"
    by (auto simp: filter_empty_conv question_blocks_gate_def question_is_open_def)
  have o: "(\<not> list_ex (\<lambda>order. ro_status order = ReworkOrderStatus_PENDING) (gf_rework_orders gf) \<and>
       \<not> list_ex (\<lambda>order. ro_status order = ReworkOrderStatus_IN_PROGRESS) (gf_rework_orders gf)) \<longleftrightarrow>
      {order \<in> set (gf_rework_orders gf).
        ro_status order = ReworkOrderStatus_PENDING \<or> ro_status order = ReworkOrderStatus_IN_PROGRESS} = {}"
    by (auto simp: list_ex_iff)
  show ?thesis
    unfolding b [symmetric] o [symmetric]
    by (simp add: phase_gate_def Let_def split: option.split) auto
qed

section \<open>Rounds of the specification stage\<close>

lemma specification_phases_simps:
  "specification_phases rt \<noteq> []" "distinct (specification_phases rt)"
  by (auto simp: specification_phases_def SPECIFICATION_PHASES_def)

lemma find_split:
  "find P xs = Some x \<Longrightarrow> \<exists>pre post. xs = pre @ x # post \<and> (\<forall>y\<in>set pre. \<not> P y) \<and> P x"
proof (induction xs)
  case (Cons y ys)
  then show ?case by (cases "P y") (force intro: exI [of _ "y # _"])+
qed simp

lemma index_of_append: "x \<notin> set pre \<Longrightarrow> index_of x (pre @ x # post) = Some (length pre)"
  by (induction pre) auto

lemma specification_phase_split:
  obtains pre post where "specification_phases rt = pre @ specification_phase rt ds revs # post"
    "\<forall>ph\<in>set pre. \<not> phase_open ds revs ph" "phase_open ds revs (specification_phase rt ds revs) \<or> post = []"
    "\<not> phase_open ds revs (specification_phase rt ds revs) \<Longrightarrow> \<forall>ph\<in>set (specification_phases rt). \<not> phase_open ds revs ph"
proof (cases "find (phase_open ds revs) (specification_phases rt)")
  case None
  then have all: "\<forall>ph\<in>set (specification_phases rt). \<not> phase_open ds revs ph" by (auto simp: find_None_iff)
  have "specification_phases rt = butlast (specification_phases rt) @ [specification_phase rt ds revs]"
    using None specification_phases_simps(1) by (simp add: specification_phase_def)
  with all that show ?thesis by (metis in_set_butlastD)
next
  case (Some ph)
  with find_split [OF Some] that show ?thesis by (fastforce simp: specification_phase_def)
qed

text \<open>
  The specification stage runs its rounds in order. The current round is a phase of the route; every
  phase before it is settled at its current revision; it is itself unsettled unless every phase is
  settled, in which case it is the last one; and the round that follows it is the next phase of the
  route, or none after the last.
\<close>

theorem rounds_in_order:
  "\<exists>pre post. specification_phases rt = pre @ specification_phase rt ds revs # post \<and>
     {ph \<in> set pre. fst (phase_settlement_of ds ph (revs ph)) = Settled_OPEN} = {} \<and>
     (fst (phase_settlement_of ds (specification_phase rt ds revs) (revs (specification_phase rt ds revs))) =
        Settled_OPEN \<or> post = []) \<and>
     next_specification_phase rt (specification_phase rt ds revs) = (case post of [] \<Rightarrow> None | ph # _ \<Rightarrow> Some ph)"
proof -
  let ?c = "specification_phase rt ds revs"
  obtain pre post where split: "specification_phases rt = pre @ ?c # post"
      "\<forall>ph\<in>set pre. \<not> phase_open ds revs ph" "phase_open ds revs ?c \<or> post = []"
    using specification_phase_split by metis
  have "?c \<notin> set pre" using specification_phases_simps(2) [of rt] unfolding split(1) by simp
  then have "next_specification_phase rt ?c = (case post of [] \<Rightarrow> None | ph # _ \<Rightarrow> Some ph)"
    by (simp add: next_specification_phase_def split(1) index_of_append nth_append split: list.split)
  with split show ?thesis by (intro exI [of _ pre] exI [of _ post]) (auto simp: phase_open_def)
qed

lemma stage_phase_total: "\<exists>ph. stage_phase st = Some ph \<and> PHASE_STAGE ph = Some st"
  by (cases st) (simp_all add: stage_phase_def PHASE_ORDER_def)

lemma specification_settled_state:
  assumes "ph \<in> set (specification_phases (cr_route r))" "settlement \<noteq> Settled_OPEN" "who \<noteq> None"
  shows "fst (specification_state ph current r settlement who gate w ui wp) \<in> {PS_APPROVED, PS_WAIVED}"
  using assms by (cases settlement) (auto simp: specification_state_def Let_def)

lemma specification_current_state:
  assumes "ph \<in> set (specification_phases (cr_route r))"
  shows "fst (specification_state ph ph r Settled_OPEN who gate w ui wp) \<in>
    {PS_ACTIVE, PS_NEEDS_DECISION, PS_STALE, PS_BLOCKED}"
  using assms by (simp add: specification_state_def Let_def)

lemma view_state:
  assumes "v \<in> set (pp_phases (project_phases cid pf))"
  shows "pv_state v = fst (phase_state_of pf (pp_current (project_phases cid pf)) (pv_phase v))"
  using assms by (auto simp: project_phases_def Let_def phase_view_of_def split_def)

lemma phase_state_of_specification:
  assumes "pf_run pf = Some r" "current \<noteq> Phase_DONE" "ph \<in> set (specification_phases (cr_route r))"
  shows "phase_state_of pf current ph = specification_state ph current r
    (fst (phase_settlement_of (pf_decisions pf) ph (pf_revisions pf ph)))
    (snd (phase_settlement_of (pf_decisions pf) ph (pf_revisions pf ph)))
    (pf_gates pf ph) (pf_waiting_on pf) (pf_ui_requirement pf) (pf_waiting_phase pf)"
proof -
  have "ph \<noteq> Phase_INITIATIVE" "PHASE_STAGE ph = Some Stage_SPECIFICATION"
    using assms(3) by (auto simp: specification_phases_def SPECIFICATION_PHASES_def split: if_splits)
  with assms show ?thesis by (simp add: phase_state_of_def split_def Let_def)
qed

lemma settled_has_decision:
  assumes "fst (phase_settlement_of ds ph rv) \<noteq> Settled_OPEN"
  shows "snd (phase_settlement_of ds ph rv) \<noteq> None"
  using settled_by(1) [OF prod.collapse [symmetric], of ds ph rv] assms by simp

text \<open>
  The projection follows the rounds. While a run is in the specification stage, the projection lists
  the eight phases in order; every phase before the current round is shown approved or waived; and the
  current round, unless everything is settled, is shown active, blocked, stale or in need of a decision,
  never as done, pending or skipped.
\<close>

theorem projection_follows_rounds:
  assumes "pf_run pf = Some r" and "cr_status r \<noteq> RunStatus_SUCCEEDED"
    and "current_stage r = Some Stage_SPECIFICATION"
  shows "map pv_phase (pp_phases (project_phases cid pf)) = PHASE_ORDER \<and>
    (\<exists>pre post. specification_phases (cr_route r) = pre @ pp_current (project_phases cid pf) # post \<and>
      pv_state ` {v \<in> set (pp_phases (project_phases cid pf)). pv_phase v \<in> set pre} \<subseteq> {PS_APPROVED, PS_WAIVED} \<and>
      pv_state ` {v \<in> set (pp_phases (project_phases cid pf)). pv_phase v = pp_current (project_phases cid pf) \<and>
          phase_open (pf_decisions pf) (pf_revisions pf) (pv_phase v)} \<subseteq>
        {PS_ACTIVE, PS_NEEDS_DECISION, PS_STALE, PS_BLOCKED})"
proof -
  let ?c = "specification_phase (cr_route r) (pf_decisions pf) (pf_revisions pf)"
  let ?views = "pp_phases (project_phases cid pf)"
  have cur: "pp_current (project_phases cid pf) = ?c"
    using assms by (simp add: project_phases_def current_phase_def Let_def)
  have ord: "map pv_phase ?views = PHASE_ORDER"
    by (simp add: project_phases_def Let_def comp_def phase_view_of_def split_def PHASE_ORDER_def)
  obtain pre post where split: "specification_phases (cr_route r) = pre @ ?c # post"
      "\<forall>ph\<in>set pre. \<not> phase_open (pf_decisions pf) (pf_revisions pf) ph"
    using specification_phase_split by metis
  have not_done: "?c \<noteq> Phase_DONE"
  proof -
    have "?c \<in> set (specification_phases (cr_route r))" using split(1) by simp
    moreover have "Phase_DONE \<notin> set (specification_phases (cr_route r))"
      by (simp add: specification_phases_def SPECIFICATION_PHASES_def)
    ultimately show ?thesis by metis
  qed
  note state = view_state [of _ cid pf, unfolded cur] phase_state_of_specification [OF assms(1) not_done]
  have "pv_state v \<in> {PS_APPROVED, PS_WAIVED}" if "v \<in> set ?views" "pv_phase v \<in> set pre" for v
  proof -
    have mem: "pv_phase v \<in> set (specification_phases (cr_route r))" using that(2) split(1) by simp
    moreover have "fst (phase_settlement_of (pf_decisions pf) (pv_phase v) (pf_revisions pf (pv_phase v))) \<noteq> Settled_OPEN"
      using that(2) split(2) by (auto simp: phase_open_def)
    ultimately show ?thesis 
      using state(1) [OF that(1)] state(2) [OF mem] by (simp only:) (intro specification_settled_state settled_has_decision)
  qed
  moreover have "pv_state v \<in> {PS_ACTIVE, PS_NEEDS_DECISION, PS_STALE, PS_BLOCKED}"
    if "v \<in> set ?views" "pv_phase v = ?c" "phase_open (pf_decisions pf) (pf_revisions pf) (pv_phase v)" for v
  proof -
    have "pv_phase v \<in> set (specification_phases (cr_route r))" using that(2) split(1) by simp
    then show ?thesis
      using state(1) [OF that(1)] state(2) [of ?c] that(2,3) specification_current_state [of ?c r]
      by (simp add: phase_open_def)
  qed
  ultimately show ?thesis unfolding cur using ord split by blast
qed

definition sample_projection :: projection_facts where
  "sample_projection = \<lparr>pf_run = Some (sample_run [new_stage_run ''s1'' Stage_SPECIFICATION]),
     pf_decisions = [sample_approval\<lparr>d_gate := Gate_SPECIFICATION\<rparr>], pf_revisions = (\<lambda>_. Some ''abc''),
     pf_gates = (\<lambda>_. None), pf_waiting_on = None, pf_ui_requirement = None, pf_brief_complete = True,
     pf_waiting_phase = None\<rparr>"

theorem projection_follows_rounds_witness:
  "pp_current (project_phases ''c1'' sample_projection) = Phase_ARCHITECTURE \<and>
   map pv_phase (pp_phases (project_phases ''c1'' sample_projection)) = PHASE_ORDER \<and>
   map pv_state (take 3 (pp_phases (project_phases ''c1'' sample_projection))) = [PS_DONE, PS_APPROVED, PS_ACTIVE]"
proof -
  let ?r = "sample_run [new_stage_run ''s1'' Stage_SPECIFICATION]"
  have "map pv_phase (pp_phases (project_phases ''c1'' sample_projection)) = PHASE_ORDER"
    using projection_follows_rounds [of sample_projection ?r "''c1''"]
    by (simp add: sample_projection_def sample_run_def current_stage_def new_stage_run_def ACTIVE_STAGE_STATUSES_def)
  moreover have "pp_current (project_phases ''c1'' sample_projection) = Phase_ARCHITECTURE" by code_simp
  moreover have "map pv_state (take 3 (pp_phases (project_phases ''c1'' sample_projection))) =
      [PS_DONE, PS_APPROVED, PS_ACTIVE]" by code_simp
  ultimately show ?thesis by blast
qed

section \<open>Rework orders and revisions\<close>

text \<open>Every order asks for something, so a rework order is always decided; the plan is the bounded loop's.\<close>

lemma order_signatures_nonempty: "order_signatures order \<noteq> []"
  by (simp add: order_signatures_def Let_def)

lemma plan_rework_order_decides:
  "(\<exists>d. plan_rework_order budget orders = Inr d) \<longleftrightarrow> orders \<noteq> []"
proof (cases "orders = []")
  case False
  let ?ps = "map (\<lambda>(index, order). \<lparr>rp_round = int index, rp_sha = order_revision order,
      rp_blocking = order_signatures order, rp_escalations = []\<rparr>) (List.enumerate 1 orders)"
  have "?ps \<noteq> []" using False by (cases orders) simp_all
  moreover have "rp_blocking (last ?ps) \<noteq> []"
    using \<open>?ps \<noteq> []\<close> by (simp add: last_map split_def order_signatures_nonempty)
  ultimately obtain d where "plan_rework budget ?ps = Inr d" using plan_rework_decides_iff by blast
  then show ?thesis using False by (simp add: plan_rework_order_def)
qed (simp add: plan_rework_order_def)

text \<open>A revision never fails, marks exactly the questions whose fragment is gone, and is idempotent.\<close>

lemma mark_stale_result:
  assumes "\<And>q. gone q \<Longrightarrow> q_status q \<in> {QuestionStatus_OPEN, QuestionStatus_ANSWERED}"
  shows "mark_stale clk gone qs =
    Inr (map (\<lambda>q. if gone q then q\<lparr>q_status := QuestionStatus_STALE, q_updated_at := clk\<rparr> else q) qs,
         map (\<lambda>q. q\<lparr>q_status := QuestionStatus_STALE, q_updated_at := clk\<rparr>) (filter gone qs))"
proof (induction qs)
  case (Cons q qs)
  have "question_apply_status clk QuestionStatus_STALE q =
      Inr (q\<lparr>q_status := QuestionStatus_STALE, q_updated_at := clk\<rparr>)" if "gone q"
    using assms [OF that] by (auto simp: question_apply_status_def)
  then show ?case using Cons by simp
qed simp

lemma apply_revision_total: "\<exists>r. apply_revision clk anchors qs cs docs = Inr r"
  unfolding apply_revision_def by (subst mark_stale_result) auto

end
