(* ===== verification/StageGates.thy ===== *)
theory StageGates
  imports Phases Budget
begin

text \<open>
  The stage executors' pure parts: the context of one attempt (\<open>orchestration/stages/context.py\<close>), the
  deterministic checks and executor (\<open>stages/checks.py\<close>, \<open>stages/executor.py\<close>), and the resolution of an
  external wait from observed provider facts (\<open>stages/gates.py\<close>). A text that embeds a structured
  diagnostic is that diagnostic; the other texts are written out. \<open>render\<close> stands for the text of a budget
  violation, which the source stores in a finding.

  The lemmas show that the deterministic path never completes a stage, that the result of a resolved wait
  belongs to the waiting attempt and is one the flow engine accepts, that a gate passes only on the facts
  that may pass it, and exactly when a resolution cannot be built.
\<close>

section \<open>The context of an attempt (\<open>context.py\<close>)\<close>

record conversation_inputs =
  ci_answered_questions :: "question list"
  ci_open_questions :: "question list"
  ci_open_comments :: "comment list"
  ci_rework_order :: "rework_order option"

definition conversation_is_empty :: "conversation_inputs \<Rightarrow> bool" where
  "conversation_is_empty c \<longleftrightarrow> ci_answered_questions c = [] \<and> ci_open_questions c = [] \<and>
     ci_open_comments c = [] \<and> ci_rework_order c = None"

record stage_context =
  sx_change :: change
  sx_stage :: stage
  sx_route :: route
  sx_run_id :: string
  sx_input_revision :: "string option"
  sx_required_gates :: "gate set"
  sx_human_gates :: "gate set"
  sx_budget :: budget_snapshot
  sx_attempt_number :: int
  sx_implementation_contract :: "implementation_contract option"
  sx_conversation :: "conversation_inputs option"
  sx_phase :: "phase option"
  sx_enforce_contract_entry :: bool

definition build_context ::
    "change \<Rightarrow> stage \<Rightarrow> route \<Rightarrow> string \<Rightarrow> string option \<Rightarrow> budget_snapshot \<Rightarrow> int \<Rightarrow> risk_class option
      \<Rightarrow> implementation_contract option \<Rightarrow> bool \<Rightarrow> conversation_inputs option \<Rightarrow> phase option \<Rightarrow> stage_context" where
  "build_context change_of st rt run_id input_revision budget attempt_number risk contract enforce conversation ph =
     (let effective_class = (case risk of Some c \<Rightarrow> c | None \<Rightarrow> ch_risk_class change_of)
      in \<lparr>sx_change = change_of, sx_stage = st, sx_route = rt, sx_run_id = run_id,
          sx_input_revision = input_revision, sx_required_gates = required_gates rt st,
          sx_human_gates = required_human_gates rt st effective_class, sx_budget = budget,
          sx_attempt_number = attempt_number, sx_implementation_contract = contract,
          sx_conversation = conversation, sx_phase = ph, sx_enforce_contract_entry = enforce\<rparr>)"

section \<open>Deterministic checks (\<open>checks.py\<close>)\<close>

definition sorted_gates :: "gate set \<Rightarrow> gate list" where
  "sorted_gates gates = sort_key gate_value (filter (\<lambda>g. g \<in> gates) gate_members)"

definition STAGES_REQUIRING_CHANGE_REQUEST :: "stage set" where
  "STAGES_REQUIRING_CHANGE_REQUEST = {Stage_REVIEW_VERIFICATION}"

definition construction_entry_reason :: "stage_context \<Rightarrow> message option" where
  "construction_entry_reason ctx =
     (if sx_stage ctx \<noteq> Stage_CONSTRUCTION \<or> \<not> sx_enforce_contract_entry ctx then None
      else map_option xv_reason (contract_entry_violation (sx_implementation_contract ctx)))"

definition budget_exhaustions :: "budget_snapshot \<Rightarrow> instant \<Rightarrow> limit_violation list" where
  "budget_exhaustions budget now =
     (case rework_violation budget (bs_used_rework_rounds budget + 1) of None \<Rightarrow> [] | Some v \<Rightarrow> [v]) @
     continuation_violations budget now"

definition budget_stop_reason :: "(budget_reason \<Rightarrow> string) \<Rightarrow> budget_check \<Rightarrow> message option" where
  "budget_stop_reason render check =
     (if bk_state check = WITHIN_LIMITS then None
      else Some (Joined (map (\<lambda>v. Txt (render (bv_reason v))) (bk_violations check))))"

fun limit_rule_value :: "limit_rule \<Rightarrow> string" where
  "limit_rule_value Rework_limit = ''rework_limit''"
| "limit_rule_value Token_budget = ''token_budget''"
| "limit_rule_value Cost_budget = ''cost_budget''"
| "limit_rule_value Deadline = ''deadline''"

fun budget_scope_value :: "budget_scope \<Rightarrow> string" where
  "budget_scope_value Scope_RUN = ''run''"
| "budget_scope_value Scope_ROLE = ''role''"

definition budget_finding_id :: "budget_violation \<Rightarrow> string" where
  "budget_finding_id v =
     join_with '':'' ([''budget'', budget_scope_value (bv_scope v)] @
       (case bv_role v of None \<Rightarrow> [] | Some r \<Rightarrow> [role_value r]) @ [limit_rule_value (bv_rule v)])"

definition new_finding :: "string \<Rightarrow> finding_origin \<Rightarrow> finding_severity \<Rightarrow> finding_status \<Rightarrow> finding" where
  "new_finding i origin severity status = \<lparr>f_id = i, f_origin = origin, f_role = None, f_severity = severity,
     f_category = None, f_file = None, f_line = None, f_reviewed_sha = None, f_required_action = None,
     f_status = status, f_confidence = None, f_evidence_ids = []\<rparr>"

definition budget_findings :: "(budget_reason \<Rightarrow> string) \<Rightarrow> budget_check \<Rightarrow> finding list" where
  "budget_findings render check =
     (if bk_state check = WITHIN_LIMITS then []
      else map (\<lambda>v. (new_finding (budget_finding_id v) FindingOrigin_CI FindingSeverity_BLOCKER FindingStatus_OPEN)
                 \<lparr>f_role := bv_role v, f_category := Some ''budget'', f_required_action := Some (render (bv_reason v))\<rparr>)
             (bk_violations check))"

definition new_gate_result :: "gate \<Rightarrow> gate_status \<Rightarrow> sha option \<Rightarrow> message option \<Rightarrow> gate_result" where
  "new_gate_result g status sha summary = \<lparr>gr_gate = g, gr_status = status, gr_sha = sha, gr_summary = summary,
     gr_evidence_ids = []\<rparr>"

definition pending_gate_results :: "gate set \<Rightarrow> gate_result list" where
  "pending_gate_results gates = map (\<lambda>g. new_gate_result g GateStatus_PENDING None None) (sorted_gates gates)"

definition change_request_missing :: "stage \<Rightarrow> change \<Rightarrow> bool" where
  "change_request_missing st change_of \<longleftrightarrow>
     st \<in> STAGES_REQUIRING_CHANGE_REQUEST \<and> ch_change_request change_of = None"

section \<open>The deterministic executor (\<open>executor.py\<close>)\<close>

definition waiting_reason :: "stage_context \<Rightarrow> message" where
  "waiting_reason ctx = Txt (join_with ''; ''
     ((''required gates not evaluated: '' @ join_with '', '' (map gate_value (sorted_gates (sx_required_gates ctx))) @
        '' (machine checks run on the final SHA in CI (FR-009))'') #
      (if change_request_missing (sx_stage ctx) (sx_change ctx)
       then [''change request is not attached to the change (merge, ADR-011)''] else [])))"

definition new_result ::
    "stage \<Rightarrow> string \<Rightarrow> string \<Rightarrow> int \<Rightarrow> string option \<Rightarrow> stage_status \<Rightarrow> next_action \<Rightarrow> instant \<Rightarrow> stage_result" where
  "new_result st run_id change_id attempt_number input_revision status action now =
     \<lparr>res_stage = st, res_run_id = run_id, res_change_id = change_id, res_attempt_number = attempt_number,
      res_input_revision = input_revision, res_status = status, res_next_action = action, res_artifacts = [],
      res_evidence = [], res_gate_results = [], res_findings = [], res_escalations = [], res_release = None,
      res_usage = None, res_questions = [], res_rework_summary = None, res_conversation_errors = [],
      res_phase = None, res_produced_at = now\<rparr>"

definition executor_result ::
    "stage_context \<Rightarrow> stage_status \<Rightarrow> next_action \<Rightarrow> gate_result list \<Rightarrow> instant \<Rightarrow> finding list \<Rightarrow> stage_result" where
  "executor_result ctx status action gate_results now findings =
     (new_result (sx_stage ctx) (sx_run_id ctx) (ch_id (sx_change ctx)) (sx_attempt_number ctx)
        (sx_input_revision ctx) status action now)\<lparr>res_gate_results := gate_results, res_findings := findings\<rparr>"

definition run_deterministic_stage ::
    "(budget_reason \<Rightarrow> string) \<Rightarrow> stage_context \<Rightarrow> instant \<Rightarrow> budget_check option \<Rightarrow> stage_result" where
  "run_deterministic_stage render ctx now check =
     (let gate_results = pending_gate_results (sx_required_gates ctx);
          stopped = (\<lambda>reason findings. executor_result ctx StageStatus_BLOCKED
                       (StopAction StopOutcome_BLOCKED reason) gate_results now findings);
          violations = budget_exhaustions (sx_budget ctx) now
      in case construction_entry_reason ctx of
           Some reason \<Rightarrow> stopped reason []
         | None \<Rightarrow>
             if violations \<noteq> [] then stopped (Joined (map lv_reason violations)) []
             else case Option.bind check (budget_stop_reason render) of
               Some reason \<Rightarrow> stopped reason (case check of None \<Rightarrow> [] | Some c \<Rightarrow> budget_findings render c)
             | None \<Rightarrow> executor_result ctx StageStatus_WAITING (WaitForInputAction (waiting_reason ctx))
                         gate_results now [])"

section \<open>Observed facts and the wait they resolve (\<open>gates.py\<close>)\<close>

definition PIPELINE_SUCCESS :: string where "PIPELINE_SUCCESS = ''success''"

definition PIPELINE_FAILURES :: "string set" where "PIPELINE_FAILURES = {''failure'', ''canceled''}"

definition is_purely_human_gated :: "route \<Rightarrow> stage \<Rightarrow> risk_class \<Rightarrow> bool" where
  "is_purely_human_gated rt st risk \<longleftrightarrow>
     required_human_gates rt st risk \<noteq> {} \<and> required_gates rt st - required_human_gates rt st risk = {}"

record gate_observation =
  go_head_sha :: "sha option"
  go_merged :: bool
  go_pipeline_status :: "string option"
  go_approvals :: "decision list"
  go_rework_orders :: "rework_order list"
  go_phase :: "phase option"
  go_next_phase :: "phase option"

definition pending_rework_order :: "gate_observation \<Rightarrow> rework_order option" where
  "pending_rework_order ob = find rework_order_is_pending (rev (go_rework_orders ob))"

record gate_resolution =
  gx_result :: stage_result
  gx_merge_context :: "merge_request_context option"

definition settles_wait :: "gate_observation \<Rightarrow> gate set \<Rightarrow> decision \<Rightarrow> bool" where
  "settles_wait ob human_gates d \<longleftrightarrow>
     d_outcome d \<in> {DecisionOutcome_APPROVED, DecisionOutcome_WAIVED} \<and> d_gate d \<in> human_gates \<and>
     (case go_phase ob of None \<Rightarrow> True | Some ph \<Rightarrow> decision_phase d = ph)"

definition settling_decision :: "gate_observation \<Rightarrow> gate set \<Rightarrow> decision option" where
  "settling_decision ob human_gates = find (settles_wait ob human_gates) (rev (go_approvals ob))"

definition pipeline_failed :: "gate_observation \<Rightarrow> bool" where
  "pipeline_failed ob \<longleftrightarrow> (case go_pipeline_status ob of None \<Rightarrow> False | Some v \<Rightarrow> v \<in> PIPELINE_FAILURES)"

definition gate_resolved :: "gate_observation option \<Rightarrow> stage \<Rightarrow> route \<Rightarrow> risk_class \<Rightarrow> bool" where
  "gate_resolved observation st rt risk =
     (case observation of
        None \<Rightarrow> False
      | Some ob \<Rightarrow>
          if st = Stage_RELEASE then False
          else if go_merged ob then st = Stage_REVIEW_VERIFICATION \<or> is_purely_human_gated rt st risk
          else if is_purely_human_gated rt st risk
          then (if pending_rework_order ob \<noteq> None then True
                else settling_decision ob (required_human_gates rt st risk) \<noteq> None)
          else if go_pipeline_status ob = Some PIPELINE_SUCCESS
          then (if required_human_gates rt st risk \<noteq> {} then False else st \<noteq> Stage_REVIEW_VERIFICATION)
          else pipeline_failed ob)"

section \<open>Results of the machine gates\<close>

definition shown :: "string option \<Rightarrow> string" where
  "shown x = (case x of None \<Rightarrow> ''None'' | Some v \<Rightarrow> v)"

definition shown_sha :: "sha option \<Rightarrow> string" where
  "shown_sha x = (case x of None \<Rightarrow> ''an unknown SHA'' | Some v \<Rightarrow> if v = [] then ''an unknown SHA'' else v)"

definition machine_gate_results :: "route \<Rightarrow> stage \<Rightarrow> gate_observation \<Rightarrow> risk_class \<Rightarrow> gate_result list" where
  "machine_gate_results rt st ob risk =
     (let required = required_gates rt st - required_human_gates rt st risk in
      if required = {} then []
      else if go_pipeline_status ob = Some PIPELINE_SUCCESS \<and> go_head_sha ob \<noteq> None
      then map (\<lambda>g. new_gate_result g GateStatus_PASSED (go_head_sha ob)
                     (Some (Txt (''pipeline '' @ PIPELINE_SUCCESS @ '' at '' @ shown (go_head_sha ob)))))
             (sorted_gates required)
      else if pipeline_failed ob
      then map (\<lambda>g. new_gate_result g GateStatus_FAILED (go_head_sha ob)
                     (Some (Txt (''pipeline '' @ shown (go_pipeline_status ob) @ '' at '' @ shown_sha (go_head_sha ob)))))
             (sorted_gates required)
      else [])"

definition failed_gates :: "gate_result list \<Rightarrow> gate list" where
  "failed_gates machine_results =
     sort_key gate_value (map gr_gate (filter (\<lambda>item. gr_status item = GateStatus_FAILED) machine_results))"

definition pipeline_findings :: "gate list \<Rightarrow> gate_observation \<Rightarrow> finding list" where
  "pipeline_findings failed ob =
     map (\<lambda>g. (new_finding (''ci-pipeline:'' @ gate_value g) FindingOrigin_CI FindingSeverity_BLOCKER FindingStatus_OPEN)
            \<lparr>f_category := Some (gate_value g), f_reviewed_sha := go_head_sha ob,
             f_required_action := Some (''gate '' @ [CHR 0x27] @ gate_value g @ [CHR 0x27] @ '' failed: pipeline '' @
               shown (go_pipeline_status ob) @ '' at '' @ shown_sha (go_head_sha ob) @
               ''; make the gate pass and re-run CI'')\<rparr>) failed"

definition pipeline_failure_reason :: "gate_observation \<Rightarrow> gate list \<Rightarrow> message" where
  "pipeline_failure_reason ob failed =
     Txt (''pipeline '' @ shown (go_pipeline_status ob) @ '' at '' @ shown_sha (go_head_sha ob) @
       '': machine gate(s) '' @ join_with '', '' (map gate_value failed) @ '' failed'')"

section \<open>Building the resolution\<close>

datatype resolution_error =
    NotResolving stage
  | NoSuccessor stage route
  | NoChangeRequest
  | InvalidReworkAction int int
  | EmptyPassSha
  | OfOrder order_error
  | OfReview rework_error

text \<open>The model of a rework action requires \<open>round \<ge> 1\<close> and \<open>max_rounds \<ge> 1\<close>.\<close>

definition mk_rework_action :: "int \<Rightarrow> int \<Rightarrow> message \<Rightarrow> resolution_error + next_action" where
  "mk_rework_action rnd max_rounds reason =
     (if rnd \<ge> 1 \<and> max_rounds \<ge> 1 then Inr (ReworkAction rnd max_rounds reason)
      else Inl (InvalidReworkAction rnd max_rounds))"

fun rework_message :: "rework_reason \<Rightarrow> message" where
  "rework_message (EscalationDeclared why) = why"
| "rework_message (LimitReached why) = why"
| "rework_message (NoNewCommit rnd sha) =
     Txt (''rework did not produce a new commit: review pass '' @ show_int rnd @ '' ran again at '' @ sha @
       ''; the previous acceptance of that SHA stands, re-review is impossible'')"
| "rework_message (SameFindings rnd n) =
     Txt (''rework round '' @ show_int rnd @ '' did not change the set of blocking findings: the same '' @
       show_nat n @ '' finding(s) repeat'')"
| "rework_message (FixFindings rnd n pass sha signatures) =
     Txt (''rework round '' @ show_int rnd @ '': fix '' @ show_nat n @ '' blocking finding(s) from review pass '' @
       show_int pass @ '' at '' @ sha @ '': '' @ join_with ''; '' signatures)"

record attempt_identity =
  ai_stage :: stage
  ai_input_revision :: string
  ai_attempt_number :: int
  ai_now :: instant

definition attempt_result :: "change_run \<Rightarrow> attempt_identity \<Rightarrow> stage_status \<Rightarrow> next_action \<Rightarrow> stage_result" where
  "attempt_result r a status action =
     new_result (ai_stage a) (cr_id r) (cr_change_id r) (ai_attempt_number a) (Some (ai_input_revision a)) status action
       (ai_now a)"

text \<open>The last lines of both rework paths: the verdict of the loop as a result of the attempt.\<close>

definition rework_result :: "change_run \<Rightarrow> attempt_identity \<Rightarrow> rework_decision \<Rightarrow> resolution_error + stage_result" where
  "rework_result r a d =
     (if rd_outcome d = Outcome_blocked
      then Inr (attempt_result r a StageStatus_BLOCKED (StopAction StopOutcome_BLOCKED (rework_message (rd_reason d))))
      else map_sum id (attempt_result r a StageStatus_FAILED)
             (mk_rework_action (case rd_round d of Some n \<Rightarrow> n | None \<Rightarrow> bs_used_rework_rounds (cr_budget r) + 1)
                (rd_max_rounds d) (rework_message (rd_reason d))))"

definition unmerged :: "stage_result \<Rightarrow> gate_resolution" where
  "unmerged result = \<lparr>gx_result = result, gx_merge_context = None\<rparr>"

definition resolve_rework_order ::
    "change_run \<Rightarrow> attempt_identity \<Rightarrow> gate_observation \<Rightarrow> resolution_error + gate_resolution" where
  "resolve_rework_order r a ob =
     (case plan_rework_order (cr_budget r) (go_rework_orders ob) of
        Inl e \<Rightarrow> Inl (OfOrder e)
      | Inr d \<Rightarrow> map_sum id (\<lambda>result. unmerged (result\<lparr>res_phase := go_phase ob\<rparr>)) (rework_result r a d))"

definition human_gate_result :: "gate_observation \<Rightarrow> string \<Rightarrow> gate \<Rightarrow> gate_result" where
  "human_gate_result ob reason g =
     (let waivers = filter (\<lambda>d. d_gate d = g \<and> d_outcome d = DecisionOutcome_WAIVED \<and> decision_phase d = GATE_PHASE g)
                      (rev (go_approvals ob))
      in if \<not> go_merged ob \<and> waivers \<noteq> []
         then new_gate_result g GateStatus_SKIPPED (go_head_sha ob)
                (Some (Txt (''phase '' @ phase_value (GATE_PHASE g) @ '' waived: '' @
                   (case d_comment (hd waivers) of None \<Rightarrow> ''no reason given''
                    | Some c \<Rightarrow> if c = [] then ''no reason given'' else c))))
         else new_gate_result g GateStatus_PASSED (go_head_sha ob) (Some (Txt reason)))"

definition completion_reason :: "gate_observation \<Rightarrow> string" where
  "completion_reason ob =
     (if go_merged ob
      then (case go_head_sha ob of Some sha \<Rightarrow> ''change request observed merged at '' @ sha
            | None \<Rightarrow> ''change request observed merged'')
      else (case go_head_sha ob of Some sha \<Rightarrow> ''human approval observed at '' @ sha
            | None \<Rightarrow> ''human approval observed on the change request''))"

definition phase_round_reason :: "gate_observation \<Rightarrow> gate set \<Rightarrow> phase \<Rightarrow> message" where
  "phase_round_reason ob human_gates nxt =
     (let settled_phase = (case go_phase ob of Some ph \<Rightarrow> phase_value ph | None \<Rightarrow> ''phase'');
          verb = (case settling_decision ob human_gates of
                    Some d \<Rightarrow> if d_outcome d = DecisionOutcome_WAIVED then ''waived'' else ''approved''
                  | None \<Rightarrow> ''approved'')
      in Txt (''phase '' @ settled_phase @ '' '' @ verb @ '' at '' @ shown (go_head_sha ob) @ ''; next round: '' @
           phase_value nxt))"

definition resolve_human_gated ::
    "change_run \<Rightarrow> attempt_identity \<Rightarrow> gate_observation \<Rightarrow> risk_class \<Rightarrow> resolution_error + gate_resolution" where
  "resolve_human_gated r a ob risk =
     (if \<not> go_merged ob \<and> pending_rework_order ob \<noteq> None then resolve_rework_order r a ob
      else
        let human_gates = required_human_gates (cr_route r) (ai_stage a) risk;
            reason = completion_reason ob
        in case next_stage (ROUTE_PROFILES (cr_route r)) (ai_stage a) of
             None \<Rightarrow> Inl (NoSuccessor (ai_stage a) (cr_route r))
           | Some successor \<Rightarrow>
               (case (if go_merged ob then None else go_next_phase ob) of
                  Some nxt \<Rightarrow>
                    Inr (unmerged ((attempt_result r a StageStatus_SUCCEEDED
                      (PhaseRoundAction nxt (Some (phase_round_reason ob human_gates nxt))))\<lparr>res_phase := go_phase ob\<rparr>))
                | None \<Rightarrow>
                    Inr (unmerged ((attempt_result r a StageStatus_SUCCEEDED
                      (ExecuteStageAction successor (Some (Txt reason))))
                        \<lparr>res_gate_results := map (human_gate_result ob reason) (sorted_gates human_gates),
                         res_phase := go_phase ob\<rparr>))))"

definition resolve_machine_gated ::
    "change_run \<Rightarrow> attempt_identity \<Rightarrow> gate_observation \<Rightarrow> risk_class \<Rightarrow> resolution_error + gate_resolution" where
  "resolve_machine_gated r a ob risk =
     (let machine_results = machine_gate_results (cr_route r) (ai_stage a) ob risk;
          failed = failed_gates machine_results
      in if unsatisfied_gates (cr_route r) (ai_stage a) machine_results = []
         then case next_stage (ROUTE_PROFILES (cr_route r)) (ai_stage a) of
                None \<Rightarrow> Inl (NoSuccessor (ai_stage a) (cr_route r))
              | Some successor \<Rightarrow>
                  Inr (unmerged ((attempt_result r a StageStatus_SUCCEEDED
                    (ExecuteStageAction successor
                       (Some (Txt (''pipeline '' @ PIPELINE_SUCCESS @ '' at '' @ shown (go_head_sha ob))))))
                      \<lparr>res_gate_results := machine_results\<rparr>))
         else if failed \<noteq> []
         then map_sum id (\<lambda>action. unmerged ((attempt_result r a StageStatus_FAILED action)
                  \<lparr>res_gate_results := machine_results, res_findings := pipeline_findings failed ob\<rparr>))
                (mk_rework_action (bs_used_rework_rounds (cr_budget r) + 1) (bs_max_rework_rounds (cr_budget r))
                   (pipeline_failure_reason ob failed))
         else Inr (unmerged ((attempt_result r a StageStatus_BLOCKED
                (StopAction StopOutcome_BLOCKED (Txt (''pipeline success cannot be attributed to a head SHA; '' @
                   ''a gate may not be passed without an observed success at the final SHA (FR-009)''))))
                \<lparr>res_gate_results := machine_results\<rparr>)))"

fun review_passes_from :: "review_pass list \<Rightarrow> stage_result list \<Rightarrow> review_pass list" where
  "review_passes_from passes [] = passes"
| "review_passes_from passes (result # history) =
     (if res_stage result \<noteq> Stage_REVIEW_VERIFICATION \<or> res_status result \<noteq> StageStatus_FAILED \<or>
         res_input_revision result \<in> {None, Some []}
      then review_passes_from passes history
      else review_passes_from
        (passes @ [\<lparr>rp_round = int (length passes) + 1, rp_sha = the (res_input_revision result),
                     rp_blocking = map finding_signature_of
                       (filter (\<lambda>f. f_severity f = FindingSeverity_BLOCKER) (res_findings result)),
                     rp_escalations = res_escalations result\<rparr>]) history)"

definition review_passes :: "stage_result list \<Rightarrow> review_pass list" where
  "review_passes history = review_passes_from [] history"

definition change_request_ref_of ::
    "change \<Rightarrow> stage_result \<Rightarrow> gate_observation \<Rightarrow> resolution_error + change_request_ref" where
  "change_request_ref_of change_of checkpoint ob =
     (let named = (case res_next_action checkpoint of WaitForCIAction _ ref \<Rightarrow> ref | _ \<Rightarrow> None)
      in case or_else named (ch_change_request change_of) of
           None \<Rightarrow> Inl NoChangeRequest
         | Some ref \<Rightarrow>
             Inr (if go_merged ob \<and> crr_status ref \<noteq> ChangeRequestStatus_MERGED
                  then ref\<lparr>crr_status := ChangeRequestStatus_MERGED\<rparr> else ref))"

definition observed_merge ::
    "change_run \<Rightarrow> attempt_identity \<Rightarrow> gate_observation \<Rightarrow> risk_class \<Rightarrow> change_request_ref \<Rightarrow> gate_resolution" where
  "observed_merge r a ob risk ref =
     \<lparr>gx_result =
        (attempt_result r (a\<lparr>ai_stage := Stage_REVIEW_VERIFICATION\<rparr>) StageStatus_SUCCEEDED
           (MergeAction ref (Some (Txt (''change request #'' @ show_int (crr_number ref) @ '' observed merged at '' @
              shown (go_head_sha ob))))))
        \<lparr>res_gate_results :=
           (if go_head_sha ob \<noteq> None
            then [new_gate_result Gate_REVIEW GateStatus_PASSED (go_head_sha ob)
                    (Some (Txt (''change request #'' @ show_int (crr_number ref) @ '' merged'')))] else []) @
           machine_gate_results (cr_route r) Stage_REVIEW_VERIFICATION ob risk\<rparr>,
      gx_merge_context = Some
        \<lparr>mc_executor = ByHuman,
         mc_risk_class = effective_change_risk_class (cr_implementation_contract r) (cr_route r),
         mc_route = cr_route r, mc_stage = Stage_REVIEW_VERIFICATION, mc_expected_sha = go_head_sha ob,
         mc_head_sha = go_head_sha ob, mc_human_approvals = go_approvals ob, mc_gate_results = []\<rparr>\<rparr>"

definition resolve_review ::
    "change_run \<Rightarrow> attempt_identity \<Rightarrow> change \<Rightarrow> stage_result \<Rightarrow> gate_observation \<Rightarrow> stage_result list \<Rightarrow> risk_class
      \<Rightarrow> resolution_error + gate_resolution" where
  "resolve_review r a change_of checkpoint ob history risk =
     (if go_merged ob
      then map_sum id (observed_merge r a ob risk) (change_request_ref_of change_of checkpoint ob)
      else
        let machine_results = machine_gate_results (cr_route r) Stage_REVIEW_VERIFICATION ob risk;
            findings = pipeline_findings (failed_gates machine_results) ob;
            prior = review_passes history;
            sha = (case go_head_sha ob of None \<Rightarrow> ai_input_revision a
                   | Some h \<Rightarrow> if h = [] then ai_input_revision a else h)
        in if sha = [] then Inl EmptyPassSha
           else case plan_rework (cr_budget r)
                       (prior @ [\<lparr>rp_round = int (length prior) + 1, rp_sha = sha,
                                   rp_blocking = map finding_signature_of findings, rp_escalations = []\<rparr>]) of
             Inl e \<Rightarrow> Inl (OfReview e)
           | Inr d \<Rightarrow>
               map_sum id (\<lambda>result. unmerged (result\<lparr>res_gate_results := machine_results, res_findings := findings\<rparr>))
                 (rework_result r (a\<lparr>ai_stage := Stage_REVIEW_VERIFICATION\<rparr>) d))"

definition build_gate_resolution ::
    "change_run \<Rightarrow> stage \<Rightarrow> change \<Rightarrow> stage_result \<Rightarrow> gate_observation \<Rightarrow> string \<Rightarrow> int \<Rightarrow> stage_result list \<Rightarrow> instant
      \<Rightarrow> resolution_error + gate_resolution" where
  "build_gate_resolution r st change_of checkpoint ob input_revision attempt_number history now =
     (let risk = effective_change_risk_class (cr_implementation_contract r) (cr_route r);
          a = \<lparr>ai_stage = st, ai_input_revision = input_revision, ai_attempt_number = attempt_number, ai_now = now\<rparr>
      in if \<not> gate_resolved (Some ob) st (cr_route r) risk then Inl (NotResolving st)
         else if st = Stage_REVIEW_VERIFICATION then resolve_review r a change_of checkpoint ob history risk
         else if is_purely_human_gated (cr_route r) st risk then resolve_human_gated r a ob risk
         else resolve_machine_gated r a ob risk)"

section \<open>Gate sets and machine results\<close>

lemma map_sum_eq_Inr: "map_sum f g x = Inr y \<longleftrightarrow> (\<exists>a. x = Inr a \<and> y = g a)"
  by (cases x) auto

lemma set_sorted_gates [simp]: "set (sorted_gates G) = G"
  using gate_wire.members_UNIV by (auto simp: sorted_gates_def)

lemma sorted_gates_eq_Nil [simp]: "sorted_gates G = [] \<longleftrightarrow> G = {}"
  by (metis set_sorted_gates set_empty)

lemma human_gates_required: "required_human_gates rt st risk \<subseteq> required_gates rt st"
  by (auto simp: required_human_gates_def)

lemma purely_human_iff:
  "is_purely_human_gated rt st risk \<longleftrightarrow>
     st = Stage_SPECIFICATION \<or> st = Stage_PLANNING \<and> is_r2_or_higher risk \<or> risk \<in> {RiskClass_R3, RiskClass_R4}"
  by (cases rt; cases st; cases risk)
    (auto simp: is_purely_human_gated_def required_human_gates_def required_gates_def route_extra_gates_def
      HUMAN_GATES_def gate_members_def is_r2_or_higher_def R2_THRESHOLD_def risk_order_defs simp del: risk_order_le)

lemma review_gates:
  "required_gates rt Stage_REVIEW_VERIFICATION = {Gate_REVIEW, Gate_VERIFICATION}"
  "required_human_gates rt Stage_REVIEW_VERIFICATION risk =
     (if risk \<in> {RiskClass_R3, RiskClass_R4} then {Gate_REVIEW, Gate_VERIFICATION} else {Gate_REVIEW})"
  by (cases rt; cases risk; auto simp: required_human_gates_def required_gates_def route_extra_gates_def
      HUMAN_GATES_def gate_members_def)+

lemma machine_gate_resultD:
  assumes "g \<in> set (machine_gate_results rt st ob risk)"
  shows "gr_gate g \<in> required_gates rt st - required_human_gates rt st risk" "gr_sha g = go_head_sha ob"
    and "gr_status g = GateStatus_PASSED \<and> go_pipeline_status ob = Some PIPELINE_SUCCESS \<and> go_head_sha ob \<noteq> None \<or>
         gr_status g = GateStatus_FAILED \<and> pipeline_failed ob"
  using assms by (auto simp: machine_gate_results_def new_gate_result_def Let_def split: if_splits)

lemma human_gate_resultD:
  "gr_gate (human_gate_result ob reason g) = g" "gr_sha (human_gate_result ob reason g) = go_head_sha ob"
  by (simp_all add: human_gate_result_def new_gate_result_def Let_def)

lemma latest_gate_statusD:
  "latest_gate_statuses rs g = Some status \<Longrightarrow> \<exists>r\<in>set rs. gr_gate r = g \<and> gr_status r = status"
  by (auto simp: latest_gate_statuses_eq find_Some_iff split: option.splits) (metis length_rev nth_mem set_rev)

lemma unsatisfied_all:
  assumes "\<And>r. r \<in> set rs \<Longrightarrow> gr_status r \<notin> gate_satisfied"
  shows "unsatisfied_gates rt st rs = sorted_gates (required_gates rt st)"
  using assms
  by (auto simp: unsatisfied_gates_def sorted_gates_def Let_def intro!: filter_True split: option.split
      dest!: latest_gate_statusD)

section \<open>The identity of the attempt\<close>

definition of_attempt :: "change_run \<Rightarrow> attempt_identity \<Rightarrow> stage_result \<Rightarrow> bool" where
  "of_attempt r a res \<longleftrightarrow> res_stage res = ai_stage a \<and> res_run_id res = cr_id r \<and> res_change_id res = cr_change_id r \<and>
     res_attempt_number res = ai_attempt_number a \<and> res_input_revision res = Some (ai_input_revision a) \<and>
     res_status res = expected_result_status (res_next_action res) \<and> res_usage res = None \<and> res_escalations res = []"

lemma attempt_result_simps [simp]:
  "of_attempt r a (attempt_result r a status action) \<longleftrightarrow> status = expected_result_status action"
  "of_attempt r a (res\<lparr>res_gate_results := gs\<rparr>) \<longleftrightarrow> of_attempt r a res"
  "of_attempt r a (res\<lparr>res_findings := fs\<rparr>) \<longleftrightarrow> of_attempt r a res"
  "of_attempt r a (res\<lparr>res_phase := ph\<rparr>) \<longleftrightarrow> of_attempt r a res"
  "res_next_action (attempt_result r a status action) = action"
  "res_gate_results (attempt_result r a status action) = []"
  "res_findings (attempt_result r a status action) = []"
  by (auto simp: of_attempt_def attempt_result_def new_result_def)

text \<open>What every resolution of a wait satisfies: it is a result of the attempt with an action of the stage's table.\<close>

definition proper_resolution :: "change_run \<Rightarrow> attempt_identity \<Rightarrow> gate_resolution \<Rightarrow> bool" where
  "proper_resolution r a x \<longleftrightarrow> of_attempt r a (gx_result x) \<and>
     action_type (res_next_action (gx_result x)) \<in> FLOW_TRANSITIONS (ai_stage a) \<and>
     (case res_next_action (gx_result x) of
        ExecuteStageAction nxt _ \<Rightarrow> next_stage (ROUTE_PROFILES (cr_route r)) (ai_stage a) = Some nxt
      | _ \<Rightarrow> True)"

lemma mk_rework_action_Inr: "mk_rework_action n m why = Inr action \<Longrightarrow> action = ReworkAction n m why"
  by (auto simp: mk_rework_action_def split: if_splits)

lemma rework_result_proper:
  assumes "rework_result r a d = Inr res" "ai_stage a \<noteq> Stage_RELEASE"
  shows "of_attempt r a res" "action_type (res_next_action res) \<in> FLOW_TRANSITIONS (ai_stage a)"
    "res_gate_results res = []"
    "case res_next_action res of
        ExecuteStageAction nxt _ \<Rightarrow> next_stage (ROUTE_PROFILES (cr_route r)) (ai_stage a) = Some nxt | _ \<Rightarrow> True"
  using assms
  by (cases "ai_stage a";
      auto simp: rework_result_def map_sum_eq_Inr dest!: mk_rework_action_Inr split: if_splits)+


lemma resolution_proper:
  assumes built: "build_gate_resolution r st change_of checkpoint ob rv n history now = Inr x"
    and rounds: "go_next_phase ob \<noteq> None \<Longrightarrow> st = Stage_SPECIFICATION"
  shows "proper_resolution r \<lparr>ai_stage = st, ai_input_revision = rv, ai_attempt_number = n, ai_now = now\<rparr> x"
proof -
  let ?a = "\<lparr>ai_stage = st, ai_input_revision = rv, ai_attempt_number = n, ai_now = now\<rparr>"
  define risk where "risk = effective_change_risk_class (cr_implementation_contract r) (cr_route r)"
  from built have notrel: "st \<noteq> Stage_RELEASE" and
    cases: "st = Stage_REVIEW_VERIFICATION \<and> resolve_review r ?a change_of checkpoint ob history risk = Inr x \<or>
       st \<noteq> Stage_REVIEW_VERIFICATION \<and> resolve_human_gated r ?a ob risk = Inr x \<or>
       st \<noteq> Stage_REVIEW_VERIFICATION \<and> resolve_machine_gated r ?a ob risk = Inr x"
    by (auto simp: build_gate_resolution_def risk_def Let_def gate_resolved_def split: if_splits)
  from cases show ?thesis
  proof (elim disjE conjE)
    assume st: "st = Stage_REVIEW_VERIFICATION"
      and "resolve_review r ?a change_of checkpoint ob history risk = Inr x"
    then consider ref where "x = observed_merge r ?a ob risk ref"
      | d res gs fs where "rework_result r ?a d = Inr res" "x = unmerged (res\<lparr>res_gate_results := gs, res_findings := fs\<rparr>)"
      by (auto simp: resolve_review_def Let_def map_sum_eq_Inr split: if_splits sum.splits)
    then show ?thesis
    proof cases
      case 1
      with st show ?thesis by (simp add: proper_resolution_def observed_merge_def)
    next
      case 2
      with rework_result_proper [OF this(1)] notrel show ?thesis by (simp add: proper_resolution_def unmerged_def)
    qed
  next
    assume st: "st \<noteq> Stage_REVIEW_VERIFICATION" and h: "resolve_human_gated r ?a ob risk = Inr x"
    show ?thesis
    proof (cases "\<not> go_merged ob \<and> pending_rework_order ob \<noteq> None")
      case True
      with h obtain d res where "rework_result r ?a d = Inr res" "x = unmerged (res\<lparr>res_phase := go_phase ob\<rparr>)"
        by (auto simp: resolve_human_gated_def resolve_rework_order_def map_sum_eq_Inr split: sum.splits)
      with rework_result_proper [OF this(1)] notrel show ?thesis
        by (simp add: proper_resolution_def unmerged_def)
    next
      case False
      with h rounds st notrel show ?thesis
        by (cases st; cases "go_next_phase ob")
          (auto simp: resolve_human_gated_def proper_resolution_def unmerged_def Let_def split: option.splits if_splits)
    qed
  next
    assume st: "st \<noteq> Stage_REVIEW_VERIFICATION" and m: "resolve_machine_gated r ?a ob risk = Inr x"
    then show ?thesis using notrel
      by (cases st)
        (auto simp: resolve_machine_gated_def proper_resolution_def unmerged_def Let_def map_sum_eq_Inr
          dest!: mk_rework_action_Inr split: option.splits if_splits)
  qed
qed

section \<open>A parked sample run\<close>

definition sample_parked :: "route \<Rightarrow> stage \<Rightarrow> change_run" where
  "sample_parked rt st = (sample_run [(new_stage_run ''s1'' st)\<lparr>sr_status := StageStatus_WAITING\<rparr>])\<lparr>cr_route := rt\<rparr>"

definition sample_change :: change where
  "sample_change = \<lparr>ch_id = ''c1'', ch_title = ''t'', ch_description = None, ch_source = ChangeSource_CONSOLE,
     ch_external_ref = None, ch_product = crr_repository sample_ref, ch_product_id = None,
     ch_risk_class = RiskClass_R1, ch_brief = None, ch_scenario = Scenario_FULL, ch_spend_limit = None,
     ch_change_request = Some sample_ref, ch_created_at = 0\<rparr>"

definition sample_wait :: "stage \<Rightarrow> stage_result" where
  "sample_wait st = sample_result st StageStatus_WAITING (WaitForCIAction (Txt ''ci'') (Some sample_ref)) []"

definition sample_observation :: "bool \<Rightarrow> string \<Rightarrow> gate_observation" where
  "sample_observation merged verdict = \<lparr>go_head_sha = Some ''abc'', go_merged = merged, go_pipeline_status = Some verdict,
     go_approvals = [sample_approval], go_rework_orders = [], go_phase = None, go_next_phase = None\<rparr>"

abbreviation sample_resolution :: "route \<Rightarrow> stage \<Rightarrow> bool \<Rightarrow> resolution_error + gate_resolution" where
  "sample_resolution rt st merged \<equiv> build_gate_resolution (sample_parked rt st) st sample_change (sample_wait st)
     (sample_observation merged ''success'') ''abc'' 1 [] 0"

section \<open>What a resolution guarantees\<close>

text \<open>
  The deterministic path never completes a stage. Whatever the context, the attempt keeps its identity,
  ends waiting or blocked, and every gate the stage requires is left unsatisfied by the results it
  produces; it waits exactly when Construction may be entered, no limit is exhausted and the budget check
  (if any) is within its limits.
\<close>

theorem deterministic_path_never_completes:
  "let res = run_deterministic_stage render
        (build_context ch st rt run_id rv budget n risk contract enforce conversation ph) now check
   in res_stage res = st \<and> res_run_id res = run_id \<and> res_change_id res = ch_id ch \<and> res_attempt_number res = n \<and>
      res_input_revision res = rv \<and> res_status res = expected_result_status (res_next_action res) \<and>
      unsatisfied_gates rt st (res_gate_results res) = sorted_gates (required_gates rt st) \<and>
      res_status res =
        (if (if st = Stage_CONSTRUCTION \<and> enforce
             then (case contract of None \<Rightarrow> False | Some c \<Rightarrow> ic_approval c \<noteq> None) else True) \<and>
            bs_used_rework_rounds budget < bs_max_rework_rounds budget \<and> continuation_violations budget now = [] \<and>
            (case check of None \<Rightarrow> True | Some c \<Rightarrow> bk_state c = WITHIN_LIMITS)
         then StageStatus_WAITING else StageStatus_BLOCKED)"
proof -
  have pending: "unsatisfied_gates rt st (pending_gate_results G) = sorted_gates (required_gates rt st)" for G st
    by (rule unsatisfied_all) (auto simp: pending_gate_results_def new_gate_result_def gate_satisfied_def)
  show ?thesis
    by (auto simp: run_deterministic_stage_def build_context_def executor_result_def new_result_def Let_def pending
        construction_entry_reason_def contract_entry_violation_def escalation_def budget_exhaustions_def
        rework_violation_None budget_stop_reason_def split: option.splits)
qed

text \<open>
  C29: a resolution belongs to the waiting attempt and the flow engine takes it. If the wait of stage \<open>st\<close> is
  resolved (a phase round is only ever announced on the specification stage), the result carries the run, the
  change, the stage, the attempt number and the pinned revision of the waiting attempt, spends nothing, and
  \<open>apply_result\<close> returns a decision for it whatever the history and the decisions handed to it.
\<close>

theorem resolution_accepted_by_flow:
  assumes built: "build_gate_resolution r st change_of checkpoint ob rv n history now = Inr x"
    and rounds: "go_next_phase ob \<noteq> None \<Longrightarrow> st = Stage_SPECIFICATION"
    and live: "\<not> run_terminal (cr_status r)"
    and parked: "active_stage_run r st = Some i" "sr_attempt_number (cr_stages r ! i) = n"
  shows "res_stage (gx_result x) = st \<and> res_run_id (gx_result x) = cr_id r \<and> res_change_id (gx_result x) = cr_change_id r \<and>
    res_attempt_number (gx_result x) = n \<and> res_input_revision (gx_result x) = Some rv \<and> res_usage (gx_result x) = None \<and>
    (\<exists>d r'. apply_result clk (gx_result x) history' now' (gx_merge_context x) ds r = (Inr d, r'))"
proof -
  from resolution_proper [OF built rounds]
  have p: "of_attempt r \<lparr>ai_stage = st, ai_input_revision = rv, ai_attempt_number = n, ai_now = now\<rparr> (gx_result x)"
    and act: "action_type (res_next_action (gx_result x)) \<in> FLOW_TRANSITIONS st"
    and nxt: "case res_next_action (gx_result x) of
        ExecuteStageAction nxt _ \<Rightarrow> next_stage (ROUTE_PROFILES (cr_route r)) st = Some nxt | _ \<Rightarrow> True"
    by (auto simp: proper_resolution_def split: next_action.splits)
  from p act live parked have acc: "result_accepted r (gx_result x)"
    by (simp add: result_accepted_def of_attempt_def attempt_accepted_def)
  from apply_result_enters [OF acc, of clk history' now' "gx_merge_context x" ds] obtain j r1
    where e: "entered r r1 j (gx_result x)"
      and eq: "apply_result clk (gx_result x) history' now' (gx_merge_context x) ds r =
        handle_action clk j (gx_result x) history' now' (gx_merge_context x) ds r1"
    by blast
  from e have "in_progress r1 j" "cr_route r1 = cr_route r" by (simp_all add: entered_def)
  moreover from p have "res_stage (gx_result x) = st" by (simp add: of_attempt_def)
  ultimately show ?thesis
    using handle_action_returns [of r1 j r "gx_result x" clk history' now' "gx_merge_context x" ds] acc nxt p eq
    by (simp only: of_attempt_def) simp
qed

theorem resolution_accepted_by_flow_witness:
  "\<exists>x d r'. sample_resolution Route_QUICK Stage_CONSTRUCTION False = Inr x \<and>
     apply_result 0 (gx_result x) [] 0 (gx_merge_context x) [] (sample_parked Route_QUICK Stage_CONSTRUCTION) = (Inr d, r')"
proof -
  have b: "sample_resolution Route_QUICK Stage_CONSTRUCTION False =
      Inr (projr (sample_resolution Route_QUICK Stage_CONSTRUCTION False))" by code_simp
  have "active_stage_run (sample_parked Route_QUICK Stage_CONSTRUCTION) Stage_CONSTRUCTION = Some 0"
    "sr_attempt_number (cr_stages (sample_parked Route_QUICK Stage_CONSTRUCTION) ! 0) = 1"
    "\<not> run_terminal (cr_status (sample_parked Route_QUICK Stage_CONSTRUCTION))"
    "go_next_phase (sample_observation False ''success'') = None" by code_simp+
  with resolution_accepted_by_flow [OF b, where i = 0 and clk = 0 and history' = "[]" and now' = 0 and ds = "[]"] b
  show ?thesis by blast
qed

lemma settling_decisionD:
  "settling_decision ob G = Some d \<Longrightarrow> d \<in> set (go_approvals ob) \<and> settles_wait ob G d"
  by (auto simp: settling_decision_def find_Some_iff) (metis length_rev nth_mem set_rev)

text \<open>
  C30: a gate passes only on the facts that may pass it. Every gate result of a resolution that satisfies its
  gate is bound to the observed head SHA and belongs to a gate the stage requires; a gate that is human at the
  run's effective risk class is satisfied only by an observed merge or by a recorded approval or waiver of a
  human gate of the stage (of the waiting phase, when there is one), never by the pipeline; any other gate only
  by a successful pipeline at an observed SHA.
\<close>

theorem gates_pass_only_on_their_facts:
  assumes built: "build_gate_resolution r st change_of checkpoint ob rv n history now = Inr x"
    and g: "g \<in> set (res_gate_results (gx_result x))" "gr_status g \<in> gate_satisfied"
  shows "gr_gate g \<in> required_gates (cr_route r) st \<and> gr_sha g = go_head_sha ob \<and>
    (if gr_gate g \<in> required_human_gates (cr_route r) st (run_risk_class r)
     then go_merged ob \<or> (\<exists>d\<in>set (go_approvals ob). d_outcome d \<in> {DecisionOutcome_APPROVED, DecisionOutcome_WAIVED} \<and>
            d_gate d \<in> required_human_gates (cr_route r) st (run_risk_class r) \<and>
            (case go_phase ob of None \<Rightarrow> True | Some ph \<Rightarrow> decision_phase d = ph))
     else go_pipeline_status ob = Some ''success'' \<and> go_head_sha ob \<noteq> None)"
proof -
  let ?a = "\<lparr>ai_stage = st, ai_input_revision = rv, ai_attempt_number = n, ai_now = now\<rparr>"
  let ?risk = "run_risk_class r"
  let ?human = "required_human_gates (cr_route r) st ?risk"
  have machine: "?thesis" if "g \<in> set (machine_gate_results (cr_route r) st ob ?risk)"
    using machine_gate_resultD [OF that] g(2) by (auto simp: gate_satisfied_def PIPELINE_SUCCESS_def)
  from built have res: "gate_resolved (Some ob) st (cr_route r) ?risk"
    and cases: "st = Stage_REVIEW_VERIFICATION \<and> resolve_review r ?a change_of checkpoint ob history ?risk = Inr x \<or>
       is_purely_human_gated (cr_route r) st ?risk \<and> resolve_human_gated r ?a ob ?risk = Inr x \<or>
       resolve_machine_gated r ?a ob ?risk = Inr x"
    by (auto simp: build_gate_resolution_def run_risk_class_def Let_def split: if_splits)
  from cases show ?thesis
  proof (elim disjE conjE)
    assume st: "st = Stage_REVIEW_VERIFICATION" and rv: "resolve_review r ?a change_of checkpoint ob history ?risk = Inr x"
    show ?thesis
    proof (cases "g \<in> set (machine_gate_results (cr_route r) st ob ?risk)")
      case False
      with rv g(1) have "go_merged ob" "gr_gate g = Gate_REVIEW" "gr_sha g = go_head_sha ob"
        by (auto simp: st resolve_review_def observed_merge_def unmerged_def Let_def map_sum_eq_Inr new_gate_result_def
            split: if_splits sum.splits)
      then show ?thesis by (simp add: st review_gates)
    qed (rule machine)
  next
    assume pure: "is_purely_human_gated (cr_route r) st ?risk" and h: "resolve_human_gated r ?a ob ?risk = Inr x"
    have "\<not> (\<not> go_merged ob \<and> pending_rework_order ob \<noteq> None)"
    proof
      assume order: "\<not> go_merged ob \<and> pending_rework_order ob \<noteq> None"
      with h obtain d res where "rework_result r ?a d = Inr res" "x = unmerged (res\<lparr>res_phase := go_phase ob\<rparr>)"
        by (auto simp: resolve_human_gated_def resolve_rework_order_def map_sum_eq_Inr split: sum.splits)
      with g(1) res rework_result_proper(3) [OF this(1)] show False by (simp add: unmerged_def gate_resolved_def split: if_splits)
    qed
    with h g(1) obtain reason gate where "g = human_gate_result ob reason gate" "gate \<in> ?human"
      by (auto simp: resolve_human_gated_def unmerged_def Let_def split: option.splits if_splits)
    moreover have "go_merged ob \<or> (\<exists>d\<in>set (go_approvals ob). settles_wait ob ?human d)"
      using res pure \<open>\<not> (\<not> go_merged ob \<and> pending_rework_order ob \<noteq> None)\<close>
      by (auto simp: gate_resolved_def dest!: settling_decisionD split: if_splits)
    ultimately show ?thesis
      using human_gates_required [of "cr_route r" st ?risk] by (auto simp: human_gate_resultD settles_wait_def)
  next
    assume "resolve_machine_gated r ?a ob ?risk = Inr x"
    with g(1) have "g \<in> set (machine_gate_results (cr_route r) st ob ?risk)"
      by (auto simp: resolve_machine_gated_def unmerged_def Let_def map_sum_eq_Inr split: option.splits if_splits)
    then show ?thesis by (rule machine)
  qed
qed

theorem gates_pass_only_on_their_facts_witness:
  "\<exists>x g. sample_resolution Route_QUICK Stage_CONSTRUCTION False = Inr x \<and> g \<in> set (res_gate_results (gx_result x)) \<and>
     gr_status g \<in> gate_satisfied \<and> gr_sha g = Some ''abc''"
proof -
  let ?x = "projr (sample_resolution Route_QUICK Stage_CONSTRUCTION False)"
  have b: "sample_resolution Route_QUICK Stage_CONSTRUCTION False = Inr ?x" by code_simp
  have "res_gate_results (gx_result ?x) \<noteq> []" "gr_status (hd (res_gate_results (gx_result ?x))) = GateStatus_PASSED"
    "go_head_sha (sample_observation False ''success'') = Some ''abc''" by code_simp+
  then have g: "hd (res_gate_results (gx_result ?x)) \<in> set (res_gate_results (gx_result ?x))"
    "gr_status (hd (res_gate_results (gx_result ?x))) \<in> gate_satisfied" by (simp_all add: gate_satisfied_def)
  from gates_pass_only_on_their_facts [OF b g] b g \<open>go_head_sha _ = _\<close> show ?thesis by metis
qed

lemma failed_gates_Nil: "failed_gates rs = [] \<longleftrightarrow> (\<forall>g\<in>set rs. gr_status g \<noteq> GateStatus_FAILED)"
proof -
  have "failed_gates rs = [] \<longleftrightarrow> set (failed_gates rs) = {}" by (simp only: set_empty)
  then show ?thesis by (auto simp: failed_gates_def)
qed

lemma pipeline_fails_gates:
  assumes "\<not> is_purely_human_gated rt st risk" "pipeline_failed ob"
  shows "failed_gates (machine_gate_results rt st ob risk) \<noteq> []" "unsatisfied_gates rt st (machine_gate_results rt st ob risk) \<noteq> []"
proof -
  from assms(2) have "go_pipeline_status ob \<noteq> Some PIPELINE_SUCCESS"
    by (auto simp: pipeline_failed_def PIPELINE_FAILURES_def PIPELINE_SUCCESS_def split: option.splits)
  moreover have req: "required_gates rt st - required_human_gates rt st risk \<noteq> {}"
    using assms(1) by (cases st) (auto simp: is_purely_human_gated_def required_gates_def)
  ultimately show "failed_gates (machine_gate_results rt st ob risk) \<noteq> []"
    using assms(2) by (simp add: failed_gates_Nil machine_gate_results_def new_gate_result_def) blast
  have "gr_status g \<notin> gate_satisfied" if "g \<in> set (machine_gate_results rt st ob risk)" for g
    using machine_gate_resultD(3) [OF that] \<open>go_pipeline_status ob \<noteq> Some PIPELINE_SUCCESS\<close>
    by (auto simp: gate_satisfied_def)
  from unsatisfied_all [OF this] req
  show "unsatisfied_gates rt st (machine_gate_results rt st ob risk) \<noteq> []" by auto
qed

lemma planned_rework_result:
  assumes "plan_rework b ps = Inr d" "b = cr_budget r" "0 \<le> bs_used_rework_rounds b"
  shows "\<exists>res. rework_result r a d = Inr res"
  using assms
  by (auto simp: plan_rework_def Let_def rework_blocked_def rework_result_def mk_rework_action_def
      rework_violation_None split: if_splits option.splits)

lemma next_stage_None: "next_stage (ROUTE_PROFILES rt) st = None \<longleftrightarrow> st = Stage_RELEASE"
  by (cases rt; cases st) (simp_all add: next_stage_def STAGE_SEQUENCE_def)

lemma resolve_human_total:
  assumes "gate_resolved (Some ob) (ai_stage a) (cr_route r) risk" "0 \<le> bs_used_rework_rounds (cr_budget r)"
  shows "\<exists>x. resolve_human_gated r a ob risk = Inr x"
proof -
  from assms(1) have st: "ai_stage a \<noteq> Stage_RELEASE" by (auto simp: gate_resolved_def)
  have order: "\<exists>x. resolve_rework_order r a ob = Inr x" if "pending_rework_order ob \<noteq> None"
  proof -
    from that have "go_rework_orders ob \<noteq> []" by (auto simp: pending_rework_order_def)
    then obtain d where d: "plan_rework_order (cr_budget r) (go_rework_orders ob) = Inr d"
      using plan_rework_order_decides by blast
    with \<open>go_rework_orders ob \<noteq> []\<close> obtain ps where "plan_rework (cr_budget r) ps = Inr d"
      by (auto simp: plan_rework_order_def map_sum_eq_Inr)
    from planned_rework_result [OF this refl assms(2), of a] d show ?thesis by (auto simp: resolve_rework_order_def)
  qed
  from st obtain nxt where "next_stage (ROUTE_PROFILES (cr_route r)) (ai_stage a) = Some nxt"
    using next_stage_None by blast
  with order show ?thesis
    by (auto simp: resolve_human_gated_def Let_def split: option.split)
qed

lemma resolve_machine_built_iff:
  assumes "ai_stage a \<noteq> Stage_RELEASE" "\<not> is_purely_human_gated (cr_route r) (ai_stage a) risk"
    "0 \<le> bs_used_rework_rounds (cr_budget r)"
  shows "(\<exists>x. resolve_machine_gated r a ob risk = Inr x) \<longleftrightarrow>
    \<not> (pipeline_failed ob \<and> bs_max_rework_rounds (cr_budget r) < 1)"
proof -
  obtain nxt where nxt: "next_stage (ROUTE_PROFILES (cr_route r)) (ai_stage a) = Some nxt"
    using assms(1) next_stage_None by blast
  show ?thesis
  proof (cases "pipeline_failed ob")
    case True
    with pipeline_fails_gates [OF assms(2) True] assms(3) show ?thesis
      by (auto simp: resolve_machine_gated_def Let_def mk_rework_action_def)
  next
    case False
    then have "failed_gates (machine_gate_results (cr_route r) (ai_stage a) ob risk) = []"
      by (auto simp: failed_gates_Nil dest: machine_gate_resultD(3))
    with False nxt show ?thesis by (simp add: resolve_machine_gated_def Let_def)
  qed
qed

lemma resolve_review_rework_iff:
  assumes "\<not> go_merged ob" "gate_resolved (Some ob) Stage_REVIEW_VERIFICATION (cr_route r) risk"
    "0 \<le> bs_used_rework_rounds (cr_budget r)"
  shows "(\<exists>x. resolve_review r a change_of checkpoint ob history risk = Inr x) \<longleftrightarrow>
    risk \<notin> {RiskClass_R3, RiskClass_R4} \<and> \<not> (ai_input_revision a = [] \<and> go_head_sha ob \<in> {None, Some []})"
    (is "?built \<longleftrightarrow> _ \<and> \<not> ?nosha")
proof -
  let ?rs = "machine_gate_results (cr_route r) Stage_REVIEW_VERIFICATION ob risk"
  let ?fs = "pipeline_findings (failed_gates ?rs) ob"
  have pure: "is_purely_human_gated (cr_route r) Stage_REVIEW_VERIFICATION risk \<longleftrightarrow> risk \<in> {RiskClass_R3, RiskClass_R4}"
    by (simp add: purely_human_iff)
  have fs: "?fs = [] \<longleftrightarrow> risk \<in> {RiskClass_R3, RiskClass_R4}"
  proof (cases "risk \<in> {RiskClass_R3, RiskClass_R4}")
    case True
    then have "?rs = []" by (auto simp: machine_gate_results_def review_gates)
    with True show ?thesis by (simp add: pipeline_findings_def failed_gates_def)
  next
    case False
    with assms(1,2) pure have "pipeline_failed ob"
      by (auto simp: gate_resolved_def review_gates split: if_splits)
    with pipeline_fails_gates(1) False pure show ?thesis by (simp add: pipeline_findings_def)
  qed
  have plan: "(\<exists>d. plan_rework (cr_budget r) (ps @ [\<lparr>rp_round = k, rp_sha = sha, rp_blocking = map finding_signature_of ?fs,
      rp_escalations = []\<rparr>]) = Inr d) \<longleftrightarrow> risk \<notin> {RiskClass_R3, RiskClass_R4}" for ps k sha
    unfolding plan_rework_decides_iff using fs by simp
  have sha: "(case go_head_sha ob of None \<Rightarrow> ai_input_revision a | Some h \<Rightarrow> if h = [] then ai_input_revision a else h) = [] \<longleftrightarrow>
      ?nosha" by (auto split: option.split)
  show ?thesis
  proof (cases ?nosha)
    case True
    with assms(1) show ?thesis by (auto simp: resolve_review_def Let_def)
  next
    case False
    let ?sha = "case go_head_sha ob of None \<Rightarrow> ai_input_revision a | Some h \<Rightarrow> if h = [] then ai_input_revision a else h"
    let ?ps = "review_passes history @ [\<lparr>rp_round = int (length (review_passes history)) + 1, rp_sha = ?sha,
        rp_blocking = map finding_signature_of ?fs, rp_escalations = []\<rparr>]"
    from False sha have ne: "?sha \<noteq> []" by blast
    have eq: "resolve_review r a change_of checkpoint ob history risk =
        (case plan_rework (cr_budget r) ?ps of Inl e \<Rightarrow> Inl (OfReview e)
         | Inr d \<Rightarrow> map_sum id (\<lambda>result. unmerged (result\<lparr>res_gate_results := ?rs, res_findings := ?fs\<rparr>))
             (rework_result r (a\<lparr>ai_stage := Stage_REVIEW_VERIFICATION\<rparr>) d))"
      by (simp only: resolve_review_def Let_def assms(1) ne if_False)
    show ?thesis
    proof (cases "plan_rework (cr_budget r) ?ps")
      case (Inl e)
      with plan [of "review_passes history" "int (length (review_passes history)) + 1" ?sha] False eq show ?thesis by simp
    next
      case (Inr d)
      with planned_rework_result [OF Inr refl assms(3), of "a\<lparr>ai_stage := Stage_REVIEW_VERIFICATION\<rparr>"] eq
      have ?built by auto
      with plan [of "review_passes history" "int (length (review_passes history)) + 1" ?sha] Inr False show ?thesis by simp
    qed
  qed
qed

text \<open>
  C31: exactly when a resolution can be built. The observation must resolve the wait; on the review stage an
  observed merge needs a change request named by the checkpoint or by the change, and a failing pipeline a run
  below class R3 and a SHA or a revision to bind the pass to; a failing pipeline on another machine-gated stage
  needs a rework limit of at least one. In particular, at R3 and above an approval observed on the review stage
  before the merge resolves the wait and the builder then raises; and with a rework limit of zero a failing
  pipeline raises instead of blocking the attempt.
\<close>

theorem resolution_built_iff:
  assumes used: "0 \<le> bs_used_rework_rounds (cr_budget r)"
  shows "(\<exists>x. build_gate_resolution r st change_of checkpoint ob rv n history now = Inr x) \<longleftrightarrow>
    gate_resolved (Some ob) st (cr_route r) (run_risk_class r) \<and>
    (if st = Stage_REVIEW_VERIFICATION
     then (if go_merged ob
           then or_else (case res_next_action checkpoint of WaitForCIAction _ ref \<Rightarrow> ref | _ \<Rightarrow> None)
                  (ch_change_request change_of) \<noteq> None
           else run_risk_class r \<notin> {RiskClass_R3, RiskClass_R4} \<and> \<not> (rv = [] \<and> go_head_sha ob \<in> {None, Some []}))
     else if is_purely_human_gated (cr_route r) st (run_risk_class r) then True
     else \<not> (pipeline_failed ob \<and> bs_max_rework_rounds (cr_budget r) < 1))"
proof (cases "gate_resolved (Some ob) st (cr_route r) (run_risk_class r)")
  case False
  then show ?thesis by (simp add: build_gate_resolution_def run_risk_class_def)
next
  case resolved: True
  let ?a = "\<lparr>ai_stage = st, ai_input_revision = rv, ai_attempt_number = n, ai_now = now\<rparr>"
  from resolved have st: "st \<noteq> Stage_RELEASE" by (auto simp: gate_resolved_def)
  show ?thesis
  proof (cases "st = Stage_REVIEW_VERIFICATION")
    case True
    then show ?thesis
      using resolved resolve_review_rework_iff [OF _ _ used, of ob "run_risk_class r" ?a change_of checkpoint history]
      by (cases "go_merged ob")
        (auto simp: build_gate_resolution_def run_risk_class_def resolve_review_def change_request_ref_of_def Let_def
          map_sum_eq_Inr split: option.splits)
  next
    case review: False
    have h: "\<exists>x. resolve_human_gated r ?a ob (run_risk_class r) = Inr x"
      by (rule resolve_human_total) (use resolved used in simp_all)
    have m: "(\<exists>x. resolve_machine_gated r ?a ob (run_risk_class r) = Inr x) \<longleftrightarrow>
        \<not> (pipeline_failed ob \<and> bs_max_rework_rounds (cr_budget r) < 1)"
      if "\<not> is_purely_human_gated (cr_route r) st (run_risk_class r)"
      using resolve_machine_built_iff [of ?a r "run_risk_class r" ob] that st used by simp
    show ?thesis
      using resolved review h m
      by (cases "is_purely_human_gated (cr_route r) st (run_risk_class r)")
        (simp_all add: build_gate_resolution_def run_risk_class_def)
  qed
qed

theorem resolution_built_iff_witness:
  "\<not> (\<exists>x. sample_resolution Route_FOUNDATION Stage_REVIEW_VERIFICATION False = Inr x) \<and>
   gate_resolved (Some (sample_observation False ''success'')) Stage_REVIEW_VERIFICATION Route_FOUNDATION RiskClass_R3"
proof -
  have "0 \<le> bs_used_rework_rounds (cr_budget (sample_parked Route_FOUNDATION Stage_REVIEW_VERIFICATION))"
    "run_risk_class (sample_parked Route_FOUNDATION Stage_REVIEW_VERIFICATION) = RiskClass_R3"
    "\<not> go_merged (sample_observation False ''success'')"
    "gate_resolved (Some (sample_observation False ''success'')) Stage_REVIEW_VERIFICATION Route_FOUNDATION RiskClass_R3"
    by code_simp+
  then show ?thesis
    using resolution_built_iff [of "sample_parked Route_FOUNDATION Stage_REVIEW_VERIFICATION" Stage_REVIEW_VERIFICATION
        sample_change "sample_wait Stage_REVIEW_VERIFICATION" "sample_observation False ''success''" "''abc''" 1 "[]" 0]
    by simp
qed

text \<open>
  C32: at class R3 and above the review stage cannot be left through a resolution. There every gate of the
  stage is human, so the merge result carries no result for the verification gate: whenever the engine takes
  such a result it blocks the stage and the run, whatever was approved. (The foundation route has R3 as its
  floor, so all of its runs are affected.)
\<close>

theorem high_risk_review_always_blocks:
  assumes risk: "run_risk_class r \<in> {RiskClass_R3, RiskClass_R4}"
    and built: "build_gate_resolution r Stage_REVIEW_VERIFICATION change_of checkpoint ob rv n history now = Inr x"
    and used: "0 \<le> bs_used_rework_rounds (cr_budget r)"
  shows "case apply_result clk (gx_result x) history' now' (gx_merge_context x) ds r of
      (Inr d, r') \<Rightarrow> fd_stage_status d = StageStatus_BLOCKED \<and> fd_run_status d = RunStatus_BLOCKED \<and>
        fd_next_stage d = None \<and> cr_status r' = RunStatus_BLOCKED
    | (Inl _, r') \<Rightarrow> r' = r"
proof (cases "result_accepted r (gx_result x)")
  case False
  with apply_result_refuses [OF this, of clk history' now' "gx_merge_context x" ds] show ?thesis by auto
next
  case acc: True
  let ?a = "\<lparr>ai_stage = Stage_REVIEW_VERIFICATION, ai_input_revision = rv, ai_attempt_number = n, ai_now = now\<rparr>"
  from built have res: "gate_resolved (Some ob) Stage_REVIEW_VERIFICATION (cr_route r) (run_risk_class r)"
    and rv: "resolve_review r ?a change_of checkpoint ob history (run_risk_class r) = Inr x"
    by (auto simp: build_gate_resolution_def run_risk_class_def Let_def split: if_splits)
  then have "go_merged ob" using resolve_review_rework_iff [OF _ res used] risk by blast
  with rv obtain ref where x: "x = observed_merge r ?a ob (run_risk_class r) ref"
    by (auto simp: resolve_review_def map_sum_eq_Inr)
  then obtain why where act: "res_next_action (gx_result x) = MergeAction ref why"
    and st: "res_stage (gx_result x) = Stage_REVIEW_VERIFICATION"
    by (simp add: observed_merge_def attempt_result_def new_result_def)
  have gates: "gr_gate ` set (res_gate_results (gx_result x)) \<subseteq> {Gate_REVIEW}"
    using risk by (auto simp: x observed_merge_def machine_gate_results_def review_gates new_gate_result_def)
  have stop: "block_reason r' Stage_REVIEW_VERIFICATION (res_gate_results (gx_result x)) now' \<noteq> None" for r'
  proof -
    have "latest_gate_statuses (res_gate_results (gx_result x)) Gate_VERIFICATION = None"
      using gates by (cases "latest_gate_statuses (res_gate_results (gx_result x)) Gate_VERIFICATION")
        (simp_all, force dest!: latest_gate_statusD)
    then have "Gate_VERIFICATION \<in> set (unsatisfied_gates (cr_route r') Stage_REVIEW_VERIFICATION (res_gate_results (gx_result x)))"
      by (simp add: set_unsatisfied_gates review_gates)
    then show ?thesis by (auto simp: block_reason_def Let_def)
  qed
  from apply_result_enters [OF acc, of clk history' now' "gx_merge_context x" ds] obtain i r1
    where e: "entered r r1 i (gx_result x)"
      and eq: "apply_result clk (gx_result x) history' now' (gx_merge_context x) ds r =
        handle_action clk i (gx_result x) history' now' (gx_merge_context x) ds r1" by blast
  from e have ip: "in_progress (charged (res_usage (gx_result x)) r1) i" by (simp add: entered_def)
  have nxt: "next_stage (ROUTE_PROFILES (cr_route (charged (res_usage (gx_result x)) r1))) (res_stage (gx_result x)) = Some Stage_RELEASE"
    by (simp add: st table_simps)
  from stop [of "charged (res_usage (gx_result x)) r1"] obtain why where
    "block_reason (charged (res_usage (gx_result x)) r1) (res_stage (gx_result x)) (res_gate_results (gx_result x)) now' = Some why"
    by (auto simp: st)
  then show ?thesis
    by (simp add: eq handle_action_run act handle_merge_run [OF ip nxt])
qed

theorem high_risk_review_always_blocks_witness:
  "\<exists>x d r'. sample_resolution Route_FOUNDATION Stage_REVIEW_VERIFICATION True = Inr x \<and>
     apply_result 0 (gx_result x) [] 0 (gx_merge_context x) [] (sample_parked Route_FOUNDATION Stage_REVIEW_VERIFICATION) =
       (Inr d, r') \<and> cr_status r' = RunStatus_BLOCKED"
proof -
  let ?r = "sample_parked Route_FOUNDATION Stage_REVIEW_VERIFICATION"
  let ?x = "projr (sample_resolution Route_FOUNDATION Stage_REVIEW_VERIFICATION True)"
  let ?y = "apply_result 0 (gx_result ?x) [] 0 (gx_merge_context ?x) [] ?r"
  have b: "sample_resolution Route_FOUNDATION Stage_REVIEW_VERIFICATION True = Inr ?x" by code_simp
  have "run_risk_class ?r \<in> {RiskClass_R3, RiskClass_R4}" "0 \<le> bs_used_rework_rounds (cr_budget ?r)" by code_simp+
  note block = high_risk_review_always_blocks [OF this(1) b this(2), where clk = 0 and history' = "[]" and now' = 0 and ds = "[]"]
  have "fst ?y = Inr (projr (fst ?y))" by code_simp
  note y = outcome_returned [OF this]
  from block have "cr_status (snd ?y) = RunStatus_BLOCKED" by (subst (asm) y) simp
  with b y show ?thesis by blast
qed

end
