(* ===== verification/RunStore.thy ===== *)
theory RunStore
  imports Outbox
begin

text \<open>
  The durable run store (\<open>orchestration/state/run_store.py\<close>) and the store of stage results
  (\<open>orchestration/state/stage_results.py\<close>), over the tables of \<open>State\<close> and the outbox. The columns of
  \<open>execution\<close>, \<open>stage\<close> and \<open>attempt\<close> that only this store reads (budget, contract, timestamps) are kept in
  companion tables under the same primary key; the tables it enumerates (\<open>stage\<close>, \<open>stage_result\<close>) are
  ordered dictionaries in insertion order, which is how a tie of an \<open>ORDER BY\<close> is resolved here. A JSON column
  holds the value it encodes. \<open>digest\<close> stands for the hexadecimal SHA-256, \<open>now\<close> for \<open>utc_now()\<close>.
\<close>

section \<open>Tables\<close>

record result_row =
  rw_operation_key :: string
  rw_run_id :: string
  rw_change_id :: string
  rw_stage :: stage
  rw_attempt_number :: int
  rw_input_revision :: "string option"
  rw_status :: stage_status
  rw_produced_at :: instant
  rw_payload :: stage_result

record execution_detail =
  xd_budget :: "budget_snapshot option"
  xd_implementation_contract :: "implementation_contract option"
  xd_created_at :: instant

record stage_times =
  xt_created_at :: instant
  xt_started_at :: "instant option"
  xt_finished_at :: "instant option"

record audit_entry =
  ae_occurred_at :: instant
  ae_actor :: string
  ae_role :: "string option"
  ae_action :: string
  ae_resource_type :: string
  ae_resource_id :: string
  ae_idempotency_key :: "string option"
  ae_outcome :: string
  ae_details :: "(string \<times> string) list"

record run_store =
  rs_state :: state_store
  rs_details :: "string \<rightharpoonup> execution_detail"
  rs_stage_times :: "(string \<times> stage_times) list"
  rs_attempt_finished :: "string \<rightharpoonup> instant"
  rs_results :: "(string \<times> result_row) list"
  rs_outbox :: outbox
  rs_audit :: "audit_entry list"

datatype run_store_error =
    OfState state_error
  | StageTransition "stage_status status_error"
  | NoStageRow string
  | NoAttemptRow string
  | AttemptFinalized string stage_status
  | UnknownExecution string
  | ContractConflict string
  | UnknownRun string
  | RunNotWithdrawable string run_status

type_synonym 'a store_op = "(run_store, run_store_error, 'a) sem"

definition on_state :: "(state_store, state_error, 'a) sem \<Rightarrow> 'a store_op" where
  "on_state m = (\<lambda>s. case m (rs_state s) of (out, t) \<Rightarrow> (map_sum OfState id out, s\<lparr>rs_state := t\<rparr>))"

definition on_outbox :: "(outbox, state_error, 'a) sem \<Rightarrow> 'a store_op" where
  "on_outbox m = (\<lambda>s. case m (rs_outbox s) of (out, t) \<Rightarrow> (map_sum OfState id out, s\<lparr>rs_outbox := t\<rparr>))"

section \<open>Stage results (\<open>stage_results.py\<close>)\<close>

datatype record_outcome = Stored | Superseded | Replayed

definition result_operation :: "stage_result \<Rightarrow> string" where
  "result_operation r = operation_key (res_run_id r) (res_stage r) (case res_input_revision r of None \<Rightarrow> [] | Some x \<Rightarrow> x)"

definition result_attempt_id :: "stage_result \<Rightarrow> string" where
  "result_attempt_id r = attempt_id (result_operation r) (res_attempt_number r)"

definition new_result_row :: "stage_result \<Rightarrow> result_row" where
  "new_result_row r = \<lparr>rw_operation_key = result_operation r, rw_run_id = res_run_id r, rw_change_id = res_change_id r,
     rw_stage = res_stage r, rw_attempt_number = res_attempt_number r, rw_input_revision = res_input_revision r,
     rw_status = res_status r, rw_produced_at = res_produced_at r, rw_payload = r\<rparr>"

definition record_outcome_of ::
    "stage_result \<Rightarrow> (string \<times> result_row) list \<Rightarrow> record_outcome \<times> (string \<times> result_row) list" where
  "record_outcome_of r table =
     (let attempt = result_attempt_id r in
      case dict_get table attempt of
        None \<Rightarrow> (Stored, table @ [(attempt, new_result_row r)])
      | Some row \<Rightarrow>
          if res_status r = StageStatus_WAITING then (Replayed, table)
          else if rw_status row = StageStatus_WAITING
          then (Superseded, dict_set attempt (row\<lparr>rw_payload := r, rw_status := res_status r,
                                                  rw_produced_at := res_produced_at r\<rparr>) table)
          else (Replayed, table))"

definition record_stage_result ::
    "stage_result \<Rightarrow> (string \<times> result_row) list \<Rightarrow> bool \<times> (string \<times> result_row) list" where
  "record_stage_result r table =
     (case record_outcome_of r table of (outcome, table') \<Rightarrow> (outcome \<noteq> Replayed, table'))"

definition get_result ::
    "string \<Rightarrow> stage \<Rightarrow> int \<Rightarrow> string option \<Rightarrow> (string \<times> result_row) list \<Rightarrow> stage_result option" where
  "get_result run_id st attempt_number input_revision table =
     map_option rw_payload (min_by rw_produced_at
       (filter (\<lambda>row. rw_run_id row = run_id \<and> rw_stage row = st \<and> rw_attempt_number row = attempt_number \<and>
                      (input_revision = None \<or> rw_input_revision row = input_revision)) (map snd table)))"

definition results_in_order :: "(result_row \<Rightarrow> bool) \<Rightarrow> (string \<times> result_row) list \<Rightarrow> stage_result list" where
  "results_in_order P table =
     map rw_payload (sort_key (\<lambda>row. (rw_produced_at row, stage_value (rw_stage row), rw_attempt_number row))
       (filter P (map snd table)))"

definition list_for_run :: "string \<Rightarrow> (string \<times> result_row) list \<Rightarrow> stage_result list" where
  "list_for_run run_id = results_in_order (\<lambda>row. rw_run_id row = run_id)"

definition list_for_change :: "string \<Rightarrow> (string \<times> result_row) list \<Rightarrow> stage_result list" where
  "list_for_change change_id = results_in_order (\<lambda>row. rw_change_id row = change_id)"

section \<open>Identities and constants (\<open>run_store.py\<close>)\<close>

definition LEASE_RESOURCE_TYPE :: string where "LEASE_RESOURCE_TYPE = ''execution''"

definition STAGE_COMPLETED_CONSUMERS :: "string list" where "STAGE_COMPLETED_CONSUMERS = [''flow'', ''tracker'']"

definition DEFAULT_LEASE_TTL :: duration where "DEFAULT_LEASE_TTL = 5 * 60 * 1000000"

definition generated_run_id :: "(string \<Rightarrow> string) \<Rightarrow> string \<Rightarrow> string \<Rightarrow> string" where
  "generated_run_id digest change_id input_revision =
     ''run_'' @ take 32 (digest (change_id @ CHR '':'' # input_revision))"

definition stage_status_path :: "stage_status \<Rightarrow> stage_status \<Rightarrow> stage_status status_error + stage_status list" where
  "stage_status_path current target =
     (if current = target then Inr []
      else if target \<in> stage_status_transitions current then Inr [target]
      else if StageStatus_IN_PROGRESS \<in> stage_status_transitions current \<and>
              target \<in> stage_status_transitions StageStatus_IN_PROGRESS
      then Inr [StageStatus_IN_PROGRESS, target]
      else Inl (InvalidStatusTransition current target))"

definition stage_completed_event_id :: "(string \<Rightarrow> string) \<Rightarrow> string \<Rightarrow> string option \<Rightarrow> string" where
  "stage_completed_event_id digest attempt supersede_status =
     ''evt_'' @ take 32 (digest (attempt @ '':run.stage_completed'' @
       (case supersede_status of None \<Rightarrow> [] | Some status \<Rightarrow> CHR '':'' # status)))"

record stage_placement =
  pl_stage :: stage
  pl_input_revision :: string

record open_stage =
  os_stage_row_id :: string
  os_attempt_id :: string
  os_attempt_number :: int
  os_input_revision :: string

section \<open>Reading a run\<close>

definition stage_run_of :: "operation_row \<Rightarrow> stage_times \<Rightarrow> stage_run" where
  "stage_run_of row ts = \<lparr>sr_id = og_id row, sr_stage = og_stage row, sr_status = og_status row,
     sr_attempt_number = max (og_attempt_count row) 1, sr_input_revision = Some (og_input_revision row),
     sr_state_revision = og_state_revision row, sr_started_at = xt_started_at ts,
     sr_finished_at = xt_finished_at ts\<rparr>"

definition stage_rows :: "run_store \<Rightarrow> string \<Rightarrow> (operation_row \<times> stage_times) list" where
  "stage_rows s execution_id =
     filter (\<lambda>(row, _). og_execution_id row = execution_id)
       (List.map_filter (\<lambda>(key, ts). map_option (\<lambda>row. (row, ts)) (ss_stages (rs_state s) key)) (rs_stage_times s))"

definition stage_position :: "route \<Rightarrow> stage \<Rightarrow> nat" where
  "stage_position rt st = (case index_of st (rp_stages (ROUTE_PROFILES rt)) of Some i \<Rightarrow> i | None \<Rightarrow> 0)"

definition load_stages :: "run_store \<Rightarrow> string \<Rightarrow> route \<Rightarrow> stage_run list" where
  "load_stages s execution_id rt =
     map (\<lambda>(row, ts). stage_run_of row ts)
       (sort_key (\<lambda>(row, ts). (stage_position rt (og_stage row), xt_created_at ts, og_id row))
         (stage_rows s execution_id))"

definition load :: "string \<Rightarrow> run_store \<Rightarrow> change_run option" where
  "load execution_id s =
     (case ss_executions (rs_state s) execution_id of
        None \<Rightarrow> None
      | Some row \<Rightarrow>
          let detail = rs_details s execution_id in
          Some \<lparr>cr_id = ex_id row, cr_change_id = ex_change_id row, cr_route = ex_route row,
                cr_provider = ex_provider row, cr_status = ex_status row, cr_state_revision = ex_state_revision row,
                cr_stages = load_stages s execution_id (ex_route row),
                cr_budget = (case Option.bind detail xd_budget of Some b \<Rightarrow> b | None \<Rightarrow> default_budget),
                cr_implementation_contract = Option.bind detail xd_implementation_contract,
                cr_created_at = (case detail of Some d \<Rightarrow> xd_created_at d | None \<Rightarrow> ex_updated_at row),
                cr_updated_at = ex_updated_at row, cr_finished_at = ex_finished_at row\<rparr>)"

definition load_history :: "string \<Rightarrow> run_store \<Rightarrow> stage_result list" where
  "load_history execution_id s = list_for_run execution_id (rs_results s)"

definition committed_result ::
    "string \<Rightarrow> stage \<Rightarrow> int \<Rightarrow> string \<Rightarrow> run_store \<Rightarrow> stage_result option" where
  "committed_result run_id st attempt_number input_revision s =
     (case get_result run_id st attempt_number (Some input_revision) (rs_results s) of
        None \<Rightarrow> None
      | Some result \<Rightarrow> if res_input_revision result \<noteq> Some input_revision then None else Some result)"

definition stage_input_revision :: "(string \<Rightarrow> string) \<Rightarrow> (change \<Rightarrow> string) \<Rightarrow> change \<Rightarrow> string" where
  "stage_input_revision digest to_json change_of = digest (to_json change_of)"

section \<open>Creation and the contract\<close>

definition insert_stage :: "instant \<Rightarrow> string \<Rightarrow> stage \<Rightarrow> string \<Rightarrow> operation_row store_op" where
  "insert_stage now execution_id st input_revision =
     sm_bind (sm_gets (\<lambda>s. ss_stages (rs_state s) (operation_key execution_id st input_revision))) (\<lambda>before.
     sm_bind (on_state (get_or_create_stage execution_id st input_revision)) (\<lambda>row.
     sm_bind (if before = None
              then sm_modify (\<lambda>s. s\<lparr>rs_stage_times := dict_set (og_id row)
                     \<lparr>xt_created_at = now, xt_started_at = None, xt_finished_at = None\<rparr> (rs_stage_times s)\<rparr>)
              else sm_return ()) (\<lambda>_.
     sm_return row)))"

definition set_detail :: "string \<Rightarrow> (execution_detail \<Rightarrow> execution_detail) \<Rightarrow> unit store_op" where
  "set_detail execution_id f = sm_modify (\<lambda>s. s\<lparr>rs_details :=
     (rs_details s)(execution_id := map_option f (rs_details s execution_id))\<rparr>)"

definition insert_execution :: "instant \<Rightarrow> string \<Rightarrow> string \<Rightarrow> route \<Rightarrow> provider \<Rightarrow> execution_row store_op" where
  "insert_execution now execution_id change_id rt prov = (\<lambda>s.
     case create_execution now execution_id change_id rt prov (rs_state s) of (row, t) \<Rightarrow>
       (Inr row, s\<lparr>rs_state := t,
          rs_details := (if ss_executions (rs_state s) execution_id = None
                         then (rs_details s)(execution_id \<mapsto> \<lparr>xd_budget = None, xd_implementation_contract = None,
                                                             xd_created_at = now\<rparr>)
                         else rs_details s)\<rparr>))"

definition reloaded :: "run_store_error \<Rightarrow> string \<Rightarrow> change_run store_op" where
  "reloaded missing run_id = (\<lambda>s. case load run_id s of Some r \<Rightarrow> (Inr r, s) | None \<Rightarrow> (Inl missing, s))"

definition create_run ::
    "(string \<Rightarrow> string) \<Rightarrow> instant \<Rightarrow> string \<Rightarrow> route \<Rightarrow> provider \<Rightarrow> budget_snapshot \<Rightarrow> string
      \<Rightarrow> implementation_contract option \<Rightarrow> string option \<Rightarrow> change_run store_op" where
  "create_run digest now change_id rt prov budget input_revision contract initial_stage_revision =
     (let execution_id = generated_run_id digest change_id input_revision in
      (\<lambda>s. case load execution_id s of
         Some existing \<Rightarrow> (Inr existing, s)
       | None \<Rightarrow>
           sm_bind (insert_execution now execution_id change_id rt prov) (\<lambda>_.
           sm_bind (set_detail execution_id (\<lambda>d. d\<lparr>xd_budget := Some budget, xd_implementation_contract := contract\<rparr>)) (\<lambda>_.
           sm_bind (insert_stage now execution_id (initial_stage (ROUTE_PROFILES rt))
                      (case initial_stage_revision of Some x \<Rightarrow> x | None \<Rightarrow> input_revision)) (\<lambda>_.
           reloaded (UnknownExecution execution_id) execution_id))) s))"

definition attach_contract :: "string \<Rightarrow> implementation_contract \<Rightarrow> change_run store_op" where
  "attach_contract execution_id contract = (\<lambda>s.
     if ss_executions (rs_state s) execution_id = None then (Inl (UnknownExecution execution_id), s)
     else
       let existing = Option.bind (rs_details s execution_id) xd_implementation_contract in
       if existing \<noteq> None \<and> existing \<noteq> Some contract then (Inl (ContractConflict execution_id), s)
       else
         sm_bind (if existing = None
                  then set_detail execution_id (\<lambda>d. d\<lparr>xd_implementation_contract := Some contract\<rparr>)
                  else sm_return ()) (\<lambda>_.
         reloaded (UnknownExecution execution_id) execution_id) s)"

section \<open>Leases\<close>

definition acquire_lease :: "instant \<Rightarrow> string \<Rightarrow> string \<Rightarrow> duration \<Rightarrow> int store_op" where
  "acquire_lease now run_id owner_id ttl = on_state (acquire now LEASE_RESOURCE_TYPE run_id owner_id ttl)"

definition release_lease :: "string \<Rightarrow> string \<Rightarrow> int \<Rightarrow> bool store_op" where
  "release_lease run_id owner_id fencing_token = (\<lambda>s.
     case release LEASE_RESOURCE_TYPE run_id owner_id fencing_token (rs_state s) of
       (ok, t) \<Rightarrow> (Inr ok, s\<lparr>rs_state := t\<rparr>))"

section \<open>Writing a decision\<close>

definition step_stage_row ::
    "instant \<Rightarrow> stage_status \<Rightarrow> operation_row \<times> stage_times \<Rightarrow> operation_row \<times> stage_times" where
  "step_stage_row now status rt = (case rt of (row, ts) \<Rightarrow>
     (row\<lparr>og_status := status, og_state_revision := og_state_revision row + 1\<rparr>,
      let entered = (if status = StageStatus_IN_PROGRESS \<and> xt_started_at ts = None
                     then ts\<lparr>xt_started_at := Some now\<rparr> else ts)
      in if stage_terminal status then entered\<lparr>xt_finished_at := Some now\<rparr> else entered))"

definition put_stage_row :: "string \<Rightarrow> operation_row \<times> stage_times \<Rightarrow> run_store \<Rightarrow> run_store" where
  "put_stage_row key rt s = (case rt of (row, ts) \<Rightarrow>
     s\<lparr>rs_state := (rs_state s)\<lparr>ss_stages := (ss_stages (rs_state s))(key \<mapsto> row)\<rparr>,
       rs_stage_times := dict_set key ts (rs_stage_times s)\<rparr>)"

definition advance_stage :: "string \<Rightarrow> stage_status \<Rightarrow> instant \<Rightarrow> unit store_op" where
  "advance_stage stage_row_id target now = (\<lambda>s.
     case (ss_stages (rs_state s) stage_row_id, dict_get (rs_stage_times s) stage_row_id) of
       (Some row, Some ts) \<Rightarrow>
         (case stage_status_path (og_status row) target of
            Inl e \<Rightarrow> (Inl (StageTransition e), s)
          | Inr [] \<Rightarrow> (Inr (), s)
          | Inr path \<Rightarrow> (Inr (), put_stage_row stage_row_id (fold (step_stage_row now) path (row, ts)) s))
     | _ \<Rightarrow> (Inl (NoStageRow stage_row_id), s))"

definition put_attempt :: "string \<Rightarrow> attempt_row \<Rightarrow> instant option \<Rightarrow> run_store \<Rightarrow> run_store" where
  "put_attempt key row finished_at s =
     s\<lparr>rs_state := (rs_state s)\<lparr>ss_attempts := (ss_attempts (rs_state s))(key \<mapsto> row)\<rparr>,
       rs_attempt_finished := (rs_attempt_finished s)(key := finished_at)\<rparr>"

definition finish_attempt :: "string \<Rightarrow> stage_status \<Rightarrow> instant \<Rightarrow> unit store_op" where
  "finish_attempt key target now = (\<lambda>s.
     case ss_attempts (rs_state s) key of
       None \<Rightarrow> (Inl (NoAttemptRow key), s)
     | Some row \<Rightarrow>
         (case stage_status_path (at_status row) target of
            Inl e \<Rightarrow> (Inl (StageTransition e), s)
          | Inr _ \<Rightarrow>
              if at_status row = target then (Inr (), s)
              else (Inr (), put_attempt key (row\<lparr>at_status := target\<rparr>) (Some now) s)))"

definition open_attempt :: "instant \<Rightarrow> change_run \<Rightarrow> stage \<Rightarrow> string \<Rightarrow> int \<Rightarrow> open_stage store_op" where
  "open_attempt now r st input_revision attempt_number =
     sm_bind (insert_stage now (cr_id r) st input_revision) (\<lambda>row.
     sm_bind (on_state (append_attempt row attempt_number)) (\<lambda>attempt.
     sm_bind (if at_status attempt = StageStatus_WAITING
              then sm_modify (put_attempt (at_id attempt) (attempt\<lparr>at_status := StageStatus_IN_PROGRESS\<rparr>) None)
              else if at_status attempt \<noteq> StageStatus_IN_PROGRESS
              then sm_raise (AttemptFinalized (at_id attempt) (at_status attempt))
              else sm_return ()) (\<lambda>_.
     sm_return \<lparr>os_stage_row_id = og_id row, os_attempt_id = at_id attempt,
                 os_attempt_number = at_attempt_number attempt, os_input_revision = input_revision\<rparr>)))"

fun place_stages :: "instant \<Rightarrow> string \<Rightarrow> stage_placement list \<Rightarrow> unit store_op" where
  "place_stages now execution_id [] = sm_return ()"
| "place_stages now execution_id (p # ps) =
     sm_bind (insert_stage now execution_id (pl_stage p) (pl_input_revision p)) (\<lambda>_. place_stages now execution_id ps)"

definition completed_event ::
    "(string \<Rightarrow> string) \<Rightarrow> (stage_result \<Rightarrow> flow_decision \<Rightarrow> string) \<Rightarrow> change_run \<Rightarrow> stage_result \<Rightarrow> flow_decision
      \<Rightarrow> open_stage \<Rightarrow> record_outcome \<Rightarrow> int \<Rightarrow> outbox_event_draft" where
  "completed_event digest payload r result d opened outcome version =
     \<lparr>od_event_id = stage_completed_event_id digest (os_attempt_id opened)
        (if outcome = Superseded then Some (stage_status_value (res_status result)) else None),
      od_event_type = ''run.stage_completed'', od_change_id = cr_change_id r, od_run_id = cr_id r,
      od_aggregate_id = cr_id r, od_aggregate_version = version, od_stage = Some (res_stage result),
      od_event_version = 1, od_correlation_id = None, od_causation_id = Some (os_attempt_id opened),
      od_artifact_refs = [], od_payload = payload result d\<rparr>"

definition persist_decision ::
    "(string \<Rightarrow> string) \<Rightarrow> (stage_result \<Rightarrow> flow_decision \<Rightarrow> string) \<Rightarrow> change_run \<Rightarrow> stage_result \<Rightarrow> flow_decision
      \<Rightarrow> open_stage \<Rightarrow> stage_placement list \<Rightarrow> int \<Rightarrow> int \<Rightarrow> instant \<Rightarrow> string list \<Rightarrow> bool store_op" where
  "persist_decision digest payload r result d opened created_stages expected_revision fencing_token now consumers = (\<lambda>s.
     case record_outcome_of result (rs_results s) of (outcome, table) \<Rightarrow>
       if outcome = Replayed then (Inr False, s)
       else
         sm_bind (sm_modify (\<lambda>s. s\<lparr>rs_results := table\<rparr>)) (\<lambda>_.
         sm_bind (place_stages now (cr_id r) created_stages) (\<lambda>_.
         sm_bind (advance_stage (os_stage_row_id opened) (fd_stage_status d) now) (\<lambda>_.
         sm_bind (finish_attempt (os_attempt_id opened) (fd_stage_status d) now) (\<lambda>_.
         sm_bind (on_state (update_status now (cr_id r) (fd_run_status d) expected_revision fencing_token)) (\<lambda>execution.
         let row = execution\<lparr>ex_state_revision := max (ex_state_revision execution) (cr_state_revision r)\<rparr> in
         sm_bind (sm_modify (\<lambda>s. s\<lparr>rs_state := (rs_state s)\<lparr>ss_executions := (ss_executions (rs_state s))(cr_id r \<mapsto> row)\<rparr>\<rparr>)) (\<lambda>_.
         sm_bind (set_detail (cr_id r) (\<lambda>x. x\<lparr>xd_budget := Some (cr_budget r)\<rparr>)) (\<lambda>_.
         sm_bind (on_outbox (publish now
                    (completed_event digest payload r result d opened outcome (ex_state_revision row)) consumers)) (\<lambda>_.
         sm_return True)))))))) s)"

section \<open>Withdrawal\<close>

datatype withdraw_outcome = Withdrawn | Withdraw_replayed

definition withdrawal_entry ::
    "instant \<Rightarrow> string \<Rightarrow> string \<Rightarrow> string option \<Rightarrow> string option \<Rightarrow> string option \<Rightarrow> string \<Rightarrow> audit_entry" where
  "withdrawal_entry now run_id actor rl reason idempotency_key outcome =
     \<lparr>ae_occurred_at = now, ae_actor = actor, ae_role = rl, ae_action = ''run.withdraw'', ae_resource_type = ''run'',
      ae_resource_id = run_id, ae_idempotency_key = idempotency_key, ae_outcome = outcome,
      ae_details = (case reason of None \<Rightarrow> [] | Some why \<Rightarrow> [(''reason'', why)])\<rparr>"

definition audit_withdrawal ::
    "instant \<Rightarrow> string \<Rightarrow> string \<Rightarrow> string option \<Rightarrow> string option \<Rightarrow> string option \<Rightarrow> string \<Rightarrow> unit store_op" where
  "audit_withdrawal now run_id actor rl reason idempotency_key outcome =
     sm_modify (\<lambda>s. s\<lparr>rs_audit := rs_audit s @ [withdrawal_entry now run_id actor rl reason idempotency_key outcome]\<rparr>)"

definition withdrawable_run :: "string \<Rightarrow> change_run option store_op" where
  "withdrawable_run run_id = (\<lambda>s.
     case load run_id s of
       None \<Rightarrow> (Inl (UnknownRun run_id), s)
     | Some r \<Rightarrow>
         if cr_status r = RunStatus_CANCELED then (Inr None, s)
         else if run_terminal (cr_status r) then (Inl (RunNotWithdrawable run_id (cr_status r)), s)
         else (Inr (Some r), s))"

definition replay_withdrawal ::
    "instant \<Rightarrow> string \<Rightarrow> string \<Rightarrow> string option \<Rightarrow> string option \<Rightarrow> string option
      \<Rightarrow> (withdraw_outcome \<times> change_run) store_op" where
  "replay_withdrawal now run_id actor rl reason idempotency_key =
     sm_bind (audit_withdrawal now run_id actor rl reason idempotency_key ''replayed'') (\<lambda>_.
     sm_bind (reloaded (UnknownRun run_id) run_id) (\<lambda>r. sm_return (Withdraw_replayed, r)))"

fun cancel_stages :: "instant \<Rightarrow> stage_run list \<Rightarrow> unit store_op" where
  "cancel_stages now [] = sm_return ()"
| "cancel_stages now (st # sts) =
     sm_bind (if stage_terminal (sr_status st) then sm_return () else advance_stage (sr_id st) StageStatus_CANCELED now)
       (\<lambda>_. cancel_stages now sts)"

definition withdraw_run ::
    "instant \<Rightarrow> string \<Rightarrow> string \<Rightarrow> string \<Rightarrow> string option \<Rightarrow> string option \<Rightarrow> string option \<Rightarrow> duration
      \<Rightarrow> (withdraw_outcome \<times> change_run) store_op" where
  "withdraw_run now run_id actor owner_id rl reason idempotency_key lease_ttl =
     sm_bind (withdrawable_run run_id) (\<lambda>first.
     if first = None then replay_withdrawal now run_id actor rl reason idempotency_key
     else
       sm_bind (acquire_lease now run_id owner_id lease_ttl) (\<lambda>token.
       sm_bind (withdrawable_run run_id) (\<lambda>second.
       case second of
         None \<Rightarrow>
           sm_bind (release_lease run_id owner_id token) (\<lambda>_.
           replay_withdrawal now run_id actor rl reason idempotency_key)
       | Some r \<Rightarrow>
           sm_bind (cancel_stages now (cr_stages r)) (\<lambda>_.
           sm_bind (on_state (update_status now run_id RunStatus_CANCELED (cr_state_revision r) token)) (\<lambda>_.
           sm_bind (release_lease run_id owner_id token) (\<lambda>_.
           sm_bind (audit_withdrawal now run_id actor rl reason idempotency_key ''created'') (\<lambda>_.
           sm_bind (reloaded (UnknownRun run_id) run_id) (\<lambda>final. sm_return (Withdrawn, final)))))))))"

end
