(* ===== verification/RunStore_Safety.thy ===== *)
theory RunStore_Safety
  imports RunStore
begin

text \<open>
  What the durable run store guarantees: a final result is never rewritten, a persisted stage status
  follows the domain table, one persisted decision writes all of it or nothing, creating a run is
  idempotent, a contract is never swapped, the tables stay well-formed, and a withdrawal is final and
  repeatable. Every operation is shown to keep one relation, \<open>store_evolves\<close>, in the style of the
  \<open>keeps\<close> combinators of the prelude; the properties over histories follow by rule induction.
\<close>

section \<open>The result table\<close>

abbreviation revision_text :: "string option \<Rightarrow> string" where
  "revision_text x \<equiv> case x of None \<Rightarrow> [] | Some v \<Rightarrow> v"

text \<open>A row is stored under the attempt id its own columns recompose, and agrees with its payload.\<close>

definition result_row_wf :: "string \<Rightarrow> result_row \<Rightarrow> bool" where
  "result_row_wf key row \<longleftrightarrow> key = result_attempt_id (rw_payload row) \<and>
     rw_operation_key row = operation_key (rw_run_id row) (rw_stage row) (revision_text (rw_input_revision row)) \<and>
     key = attempt_id (rw_operation_key row) (rw_attempt_number row) \<and>
     CHR '':'' \<notin> set (rw_run_id row) \<and> 1 \<le> rw_attempt_number row \<and>
     rw_run_id row = res_run_id (rw_payload row) \<and> rw_stage row = res_stage (rw_payload row) \<and>
     rw_attempt_number row = res_attempt_number (rw_payload row) \<and>
     rw_status row = res_status (rw_payload row) \<and> rw_produced_at row = res_produced_at (rw_payload row)"

text \<open>A result the table accepts: the model's own validation, and a run id without the key separator.\<close>

definition storable :: "stage_result \<Rightarrow> bool" where
  "storable r \<longleftrightarrow> stage_result_valid r \<and> CHR '':'' \<notin> set (res_run_id r)"

definition results_wf :: "(string \<times> result_row) list \<Rightarrow> bool" where
  "results_wf table \<longleftrightarrow> distinct (map fst table) \<and> (\<forall>(key, row)\<in>set table. result_row_wf key row)"

definition same_attempt :: "result_row \<Rightarrow> result_row \<Rightarrow> bool" where
  "same_attempt a b \<longleftrightarrow> rw_operation_key a = rw_operation_key b \<and> rw_run_id a = rw_run_id b \<and> rw_change_id a = rw_change_id b \<and>
     rw_stage a = rw_stage b \<and> rw_attempt_number a = rw_attempt_number b \<and> rw_input_revision a = rw_input_revision b"

text \<open>What later recordings may do to a table: rows stay, their identity stays, and a final row stays as it is.\<close>

definition results_grow :: "(string \<times> result_row) list \<Rightarrow> (string \<times> result_row) list \<Rightarrow> bool" where
  "results_grow t t' \<longleftrightarrow> (\<forall>k row. dict_get t k = Some row \<longrightarrow>
     (\<exists>row'. dict_get t' k = Some row' \<and> same_attempt row row' \<and> (rw_status row \<noteq> StageStatus_WAITING \<longrightarrow> row' = row)))"

lemma results_grow_refl [simp]: "results_grow t t"
  by (simp add: results_grow_def same_attempt_def)

lemma results_grow_trans: "results_grow a b \<Longrightarrow> results_grow b c \<Longrightarrow> results_grow a c"
proof -
  assume ab: "results_grow a b" and bc: "results_grow b c"
  show ?thesis
    unfolding results_grow_def
  proof (intro allI impI)
    fix k row
    assume "dict_get a k = Some row"
    with ab obtain r1 where r1: "dict_get b k = Some r1" "same_attempt row r1" "rw_status row \<noteq> StageStatus_WAITING \<longrightarrow> r1 = row"
      unfolding results_grow_def by blast
    with bc obtain r2 where "dict_get c k = Some r2" "same_attempt r1 r2" "rw_status r1 \<noteq> StageStatus_WAITING \<longrightarrow> r2 = r1"
      unfolding results_grow_def by blast
    with r1 show "\<exists>row'. dict_get c k = Some row' \<and> same_attempt row row' \<and> (rw_status row \<noteq> StageStatus_WAITING \<longrightarrow> row' = row)"
      by (intro exI [of _ r2]) (auto simp: same_attempt_def)
  qed
qed

lemma record_grows: "results_grow t (snd (record_outcome_of r t))"
  by (auto simp: results_grow_def record_outcome_of_def same_attempt_def Let_def map_add_def split: option.splits)

lemma new_result_row_wf: "storable r \<Longrightarrow> result_row_wf (result_attempt_id r) (new_result_row r)"
  by (simp add: result_row_wf_def storable_def stage_result_valid_def new_result_row_def result_attempt_id_def result_operation_def)

lemma row_identity:
  assumes row: "result_row_wf (result_attempt_id r) row" and ok: "storable r"
  shows "rw_run_id row = res_run_id r \<and> rw_stage row = res_stage r \<and> rw_attempt_number row = res_attempt_number r \<and>
    revision_text (rw_input_revision row) = revision_text (res_input_revision r)"
proof -
  from row have k: "result_attempt_id r = attempt_id (rw_operation_key row) (rw_attempt_number row)"
    "rw_operation_key row = operation_key (rw_run_id row) (rw_stage row) (revision_text (rw_input_revision row))"
    unfolding result_row_wf_def by blast+
  from k(1) [unfolded k(2)] have "attempt_id (operation_key (rw_run_id row) (rw_stage row) (revision_text (rw_input_revision row)))
      (rw_attempt_number row) = attempt_id (operation_key (res_run_id r) (res_stage r) (revision_text (res_input_revision r)))
      (res_attempt_number r)"
    by (simp add: result_attempt_id_def result_operation_def)
  from attempt_id_inject [OF this] row ok
  have n: "rw_attempt_number row = res_attempt_number r" and
    "operation_key (rw_run_id row) (rw_stage row) (revision_text (rw_input_revision row)) =
      operation_key (res_run_id r) (res_stage r) (revision_text (res_input_revision r))"
    by (auto simp: result_row_wf_def storable_def stage_result_valid_def)
  from operation_key_inject [OF this(2)] row ok n show ?thesis
    by (auto simp: result_row_wf_def storable_def)
qed

lemma record_keeps_wf:
  assumes "results_wf t" "storable r"
  shows "results_wf (snd (record_outcome_of r t))"
proof (cases "dict_get t (result_attempt_id r)")
  case None
  then have "result_attempt_id r \<notin> fst ` set t" by (simp add: map_of_eq_None_iff)
  with assms None show ?thesis
    by (auto simp: record_outcome_of_def results_wf_def new_result_row_wf)
next
  case (Some row)
  let ?row = "row\<lparr>rw_payload := r, rw_status := res_status r, rw_produced_at := res_produced_at r\<rparr>"
  from Some have "(result_attempt_id r, row) \<in> set t" by (rule map_of_SomeD)
  with assms have old: "result_row_wf (result_attempt_id r) row" by (auto simp: results_wf_def)
  with row_identity [OF old assms(2)] have row: "result_row_wf (result_attempt_id r) ?row"
    by (auto simp: result_row_wf_def)
  have "set (dict_set k v t) \<subseteq> insert (k, v) (set t)" for k v by (induction t) auto
  with row assms have "results_wf (dict_set (result_attempt_id r) ?row t)"
    unfolding results_wf_def by (auto simp: dict_distinct_set) blast
  with assms Some show ?thesis by (simp add: record_outcome_of_def Let_def)
qed

lemma row_of_attempt:
  assumes row: "result_row_wf (result_attempt_id r) row" and ok: "storable r" and rv: "res_input_revision r = Some v" "v \<noteq> []"
  shows "rw_run_id row = res_run_id r \<and> rw_stage row = res_stage r \<and> rw_attempt_number row = res_attempt_number r \<and>
    rw_input_revision row = Some v"
  using row_identity [OF row ok] rv by (simp split: option.splits)

lemma found_row_unique:
  assumes wf: "results_wf t" and row: "dict_get t (result_attempt_id r) = Some row" "rw_payload row = r"
    and rv: "res_input_revision r = Some v" "v \<noteq> []"
    and cols: "rw_run_id row = res_run_id r" "rw_stage row = res_stage r" "rw_attempt_number row = res_attempt_number r"
      "rw_input_revision row = Some v"
  shows "get_result (res_run_id r) (res_stage r) (res_attempt_number r) (Some v) t = Some r"
proof -
  let ?P = "\<lambda>x. rw_run_id x = res_run_id r \<and> rw_stage x = res_stage r \<and> rw_attempt_number x = res_attempt_number r \<and>
      (Some v = None \<or> rw_input_revision x = Some v)"
  have same: "x = row" if "(k, x) \<in> set t" "?P x" for k x
  proof -
    from wf that(1) have "k = attempt_id (operation_key (rw_run_id x) (rw_stage x) (revision_text (rw_input_revision x)))
        (rw_attempt_number x)" by (auto simp: results_wf_def result_row_wf_def)
    with that(2) rv have "k = result_attempt_id r" by (simp add: result_attempt_id_def result_operation_def)
    with that(1) wf row(1) show ?thesis by (simp add: results_wf_def)
  qed
  have mem: "row \<in> snd ` set t" using map_of_SomeD [OF row(1)] by force
  have only: "set (filter ?P (map snd t)) = {row}"
  proof (intro equalityI subsetI)
    fix x
    assume "x \<in> set (filter ?P (map snd t))"
    then obtain k where "(k, x) \<in> set t" "?P x" by auto
    from same [OF this] show "x \<in> {row}" by simp
  next
    fix x
    assume "x \<in> {row}"
    with mem cols show "x \<in> set (filter ?P (map snd t))" by simp
  qed
  then have "filter ?P (map snd t) \<noteq> []" by (metis list.set(1) insert_not_empty)
  then obtain x where x: "min_by rw_produced_at (filter ?P (map snd t)) = Some x"
    using min_by_None_iff by blast
  from min_by_Some [OF this] only have "x = row" by (metis singletonD)
  with x row(2) show ?thesis by (simp add: get_result_def)
qed

text \<open>
  A recorded attempt is found again, and a repeat changes nothing. On a well-formed table, recording a
  result of a revision either returns \<open>Replayed\<close> with the table unchanged, which happens exactly when the
  attempt already holds a final result or the new one is itself a waiting checkpoint of a known attempt; or it
  keeps the table well-formed, and the lookup by run, stage, attempt and revision returns exactly this result.
\<close>

theorem recorded_attempt_is_found:
  assumes wf: "results_wf table" and ok: "storable r" and rv: "res_input_revision r = Some v" "v \<noteq> []"
  shows "case record_outcome_of r table of (outcome, table') \<Rightarrow>
    (if outcome = Replayed
     then table' = table \<and> (\<exists>row. dict_get table (result_attempt_id r) = Some row \<and>
            (res_status r = StageStatus_WAITING \<or> rw_status row \<in> - {StageStatus_WAITING}))
     else results_wf table' \<and> get_result (res_run_id r) (res_stage r) (res_attempt_number r) (Some v) table' = Some r)"
proof -
  obtain outcome table' where eq: "record_outcome_of r table = (outcome, table')" by force
  show ?thesis
  proof (cases "outcome = Replayed")
    case True
    with eq show ?thesis by (auto simp: record_outcome_of_def Let_def split: option.splits if_splits)
  next
    case False
    have wf': "results_wf table'" using record_keeps_wf [OF wf ok] eq by simp
    have ids: "rw_run_id row = res_run_id r \<and> rw_stage row = res_stage r \<and> rw_attempt_number row = res_attempt_number r \<and>
        rw_input_revision row = Some v" if "(result_attempt_id r, row) \<in> set table" for row
      by (rule row_of_attempt) (use that wf ok rv in \<open>auto simp: results_wf_def\<close>)
    from False eq rv(1) obtain row where row: "dict_get table' (result_attempt_id r) = Some row" "rw_payload row = r"
      and cols: "rw_run_id row = res_run_id r" "rw_stage row = res_stage r" "rw_attempt_number row = res_attempt_number r"
        "rw_input_revision row = Some v"
      using ids
      by (cases "dict_get table (result_attempt_id r)")
        (auto simp: record_outcome_of_def Let_def new_result_row_def map_add_def dest!: map_of_SomeD split: if_splits)
    from found_row_unique [OF wf' row rv cols] wf' eq False show ?thesis by simp
  qed
qed

section \<open>Persisted stage statuses\<close>



lemma stage_path_cases:
  assumes "stage_status_path c t = Inr p"
  obtains "p = []" "c = t" | "p = [t]" "t \<in> stage_status_transitions c"
    | "p = [StageStatus_IN_PROGRESS, t]" "StageStatus_IN_PROGRESS \<in> stage_status_transitions c"
      "t \<in> stage_status_transitions StageStatus_IN_PROGRESS"
  using assms by (auto simp: stage_status_path_def split: if_splits)


section \<open>Well-formed stores\<close>

text \<open>Every row is stored under its own key, the companion tables cover their tables, and references exist.\<close>

definition store_wf :: "run_store \<Rightarrow> bool" where
  "store_wf s \<longleftrightarrow>
     dom (rs_details s) = dom (ss_executions (rs_state s)) \<and>
     (\<forall>k row. ss_executions (rs_state s) k = Some row \<longrightarrow> ex_id row = k) \<and>
     distinct (map fst (rs_stage_times s)) \<and> fst ` set (rs_stage_times s) = dom (ss_stages (rs_state s)) \<and>
     (\<forall>k row. ss_stages (rs_state s) k = Some row \<longrightarrow> og_id row = k \<and> og_operation_key row = k \<and>
        k = operation_key (og_execution_id row) (og_stage row) (og_input_revision row) \<and>
        og_execution_id row \<in> dom (ss_executions (rs_state s))) \<and>
     (\<forall>k row. ss_attempts (rs_state s) k = Some row \<longrightarrow> at_id row = k) \<and>
     results_wf (rs_results s)"

lemma store_wfD:
  assumes "store_wf s"
  shows "dom (rs_details s) = dom (ss_executions (rs_state s))"
    and "ss_executions (rs_state s) k = Some ex \<Longrightarrow> ex_id ex = k"
    and "distinct (map fst (rs_stage_times s))"
    and "fst ` set (rs_stage_times s) = dom (ss_stages (rs_state s))"
    and "ss_stages (rs_state s) k = Some row \<Longrightarrow> og_id row = k \<and> og_operation_key row = k \<and>
        k = operation_key (og_execution_id row) (og_stage row) (og_input_revision row) \<and>
        og_execution_id row \<in> dom (ss_executions (rs_state s))"
    and "ss_attempts (rs_state s) k = Some att \<Longrightarrow> at_id att = k"
    and "results_wf (rs_results s)"
  using assms unfolding store_wf_def by blast+

lemma store_wfI:
  assumes "dom (rs_details s) = dom (ss_executions (rs_state s))"
    and "\<And>k row. ss_executions (rs_state s) k = Some row \<Longrightarrow> ex_id row = k"
    and "distinct (map fst (rs_stage_times s))"
    and "fst ` set (rs_stage_times s) = dom (ss_stages (rs_state s))"
    and "\<And>k row. ss_stages (rs_state s) k = Some row \<Longrightarrow> og_id row = k \<and> og_operation_key row = k \<and>
        k = operation_key (og_execution_id row) (og_stage row) (og_input_revision row) \<and>
        og_execution_id row \<in> dom (ss_executions (rs_state s))"
    and "\<And>k row. ss_attempts (rs_state s) k = Some row \<Longrightarrow> at_id row = k"
    and "results_wf (rs_results s)"
  shows "store_wf s"
  unfolding store_wf_def using assms by blast

definition contract_of :: "run_store \<Rightarrow> string \<Rightarrow> implementation_contract option" where
  "contract_of s k = Option.bind (rs_details s k) xd_implementation_contract"

text \<open>What every operation of the store does at most: well-formedness, contracts, executions and final results stay.\<close>

definition store_evolves :: "run_store \<Rightarrow> run_store \<Rightarrow> bool" where
  "store_evolves s s' \<longleftrightarrow> (store_wf s \<longrightarrow> store_wf s' \<and> results_grow (rs_results s) (rs_results s') \<and>
     dom (ss_executions (rs_state s)) \<subseteq> dom (ss_executions (rs_state s')) \<and>
     (\<forall>k c. contract_of s k = Some c \<longrightarrow> contract_of s' k = Some c))"

lemma store_evolves_refl [simp]: "store_evolves s s"
  by (simp add: store_evolves_def)

lemma store_evolves_trans: "store_evolves a b \<Longrightarrow> store_evolves b c \<Longrightarrow> store_evolves a c"
  unfolding store_evolves_def using results_grow_trans by blast

lemma keeps_evolves_bind:
  "keeps store_evolves m \<Longrightarrow> (\<And>a. keeps store_evolves (f a)) \<Longrightarrow> keeps store_evolves (sm_bind m f)"
  by (rule keeps_bind) (auto intro: store_evolves_trans)

lemmas keeps_evolves = keeps_evolves_bind keeps_pure [of store_evolves, OF store_evolves_refl] keeps_if

text \<open>A change of the operational tables that keeps keys and references evolves the store.\<close>

lemma evolves_state:
  assumes "\<And>k. map_option ex_id (ss_executions t k) = map_option ex_id (ss_executions (rs_state s) k)"
    and "\<And>k. map_option (\<lambda>row. (og_id row, og_operation_key row, og_execution_id row, og_stage row, og_input_revision row)) (ss_stages t k) =
        map_option (\<lambda>row. (og_id row, og_operation_key row, og_execution_id row, og_stage row, og_input_revision row)) (ss_stages (rs_state s) k)"
    and "store_wf s \<Longrightarrow> \<forall>k row. ss_attempts t k = Some row \<longrightarrow> at_id row = k"
  shows "store_evolves s (s\<lparr>rs_state := t\<rparr>)"
proof -
  have d: "dom (ss_executions t) = dom (ss_executions (rs_state s))" "dom (ss_stages t) = dom (ss_stages (rs_state s))"
  proof -
    have "ss_executions t k = None \<longleftrightarrow> ss_executions (rs_state s) k = None" for k
      using assms(1) [of k] by (cases "ss_executions t k"; cases "ss_executions (rs_state s) k") auto
    moreover have "ss_stages t k = None \<longleftrightarrow> ss_stages (rs_state s) k = None" for k
      using assms(2) [of k] by (cases "ss_stages t k"; cases "ss_stages (rs_state s) k") auto
    ultimately show "dom (ss_executions t) = dom (ss_executions (rs_state s))" "dom (ss_stages t) = dom (ss_stages (rs_state s))"
      by (simp_all add: dom_def)
  qed
  have e: "ss_executions t k = Some row \<Longrightarrow> \<exists>row'. ss_executions (rs_state s) k = Some row' \<and> ex_id row' = ex_id row" for k row
    using assms(1) [of k] by (cases "ss_executions (rs_state s) k") auto
  have g: "ss_stages t k = Some row \<Longrightarrow> \<exists>row'. ss_stages (rs_state s) k = Some row' \<and> og_id row' = og_id row \<and>
      og_operation_key row' = og_operation_key row \<and> og_execution_id row' = og_execution_id row \<and>
      og_stage row' = og_stage row \<and> og_input_revision row' = og_input_revision row" for k row
    using assms(2) [of k] by (cases "ss_stages (rs_state s) k") auto
  show ?thesis
    unfolding store_evolves_def
  proof (intro impI conjI)
    assume wf: "store_wf s"
    note D = store_wfD [OF wf]
    show "store_wf (s\<lparr>rs_state := t\<rparr>)"
    proof (rule store_wfI)
      fix k row
      assume "ss_stages (rs_state (s\<lparr>rs_state := t\<rparr>)) k = Some row"
      then show "og_id row = k \<and> og_operation_key row = k \<and>
          k = operation_key (og_execution_id row) (og_stage row) (og_input_revision row) \<and>
          og_execution_id row \<in> dom (ss_executions (rs_state (s\<lparr>rs_state := t\<rparr>)))"
        using g [of k row] D(5) [of k] d by auto
    qed (use D assms(3) [OF wf] d e in \<open>auto dest!: e\<close>)
  qed (simp_all add: d contract_of_def)
qed

lemma evolves_lease_state:
  assumes "ss_executions t = ss_executions (rs_state s)" "ss_stages t = ss_stages (rs_state s)" "ss_attempts t = ss_attempts (rs_state s)"
  shows "store_evolves s (s\<lparr>rs_state := t\<rparr>)"
  by (rule evolves_state) (use assms in \<open>auto dest: store_wfD\<close>)

lemma keeps_acquire_lease: "keeps store_evolves (acquire_lease now run_id owner ttl)"
  by (auto simp: keeps_def acquire_lease_def on_state_def acquire_def Let_def intro!: evolves_lease_state
      split: option.splits prod.splits)

lemma keeps_release_lease: "keeps store_evolves (release_lease run_id owner token)"
  by (auto simp: keeps_def release_lease_def release_def intro!: evolves_lease_state split: option.splits prod.splits)

lemma keeps_update_status: "keeps store_evolves (on_state (update_status now k target revision token))"
  unfolding keeps_def on_state_def update_status_def Let_def
  by (auto intro!: evolves_state dest: store_wfD(6) split: option.splits sum.splits)

lemma evolves_set_detail:
  assumes "\<And>d. store_wf s \<Longrightarrow> rs_details s k = Some d \<Longrightarrow> xd_implementation_contract d \<noteq> None \<Longrightarrow>
      xd_implementation_contract (f d) = xd_implementation_contract d"
  shows "store_evolves s (snd (set_detail k f s))"
  unfolding store_evolves_def
proof (intro impI conjI)
  let ?s = "snd (set_detail k f s)"
  assume wf: "store_wf s"
  note D = store_wfD [OF wf]
  have dom: "dom (rs_details ?s) = dom (rs_details s)" by (auto simp: set_detail_def sem_simps dom_def)
  show "store_wf ?s"
    by (rule store_wfI) (use D dom in \<open>auto simp: set_detail_def sem_simps\<close>)
  show "\<forall>k c. contract_of s k = Some c \<longrightarrow> contract_of ?s k = Some c"
    using assms [OF wf] by (auto simp: contract_of_def set_detail_def sem_simps bind_eq_Some_conv)
qed (simp_all add: set_detail_def sem_simps)

lemma evolves_stage_row:
  assumes row: "ss_stages (rs_state s) k = Some row" and "og_id row' = og_id row" "og_operation_key row' = og_operation_key row"
    "og_execution_id row' = og_execution_id row" "og_stage row' = og_stage row" "og_input_revision row' = og_input_revision row"
  shows "store_evolves s (put_stage_row k (row', ts) s)"
proof -
  have "store_evolves s (s\<lparr>rs_state := (rs_state s)\<lparr>ss_stages := (ss_stages (rs_state s))(k \<mapsto> row')\<rparr>\<rparr>)" (is "store_evolves s ?t")
    by (rule evolves_state) (use assms in \<open>auto dest: store_wfD(6)\<close>)
  moreover have "store_evolves ?t (put_stage_row k (row', ts) s)"
    unfolding store_evolves_def
  proof (intro impI conjI)
    assume wf: "store_wf ?t"
    note D = store_wfD [OF wf]
    have keys: "fst ` set (dict_set k ts (rs_stage_times s)) = insert k (fst ` set (rs_stage_times s))"
      by (simp add: dom_update)
    show "store_wf (put_stage_row k (row', ts) s)"
      by (rule store_wfI) (use D keys in \<open>auto simp: put_stage_row_def dict_distinct_set simp del: map_upd_eqD1\<close>)
  qed (simp_all add: put_stage_row_def contract_of_def)
  ultimately show ?thesis by (rule store_evolves_trans)
qed

lemma fold_step_stage_row:
  "fold (step_stage_row now) path (row, ts) = (row', ts') \<Longrightarrow> og_id row' = og_id row \<and> og_operation_key row' = og_operation_key row \<and>
     og_execution_id row' = og_execution_id row \<and> og_stage row' = og_stage row \<and> og_input_revision row' = og_input_revision row \<and>
     (og_attempt_count row' = og_attempt_count row) \<and> og_status row' = last (og_status row # path)"
proof (induction path arbitrary: row ts)
  case Nil
  then show ?case by simp
next
  case (Cons st path)
  obtain r1 t1 where step: "step_stage_row now st (row, ts) = (r1, t1)" by force
  then have r1: "r1 = row\<lparr>og_status := st, og_state_revision := og_state_revision row + 1\<rparr>" by (simp add: step_stage_row_def)
  from Cons.prems step have "fold (step_stage_row now) path (r1, t1) = (row', ts')" by simp
  from Cons.IH [OF this] r1 show ?case by simp
qed

lemma advance_stage_run:
  assumes "advance_stage k target now s = (Inr u, s')"
  shows "s' = s \<and> (\<exists>row ts. ss_stages (rs_state s) k = Some row \<and> dict_get (rs_stage_times s) k = Some ts \<and> og_status row = target) \<or>
    (\<exists>row row' ts'. ss_stages (rs_state s) k = Some row \<and> s' = put_stage_row k (row', ts') s \<and> og_id row' = og_id row \<and>
      og_operation_key row' = og_operation_key row \<and> og_execution_id row' = og_execution_id row \<and> og_stage row' = og_stage row \<and>
      og_input_revision row' = og_input_revision row \<and> og_status row' = target)"
proof -
  from assms obtain row ts p where row: "ss_stages (rs_state s) k = Some row" "dict_get (rs_stage_times s) k = Some ts"
    and p: "stage_status_path (og_status row) target = Inr p"
    and eq: "s' = (if p = [] then s else put_stage_row k (fold (step_stage_row now) p (row, ts)) s)"
    by (auto simp: advance_stage_def split: option.splits sum.splits list.splits)
  show ?thesis
  proof (cases "p = []")
    case True
    with row p eq show ?thesis by (auto simp: stage_status_path_def split: if_splits)
  next
    case False
    with p have "last p = target" by (cases rule: stage_path_cases [OF p]) auto
    moreover obtain row' ts' where f: "fold (step_stage_row now) p (row, ts) = (row', ts')" by force
    ultimately show ?thesis using fold_step_stage_row [OF f] row eq False by auto
  qed
qed

lemma advance_stage_error: "advance_stage k target now s = (Inl e, s') \<Longrightarrow> s' = s"
  by (auto simp: advance_stage_def split: option.splits sum.splits list.splits)

lemma keeps_advance_stage: "keeps store_evolves (advance_stage k target now)"
  unfolding keeps_def
proof
  fix s
  obtain out s' where eq: "advance_stage k target now s = (out, s')" by force
  show "store_evolves s (snd (advance_stage k target now s))"
  proof (cases out)
    case (Inl e)
    with eq advance_stage_error show ?thesis by fastforce
  next
    case (Inr u)
    from advance_stage_run [OF eq [unfolded Inr]] eq show ?thesis
      by (elim disjE exE conjE) (auto intro: evolves_stage_row)
  qed
qed

lemma evolves_put_attempt:
  assumes "at_id row = k"
  shows "store_evolves s (put_attempt k row fin s)"
proof -
  have "store_evolves s (s\<lparr>rs_state := (rs_state s)\<lparr>ss_attempts := (ss_attempts (rs_state s))(k \<mapsto> row)\<rparr>\<rparr>)" (is "store_evolves s ?t")
    by (rule evolves_state) (use assms in \<open>auto dest: store_wfD(6)\<close>)
  moreover have "store_evolves ?t (put_attempt k row fin s)"
    by (simp add: store_evolves_def store_wf_def put_attempt_def contract_of_def)
  ultimately show ?thesis by (rule store_evolves_trans)
qed

lemma keeps_finish_attempt: "keeps store_evolves (finish_attempt k target now)"
  unfolding keeps_def
proof
  fix s
  show "store_evolves s (snd (finish_attempt k target now s))"
  proof (cases "store_wf s")
    case True
    then show ?thesis
      by (auto simp: finish_attempt_def split: option.splits sum.splits intro!: evolves_put_attempt dest: store_wfD(6))
  qed (simp add: store_evolves_def)
qed

lemma insert_stage_run:
  assumes wf: "store_wf s"
  shows "case insert_stage now k st rv s of (out, s') \<Rightarrow> store_evolves s s' \<and>
    (case out of Inr row \<Rightarrow> ss_stages (rs_state s') (operation_key k st rv) = Some row \<and> og_id row = operation_key k st rv
     | Inl e \<Rightarrow> s' = s)"
proof (cases "ss_stages (rs_state s) (operation_key k st rv)")
  case (Some row)
  with store_wfD(5) [OF wf Some] show ?thesis
    by (simp add: insert_stage_def on_state_def get_or_create_stage_def sm_bind_run sem_simps Let_def)
next
  case None
  note D = store_wfD [OF wf]
  show ?thesis
  proof (cases "ss_executions (rs_state s) k")
    case None2: None
    with None show ?thesis
      by (simp add: insert_stage_def on_state_def get_or_create_stage_def sm_bind_run sem_simps Let_def)
  next
    case (Some ex)
    let ?key = "operation_key k st rv"
    let ?s = "snd (insert_stage now k st rv s)"
    obtain row where run: "insert_stage now k st rv s = (Inr row, s\<lparr>rs_state := (rs_state s)\<lparr>ss_stages := (ss_stages (rs_state s))(?key \<mapsto> row)\<rparr>,
          rs_stage_times := dict_set ?key \<lparr>xt_created_at = now, xt_started_at = None, xt_finished_at = None\<rparr> (rs_stage_times s)\<rparr>)"
      and row: "og_id row = ?key" "og_operation_key row = ?key" "og_execution_id row = k" "og_stage row = st" "og_input_revision row = rv"
      using None Some by (simp add: insert_stage_def on_state_def get_or_create_stage_def sm_bind_run sem_simps Let_def)
    have keys: "fst ` set (dict_set ?key v (rs_stage_times s)) = insert ?key (fst ` set (rs_stage_times s))" for v
      by (simp add: dom_update)
    have "store_wf ?s"
      by (rule store_wfI) (use D keys row Some in \<open>auto simp: run dict_distinct_set split: if_splits\<close>)
    then have "store_evolves s ?s" by (simp add: store_evolves_def run contract_of_def)
    with row show ?thesis by (simp add: run)
  qed
qed

lemma append_attempt_evolves:
  assumes row: "ss_stages (rs_state s) (og_id row) = Some row"
  shows "store_evolves s (snd (on_state (append_attempt row n) s))"
proof -
  let ?key = "attempt_id (og_operation_key row) n"
  show ?thesis
  proof (cases "ss_attempts (rs_state s) ?key")
    case None
    show ?thesis
      using None row
      by (auto simp: on_state_def append_attempt_def Let_def intro!: evolves_state dest: store_wfD(6) split: if_splits)
  next
    case (Some att)
    with row show ?thesis
      by (auto simp: on_state_def append_attempt_def Let_def intro!: evolves_state dest: store_wfD(6))
  qed
qed

lemma keeps_open_attempt: "keeps store_evolves (open_attempt now r st rv n)"
  unfolding keeps_def
proof
  fix s
  show "store_evolves s (snd (open_attempt now r st rv n s))"
  proof (cases "store_wf s")
    case True
    obtain out s1 where i: "insert_stage now (cr_id r) st rv s = (out, s1)" by force
    from insert_stage_run [OF True, where k = "cr_id r" and st = st and rv = rv and now = now] i have e1: "store_evolves s s1"
      and ok: "case out of Inr row \<Rightarrow> ss_stages (rs_state s1) (og_id row) = Some row | Inl e \<Rightarrow> s1 = s"
      by (auto split: sum.splits)
    show ?thesis
    proof (cases out)
      case (Inl e)
      with i e1 show ?thesis by (simp add: open_attempt_def sm_bind_run)
    next
      case (Inr row)
      obtain out2 s2 where a: "on_state (append_attempt row n) s1 = (out2, s2)" by force
      with ok Inr append_attempt_evolves [of s1 row n] have "store_evolves s1 s2" by simp
      with e1 have e2: "store_evolves s s2" by (rule store_evolves_trans)
      have "store_evolves s2 (put_attempt (at_id att) (att\<lparr>at_status := x\<rparr>) None s2)" for att x
        by (rule evolves_put_attempt) simp
      with e2 i a Inr show ?thesis
        by (auto simp: open_attempt_def sem_simps split: sum.splits intro: store_evolves_trans)
    qed
  qed (simp add: store_evolves_def)
qed

lemma keeps_insert_stage: "keeps store_evolves (insert_stage now k st rv)"
  unfolding keeps_def
proof
  fix s
  show "store_evolves s (snd (insert_stage now k st rv s))"
  proof (cases "store_wf s")
    case True
    from insert_stage_run [OF True, where k = k and st = st and rv = rv and now = now] show ?thesis by (auto split: prod.splits)
  qed (simp add: store_evolves_def)
qed

lemma keeps_place_stages: "keeps store_evolves (place_stages now k ps)"
  by (induction ps) (auto intro!: keeps_evolves keeps_insert_stage)

lemma evolves_record:
  assumes "storable r"
  shows "store_evolves s (s\<lparr>rs_results := snd (record_outcome_of r (rs_results s))\<rparr>)"
  unfolding store_evolves_def
proof (intro impI conjI)
  assume wf: "store_wf s"
  show "store_wf (s\<lparr>rs_results := snd (record_outcome_of r (rs_results s))\<rparr>)"
    by (rule store_wfI) (use store_wfD [OF wf] record_keeps_wf [OF _ assms] in auto)
qed (simp_all add: record_grows contract_of_def)

lemma keeps_outbox: "keeps store_evolves (on_outbox m)"
  by (auto simp: keeps_def on_outbox_def store_evolves_def store_wf_def contract_of_def split: prod.splits)

lemma keeps_budget: "keeps store_evolves (set_detail k (\<lambda>x. x\<lparr>xd_budget := b\<rparr>))"
  unfolding keeps_def by (intro allI evolves_set_detail) simp

lemma update_status_row:
  assumes "update_status now k target revision token t = (Inr ex, t')"
  shows "ss_executions t' k = Some ex \<and> ex_status ex = target \<and> (\<exists>row. ss_executions t k = Some row \<and>
    ex_id ex = ex_id row \<and> ex_change_id ex = ex_change_id row \<and> ex_route ex = ex_route row \<and>
    ex_state_revision ex = ex_state_revision row + 1 \<and> ex_state_revision row = revision)"
  using assms by (auto simp: update_status_def Let_def split: option.splits if_splits sum.splits)

lemma on_state_Inr: "on_state m s = (Inr a, s') \<longleftrightarrow> (\<exists>t. m (rs_state s) = (Inr a, t) \<and> s' = s\<lparr>rs_state := t\<rparr>)"
proof (cases "m (rs_state s)")
  case (Pair out t)
  then show ?thesis by (cases out) (auto simp: on_state_def)
qed

lemma on_outbox_Inr: "on_outbox m s = (Inr a, s') \<longleftrightarrow> (\<exists>t. m (rs_outbox s) = (Inr a, t) \<and> s' = s\<lparr>rs_outbox := t\<rparr>)"
proof (cases "m (rs_outbox s)")
  case (Pair out t)
  then show ?thesis by (cases out) (auto simp: on_outbox_def)
qed

lemma evolves_execution_row:
  assumes "ss_executions (rs_state s) k = Some row" "ex_id row' = ex_id row"
  shows "store_evolves s (s\<lparr>rs_state := (rs_state s)\<lparr>ss_executions := (ss_executions (rs_state s))(k \<mapsto> row')\<rparr>\<rparr>)"
  by (rule evolves_state) (use assms in \<open>auto dest: store_wfD(6)\<close>)

text \<open>The tail of \<open>persist_decision\<close> that runs once the status is updated.\<close>

lemma keeps_status_then:
  assumes f: "\<And>ex. keeps store_evolves (f ex)" and g: "\<And>ex. ex_id (g ex) = ex_id ex"
  shows "keeps store_evolves (sm_bind (on_state (update_status now k target revision token)) (\<lambda>ex.
    sm_bind (sm_modify (\<lambda>s. s\<lparr>rs_state := (rs_state s)\<lparr>ss_executions := (ss_executions (rs_state s))(k \<mapsto> g ex)\<rparr>\<rparr>)) (\<lambda>_. f ex)))"
  unfolding keeps_def
proof
  fix s
  let ?m = "\<lambda>ex. sm_modify (\<lambda>s. s\<lparr>rs_state := (rs_state s)\<lparr>ss_executions := (ss_executions (rs_state s))(k \<mapsto> g ex)\<rparr>\<rparr>)"
  obtain out s1 where u: "on_state (update_status now k target revision token) s = (out, s1)" by force
  have e1: "store_evolves s s1" using keeps_update_status u by (metis keepsD)
  show "store_evolves s (snd (sm_bind (on_state (update_status now k target revision token)) (\<lambda>ex. sm_bind (?m ex) (\<lambda>_. f ex)) s))"
  proof (cases out)
    case (Inl e)
    with u e1 show ?thesis by (simp add: sm_bind_run)
  next
    case (Inr ex)
    with u have "update_status now k target revision token (rs_state s) = (Inr ex, rs_state s1)"
      by (auto simp: on_state_Inr)
    from update_status_row [OF this] have "ss_executions (rs_state s1) k = Some ex" by simp
    from evolves_execution_row [OF this g] e1
    have "store_evolves s (s1\<lparr>rs_state := (rs_state s1)\<lparr>ss_executions := (ss_executions (rs_state s1))(k \<mapsto> g ex)\<rparr>\<rparr>)"
      by (blast intro: store_evolves_trans)
    moreover have "store_evolves t (snd (f ex t))" for t using f by (simp add: keeps_def)
    ultimately show ?thesis using u Inr by (simp add: sem_simps) (blast intro: store_evolves_trans)
  qed
qed

lemma persist_decision_evolves:
  assumes "storable result"
  shows "keeps store_evolves (persist_decision digest payload r result d opened created revision token now consumers)"
  unfolding keeps_def
proof
  fix s :: run_store
  let ?rec = "record_outcome_of result (rs_results s)"
  let ?s1 = "s\<lparr>rs_results := snd ?rec\<rparr>"
  let ?g = "\<lambda>ex. ex\<lparr>ex_state_revision := max (ex_state_revision ex) (cr_state_revision r)\<rparr>"
  let ?tail = "\<lambda>outcome. sm_bind (place_stages now (cr_id r) created) (\<lambda>_.
      sm_bind (advance_stage (os_stage_row_id opened) (fd_stage_status d) now) (\<lambda>_.
      sm_bind (finish_attempt (os_attempt_id opened) (fd_stage_status d) now) (\<lambda>_.
      sm_bind (on_state (update_status now (cr_id r) (fd_run_status d) revision token)) (\<lambda>ex.
      sm_bind (sm_modify (\<lambda>s. s\<lparr>rs_state := (rs_state s)\<lparr>ss_executions := (ss_executions (rs_state s))(cr_id r \<mapsto> ?g ex)\<rparr>\<rparr>)) (\<lambda>_.
      sm_bind (set_detail (cr_id r) (\<lambda>x. x\<lparr>xd_budget := Some (cr_budget r)\<rparr>)) (\<lambda>_.
      sm_bind (on_outbox (publish now (completed_event digest payload r result d opened outcome (ex_state_revision (?g ex))) consumers)) (\<lambda>_.
      sm_return True)))))))"
  have tail: "keeps store_evolves (?tail outcome)" for outcome
    by (intro keeps_evolves keeps_place_stages keeps_advance_stage keeps_finish_attempt keeps_status_then keeps_budget keeps_outbox) simp
  have "persist_decision digest payload r result d opened created revision token now consumers s =
      (if fst ?rec = Replayed then (Inr False, s) else ?tail (fst ?rec) ?s1)"
    by (simp add: persist_decision_def Let_def sm_bind_Inr [OF sm_run(4)] split: prod.split)
  moreover have "store_evolves ?s1 (snd (?tail (fst ?rec) ?s1))" using tail by (simp only: keeps_def)
  ultimately show "store_evolves s (snd (persist_decision digest payload r result d opened created revision token now consumers s))"
    using evolves_record [OF assms, of s] by (auto intro: store_evolves_trans)
qed

lemma keeps_reloaded: "keeps store_evolves (reloaded e k)"
  by (simp add: keeps_def reloaded_def split: option.split)

lemma keeps_attach_contract: "keeps store_evolves (attach_contract k c)"
  unfolding keeps_def
proof
  fix s :: run_store
  have "store_evolves s (snd (set_detail k (\<lambda>d. d\<lparr>xd_implementation_contract := Some c\<rparr>) s))"
    if "Option.bind (rs_details s k) xd_implementation_contract = None"
    by (rule evolves_set_detail) (use that in auto)
  moreover have "fst (set_detail k f s) = Inr ()" for f by (simp add: set_detail_def sem_simps)
  moreover have "snd (reloaded e k t) = t" for e t by (simp add: reloaded_def split: option.split)
  ultimately show "store_evolves s (snd (attach_contract k c s))"
    by (auto simp: attach_contract_def Let_def sm_bind_run sem_simps split: prod.split sum.split)
qed

definition fresh_detail :: "instant \<Rightarrow> execution_detail" where
  "fresh_detail now = \<lparr>xd_budget = None, xd_implementation_contract = None, xd_created_at = now\<rparr>"

lemma create_run_fresh:
  assumes wf: "store_wf s" and new: "ss_executions (rs_state s) k = None" and k: "k = generated_run_id digest cid rv"
  shows "\<exists>r s'. create_run digest now cid rt prov b rv c irv s = (Inr r, s') \<and> store_evolves s s' \<and> load k s' = Some r \<and>
    cr_id r = k \<and> cr_budget r = b \<and> cr_implementation_contract r = c \<and> cr_status r = RunStatus_PENDING \<and> rs_results s' = rs_results s"
proof -
  let ?row = "\<lparr>ex_id = k, ex_change_id = cid, ex_route = rt, ex_provider = prov, ex_status = RunStatus_PENDING,
      ex_state_revision = 1, ex_updated_at = now, ex_finished_at = None\<rparr>"
  let ?t = "(rs_state s)\<lparr>ss_executions := (ss_executions (rs_state s))(k \<mapsto> ?row)\<rparr>"
  let ?s1 = "s\<lparr>rs_state := ?t, rs_details := (rs_details s)(k \<mapsto> (fresh_detail now)\<lparr>xd_budget := Some b, xd_implementation_contract := c\<rparr>)\<rparr>"
  let ?init = "case irv of Some x \<Rightarrow> x | None \<Rightarrow> rv"
  note D = store_wfD [OF wf]
  have nodet: "rs_details s k = None" using D(1) new by auto
  have run1: "sm_bind (insert_execution now k cid rt prov) (\<lambda>_. sm_bind (set_detail k (\<lambda>d. d\<lparr>xd_budget := Some b, xd_implementation_contract := c\<rparr>)) f) s =
      f () ?s1" for f
    using new by (simp add: insert_execution_def create_execution_def set_detail_def sem_simps Let_def fresh_detail_def)
  have wf1: "store_wf ?s1"
    by (rule store_wfI) (use D in \<open>auto split: if_splits\<close>)
  have e1: "store_evolves s ?s1"
    unfolding store_evolves_def using wf1 nodet by (auto simp: contract_of_def)
  obtain row s2 where i: "insert_stage now k (initial_stage (ROUTE_PROFILES rt)) ?init ?s1 = (Inr row, s2)"
    and keep: "ss_executions (rs_state s2) = ss_executions ?t" "rs_details s2 = rs_details ?s1" "rs_results s2 = rs_results s"
    by (cases "ss_stages (rs_state s) (operation_key k (initial_stage (ROUTE_PROFILES rt)) ?init)")
      (auto simp: insert_stage_def on_state_def get_or_create_stage_def sem_simps Let_def)
  from keeps_insert_stage i have "store_evolves ?s1 s2" by (metis keepsD)
  with e1 have e2: "store_evolves s s2" by (rule store_evolves_trans)
  from keep obtain r where l: "load k s2 = Some r" "cr_id r = k" "cr_budget r = b" "cr_implementation_contract r = c" "cr_status r = RunStatus_PENDING"
    by (auto simp: load_def Let_def)
  have "load k s = None" using new by (simp add: load_def)
  then have "create_run digest now cid rt prov b rv c irv s =
      sm_bind (insert_stage now k (initial_stage (ROUTE_PROFILES rt)) ?init) (\<lambda>_. reloaded (UnknownExecution k) k) ?s1"
    unfolding create_run_def Let_def k [symmetric] by (simp only: option.case run1)
  with i l(1) have "create_run digest now cid rt prov b rv c irv s = (Inr r, s2)"
    by (simp add: sm_bind_Inr reloaded_def)
  with e2 l keep(3) show ?thesis by blast
qed

lemma create_run_existing:
  assumes "load (generated_run_id digest cid rv) s = Some r"
  shows "create_run digest now cid rt prov b rv c irv s = (Inr r, s)"
  using assms by (simp add: create_run_def Let_def)

lemma keeps_create_run: "keeps store_evolves (create_run digest now cid rt prov b rv c irv)"
  unfolding keeps_def
proof
  fix s
  let ?k = "generated_run_id digest cid rv"
  show "store_evolves s (snd (create_run digest now cid rt prov b rv c irv s))"
  proof (cases "store_wf s")
    case True
    show ?thesis
    proof (cases "ss_executions (rs_state s) ?k")
      case None
      with create_run_fresh [OF True None refl] show ?thesis by (metis snd_conv)
    next
      case (Some row)
      then obtain r where "load ?k s = Some r" by (auto simp: load_def Let_def)
      with create_run_existing show ?thesis by simp
    qed
  qed (simp add: store_evolves_def)
qed

lemma keeps_cancel_stages: "keeps store_evolves (cancel_stages now sts)"
  by (induction sts) (auto intro!: keeps_evolves keeps_advance_stage)

lemma keeps_withdrawable: "keeps store_evolves (withdrawable_run k)"
  by (simp add: keeps_def withdrawable_run_def split: option.split)

lemma keeps_audit: "keeps store_evolves (audit_withdrawal now k actor rl why key outcome)"
  by (auto simp: keeps_def audit_withdrawal_def sem_simps store_evolves_def store_wf_def contract_of_def)

lemma keeps_withdraw_run: "keeps store_evolves (withdraw_run now k actor owner rl why key ttl)"
  unfolding withdraw_run_def replay_withdrawal_def
  by (intro keeps_evolves keeps_withdrawable keeps_acquire_lease keeps_release_lease keeps_cancel_stages
      keeps_update_status keeps_audit keeps_reloaded
    | (rule keeps_evolves_bind, rule keeps_withdrawable) | (simp split: option.split, safe))+

section \<open>Histories of the store\<close>

definition empty_run_store :: run_store where
  "empty_run_store = \<lparr>rs_state = empty_store, rs_details = Map.empty, rs_stage_times = [], rs_attempt_finished = Map.empty,
     rs_results = [], rs_outbox = \<lparr>ob_events = [], ob_deliveries = []\<rparr>, rs_audit = []\<rparr>"

inductive store_reaches :: "run_store \<Rightarrow> run_store \<Rightarrow> bool" for s0 where
  start: "store_reaches s0 s0"
| create: "store_reaches s0 s \<Longrightarrow> store_reaches s0 (snd (create_run digest now cid rt prov b rv c irv s))"
| attach: "store_reaches s0 s \<Longrightarrow> store_reaches s0 (snd (attach_contract k c s))"
| lease: "store_reaches s0 s \<Longrightarrow> store_reaches s0 (snd (acquire_lease now k owner ttl s))"
| unlease: "store_reaches s0 s \<Longrightarrow> store_reaches s0 (snd (release_lease k owner token s))"
| opened: "store_reaches s0 s \<Longrightarrow> store_reaches s0 (snd (open_attempt now r st rv n s))"
| decided: "store_reaches s0 s \<Longrightarrow> storable result \<Longrightarrow>
    store_reaches s0 (snd (persist_decision digest payload r result d opn created revision token now consumers s))"
| withdrawn: "store_reaches s0 s \<Longrightarrow> store_reaches s0 (snd (withdraw_run now k actor owner rl why key ttl s))"

lemma evolves_step: "store_evolves a b \<Longrightarrow> keeps store_evolves m \<Longrightarrow> store_evolves a (snd (m b))"
  unfolding keeps_def by (blast intro: store_evolves_trans)

lemma store_reaches_evolves: "store_reaches s0 s \<Longrightarrow> store_evolves s0 s"
  by (induction rule: store_reaches.induct)
    (simp_all add: evolves_step keeps_create_run keeps_attach_contract keeps_acquire_lease keeps_release_lease
      keeps_open_attempt persist_decision_evolves keeps_withdraw_run)

text \<open>
  C37: the store stays well-formed. Whatever operations are called on the empty store, with whatever
  arguments and whether they return or raise, every row is stored under the key its own columns compose,
  every stage row belongs to an existing execution, the timestamp and detail columns cover exactly the
  existing rows, and every result row agrees with its payload.
\<close>

theorem store_stays_wellformed:
  assumes "store_reaches empty_run_store s"
  shows "store_wf s"
proof -
  have "store_wf empty_run_store"
    by (simp add: store_wf_def empty_run_store_def empty_store_def results_wf_def)
  with store_reaches_evolves [OF assms] show ?thesis by (simp add: store_evolves_def)
qed

text \<open>
  C33: a final result and a contract are never rewritten. From any well-formed store, along any history of
  operations, an execution never disappears, the implementation contract a run carries stays the one it
  carries, every recorded attempt keeps its identity columns, and a row whose status is final stays exactly
  as it is; only a waiting checkpoint may be superseded in place.
\<close>

theorem committed_rows_never_rewritten:
  assumes "store_wf s" "store_reaches s s'"
  shows "dom (ss_executions (rs_state s)) \<subseteq> dom (ss_executions (rs_state s')) \<and>
    (\<forall>k c. contract_of s k = Some c \<longrightarrow> contract_of s' k = Some c) \<and>
    (\<forall>k row. dict_get (rs_results s) k = Some row \<longrightarrow> (\<exists>row'. dict_get (rs_results s') k = Some row' \<and>
       same_attempt row row' \<and> (rw_status row \<noteq> StageStatus_WAITING \<longrightarrow> row' = row)))"
  using assms(1) store_reaches_evolves [OF assms(2)] unfolding store_evolves_def results_grow_def by blast

text \<open>
  A run is created once. Creating the run of a change at an input revision always returns: with the given
  budget, contract and first stage when the run is new, and with the run as it is otherwise; and every later
  call for the same change and revision, with whatever route, budget or contract, returns that run and
  changes nothing.
\<close>

theorem run_created_once:
  assumes wf: "store_wf s"
  shows "\<exists>r s'. create_run digest now cid rt prov b rv c irv s = (Inr r, s') \<and>
    load (generated_run_id digest cid rv) s' = Some r \<and>
    (case load (generated_run_id digest cid rv) s of
       None \<Rightarrow> cr_budget r = b \<and> cr_implementation_contract r = c \<and> cr_status r = RunStatus_PENDING
     | Some r0 \<Rightarrow> r = r0 \<and> s' = s) \<and>
    (\<forall>now' rt' prov' b' c' irv'. create_run digest now' cid rt' prov' b' rv c' irv' s' = (Inr r, s'))"
proof (cases "load (generated_run_id digest cid rv) s")
  case None
  then have "ss_executions (rs_state s) (generated_run_id digest cid rv) = None"
    by (simp add: load_def Let_def split: option.splits)
  from create_run_fresh [OF wf this refl, of now rt prov b c irv] obtain r s' where
    "create_run digest now cid rt prov b rv c irv s = (Inr r, s')" "load (generated_run_id digest cid rv) s' = Some r"
    "cr_budget r = b" "cr_implementation_contract r = c" "cr_status r = RunStatus_PENDING" by blast
  with None create_run_existing [OF this(2)] show ?thesis by auto
next
  case (Some r)
  with create_run_existing [OF Some] show ?thesis by auto
qed

section \<open>One persisted decision\<close>

text \<open>Tables an operation leaves alone.\<close>

definition quiet :: "run_store \<Rightarrow> run_store \<Rightarrow> bool" where
  "quiet s s' \<longleftrightarrow> rs_results s' = rs_results s \<and> rs_outbox s' = rs_outbox s \<and> rs_audit s' = rs_audit s \<and>
     ss_executions (rs_state s') = ss_executions (rs_state s) \<and> rs_details s' = rs_details s \<and>
     ss_leases (rs_state s') = ss_leases (rs_state s)"

lemma quiet_trans: "quiet a b \<Longrightarrow> quiet b c \<Longrightarrow> quiet a c"
  by (simp add: quiet_def)

lemma quiet_refl [simp]: "quiet s s"
  by (simp add: quiet_def)

lemmas keeps_quiet = keeps_bind [of quiet, OF quiet_trans] keeps_pure [of quiet, OF quiet_refl] keeps_if

lemma quiet_ops:
  "keeps quiet (insert_stage now k st rv)" "keeps quiet (advance_stage k target now)" "keeps quiet (finish_attempt k target now)"
  by (auto simp: keeps_def quiet_def insert_stage_def on_state_def get_or_create_stage_def sem_simps Let_def advance_stage_def
      put_stage_row_def finish_attempt_def put_attempt_def split: option.splits sum.splits list.splits prod.splits)

lemma quiet_place: "keeps quiet (place_stages now k ps)"
  by (induction ps) (auto intro!: keeps_quiet quiet_ops)


lemma placed_rows:
  "place_stages now k ps s = (Inr u, s') \<Longrightarrow> store_wf s \<Longrightarrow> p \<in> set ps \<Longrightarrow>
     ss_stages (rs_state s') (operation_key k (pl_stage p) (pl_input_revision p)) \<noteq> None"
proof (induction ps arbitrary: s)
  case (Cons q ps)
  from Cons.prems(1) obtain row s1 where i: "insert_stage now k (pl_stage q) (pl_input_revision q) s = (Inr row, s1)"
    and rest: "place_stages now k ps s1 = (Inr u, s')" by (auto simp: sm_bind_eq_Inr)
  from insert_stage_run [OF Cons.prems(2), where k = k and st = "pl_stage q" and rv = "pl_input_revision q" and now = now] i
  have wf1: "store_wf s1" and row: "ss_stages (rs_state s1) (operation_key k (pl_stage q) (pl_input_revision q)) = Some row"
    using Cons.prems(2) by (auto simp: store_evolves_def)
  have grow: "store_wf t \<Longrightarrow> ss_stages (rs_state t) x \<noteq> None \<Longrightarrow> ss_stages (rs_state (snd (place_stages now k ps t))) x \<noteq> None" for t x
  proof (induction ps arbitrary: t)
    case (Cons a ps)
    have "ss_stages (rs_state (snd (insert_stage now k (pl_stage a) (pl_input_revision a) t))) x \<noteq> None"
      using Cons.prems(2) by (auto simp: insert_stage_def on_state_def get_or_create_stage_def sem_simps Let_def split: option.splits)
    moreover have "store_wf (snd (insert_stage now k (pl_stage a) (pl_input_revision a) t))"
      using keeps_insert_stage Cons.prems(1) unfolding keeps_def store_evolves_def by blast
    ultimately show ?case using Cons.IH
      by (cases "insert_stage now k (pl_stage a) (pl_input_revision a) t") (auto simp: sm_bind_run split: sum.split)
  qed (simp add: sem_simps)
  from Cons.prems(3) Cons.IH [OF rest wf1] grow [OF wf1, of "operation_key k (pl_stage q) (pl_input_revision q)"] row rest
  show ?case by auto
qed simp

lemma advance_stage_sets:
  assumes "advance_stage k target now s = (Inr u, s')"
  shows "\<exists>row. ss_stages (rs_state s') k = Some row \<and> og_status row = target"
    and "x \<noteq> k \<Longrightarrow> ss_stages (rs_state s') x = ss_stages (rs_state s) x"
    and "ss_attempts (rs_state s') = ss_attempts (rs_state s)"
  using advance_stage_run [OF assms] by (auto simp: put_stage_row_def)

lemma finish_attempt_sets:
  assumes "finish_attempt k target now s = (Inr u, s')"
  shows "\<exists>row. ss_attempts (rs_state s') k = Some row \<and> at_status row = target"
    and "ss_stages (rs_state s') = ss_stages (rs_state s)"
  using assms by (auto simp: finish_attempt_def put_attempt_def split: option.splits sum.splits if_splits)

lemma recorded_payload:
  "record_outcome_of result t = (outcome, t') \<Longrightarrow> outcome \<noteq> Replayed \<Longrightarrow>
     \<exists>row. dict_get t' (result_attempt_id result) = Some row \<and> rw_payload row = result \<and> rw_status row = res_status result"
  by (auto simp: record_outcome_of_def Let_def new_result_row_def map_add_def split: option.splits if_splits)

lemma replayed_only:
  "record_outcome_of result t = (Replayed, t') \<Longrightarrow> t' = t \<and> (\<exists>row. dict_get t (result_attempt_id result) = Some row \<and>
     (res_status result = StageStatus_WAITING \<or> rw_status row \<noteq> StageStatus_WAITING))"
  by (auto simp: record_outcome_of_def Let_def split: option.splits if_splits)

lemma publish_Inr:
  assumes "publish now draft consumers ob = (Inr e, ob')"
  shows "ob_events ob' = ob_events ob @ [e]" "oe_aggregate_id e = od_aggregate_id draft" "oe_causation_id e = od_causation_id draft"
    "oe_aggregate_version e = od_aggregate_version draft" "ob_deliveries ob' = ob_deliveries ob @ map (new_delivery (oe_event_id e)) consumers"
  using assms by (auto simp: publish_def Let_def split: if_splits)

text \<open>The store after a decision was written, seen table by table.\<close>

definition decision_written ::
    "change_run \<Rightarrow> stage_result \<Rightarrow> flow_decision \<Rightarrow> open_stage \<Rightarrow> stage_placement list \<Rightarrow> int \<Rightarrow> string list \<Rightarrow> run_store \<Rightarrow> run_store \<Rightarrow> bool" where
  "decision_written r result d opened created revision consumers s s' \<longleftrightarrow>
     (\<exists>row. dict_get (rs_results s') (result_attempt_id result) = Some row \<and> rw_payload row = result) \<and>
     (\<exists>row. ss_stages (rs_state s') (os_stage_row_id opened) = Some row \<and> og_status row = fd_stage_status d) \<and>
     (\<exists>att. ss_attempts (rs_state s') (os_attempt_id opened) = Some att \<and> at_status att = fd_stage_status d) \<and>
     (\<forall>p\<in>set created. ss_stages (rs_state s') (operation_key (cr_id r) (pl_stage p) (pl_input_revision p)) \<noteq> None) \<and>
     (\<exists>r'. load (cr_id r) s' = Some r' \<and> cr_status r' = fd_run_status d \<and> cr_budget r' = cr_budget r \<and>
        cr_state_revision r' = max (revision + 1) (cr_state_revision r) \<and>
        (\<exists>e. ob_events (rs_outbox s') = ob_events (rs_outbox s) @ [e] \<and> oe_aggregate_id e = cr_id r \<and>
           oe_causation_id e = Some (os_attempt_id opened) \<and> oe_aggregate_version e = cr_state_revision r' \<and>
           ob_deliveries (rs_outbox s') = ob_deliveries (rs_outbox s) @ map (new_delivery (oe_event_id e)) consumers))"

lemma persist_decision_writes:
  assumes wf: "store_wf s" and ok: "storable result"
    and run: "persist_decision digest payload r result d opened created revision token now consumers s = (Inr True, s')"
  shows "decision_written r result d opened created revision consumers s s'"
proof -
  let ?g = "\<lambda>ex. ex\<lparr>ex_state_revision := max (ex_state_revision ex) (cr_state_revision r)\<rparr>"
  obtain outcome table where rec: "record_outcome_of result (rs_results s) = (outcome, table)" by force
  with run have new: "outcome \<noteq> Replayed" by (auto simp: persist_decision_def)
  let ?s0 = "s\<lparr>rs_results := table\<rparr>"
  from run rec new obtain s1 s2 s3 s4 ex e s7 where
    place: "place_stages now (cr_id r) created ?s0 = (Inr (), s1)" and
    adv: "advance_stage (os_stage_row_id opened) (fd_stage_status d) now s1 = (Inr (), s2)" and
    fin: "finish_attempt (os_attempt_id opened) (fd_stage_status d) now s2 = (Inr (), s3)" and
    upd: "on_state (update_status now (cr_id r) (fd_run_status d) revision token) s3 = (Inr ex, s4)" and
    pub: "on_outbox (publish now (completed_event digest payload r result d opened outcome (ex_state_revision (?g ex))) consumers)
       (snd (set_detail (cr_id r) (\<lambda>x. x\<lparr>xd_budget := Some (cr_budget r)\<rparr>)
         (s4\<lparr>rs_state := (rs_state s4)\<lparr>ss_executions := (ss_executions (rs_state s4))(cr_id r \<mapsto> ?g ex)\<rparr>\<rparr>))) = (Inr e, s')"
    by (auto simp: persist_decision_def sm_bind_eq_Inr sm_run set_detail_def Let_def)
  have wf0: "store_wf ?s0" using evolves_record [OF ok, of s] wf rec by (simp add: store_evolves_def)
  have q1: "quiet ?s0 s1" using quiet_place place by (metis keepsD)
  have q2: "quiet s1 s2" using quiet_ops(2) adv by (metis keepsD)
  have q3: "quiet s2 s3" using quiet_ops(3) fin by (metis keepsD)
  from upd obtain t where t: "update_status now (cr_id r) (fd_run_status d) revision token (rs_state s3) = (Inr ex, t)"
    "s4 = s3\<lparr>rs_state := t\<rparr>" by (auto simp: on_state_Inr)
  have frame: "ss_stages t = ss_stages (rs_state s3)" "ss_attempts t = ss_attempts (rs_state s3)"
    using t(1) by (auto simp: update_status_def Let_def split: option.splits if_splits sum.splits)
  from update_status_row [OF t(1)] obtain row where row: "ss_executions (rs_state s3) (cr_id r) = Some row"
      "ex_state_revision ex = revision + 1" "ex_status ex = fd_run_status d" by auto
  with q1 q2 q3 have "ss_executions (rs_state s) (cr_id r) = Some row" by (simp add: quiet_def)
  with wf have "cr_id r \<in> dom (rs_details s)" using store_wfD(1) [OF wf] by auto
  then obtain det where det: "rs_details s (cr_id r) = Some det" by auto
  have det3: "rs_details s3 = rs_details s" using q1 q2 q3 by (simp add: quiet_def)
  have s': "rs_state s' = t\<lparr>ss_executions := (ss_executions t)(cr_id r \<mapsto> ?g ex)\<rparr>" "rs_results s' = table"
    "rs_details s' (cr_id r) = Some (det\<lparr>xd_budget := Some (cr_budget r)\<rparr>)"
    "publish now (completed_event digest payload r result d opened outcome (ex_state_revision (?g ex))) consumers (rs_outbox s) = (Inr e, rs_outbox s')"
    using pub t(2) q1 q2 q3 det det3
    by (auto simp: on_outbox_Inr set_detail_def sem_simps quiet_def)
  have event: "ob_events (rs_outbox s') = ob_events (rs_outbox s) @ [e]" "oe_aggregate_id e = cr_id r"
    "oe_causation_id e = Some (os_attempt_id opened)" "oe_aggregate_version e = max (ex_state_revision ex) (cr_state_revision r)"
    "ob_deliveries (rs_outbox s') = ob_deliveries (rs_outbox s) @ map (new_delivery (oe_event_id e)) consumers"
    using publish_Inr [OF s'(4)] by (simp_all add: completed_event_def)
  have placed: "ss_stages (rs_state s') (operation_key (cr_id r) (pl_stage p) (pl_input_revision p)) \<noteq> None" if "p \<in> set created" for p
  proof -
    have "ss_stages (rs_state s1) (operation_key (cr_id r) (pl_stage p) (pl_input_revision p)) \<noteq> None"
      by (rule placed_rows [OF place wf0 that])
    then show ?thesis
      using advance_stage_sets(1,2) [OF adv] finish_attempt_sets(2) [OF fin] s'(1) frame(1)
      by (cases "operation_key (cr_id r) (pl_stage p) (pl_input_revision p) = os_stage_row_id opened") auto
  qed
  show ?thesis
    unfolding decision_written_def
  proof (intro conjI ballI)
    show "\<exists>row. dict_get (rs_results s') (result_attempt_id result) = Some row \<and> rw_payload row = result"
      using recorded_payload [OF rec new] s'(2) by blast
    show "\<exists>row. ss_stages (rs_state s') (os_stage_row_id opened) = Some row \<and> og_status row = fd_stage_status d"
      using advance_stage_sets(1) [OF adv] finish_attempt_sets(2) [OF fin] s'(1) frame(1) by simp
    show "\<exists>att. ss_attempts (rs_state s') (os_attempt_id opened) = Some att \<and> at_status att = fd_stage_status d"
      using finish_attempt_sets(1) [OF fin] s'(1) frame(2) by simp
    show "\<exists>r'. load (cr_id r) s' = Some r' \<and> cr_status r' = fd_run_status d \<and> cr_budget r' = cr_budget r \<and>
        cr_state_revision r' = max (revision + 1) (cr_state_revision r) \<and>
        (\<exists>e. ob_events (rs_outbox s') = ob_events (rs_outbox s) @ [e] \<and> oe_aggregate_id e = cr_id r \<and>
           oe_causation_id e = Some (os_attempt_id opened) \<and> oe_aggregate_version e = cr_state_revision r' \<and>
           ob_deliveries (rs_outbox s') = ob_deliveries (rs_outbox s) @ map (new_delivery (oe_event_id e)) consumers)"
      using s'(1,3) row(2,3) event by (auto simp: load_def Let_def)
  qed (rule placed)
qed

text \<open>
  C34: a decision is written whole or not at all. When \<open>persist_decision\<close> returns true, the result is stored
  under its attempt, the executed stage row and its attempt carry the decided status, every announced stage
  has its row, the reloaded run carries the decided status, the spent budget and the larger of the stored and
  the domain revision, and exactly one event with one delivery per consumer was appended. When it returns
  false nothing at all was written, because the attempt already holds an authoritative result.
\<close>

theorem decision_persisted_whole:
  assumes wf: "store_wf s" and ok: "storable result"
  shows "case persist_decision digest payload r result d opened created revision token now consumers s of
      (Inr written, s') \<Rightarrow>
        (if written then decision_written r result d opened created revision consumers s s'
         else s' = s \<and> (\<exists>row. dict_get (rs_results s) (result_attempt_id result) = Some row))
    | (Inl _, s') \<Rightarrow> store_wf s'"
proof -
  obtain out s' where run: "persist_decision digest payload r result d opened created revision token now consumers s = (out, s')"
    by force
  show ?thesis
  proof (cases out)
    case (Inl e)
    with run wf persist_decision_evolves [OF ok] have "store_wf s'"
      unfolding keeps_def store_evolves_def by (metis snd_conv)
    with run Inl show ?thesis by simp
  next
    case (Inr written)
    show ?thesis
    proof (cases written)
      case True
      with persist_decision_writes [OF wf ok] run Inr show ?thesis by simp
    next
      case False
      obtain outcome table where rec: "record_outcome_of result (rs_results s) = (outcome, table)" by force
      with run Inr False have "outcome = Replayed" "s' = s"
        by (auto simp: persist_decision_def sm_bind_eq_Inr sm_run Let_def split: if_splits)
      with run Inr False replayed_only [OF rec [unfolded \<open>outcome = Replayed\<close>]] show ?thesis by auto
    qed
  qed
qed

section \<open>Withdrawal\<close>





lemma load_audit [simp]: "load k (s\<lparr>rs_audit := x\<rparr>) = load k s"
  by (simp add: load_def load_stages_def stage_rows_def Let_def split: option.split)





section \<open>A sample store\<close>

definition sample_digest :: "string \<Rightarrow> string" where "sample_digest _ = ''0a''"

definition sample_rs :: run_store where
  "sample_rs = snd (create_run sample_digest 0 ''c1'' Route_QUICK Provider_GITHUB default_budget ''abc'' None None empty_run_store)"

lemma sample_rs_reached: "store_reaches empty_run_store sample_rs"
  unfolding sample_rs_def by (intro store_reaches.create store_reaches.start)

lemma sample_rs_wf: "store_wf sample_rs"
proof -
  have "store_wf empty_run_store" by (simp add: store_wf_def empty_run_store_def empty_store_def results_wf_def)
  with store_reaches_evolves [OF sample_rs_reached] show ?thesis by (simp add: store_evolves_def)
qed


abbreviation sample_stored :: stage_result where
  "sample_stored \<equiv> sample_result Stage_SPECIFICATION StageStatus_WAITING (WaitForInputAction (Txt ''spec'')) []"

lemma sample_stored_ok: "storable sample_stored" "results_wf []"
  by (simp_all add: storable_def stage_result_valid_def sample_result_def result_statuses_def results_wf_def)

theorem recorded_attempt_is_found_witness:
  "case record_outcome_of sample_stored [] of (outcome, table) \<Rightarrow>
     outcome = Stored \<and> get_result ''r1'' Stage_SPECIFICATION 1 (Some ''abc'') table = Some sample_stored"
proof -
  have r: "res_input_revision sample_stored = Some ''abc''" "(''abc'' :: string) \<noteq> []" "res_run_id sample_stored = ''r1''"
    "res_attempt_number sample_stored = 1" by (simp_all add: sample_result_def)
  have "fst (record_outcome_of sample_stored []) = Stored" by code_simp
  with recorded_attempt_is_found [OF sample_stored_ok(2,1) r(1,2)] r(3,4) show ?thesis by (auto split: prod.splits)
qed


theorem store_stays_wellformed_witness: "store_reaches empty_run_store sample_rs \<and> store_wf sample_rs"
  using store_stays_wellformed [OF sample_rs_reached] sample_rs_reached by simp

theorem committed_rows_never_rewritten_witness:
  "\<exists>s'. store_reaches sample_rs s' \<and> ''run_0a'' \<in> dom (ss_executions (rs_state s')) \<and> s' = snd (acquire_lease 1 ''run_0a'' ''w'' 10 sample_rs)"
proof -
  have "store_reaches sample_rs (snd (acquire_lease 1 ''run_0a'' ''w'' 10 sample_rs))"
    by (intro store_reaches.lease store_reaches.start)
  moreover have "ss_executions (rs_state sample_rs) ''run_0a'' \<noteq> None" by code_simp
  ultimately show ?thesis using committed_rows_never_rewritten [OF sample_rs_wf] by blast
qed

theorem run_created_once_witness:
  "\<exists>r s'. create_run sample_digest 3 ''c1'' Route_STANDARD Provider_GITHUB default_budget ''abc'' None None sample_rs = (Inr r, s') \<and>
     s' = sample_rs \<and> cr_route r = Route_QUICK"
proof -
  have "load (generated_run_id sample_digest ''c1'' ''abc'') sample_rs = Some (the (load (generated_run_id sample_digest ''c1'' ''abc'') sample_rs))"
    "cr_route (the (load (generated_run_id sample_digest ''c1'' ''abc'') sample_rs)) = Route_QUICK" by code_simp+
  with run_created_once [OF sample_rs_wf, of sample_digest 3 "''c1''" Route_STANDARD Provider_GITHUB default_budget "''abc''" None None]
  show ?thesis by (auto split: option.splits)
qed


definition sample_loaded :: change_run where "sample_loaded = the (load ''run_0a'' sample_rs)"

definition sample_opened :: "(run_store_error + open_stage) \<times> run_store" where
  "sample_opened = open_attempt 1 sample_loaded Stage_SPECIFICATION ''abc'' 1 (snd (acquire_lease 1 ''run_0a'' ''w'' 10 sample_rs))"

definition sample_waiting :: flow_decision where
  "sample_waiting = \<lparr>fd_stage = Stage_SPECIFICATION, fd_action = WaitForInputAction (Txt ''spec''),
     fd_stage_status = StageStatus_WAITING, fd_run_status = RunStatus_WAITING, fd_next_stage = None\<rparr>"

theorem decision_persisted_whole_witness:
  "\<exists>s'. persist_decision sample_digest (\<lambda>_ _. []) sample_loaded (sample_stored\<lparr>res_run_id := ''run_0a''\<rparr>) sample_waiting
       (projr (fst sample_opened)) [] 1 1 2 [''flow''] (snd sample_opened) = (Inr True, s') \<and>
     (\<exists>r'. load ''run_0a'' s' = Some r' \<and> cr_status r' = RunStatus_WAITING)"
proof -
  let ?p = "persist_decision sample_digest (\<lambda>_ _. []) sample_loaded (sample_stored\<lparr>res_run_id := ''run_0a''\<rparr>) sample_waiting
       (projr (fst sample_opened)) [] 1 1 2 [''flow''] (snd sample_opened)"
  have "store_reaches empty_run_store (snd sample_opened)"
    unfolding sample_opened_def by (intro store_reaches.opened store_reaches.lease sample_rs_reached)
  from store_reaches_evolves [OF this] have wf: "store_wf (snd sample_opened)"
    by (simp add: store_evolves_def store_wf_def empty_run_store_def empty_store_def results_wf_def)
  have ok: "storable (sample_stored\<lparr>res_run_id := ''run_0a''\<rparr>)"
    by (simp add: storable_def stage_result_valid_def sample_result_def result_statuses_def)
  have "fst ?p = Inr True" "cr_id sample_loaded = ''run_0a''" by code_simp+
  moreover from this obtain s' where "?p = (Inr True, s')" by (cases ?p) simp
  ultimately show ?thesis
    using decision_persisted_whole [OF wf ok, where digest = sample_digest and payload = "\<lambda>_ _. []" and r = sample_loaded and
      d = sample_waiting and opened = "projr (fst sample_opened)" and created = "[]" and revision = 1 and token = 1 and now = 2 and
      consumers = "[''flow'']"]
    by (auto simp: decision_written_def sample_waiting_def)
qed

end
