(* ===== verification/Ports.thy ===== *)
theory Ports
  imports StageGates
begin

text \<open>
  The port contracts the executors and the fakes share: the errors that cross a port boundary
  (\<open>ports/errors.py\<close>), the values the ports exchange (\<open>ports/common.py\<close>, \<open>ports/context.py\<close>,
  \<open>ports/agents.py\<close>, \<open>ports/provisioning.py\<close>, \<open>ports/reconciliation.py\<close>) and the protocols themselves
  (\<open>ports/protocols.py\<close>). A protocol is a record of operations over the state \<open>'w\<close> of the outside world; an
  operation is a state-and-exception function, so what a call changed before it raised stays changed.
  Byte strings are the texts they encode.

  The theory also holds the text functions of the standard library those components call: \<open>repr\<close>,
  \<open>str.casefold\<close>, \<open>str.isalnum\<close>, \<open>str.split\<close>, zero-padded decimals.
\<close>

section \<open>Text functions\<close>

definition py_isalnum :: "char \<Rightarrow> bool" where
  "py_isalnum c \<longleftrightarrow> (let n = (of_char c :: nat) in
     (48 \<le> n \<and> n \<le> 57) \<or> (65 \<le> n \<and> n \<le> 90) \<or> (97 \<le> n \<and> n \<le> 122) \<or>
     n \<in> {170, 178, 179, 181, 185, 186, 188, 189, 190} \<or> (192 \<le> n \<and> n \<noteq> 215 \<and> n \<noteq> 247))"

definition casefold_char :: "char \<Rightarrow> string" where
  "casefold_char c = (let n = (of_char c :: nat) in
     if (65 \<le> n \<and> n \<le> 90) \<or> (192 \<le> n \<and> n \<le> 222 \<and> n \<noteq> 215) then [char_of (n + 32)]
     else if n = 223 then ''ss'' else [c])"

definition py_casefold :: "string \<Rightarrow> string" where
  "py_casefold s = concat (map casefold_char s)"

definition hex_digit :: "nat \<Rightarrow> char" where
  "hex_digit n = ''0123456789abcdef'' ! n"

definition py_printable :: "char \<Rightarrow> bool" where
  "py_printable c \<longleftrightarrow> (let n = (of_char c :: nat) in (32 \<le> n \<and> n \<le> 126) \<or> (161 \<le> n \<and> n \<noteq> 173))"

definition repr_char :: "char \<Rightarrow> char \<Rightarrow> string" where
  "repr_char q c = (let n = (of_char c :: nat); bs = CHR 0x5C in
     if c = q \<or> c = bs then [bs, c]
     else if n = 9 then [bs, CHR ''t''] else if n = 10 then [bs, CHR ''n''] else if n = 13 then [bs, CHR ''r'']
     else if py_printable c then [c]
     else [bs, CHR ''x'', hex_digit (n div 16), hex_digit (n mod 16)])"

definition py_repr :: "string \<Rightarrow> string" where
  "py_repr s = (let q = (if CHR 0x27 \<in> set s \<and> CHR 0x22 \<notin> set s then CHR 0x22 else CHR 0x27)
     in q # concat (map (repr_char q) s) @ [q])"

fun split_char :: "char \<Rightarrow> string \<Rightarrow> string list" where
  "split_char sep [] = [[]]"
| "split_char sep (c # cs) = (if c = sep then [] # split_char sep cs
     else case split_char sep cs of [] \<Rightarrow> [[c]] | w # ws \<Rightarrow> (c # w) # ws)"

definition strip_chars :: "string \<Rightarrow> string \<Rightarrow> string" where
  "strip_chars cs s = rev (dropWhile (\<lambda>c. c \<in> set cs) (rev (dropWhile (\<lambda>c. c \<in> set cs) s)))"

definition pad4 :: "nat \<Rightarrow> string" where
  "pad4 n = replicate (4 - length (show_nat n)) (CHR ''0'') @ show_nat n"

section \<open>Errors (\<open>errors.py\<close>)\<close>

datatype port_error =
    KeyError string
  | ValueError string
  | ValidationError
  | HeadMismatchError string
  | RunNotFoundError string
  | ProvisioningOperationUnsupportedError string
  | UnsafeWorkspacePathError string
  | OtherError string

fun error_type_name :: "port_error \<Rightarrow> string" where
  "error_type_name (KeyError _) = ''KeyError''"
| "error_type_name (ValueError _) = ''ValueError''"
| "error_type_name ValidationError = ''ValidationError''"
| "error_type_name (HeadMismatchError _) = ''HeadMismatchError''"
| "error_type_name (RunNotFoundError _) = ''RunNotFoundError''"
| "error_type_name (ProvisioningOperationUnsupportedError _) = ''ProvisioningOperationUnsupportedError''"
| "error_type_name (UnsafeWorkspacePathError _) = ''UnsafeWorkspacePathError''"
| "error_type_name (OtherError n) = n"

section \<open>Values (\<open>common.py\<close>, \<open>context.py\<close>, \<open>agents.py\<close>)\<close>

type_synonym file_set = "(string \<times> string) list"

record pipeline_status =
  ps_ref :: string
  ps_status :: string
  ps_url :: "string option"

record commit_info =
  cmi_sha :: sha
  cmi_message :: string

record review_observation =
  ro_review_id :: string
  ro_author :: string
  ro_state :: string
  ro_commit_sha :: "sha option"
  ro_submitted_at :: "instant option"

record change_request_observation =
  cro_status :: change_request_status
  cro_head_sha :: "sha option"
  cro_merged_sha :: "sha option"
  cro_reviews :: "review_observation list"

record open_change_request =
  ocr_repository :: repository_ref
  ocr_change_id :: string
  ocr_source_branch :: string
  ocr_target_branch :: string
  ocr_title :: string
  ocr_description :: "string option"
  ocr_head_sha :: sha

definition mk_open_change_request :: "open_change_request \<Rightarrow> ('w, port_error, open_change_request) sem" where
  "mk_open_change_request r =
     (if ocr_change_id r = [] \<or> ocr_source_branch r = [] \<or> ocr_target_branch r = [] \<or> ocr_title r = [] \<or>
         ocr_head_sha r = []
      then sm_raise ValidationError else sm_return r)"

record stage_job_request =
  sj_repository :: repository_ref
  sj_stage :: string
  sj_ref :: string

fun STAGE_GATES :: "stage \<Rightarrow> gate" where
  "STAGE_GATES Stage_SPECIFICATION = Gate_SPECIFICATION"
| "STAGE_GATES Stage_PLANNING = Gate_PLANNING"
| "STAGE_GATES Stage_CONSTRUCTION = Gate_CODE"
| "STAGE_GATES Stage_REVIEW_VERIFICATION = Gate_VERIFICATION"
| "STAGE_GATES Stage_RELEASE = Gate_RELEASE"

definition stage_gate :: "string \<Rightarrow> port_error + gate" where
  "stage_gate st = (case find (\<lambda>x. stage_value x = st) stage_members of
       Some x \<Rightarrow> Inr (STAGE_GATES x)
     | None \<Rightarrow> Inl (ValueError (''unknown stage '' @ py_repr st)))"

record workspace_request =
  wr_repository :: repository_ref
  wr_revision :: sha
  wr_change_id :: string

definition mk_workspace_request :: "workspace_request \<Rightarrow> ('w, port_error, workspace_request) sem" where
  "mk_workspace_request r =
     (if wr_revision r = [] \<or> wr_change_id r = [] then sm_raise ValidationError else sm_return r)"

record workspace_handle =
  wh_workspace_id :: string
  wh_repository :: repository_ref
  wh_revision :: sha

record execution_result =
  er_ok :: bool
  er_exit_code :: int
  er_stdout :: string
  er_stderr :: string

record evidence_file =
  ef_path :: string
  ef_content_hash :: string
  ef_content :: string

record task_envelope =
  te_change_id :: string
  te_run_id :: string
  te_stage :: stage
  te_role :: role
  te_instruction :: string
  te_skill_id :: "string option"

definition mk_task_envelope :: "task_envelope \<Rightarrow> ('w, port_error, task_envelope) sem" where
  "mk_task_envelope t =
     (if te_change_id t = [] \<or> te_run_id t = [] \<or> te_instruction t = [] \<or> te_skill_id t = Some []
      then sm_raise ValidationError else sm_return t)"

record agent_result =
  agr_ok :: bool
  agr_output :: string
  agr_usage :: "usage option"

section \<open>Protocols (\<open>protocols.py\<close>)\<close>

record 'w repository_port =
  rp_get_revision :: "repository_ref \<Rightarrow> string \<Rightarrow> ('w, port_error, sha) sem"
  rp_ensure_branch :: "repository_ref \<Rightarrow> string \<Rightarrow> sha \<Rightarrow> string \<Rightarrow> ('w, port_error, sha) sem"
  rp_publish_commit :: "repository_ref \<Rightarrow> string \<Rightarrow> file_set \<Rightarrow> string \<Rightarrow> string \<Rightarrow> ('w, port_error, sha) sem"
  rp_read_file :: "repository_ref \<Rightarrow> string \<Rightarrow> string \<Rightarrow> ('w, port_error, string) sem"
  rp_list_tree :: "repository_ref \<Rightarrow> string \<Rightarrow> string \<Rightarrow> ('w, port_error, string list) sem"

record 'w merge_request_port =
  mp_open :: "open_change_request \<Rightarrow> string \<Rightarrow> ('w, port_error, change_request_ref) sem"
  mp_find_existing :: "repository_ref \<Rightarrow> string \<Rightarrow> ('w, port_error, change_request_ref option) sem"
  mp_add_comment :: "change_request_ref \<Rightarrow> string \<Rightarrow> string \<Rightarrow> ('w, port_error, unit) sem"
  mp_merge :: "change_request_ref \<Rightarrow> sha \<Rightarrow> string \<Rightarrow> ('w, port_error, unit) sem"
  mp_observe :: "change_request_ref \<Rightarrow> ('w, port_error, change_request_observation) sem"

record 'w execution_port =
  ep_prepare_workspace :: "workspace_request \<Rightarrow> string \<Rightarrow> ('w, port_error, workspace_handle) sem"
  ep_write_file :: "workspace_handle \<Rightarrow> string \<Rightarrow> string \<Rightarrow> string \<Rightarrow> ('w, port_error, unit) sem"
  ep_run_command :: "workspace_handle \<Rightarrow> string list \<Rightarrow> string \<Rightarrow> ('w, port_error, execution_result) sem"
  ep_collect_evidence :: "workspace_handle \<Rightarrow> string \<Rightarrow> string \<Rightarrow> ('w, port_error, evidence_file) sem"
  ep_collect_changes :: "workspace_handle \<Rightarrow> string \<Rightarrow> ('w, port_error, file_set) sem"

section \<open>Facts about the text functions\<close>

lemma read_nat_padded [simp]: "read_nat (replicate k (CHR ''0'') @ s) = read_nat s"
  by (induction k) (simp_all add: read_nat_def)

lemma pad4_inject [simp]: "pad4 m = pad4 n \<longleftrightarrow> m = n"
  by (metis pad4_def read_nat_padded read_show_nat)

lemma split_char_not_Nil [simp]: "split_char sep s \<noteq> []"
  by (induction s) (auto split: list.splits)

lemma split_char_no_sep: "w \<in> set (split_char sep s) \<Longrightarrow> sep \<notin> set w"
  by (induction s arbitrary: w) (auto split: list.splits if_splits)

lemma split_char_alone [simp]: "sep \<notin> set s \<Longrightarrow> split_char sep s = [s]"
  by (induction s) auto

lemma split_char_append: "sep \<notin> set a \<Longrightarrow> split_char sep (a @ sep # s) = a # split_char sep s"
  by (induction a) auto

lemma split_char_join:
  assumes "ws \<noteq> []" and "\<And>w. w \<in> set ws \<Longrightarrow> sep \<notin> set w"
  shows "split_char sep (join_with [sep] ws) = ws"
  using assms
proof (induction ws)
  case (Cons w ws)
  then show ?case by (cases ws) (simp_all add: split_char_append)
qed simp

end
