(* ===== verification/Fakes.thy ===== *)
theory Fakes
  imports Ports Reconcile
begin

text \<open>
  The in-memory implementations of the ports (\<open>adapters/fakes/\<close>): source control, execution, workflow
  engine, CI, tracker, artifact store, provisioning and harness. Each fake is a record of the dictionaries
  the class keeps and each method one function on it, with the exception it raises as a value.

  The locale \<open>keyed_effect\<close> states the replay contract of an operation with an idempotency key once; it is
  interpreted on every keyed operation of the fakes. The other lemmas show when the walk over a commit's
  ancestors ends and what a merge checks.
\<close>

section \<open>Source control (\<open>scm.py\<close>)\<close>

type_synonym repo_key = "string \<times> string"

definition repo_key :: "repository_ref \<Rightarrow> repo_key" where
  "repo_key r = (provider_value (rr_provider r), rr_slug r)"

record commit_record =
  ck_sha :: sha
  ck_message :: string
  ck_files :: file_set
  ck_parent :: "sha option"

record fake_repository =
  fr_branches :: "((repo_key \<times> string) \<times> sha) list"
  fr_branch_keys :: "(string \<times> sha) list"
  fr_commits :: "(sha \<times> commit_record) list"
  fr_commit_keys :: "(string \<times> sha) list"
  fr_next_commit :: nat

definition new_fake_repository :: fake_repository where
  "new_fake_repository = \<lparr>fr_branches = [], fr_branch_keys = [], fr_commits = [], fr_commit_keys = [],
     fr_next_commit = 0\<rparr>"

definition no_revision :: "repository_ref \<Rightarrow> string \<Rightarrow> port_error" where
  "no_revision repository ref =
     KeyError (''no revision recorded for '' @ py_repr (rr_slug repository) @ ''@'' @ py_repr ref)"

definition fake_get_revision :: "repository_ref \<Rightarrow> string \<Rightarrow> (fake_repository, port_error, sha) sem" where
  "fake_get_revision repository ref = (\<lambda>s. case dict_get (fr_branches s) (repo_key repository, ref) of
       Some h \<Rightarrow> (Inr h, s) | None \<Rightarrow> (Inl (no_revision repository ref), s))"

definition fake_ensure_branch ::
    "repository_ref \<Rightarrow> string \<Rightarrow> sha \<Rightarrow> string \<Rightarrow> (fake_repository, port_error, sha) sem" where
  "fake_ensure_branch repository branch from_revision key = (\<lambda>s.
     case dict_get (fr_branch_keys s) key of
       Some replayed \<Rightarrow> (Inr replayed, s)
     | None \<Rightarrow>
         (let at_branch = (repo_key repository, branch);
              known = dict_get (fr_branches s) at_branch;
              head = (case known of Some h \<Rightarrow> h | None \<Rightarrow> from_revision)
          in (Inr head, s\<lparr>fr_branches := (case known of Some _ \<Rightarrow> fr_branches s
                                        | None \<Rightarrow> dict_set at_branch from_revision (fr_branches s)),
                          fr_branch_keys := dict_set key head (fr_branch_keys s)\<rparr>)))"

definition commit_id :: "nat \<Rightarrow> sha" where
  "commit_id n = CHR ''c'' # pad4 n"

definition files_of :: "(sha \<times> commit_record) list \<Rightarrow> sha \<Rightarrow> file_set" where
  "files_of cs h = (case dict_get cs h of None \<Rightarrow> [] | Some c \<Rightarrow> ck_files c)"

definition merge_files :: "file_set \<Rightarrow> file_set \<Rightarrow> file_set" where
  "merge_files base changes = fold (\<lambda>(p, b) d. dict_set p b d) changes base"

definition fake_publish_commit ::
    "repository_ref \<Rightarrow> string \<Rightarrow> file_set \<Rightarrow> string \<Rightarrow> string \<Rightarrow> (fake_repository, port_error, sha) sem" where
  "fake_publish_commit repository branch changes message key = (\<lambda>s.
     if changes = [] then (Inl (ValueError ''publish_commit requires a non-empty change set''), s)
     else case dict_get (fr_commit_keys s) key of
       Some replayed \<Rightarrow> (Inr replayed, s)
     | None \<Rightarrow>
         (case dict_get (fr_branches s) (repo_key repository, branch) of
            None \<Rightarrow> (Inl (no_revision repository branch), s)
          | Some parent \<Rightarrow>
              (let n = fr_next_commit s + 1; sha = commit_id n;
                   record_of = \<lparr>ck_sha = sha, ck_message = message,
                     ck_files = merge_files (files_of (fr_commits s) parent) changes, ck_parent = Some parent\<rparr>
               in (Inr sha, s\<lparr>fr_next_commit := n, fr_commits := dict_set sha record_of (fr_commits s),
                              fr_branches := dict_set (repo_key repository, branch) sha (fr_branches s),
                              fr_commit_keys := dict_set key sha (fr_commit_keys s)\<rparr>))))"

definition fake_resolve :: "fake_repository \<Rightarrow> repository_ref \<Rightarrow> string \<Rightarrow> port_error + sha" where
  "fake_resolve s repository ref = (case dict_get (fr_branches s) (repo_key repository, ref) of
       Some h \<Rightarrow> Inr h
     | None \<Rightarrow> if ref \<in> fst ` set (fr_commits s) \<or> ref \<in> set (dict_values (fr_branches s)) then Inr ref
               else Inl (no_revision repository ref))"

definition fake_read_file :: "repository_ref \<Rightarrow> string \<Rightarrow> string \<Rightarrow> (fake_repository, port_error, string) sem" where
  "fake_read_file repository ref path = (\<lambda>s. case fake_resolve s repository ref of
       Inl e \<Rightarrow> (Inl e, s)
     | Inr sha \<Rightarrow> (case dict_get (files_of (fr_commits s) sha) path of
           Some b \<Rightarrow> (Inr b, s)
         | None \<Rightarrow> (Inl (KeyError (''no file '' @ py_repr path @ '' at '' @ py_repr (rr_slug repository) @ ''@'' @
             py_repr ref)), s)))"

definition fake_list_tree :: "repository_ref \<Rightarrow> string \<Rightarrow> string \<Rightarrow> (fake_repository, port_error, string list) sem" where
  "fake_list_tree repository ref prefix = (\<lambda>s. case fake_resolve s repository ref of
       Inl e \<Rightarrow> (Inl e, s)
     | Inr sha \<Rightarrow> (Inr (sort (filter (starts_with prefix) (map fst (files_of (fr_commits s) sha)))), s))"

text \<open>
  The walk from a commit to its ancestors is a loop without a bound of its own: \<open>None\<close> is the loop that does
  not end.
\<close>

definition touches :: "(sha \<times> commit_record) list \<Rightarrow> string option \<Rightarrow> commit_record \<Rightarrow> bool" where
  "touches cs path c = (case path of None \<Rightarrow> True
     | Some p \<Rightarrow> dict_get (ck_files c) p \<noteq>
         dict_get (case ck_parent c of None \<Rightarrow> [] | Some q \<Rightarrow> files_of cs q) p)"

partial_function (option) walk_commits ::
    "(sha \<times> commit_record) list \<Rightarrow> string option \<Rightarrow> sha option \<Rightarrow> commit_info list \<Rightarrow> commit_info list option" where
  "walk_commits cs path h acc =
     (case h of None \<Rightarrow> Some acc
      | Some sha \<Rightarrow> (case dict_get cs sha of None \<Rightarrow> Some acc
          | Some c \<Rightarrow> walk_commits cs path (ck_parent c)
              (if touches cs path c then acc @ [\<lparr>cmi_sha = sha, cmi_message = ck_message c\<rparr>] else acc)))"

declare walk_commits.simps [code]

definition fake_list_commits ::
    "fake_repository \<Rightarrow> repository_ref \<Rightarrow> string \<Rightarrow> string option \<Rightarrow> (port_error + commit_info list) option" where
  "fake_list_commits s repository ref path = (case fake_resolve s repository ref of
       Inl e \<Rightarrow> Some (Inl e)
     | Inr sha \<Rightarrow> map_option Inr (walk_commits (fr_commits s) path (Some sha) []))"

definition commits_of :: "fake_repository \<Rightarrow> repository_ref \<Rightarrow> string \<Rightarrow> sha list option" where
  "commits_of s repository branch = map_option (\<lambda>cs. rev (map cmi_sha cs))
     (walk_commits (fr_commits s) None (dict_get (fr_branches s) (repo_key repository, branch)) [])"

definition commit_files :: "fake_repository \<Rightarrow> sha \<Rightarrow> port_error + file_set" where
  "commit_files s sha = (case dict_get (fr_commits s) sha of
       Some c \<Rightarrow> Inr (ck_files c) | None \<Rightarrow> Inl (KeyError (''unknown commit '' @ py_repr sha)))"

record change_request_record =
  cq_repository :: repository_ref
  cq_number :: int
  cq_change_id :: string
  cq_head_sha :: sha
  cq_status :: change_request_status
  cq_comments :: "string list"
  cq_comment_keys :: "string set"
  cq_reviews :: "review_observation list"

type_synonym request_key = "repo_key \<times> int"

record fake_merge_requests =
  fm_records :: "(request_key \<times> change_request_record) list"
  fm_by_change :: "((repo_key \<times> string) \<times> request_key) list"
  fm_open_keys :: "(string \<times> request_key) list"
  fm_numbers :: "(repo_key \<times> int) list"

definition new_fake_merge_requests :: fake_merge_requests where
  "new_fake_merge_requests = \<lparr>fm_records = [], fm_by_change = [], fm_open_keys = [], fm_numbers = []\<rparr>"

definition request_ref :: "change_request_record \<Rightarrow> change_request_ref" where
  "request_ref c = \<lparr>crr_repository = cq_repository c, crr_number = cq_number c,
     crr_url = Some (''https://scm.fake/'' @ rr_slug (cq_repository c) @ ''/cr/'' @ show_int (cq_number c)),
     crr_status = cq_status c\<rparr>"

text \<open>A dictionary read \<open>d[k]\<close> of an absent key raises \<open>KeyError\<close>.\<close>

definition stored_request :: "fake_merge_requests \<Rightarrow> request_key \<Rightarrow> port_error + change_request_record" where
  "stored_request s k = (case dict_get (fm_records s) k of Some c \<Rightarrow> Inr c | None \<Rightarrow> Inl (KeyError (snd (fst k))))"

definition last_number :: "fake_merge_requests \<Rightarrow> repo_key \<Rightarrow> int" where
  "last_number s rk = (case dict_get (fm_numbers s) rk of None \<Rightarrow> 0 | Some n \<Rightarrow> n)"

definition fake_open :: "open_change_request \<Rightarrow> string \<Rightarrow> (fake_merge_requests, port_error, change_request_ref) sem" where
  "fake_open request key = (\<lambda>s. case dict_get (fm_open_keys s) key of
       Some replayed \<Rightarrow> (map_sum id request_ref (stored_request s replayed), s)
     | None \<Rightarrow>
         (let rk = repo_key (ocr_repository request);
              number = last_number s rk + 1;
              record_of = \<lparr>cq_repository = ocr_repository request, cq_number = number,
                cq_change_id = ocr_change_id request, cq_head_sha = ocr_head_sha request,
                cq_status = ChangeRequestStatus_OPEN, cq_comments = [], cq_comment_keys = {}, cq_reviews = []\<rparr>
          in (Inr (request_ref record_of),
              s\<lparr>fm_numbers := dict_set rk number (fm_numbers s),
                fm_records := dict_set (rk, number) record_of (fm_records s),
                fm_by_change := dict_set (rk, ocr_change_id request) (rk, number) (fm_by_change s),
                fm_open_keys := dict_set key (rk, number) (fm_open_keys s)\<rparr>)))"

definition fake_find_existing ::
    "repository_ref \<Rightarrow> string \<Rightarrow> (fake_merge_requests, port_error, change_request_ref option) sem" where
  "fake_find_existing repository change_id = (\<lambda>s.
     case dict_get (fm_by_change s) (repo_key repository, change_id) of
       None \<Rightarrow> (Inr None, s)
     | Some k \<Rightarrow> (map_sum id (Some \<circ> request_ref) (stored_request s k), s))"

definition request_record :: "fake_merge_requests \<Rightarrow> change_request_ref \<Rightarrow> port_error + change_request_record" where
  "request_record s cr = (case dict_get (fm_records s) (repo_key (crr_repository cr), crr_number cr) of
       Some c \<Rightarrow> Inr c
     | None \<Rightarrow> Inl (KeyError (''unknown change request '' @ py_repr (rr_slug (crr_repository cr)) @ ''#'' @
         show_int (crr_number cr))))"

definition put_request :: "change_request_ref \<Rightarrow> change_request_record \<Rightarrow> fake_merge_requests \<Rightarrow> fake_merge_requests" where
  "put_request cr c s = s\<lparr>fm_records := dict_set (repo_key (crr_repository cr), crr_number cr) c (fm_records s)\<rparr>"

definition fake_add_comment ::
    "change_request_ref \<Rightarrow> string \<Rightarrow> string \<Rightarrow> (fake_merge_requests, port_error, unit) sem" where
  "fake_add_comment cr body key = (\<lambda>s. case request_record s cr of
       Inl e \<Rightarrow> (Inl e, s)
     | Inr c \<Rightarrow> if key \<in> cq_comment_keys c then (Inr (), s)
         else (Inr (), put_request cr (c\<lparr>cq_comment_keys := insert key (cq_comment_keys c),
                                          cq_comments := cq_comments c @ [body]\<rparr>) s))"

definition fake_merge :: "change_request_ref \<Rightarrow> sha \<Rightarrow> string \<Rightarrow> (fake_merge_requests, port_error, unit) sem" where
  "fake_merge cr expected_sha key = (\<lambda>s. case request_record s cr of
       Inl e \<Rightarrow> (Inl e, s)
     | Inr c \<Rightarrow>
         if cq_head_sha c \<noteq> expected_sha then
           (Inl (HeadMismatchError (''head of '' @ rr_slug (crr_repository cr) @ ''#'' @ show_int (crr_number cr) @
              '' is '' @ cq_head_sha c @ '', expected '' @ expected_sha)), s)
         else if cq_status c = ChangeRequestStatus_MERGED then (Inr (), s)
         else (Inr (), put_request cr (c\<lparr>cq_status := ChangeRequestStatus_MERGED\<rparr>) s))"

definition fake_observe :: "change_request_ref \<Rightarrow> (fake_merge_requests, port_error, change_request_observation) sem" where
  "fake_observe cr = (\<lambda>s. case request_record s cr of
       Inl e \<Rightarrow> (Inl e, s)
     | Inr c \<Rightarrow> (Inr \<lparr>cro_status = cq_status c, cro_head_sha = Some (cq_head_sha c),
         cro_merged_sha = (if cq_status c = ChangeRequestStatus_MERGED then Some (cq_head_sha c) else None),
         cro_reviews = cq_reviews c\<rparr>, s))"

definition record_review ::
    "change_request_ref \<Rightarrow> string \<Rightarrow> string \<Rightarrow> sha option \<Rightarrow> instant option \<Rightarrow> (fake_merge_requests, port_error, string) sem" where
  "record_review cr author state commit_sha submitted_at = (\<lambda>s. case request_record s cr of
       Inl e \<Rightarrow> (Inl e, s)
     | Inr c \<Rightarrow> (let review_id = ''review-'' @ show_nat (length (cq_reviews c) + 1) in
         (Inr review_id, put_request cr (c\<lparr>cq_reviews := cq_reviews c @ [\<lparr>ro_review_id = review_id,
            ro_author = author, ro_state = state, ro_commit_sha = commit_sha, ro_submitted_at = submitted_at\<rparr>]\<rparr>) s)))"

definition comments_of :: "fake_merge_requests \<Rightarrow> change_request_ref \<Rightarrow> port_error + string list" where
  "comments_of s cr = map_sum id cq_comments (request_record s cr)"

definition fake_pipeline_status :: "repository_ref \<Rightarrow> string \<Rightarrow> pipeline_status" where
  "fake_pipeline_status repository ref = \<lparr>ps_ref = ref, ps_status = ''queued'', ps_url = None\<rparr>"

section \<open>Execution (\<open>execution.py\<close>)\<close>

record fake_execution =
  fe_workspaces :: "(string \<times> workspace_handle) list"
  fe_prepare_keys :: "(string \<times> string) list"
  fe_files :: "(string \<times> file_set) list"
  fe_failures :: "(string list \<times> (int \<times> string)) list"

definition new_fake_execution :: fake_execution where
  "new_fake_execution = \<lparr>fe_workspaces = [], fe_prepare_keys = [], fe_files = [], fe_failures = []\<rparr>"

definition seed_failure :: "string list \<Rightarrow> int \<Rightarrow> fake_execution \<Rightarrow> fake_execution" where
  "seed_failure argv exit_code s =
     s\<lparr>fe_failures := dict_set argv (exit_code, ''fake:failed:'' @ join_with '' '' argv) (fe_failures s)\<rparr>"

definition workspace_files :: "fake_execution \<Rightarrow> string \<Rightarrow> file_set" where
  "workspace_files s ws = (case dict_get (fe_files s) ws of None \<Rightarrow> [] | Some d \<Rightarrow> d)"

definition seed_file :: "workspace_handle \<Rightarrow> string \<Rightarrow> string \<Rightarrow> fake_execution \<Rightarrow> fake_execution" where
  "seed_file ws path content s = s\<lparr>fe_files := dict_set (wh_workspace_id ws)
     (dict_set path content (workspace_files s (wh_workspace_id ws))) (fe_files s)\<rparr>"

definition workspace_id :: "nat \<Rightarrow> string" where
  "workspace_id n = ''ws-'' @ pad4 n"

definition fake_prepare_workspace ::
    "workspace_request \<Rightarrow> string \<Rightarrow> (fake_execution, port_error, workspace_handle) sem" where
  "fake_prepare_workspace request key = (\<lambda>s. case dict_get (fe_prepare_keys s) key of
       Some existing \<Rightarrow> (case dict_get (fe_workspaces s) existing of
           Some h \<Rightarrow> (Inr h, s) | None \<Rightarrow> (Inl (KeyError existing), s))
     | None \<Rightarrow>
         (let ws = workspace_id (length (fe_workspaces s) + 1);
              handle = \<lparr>wh_workspace_id = ws, wh_repository = wr_repository request, wh_revision = wr_revision request\<rparr>
          in (Inr handle, s\<lparr>fe_workspaces := dict_set ws handle (fe_workspaces s),
                            fe_prepare_keys := dict_set key ws (fe_prepare_keys s)\<rparr>)))"

definition in_workspace :: "workspace_handle \<Rightarrow> (fake_execution, port_error, 'a) sem \<Rightarrow> (fake_execution, port_error, 'a) sem" where
  "in_workspace ws m = (\<lambda>s. case dict_get (fe_workspaces s) (wh_workspace_id ws) of
       Some _ \<Rightarrow> m s
     | None \<Rightarrow> (Inl (KeyError (''unknown workspace '' @ py_repr (wh_workspace_id ws))), s))"

definition fake_write_file ::
    "workspace_handle \<Rightarrow> string \<Rightarrow> string \<Rightarrow> string \<Rightarrow> (fake_execution, port_error, unit) sem" where
  "fake_write_file ws path content key = in_workspace ws (sm_modify (seed_file ws path content))"

definition fake_run_command ::
    "workspace_handle \<Rightarrow> string list \<Rightarrow> string \<Rightarrow> (fake_execution, port_error, execution_result) sem" where
  "fake_run_command ws argv key = in_workspace ws (sm_gets (\<lambda>s.
     case dict_get (fe_failures s) argv of
       Some (exit_code, stderr) \<Rightarrow> \<lparr>er_ok = False, er_exit_code = exit_code, er_stdout = [], er_stderr = stderr\<rparr>
     | None \<Rightarrow> \<lparr>er_ok = True, er_exit_code = 0, er_stdout = ''fake:run:'' @ join_with '' '' argv, er_stderr = []\<rparr>))"

definition fake_collect_evidence ::
    "(string \<Rightarrow> string) \<Rightarrow> workspace_handle \<Rightarrow> string \<Rightarrow> string \<Rightarrow> (fake_execution, port_error, evidence_file) sem" where
  "fake_collect_evidence sha256 ws path key = in_workspace ws (\<lambda>s.
     case dict_get (workspace_files s (wh_workspace_id ws)) path of
       Some content \<Rightarrow> (Inr \<lparr>ef_path = path, ef_content_hash = sha256 content, ef_content = content\<rparr>, s)
     | None \<Rightarrow> (Inl (KeyError (''no evidence file '' @ py_repr path @ '' in workspace '' @
         py_repr (wh_workspace_id ws))), s))"

definition fake_collect_changes :: "workspace_handle \<Rightarrow> string \<Rightarrow> (fake_execution, port_error, file_set) sem" where
  "fake_collect_changes ws key = in_workspace ws (sm_gets (\<lambda>s. workspace_files s (wh_workspace_id ws)))"

section \<open>Workflow engine and reconciliation (\<open>workflow.py\<close>)\<close>

record fake_workflow =
  fw_statuses :: "(string \<times> run_status) list"
  fw_start_keys :: "(string \<times> string) list"
  fw_resume_keys :: "(string \<times> string) set"
  fw_cancel_keys :: "(string \<times> string) set"

definition new_fake_workflow :: fake_workflow where
  "new_fake_workflow = \<lparr>fw_statuses = [], fw_start_keys = [], fw_resume_keys = {}, fw_cancel_keys = {}\<rparr>"

definition TERMINAL_RUN_STATUSES :: "run_status set" where
  "TERMINAL_RUN_STATUSES = {RunStatus_SUCCEEDED, RunStatus_FAILED, RunStatus_CANCELED, RunStatus_SUPERSEDED}"

definition fake_start :: "int option \<Rightarrow> string \<Rightarrow> (fake_workflow, port_error, string) sem" where
  "fake_start expected_revision key = (\<lambda>s. case dict_get (fw_start_keys s) key of
       Some existing \<Rightarrow> (Inr existing, s)
     | None \<Rightarrow> (let run_id = ''run-'' @ pad4 (length (fw_statuses s) + 1) in
         (Inr run_id, s\<lparr>fw_statuses := dict_set run_id RunStatus_RUNNING (fw_statuses s),
                        fw_start_keys := dict_set key run_id (fw_start_keys s)\<rparr>)))"

definition engine_status :: "string \<Rightarrow> (fake_workflow, port_error, run_status) sem" where
  "engine_status run_id = (\<lambda>s. case dict_get (fw_statuses s) run_id of
       Some st \<Rightarrow> (Inr st, s)
     | None \<Rightarrow> (Inl (RunNotFoundError (''unknown workflow run '' @ py_repr run_id)), s))"

definition fake_resume :: "string \<Rightarrow> string \<Rightarrow> (fake_workflow, port_error, string) sem" where
  "fake_resume run_id key = sm_bind (engine_status run_id) (\<lambda>status s.
     (Inr run_id, if (run_id, key) \<in> fw_resume_keys s then s
        else s\<lparr>fw_resume_keys := insert (run_id, key) (fw_resume_keys s),
               fw_statuses := (if status \<in> TERMINAL_RUN_STATUSES then fw_statuses s
                               else dict_set run_id RunStatus_RUNNING (fw_statuses s))\<rparr>))"

definition fake_cancel :: "string \<Rightarrow> string \<Rightarrow> string \<Rightarrow> (fake_workflow, port_error, unit) sem" where
  "fake_cancel run_id reason key = sm_bind (engine_status run_id) (\<lambda>status s.
     (Inr (), if (run_id, key) \<in> fw_cancel_keys s then s
        else s\<lparr>fw_cancel_keys := insert (run_id, key) (fw_cancel_keys s),
               fw_statuses := (if status \<in> TERMINAL_RUN_STATUSES then fw_statuses s
                               else dict_set run_id RunStatus_CANCELED (fw_statuses s))\<rparr>))"

definition set_engine_status :: "string \<Rightarrow> run_status \<Rightarrow> (fake_workflow, port_error, unit) sem" where
  "set_engine_status run_id status = sm_bind (engine_status run_id)
     (\<lambda>_. sm_modify (\<lambda>s. s\<lparr>fw_statuses := dict_set run_id status (fw_statuses s)\<rparr>))"

definition fake_reconcile :: "reconcile_desired \<Rightarrow> reconcile_observed \<Rightarrow> reconcile_error + reconcile_result" where
  "fake_reconcile desired observed =
     (if rcd_run_id desired \<noteq> rco_run_id observed then Inl (ScopeMismatch (rcd_run_id desired) (rco_run_id observed))
      else Inr \<lparr>rcr_run_id = rcd_run_id desired, rcr_in_sync = (rcd_status desired = rco_status observed),
        rcr_status = rcd_status desired, rcr_state_revision = rcd_state_revision desired\<rparr>)"

section \<open>CI and tracker (\<open>ci.py\<close>, \<open>tracker.py\<close>)\<close>

record ci_job =
  cj_request :: stage_job_request
  cj_gate :: gate_result
  cj_artifacts :: "artifact_ref list"

record fake_ci =
  fc_jobs :: "(string \<times> ci_job) list"
  fc_job_keys :: "(string \<times> string) list"
  fc_numbers :: "((string \<times> string) \<times> int) list"

definition new_fake_ci :: fake_ci where
  "new_fake_ci = \<lparr>fc_jobs = [], fc_job_keys = [], fc_numbers = []\<rparr>"

definition fake_run_stage_job :: "stage_job_request \<Rightarrow> string \<Rightarrow> (fake_ci, port_error, string) sem" where
  "fake_run_stage_job request key = (\<lambda>s. case dict_get (fc_job_keys s) key of
       Some replayed \<Rightarrow> (Inr replayed, s)
     | None \<Rightarrow>
         (let nk = (rr_slug (sj_repository request), sj_stage request);
              number = (case dict_get (fc_numbers s) nk of None \<Rightarrow> 0 | Some n \<Rightarrow> n) + 1;
              s1 = s\<lparr>fc_numbers := dict_set nk number (fc_numbers s)\<rparr>;
              job_ref = ''fake:'' @ fst nk @ '':'' @ snd nk @ '':'' @ show_int number
          in case stage_gate (sj_stage request) of
               Inl e \<Rightarrow> (Inl e, s1)
             | Inr g \<Rightarrow> (Inr job_ref,
                 s1\<lparr>fc_jobs := dict_set job_ref \<lparr>cj_request = request,
                      cj_gate = new_gate_result g GateStatus_PENDING (Some (sj_ref request)) None,
                      cj_artifacts = []\<rparr> (fc_jobs s1),
                    fc_job_keys := dict_set key job_ref (fc_job_keys s1)\<rparr>)))"

definition ci_job_of :: "string \<Rightarrow> (fake_ci, port_error, ci_job) sem" where
  "ci_job_of job_ref = (\<lambda>s. case dict_get (fc_jobs s) job_ref of
       Some j \<Rightarrow> (Inr j, s) | None \<Rightarrow> (Inl (KeyError (''unknown job ref '' @ py_repr job_ref)), s))"

definition fake_gate_status :: "string \<Rightarrow> (fake_ci, port_error, gate_result) sem" where
  "fake_gate_status job_ref = sm_bind (ci_job_of job_ref) (\<lambda>j. sm_return (cj_gate j))"

definition fake_ci_artifacts :: "string \<Rightarrow> (fake_ci, port_error, artifact_ref list) sem" where
  "fake_ci_artifacts job_ref = sm_bind (ci_job_of job_ref) (\<lambda>j. sm_return (cj_artifacts j))"

definition seed_outcome :: "string \<Rightarrow> gate_status \<Rightarrow> message option \<Rightarrow> (fake_ci, port_error, unit) sem" where
  "seed_outcome job_ref status summary = sm_bind (ci_job_of job_ref) (\<lambda>j. sm_modify (\<lambda>s. s\<lparr>fc_jobs :=
     dict_set job_ref (j\<lparr>cj_gate := (cj_gate j)\<lparr>gr_status := status, gr_summary := summary\<rparr>\<rparr>) (fc_jobs s)\<rparr>))"

definition seed_artifacts :: "string \<Rightarrow> artifact_ref list \<Rightarrow> (fake_ci, port_error, unit) sem" where
  "seed_artifacts job_ref refs = sm_bind (ci_job_of job_ref) (\<lambda>j. sm_modify (\<lambda>s. s\<lparr>fc_jobs :=
     dict_set job_ref (j\<lparr>cj_artifacts := cj_artifacts j @ refs\<rparr>) (fc_jobs s)\<rparr>))"

definition dispatch_count :: "fake_ci \<Rightarrow> nat" where
  "dispatch_count s = length (fc_jobs s)"

record fake_tracker =
  ft_changes :: "(string \<times> change) list"
  ft_statuses :: "(string \<times> string list) list"
  ft_approvals :: "(string \<times> gate list) list"
  ft_status_keys :: "string set"
  ft_approval_keys :: "string set"

definition seed_change :: "string \<Rightarrow> change \<Rightarrow> fake_tracker \<Rightarrow> fake_tracker" where
  "seed_change external_ref c s = s\<lparr>ft_changes := dict_set external_ref c (ft_changes s)\<rparr>"

definition fake_get_change :: "fake_tracker \<Rightarrow> string \<Rightarrow> change option" where
  "fake_get_change s external_ref = dict_get (ft_changes s) external_ref"

definition statuses_of :: "fake_tracker \<Rightarrow> string \<Rightarrow> string list" where
  "statuses_of s change_id = (case dict_get (ft_statuses s) change_id of None \<Rightarrow> [] | Some xs \<Rightarrow> xs)"

definition tracker_approvals_of :: "fake_tracker \<Rightarrow> string \<Rightarrow> gate list" where
  "tracker_approvals_of s change_id = (case dict_get (ft_approvals s) change_id of None \<Rightarrow> [] | Some xs \<Rightarrow> xs)"

definition fake_publish_status :: "string \<times> string \<Rightarrow> string \<Rightarrow> (fake_tracker, port_error, unit) sem" where
  "fake_publish_status x key = (\<lambda>s. case x of (change_id, status) \<Rightarrow>
     if key \<in> ft_status_keys s then (Inr (), s)
     else (Inr (), s\<lparr>ft_status_keys := insert key (ft_status_keys s),
            ft_statuses := dict_set change_id (statuses_of s change_id @ [status]) (ft_statuses s)\<rparr>))"

definition fake_request_approval :: "string \<times> gate \<Rightarrow> string \<Rightarrow> (fake_tracker, port_error, unit) sem" where
  "fake_request_approval x key = (\<lambda>s. case x of (change_id, g) \<Rightarrow>
     if key \<in> ft_approval_keys s then (Inr (), s)
     else (Inr (), s\<lparr>ft_approval_keys := insert key (ft_approval_keys s),
            ft_approvals := dict_set change_id (tracker_approvals_of s change_id @ [g]) (ft_approvals s)\<rparr>))"

section \<open>Artifacts, provisioning, harness\<close>

record artifact_spec =
  as_artifact_type :: string
  as_name :: string
  as_content :: string
  as_producer :: "string option"

type_synonym fake_artifact_store = "(string \<times> string) list"

definition fake_put :: "(string \<Rightarrow> string) \<Rightarrow> artifact_spec \<Rightarrow> (fake_artifact_store, port_error, artifact_ref) sem" where
  "fake_put sha256 spec = (\<lambda>s. let digest = sha256 (as_content spec) in
     (Inr \<lparr>ar_artifact_type = as_artifact_type spec, ar_uri = ''mem://'' @ as_name spec @ ''/'' @ digest,
           ar_revision = None, ar_sha256 = Some digest, ar_producer = as_producer spec\<rparr>,
      dict_set digest (as_content spec) s))"

definition fake_get :: "artifact_ref \<Rightarrow> (fake_artifact_store, port_error, string) sem" where
  "fake_get ref = (\<lambda>s. case ar_sha256 ref of
       None \<Rightarrow> (Inl (ValueError (''artifact '' @ py_repr (ar_uri ref) @ '' carries no sha256; cannot resolve content'')), s)
     | Some d \<Rightarrow> (case dict_get s d of Some b \<Rightarrow> (Inr b, s)
         | None \<Rightarrow> (Inl (KeyError (''artifact '' @ d @ '' is not stored'')), s)))"

definition fake_exists :: "fake_artifact_store \<Rightarrow> artifact_ref \<Rightarrow> bool" where
  "fake_exists s ref \<longleftrightarrow> (case ar_sha256 ref of None \<Rightarrow> False | Some d \<Rightarrow> dict_get s d \<noteq> None)"

datatype repository_state = UNAVAILABLE | EMPTY | BASELINE_ABSENT | BASELINE_CURRENT | BASELINE_STALE

record repository_validation =
  rv_repository :: repository_ref
  rv_state :: repository_state
  rv_default_branch :: "string option"
  rv_head_revision :: "string option"

record mirror_ref =
  mr_repository :: repository_ref
  mr_location :: string
  mr_default_branch :: "string option"
  mr_head_revision :: "string option"

record applied_pack =
  ap_name :: string
  ap_version :: string

record bootstrap_result =
  br_repository :: repository_ref
  br_revision :: string
  br_applied_packs :: "applied_pack list"

record fake_provisioning =
  fp_states :: "(string \<times> repository_state) list"
  fp_branches :: "(string \<times> string option) list"
  fp_revisions :: "(string \<times> string option) list"
  fp_mirrors :: "(string \<times> mirror_ref) list"
  fp_bootstraps :: "(string \<times> bootstrap_result) list"
  fp_baseline_packs :: "(string \<times> applied_pack list) list"

definition DEFAULT_REVISION :: string where "DEFAULT_REVISION = ''f4c1e0d''"

definition provisioning_key :: "repository_ref \<Rightarrow> string" where
  "provisioning_key r = provider_value (rr_provider r) @ ''/'' @ rr_slug r"

definition seeded_state :: "fake_provisioning \<Rightarrow> string \<Rightarrow> repository_state" where
  "seeded_state s k = (case dict_get (fp_states s) k of None \<Rightarrow> UNAVAILABLE | Some st \<Rightarrow> st)"

definition seeded_text :: "(string \<times> string option) list \<Rightarrow> string \<Rightarrow> string option" where
  "seeded_text d k = Option.bind (dict_get d k) id"

definition seed_repository ::
    "repository_ref \<Rightarrow> repository_state \<Rightarrow> string option \<Rightarrow> string \<Rightarrow> fake_provisioning \<Rightarrow> string option \<times> fake_provisioning" where
  "seed_repository repository state head_revision default_branch s =
     (let k = provisioning_key repository;
          revision = (if state \<in> {UNAVAILABLE, EMPTY} then None
            else Some (case head_revision of Some h \<Rightarrow> (if h = [] then DEFAULT_REVISION else h) | None \<Rightarrow> DEFAULT_REVISION))
      in (revision, s\<lparr>fp_baseline_packs := AList.delete k (fp_baseline_packs s),
            fp_states := dict_set k state (fp_states s),
            fp_branches := dict_set k (if state = UNAVAILABLE then None else Some default_branch) (fp_branches s),
            fp_revisions := dict_set k revision (fp_revisions s)\<rparr>))"

definition fake_validate :: "fake_provisioning \<Rightarrow> repository_ref \<Rightarrow> repository_validation" where
  "fake_validate s repository = (let k = provisioning_key repository in
     \<lparr>rv_repository = repository, rv_state = seeded_state s k,
      rv_default_branch = seeded_text (fp_branches s) k, rv_head_revision = seeded_text (fp_revisions s) k\<rparr>)"

definition fake_ensure_mirror :: "repository_ref \<Rightarrow> string \<Rightarrow> (fake_provisioning, port_error, mirror_ref) sem" where
  "fake_ensure_mirror repository key = (\<lambda>s. case dict_get (fp_mirrors s) key of
       Some cached \<Rightarrow> (Inr cached, s)
     | None \<Rightarrow> (let k = provisioning_key repository;
           ref = \<lparr>mr_repository = repository, mr_location = ''fake://'' @ k,
             mr_default_branch = seeded_text (fp_branches s) k, mr_head_revision = seeded_text (fp_revisions s) k\<rparr>
         in if seeded_state s k = UNAVAILABLE
            then (Inl (KeyError (''the mirror of '' @ py_repr (rr_slug repository) @ '' is not available'')), s)
            else (Inr ref, s\<lparr>fp_mirrors := dict_set key ref (fp_mirrors s)\<rparr>)))"

definition fake_bootstrap_baseline ::
    "repository_ref \<times> string list \<Rightarrow> string \<Rightarrow> (fake_provisioning, port_error, bootstrap_result) sem" where
  "fake_bootstrap_baseline x key = (\<lambda>s. case x of (repository, packs) \<Rightarrow>
     (case dict_get (fp_bootstraps s) key of
       Some cached \<Rightarrow> (Inr cached, s)
     | None \<Rightarrow>
         if packs = [] then (Inl (ValueError ''bootstrap_baseline requires at least one pack''), s)
         else (let k = provisioning_key repository; known = seeded_text (fp_revisions s) k;
               fresh = (known = None \<or> dict_get (fp_states s) k \<noteq> Some BASELINE_CURRENT);
               revision = (if fresh then ''baseline-'' @ show_nat (length (fp_bootstraps s) + 1) else the known);
               s1 = (if fresh then s\<lparr>fp_states := dict_set k BASELINE_CURRENT (fp_states s),
                         fp_revisions := dict_set k (Some revision) (fp_revisions s),
                         fp_baseline_packs := dict_set k (map (\<lambda>n. \<lparr>ap_name = n, ap_version = ''1''\<rparr>) packs)
                           (fp_baseline_packs s)\<rparr> else s);
               result = \<lparr>br_repository = repository, br_revision = revision,
                 br_applied_packs = (case dict_get (fp_baseline_packs s1) k of None \<Rightarrow> [] | Some ps \<Rightarrow> ps)\<rparr>
          in (Inr result, s1\<lparr>fp_bootstraps := dict_set key result (fp_bootstraps s1)\<rparr>))))"

definition fake_run_stage :: "task_envelope \<Rightarrow> ('w, port_error, agent_result) sem" where
  "fake_run_stage envelope = sm_return \<lparr>agr_ok = True, agr_output = ''fake:'' @ role_value (te_role envelope) @ '':'' @
     stage_value (te_stage envelope) @ '':'' @ te_instruction envelope, agr_usage = None\<rparr>"

section \<open>The replay contract of a keyed operation\<close>

definition run_calls :: "('a \<Rightarrow> string \<Rightarrow> ('s, 'e, 'b) sem) \<Rightarrow> ('a \<times> string) list \<Rightarrow> 's \<Rightarrow> 's" where
  "run_calls effect calls s = fold (\<lambda>(x, k) s. snd (effect x k s)) calls s"

locale keyed_effect =
  fixes effect :: "'a \<Rightarrow> string \<Rightarrow> ('s, port_error, 'b) sem"
    and recorded :: "'s \<Rightarrow> string \<Rightarrow> 'b option"
    and admissible :: "'a \<Rightarrow> bool"
    and sound :: "'s \<Rightarrow> bool"
  assumes replays: "sound s \<Longrightarrow> admissible x \<Longrightarrow> recorded s k = Some v \<Longrightarrow> effect x k s = (Inr v, s)"
    and records: "sound s \<Longrightarrow> effect x k s = (Inr v, s') \<Longrightarrow> recorded s' k = Some v"
    and keeps_records: "sound s \<Longrightarrow> recorded s k' = Some v \<Longrightarrow> recorded (snd (effect x k s)) k' = Some v"
    and keeps_sound: "sound s \<Longrightarrow> sound (snd (effect x k s))"
begin

lemma calls_keep:
  "sound s \<Longrightarrow> sound (run_calls effect calls s) \<and>
     (recorded s k = Some v \<longrightarrow> recorded (run_calls effect calls s) k = Some v)"
proof (induction calls arbitrary: s)
  case Nil
  then show ?case by (simp add: run_calls_def)
next
  case (Cons c calls)
  obtain x k' where c: "c = (x, k')" by force
  have "run_calls effect (c # calls) s = run_calls effect calls (snd (effect x k' s))"
    by (simp add: run_calls_def c)
  with Cons.IH [of "snd (effect x k' s)"] keeps_sound [OF Cons.prems] keeps_records [OF Cons.prems]
  show ?case by simp
qed

lemma minted_once:
  assumes "sound s" and "effect x k s = (Inr v, s1)" and "admissible y"
  shows "effect y k (run_calls effect calls s1) = (Inr v, run_calls effect calls s1)"
proof -
  from keeps_sound [OF assms(1), of x k] assms(2) have "sound s1" by simp
  with calls_keep [of s1 calls k v] records [OF assms(1,2)] show ?thesis
    by (intro replays assms(3)) simp_all
qed

end

definition minted_at_most_once ::
    "('a \<Rightarrow> string \<Rightarrow> ('s, port_error, 'b) sem) \<Rightarrow> ('a \<Rightarrow> bool) \<Rightarrow> ('s \<Rightarrow> bool) \<Rightarrow> bool" where
  "minted_at_most_once effect admissible sound \<longleftrightarrow> (\<forall>s x k v s1 calls y.
     sound s \<and> effect x k s = (Inr v, s1) \<and> admissible y \<longrightarrow>
     effect y k (run_calls effect calls s1) = (Inr v, run_calls effect calls s1))"

definition branch_call :: "repository_ref \<times> string \<times> sha \<Rightarrow> string \<Rightarrow> (fake_repository, port_error, sha) sem" where
  "branch_call x = (case x of (r, b, rev0) \<Rightarrow> fake_ensure_branch r b rev0)"

definition commit_call ::
    "repository_ref \<times> string \<times> file_set \<times> string \<Rightarrow> string \<Rightarrow> (fake_repository, port_error, sha) sem" where
  "commit_call x = (case x of (r, b, fs, m) \<Rightarrow> fake_publish_commit r b fs m)"

definition requests_sound :: "fake_merge_requests \<Rightarrow> bool" where
  "requests_sound s \<longleftrightarrow>
     (\<forall>k rk. dict_get (fm_open_keys s) k = Some rk \<longrightarrow> dict_get (fm_records s) rk \<noteq> None) \<and>
     (\<forall>rk n. dict_get (fm_records s) (rk, n) \<noteq> None \<longrightarrow> n \<le> last_number s rk)"

definition workspaces_sound :: "fake_execution \<Rightarrow> bool" where
  "workspaces_sound s \<longleftrightarrow>
     (\<forall>k w. dict_get (fe_prepare_keys s) k = Some w \<longrightarrow> dict_get (fe_workspaces s) w \<noteq> None) \<and>
     map fst (fe_workspaces s) = map workspace_id [1..<Suc (length (fe_workspaces s))]"

lemma workspace_id_inject [simp]: "workspace_id m = workspace_id n \<longleftrightarrow> m = n"
  by (simp add: workspace_id_def)

interpretation branches: keyed_effect branch_call "\<lambda>s. dict_get (fr_branch_keys s)" "\<lambda>_. True" "\<lambda>_. True"
  by unfold_locales
    (auto simp: branch_call_def fake_ensure_branch_def Let_def split: prod.splits option.splits)

interpretation commits: keyed_effect commit_call "\<lambda>s. dict_get (fr_commit_keys s)" "\<lambda>(_, _, fs, _). fs \<noteq> []" "\<lambda>_. True"
  by unfold_locales
    (auto simp: commit_call_def fake_publish_commit_def Let_def split: prod.splits option.splits if_splits)

interpretation starts: keyed_effect fake_start "\<lambda>s. dict_get (fw_start_keys s)" "\<lambda>_. True" "\<lambda>_. True"
  by unfold_locales (auto simp: fake_start_def Let_def split: option.splits)

interpretation jobs: keyed_effect fake_run_stage_job "\<lambda>s. dict_get (fc_job_keys s)" "\<lambda>_. True" "\<lambda>_. True"
  by unfold_locales (auto simp: fake_run_stage_job_def Let_def split: option.splits sum.splits)

interpretation mirrors: keyed_effect fake_ensure_mirror "\<lambda>s. dict_get (fp_mirrors s)" "\<lambda>_. True" "\<lambda>_. True"
  by unfold_locales (auto simp: fake_ensure_mirror_def Let_def split: option.splits if_splits)

interpretation bootstraps: keyed_effect fake_bootstrap_baseline "\<lambda>s. dict_get (fp_bootstraps s)" "\<lambda>_. True" "\<lambda>_. True"
  by unfold_locales (auto simp: fake_bootstrap_baseline_def Let_def split: prod.splits option.splits if_splits)

interpretation tracker_statuses:
  keyed_effect fake_publish_status "\<lambda>s k. if k \<in> ft_status_keys s then Some () else None" "\<lambda>_. True" "\<lambda>_. True"
  by unfold_locales (auto simp: fake_publish_status_def split: prod.splits if_splits)

interpretation tracker_approvals:
  keyed_effect fake_request_approval "\<lambda>s k. if k \<in> ft_approval_keys s then Some () else None" "\<lambda>_. True" "\<lambda>_. True"
  by unfold_locales (auto simp: fake_request_approval_def split: prod.splits if_splits)

definition opened_request :: "fake_merge_requests \<Rightarrow> string \<Rightarrow> change_request_ref option" where
  "opened_request s k = map_option request_ref (Option.bind (dict_get (fm_open_keys s) k) (dict_get (fm_records s)))"

lemma requests_soundD:
  assumes "requests_sound s"
  shows "dict_get (fm_open_keys s) k = Some rk \<Longrightarrow> dict_get (fm_records s) rk \<noteq> None"
    and "dict_get (fm_records s) (r, n) \<noteq> None \<Longrightarrow> n \<le> last_number s r"
  using assms unfolding requests_sound_def by blast+

lemma next_request_fresh:
  assumes "requests_sound s"
  shows "dict_get (fm_records s) (rk, last_number s rk + 1) = None"
  using requests_soundD(2) [OF assms, of rk "last_number s rk + 1"] by linarith

lemma requests_sound_open:
  assumes "requests_sound s"
  shows "requests_sound (snd (fake_open x k s))"
proof (cases "dict_get (fm_open_keys s) k")
  case None
  let ?rk = "repo_key (ocr_repository x)"
  let ?n = "last_number s ?rk + 1" and ?s = "snd (fake_open x k s)"
  from None have keys: "dict_get (fm_open_keys ?s) k' = (if k' = k then Some (?rk, ?n) else dict_get (fm_open_keys s) k')"
    and recs: "dict_get (fm_records ?s) k2 = None \<longleftrightarrow> k2 \<noteq> (?rk, ?n) \<and> dict_get (fm_records s) k2 = None"
    and nums: "last_number ?s rk' = (if rk' = ?rk then ?n else last_number s rk')" for k' k2 rk'
    by (simp_all add: fake_open_def Let_def last_number_def)
  show ?thesis
    unfolding requests_sound_def keys recs nums
    using requests_soundD [OF assms] by (smt (verit) prod.inject option.inject)
next
  case (Some rk)
  with assms show ?thesis by (simp add: fake_open_def)
qed

interpretation requests: keyed_effect fake_open opened_request "\<lambda>_. True" requests_sound
proof
  fix s :: fake_merge_requests and x k k' v s'
  assume s: "requests_sound s"
  note defs = fake_open_def opened_request_def stored_request_def Let_def
  show "opened_request s k = Some v \<Longrightarrow> fake_open x k s = (Inr v, s)"
    by (auto simp: defs split: option.splits bind_splits)
  show "fake_open x k s = (Inr v, s') \<Longrightarrow> opened_request s' k = Some v"
    by (auto simp: defs split: option.splits)
  show "requests_sound (snd (fake_open x k s))" using s by (rule requests_sound_open)
  show "opened_request (snd (fake_open x k s)) k' = Some v" if "opened_request s k' = Some v"
  proof (cases "dict_get (fm_open_keys s) k")
    case None
    with that have "k' \<noteq> k" by (auto simp: opened_request_def)
    moreover from that obtain rk c where "dict_get (fm_open_keys s) k' = Some rk" "dict_get (fm_records s) rk = Some c"
      "v = request_ref c" by (auto simp: opened_request_def split: bind_splits)
    moreover from this(2) next_request_fresh [OF s, of "repo_key (ocr_repository x)"]
    have "rk \<noteq> (repo_key (ocr_repository x), last_number s (repo_key (ocr_repository x)) + 1)" by auto
    ultimately show ?thesis using None by (simp add: fake_open_def opened_request_def Let_def)
  next
    case (Some rk)
    with that show ?thesis by (simp add: fake_open_def)
  qed
qed

definition prepared_workspace :: "fake_execution \<Rightarrow> string \<Rightarrow> workspace_handle option" where
  "prepared_workspace s k = Option.bind (dict_get (fe_prepare_keys s) k) (dict_get (fe_workspaces s))"

lemma new_workspace_fresh:
  assumes "workspaces_sound s"
  shows "workspace_id (length (fe_workspaces s) + 1) \<notin> fst ` set (fe_workspaces s)"
proof -
  from assms have "fst ` set (fe_workspaces s) = workspace_id ` {1..<Suc (length (fe_workspaces s))}"
    by (metis list.set_map set_upt workspaces_sound_def)
  then show ?thesis by auto
qed

interpretation workspaces: keyed_effect fake_prepare_workspace prepared_workspace "\<lambda>_. True" workspaces_sound
proof
  fix s :: fake_execution and x k k' v s'
  assume s: "workspaces_sound s"
  note defs = fake_prepare_workspace_def prepared_workspace_def Let_def
  show "prepared_workspace s k = Some v \<Longrightarrow> fake_prepare_workspace x k s = (Inr v, s)"
    by (auto simp: defs split: option.splits bind_splits)
  show "fake_prepare_workspace x k s = (Inr v, s') \<Longrightarrow> prepared_workspace s' k = Some v"
    by (auto simp: defs split: option.splits)
  have known: "w \<in> fst ` set (fe_workspaces s)" if "dict_get (fe_workspaces s) w = Some h" for w h
    using that by (force dest: map_of_SomeD)
  with new_workspace_fresh [OF s]
  show "prepared_workspace s k' = Some v \<Longrightarrow> prepared_workspace (snd (fake_prepare_workspace x k s)) k' = Some v"
    by (auto simp: defs split: option.splits bind_splits)
  show "workspaces_sound (snd (fake_prepare_workspace x k s))"
  proof (cases "dict_get (fe_prepare_keys s) k")
    case None
    then have "snd (fake_prepare_workspace x k s) = s\<lparr>fe_workspaces := fe_workspaces s @
          [(workspace_id (length (fe_workspaces s) + 1), \<lparr>wh_workspace_id = workspace_id (length (fe_workspaces s) + 1),
             wh_repository = wr_repository x, wh_revision = wr_revision x\<rparr>)],
        fe_prepare_keys := dict_set k (workspace_id (length (fe_workspaces s) + 1)) (fe_prepare_keys s)\<rparr>"
      using dict_set_new [OF new_workspace_fresh [OF s]] by (simp add: fake_prepare_workspace_def Let_def)
    moreover have "map fst (fe_workspaces s) @ [workspace_id (length (fe_workspaces s) + 1)] =
        map workspace_id [1..<Suc (Suc (length (fe_workspaces s)))]"
      using s by (simp add: workspaces_sound_def)
    moreover have "dict_get (fe_workspaces s) w \<noteq> None" if "dict_get (fe_prepare_keys s) k2 = Some w" for k2 w
      using s that unfolding workspaces_sound_def by blast
    ultimately show ?thesis
      by (fastforce simp: workspaces_sound_def map_add_def split: option.splits simp del: upt_Suc)
  next
    case (Some w)
    with s show ?thesis by (auto simp: fake_prepare_workspace_def split: option.splits)
  qed
qed


section \<open>Walking to the ancestors of a commit\<close>

lemma commit_id_inject [simp]: "commit_id m = commit_id n \<longleftrightarrow> m = n"
  by (simp add: commit_id_def)

text \<open>
  The states a repository reaches when every branch is created at a revision that is not the identifier of a
  commit still to come.
\<close>

definition not_future :: "fake_repository \<Rightarrow> sha \<Rightarrow> bool" where
  "not_future s h \<longleftrightarrow> h \<notin> commit_id ` {Suc (fr_next_commit s)..}"

inductive repo_reachable :: "fake_repository \<Rightarrow> bool" where
  fresh: "repo_reachable new_fake_repository"
| ensure: "repo_reachable s \<Longrightarrow> not_future s from_revision \<Longrightarrow>
    repo_reachable (snd (fake_ensure_branch repository branch from_revision key s))"
| publish: "repo_reachable s \<Longrightarrow> repo_reachable (snd (fake_publish_commit repository branch changes message key s))"

definition ancestry_ordered :: "fake_repository \<Rightarrow> bool" where
  "ancestry_ordered s \<longleftrightarrow>
     (\<forall>h c. dict_get (fr_commits s) h = Some c \<longrightarrow> (\<exists>i. h = commit_id i \<and> i \<le> fr_next_commit s \<and>
        (\<forall>j. ck_parent c = Some (commit_id j) \<longrightarrow> j < i))) \<and>
     (\<forall>b h. dict_get (fr_branches s) b = Some h \<longrightarrow> not_future s h)"

lemma ancestry_orderedD:
  assumes "ancestry_ordered s"
  shows "dict_get (fr_commits s) (commit_id i) = Some c \<Longrightarrow>
      i \<le> fr_next_commit s \<and> (\<forall>j. ck_parent c = Some (commit_id j) \<longrightarrow> j < i)"
    and "dict_get (fr_commits s) h = Some c \<Longrightarrow> \<exists>i. h = commit_id i"
    and "dict_get (fr_branches s) b = Some h \<Longrightarrow> not_future s h"
  using assms unfolding ancestry_ordered_def by (metis commit_id_inject, blast, blast)

lemma reachable_ordered: "repo_reachable s \<Longrightarrow> ancestry_ordered s"
proof (induction rule: repo_reachable.induct)
  case fresh
  show ?case by (simp add: ancestry_ordered_def new_fake_repository_def)
next
  case (ensure s from_revision repository branch key)
  have [simp]: "not_future (s\<lparr>fr_branches := bs, fr_branch_keys := ks\<rparr>) h = not_future s h" for bs ks h
    by (simp add: not_future_def)
  show ?case
  proof (cases "dict_get (fr_branch_keys s) key")
    case None
    with ensure ancestry_orderedD(3) [OF ensure.IH] show ?thesis
      by (auto simp: fake_ensure_branch_def ancestry_ordered_def Let_def split: option.splits if_splits)
  next
    case (Some h)
    with ensure.IH show ?thesis by (simp add: fake_ensure_branch_def)
  qed
next
  case (publish s repository branch changes message key)
  let ?s = "snd (fake_publish_commit repository branch changes message key s)"
  show ?case
  proof (cases "changes = [] \<or> dict_get (fr_commit_keys s) key \<noteq> None \<or>
      dict_get (fr_branches s) (repo_key repository, branch) = None")
    case True
    then have "?s = s" by (auto simp: fake_publish_commit_def split: option.splits)
    with publish.IH show ?thesis by simp
  next
    case False
    then obtain parent where p: "dict_get (fr_branches s) (repo_key repository, branch) = Some parent" by auto
    let ?n = "Suc (fr_next_commit s)"
    let ?c = "\<lparr>ck_sha = commit_id ?n, ck_message = message,
      ck_files = merge_files (files_of (fr_commits s) parent) changes, ck_parent = Some parent\<rparr>"
    from False p have
      cs: "dict_get (fr_commits ?s) h = (if h = commit_id ?n then Some ?c else dict_get (fr_commits s) h)"
      and bs: "dict_get (fr_branches ?s) b = (if b = (repo_key repository, branch) then Some (commit_id ?n)
                  else dict_get (fr_branches s) b)"
      and n: "fr_next_commit ?s = ?n" for h b
      by (auto simp: fake_publish_commit_def Let_def)
    from ancestry_orderedD(3) [OF publish.IH p] have "not_future s parent" .
    then have parent: "parent = commit_id j \<Longrightarrow> j < ?n" for j by (force simp: not_future_def not_less)
    have heads: "not_future ?s h" if "not_future s h \<or> h = commit_id ?n" for h
      using that by (auto simp: not_future_def n)
    show ?thesis
      unfolding ancestry_ordered_def
    proof (intro conjI allI impI)
      fix h d assume d: "dict_get (fr_commits ?s) h = Some d"
      show "\<exists>i. h = commit_id i \<and> i \<le> fr_next_commit ?s \<and> (\<forall>j. ck_parent d = Some (commit_id j) \<longrightarrow> j < i)"
      proof (cases "h = commit_id ?n")
        case True
        with d cs parent show ?thesis by (auto simp: n)
      next
        case False
        with d cs have old: "dict_get (fr_commits s) h = Some d" by simp
        from ancestry_orderedD(2) [OF publish.IH this] obtain i where i: "h = commit_id i" ..
        with ancestry_orderedD(1) [OF publish.IH, of i d] old show ?thesis by (auto simp: n)
      qed
    next
      fix b h assume "dict_get (fr_branches ?s) b = Some h"
      with bs heads ancestry_orderedD(3) [OF publish.IH, of b h] show "not_future ?s h"
        by (auto split: if_splits)
    qed
  qed
qed

text \<open>The walk over an ordered ancestry ends; it visits commits with falling numbers.\<close>

lemma walk_ends:
  assumes ord: "ancestry_ordered s"
  shows "\<exists>xs. walk_commits (fr_commits s) path (Some (commit_id i)) acc = Some (acc @ xs) \<and>
     distinct (map cmi_sha xs) \<and> cmi_sha ` set xs \<subseteq> commit_id ` {..i} \<inter> fst ` set (fr_commits s)"
proof (induction i arbitrary: acc rule: less_induct)
  case (less i)
  let ?walk = "walk_commits (fr_commits s) path"
  show ?case
  proof (cases "dict_get (fr_commits s) (commit_id i)")
    case None
    then show ?thesis by (subst walk_commits.simps) auto
  next
    case (Some c)
    then have here: "commit_id i \<in> fst ` set (fr_commits s)" by (force dest: map_of_SomeD)
    define x where "x = (if touches (fr_commits s) path c then [\<lparr>cmi_sha = commit_id i, cmi_message = ck_message c\<rparr>] else [])"
    have step: "?walk (Some (commit_id i)) acc = ?walk (ck_parent c) (acc @ x)"
      using Some by (subst walk_commits.simps) (simp add: x_def)
    show ?thesis
    proof (cases "\<exists>j. ck_parent c = Some (commit_id j)")
      case True
      then obtain j where j: "ck_parent c = Some (commit_id j)" ..
      with ancestry_orderedD(1) [OF ord Some] have "j < i" by simp
      from less.IH [OF this, of "acc @ x"] obtain xs
        where xs: "?walk (Some (commit_id j)) (acc @ x) = Some ((acc @ x) @ xs)"
          "distinct (map cmi_sha xs)" "cmi_sha ` set xs \<subseteq> commit_id ` {..j} \<inter> fst ` set (fr_commits s)" by blast
      have "commit_id i \<notin> cmi_sha ` set xs" using xs(3) \<open>j < i\<close> by auto
      moreover have "commit_id ` {..j} \<subseteq> commit_id ` {..i}" using \<open>j < i\<close> by auto
      ultimately have "distinct (map cmi_sha (x @ xs)) \<and>
          cmi_sha ` set (x @ xs) \<subseteq> commit_id ` {..i} \<inter> fst ` set (fr_commits s)"
        using xs(2,3) here unfolding x_def by (simp split: if_split) blast
      with step j xs(1) show ?thesis by (intro exI [of _ "x @ xs"]) simp
    next
      case False
      with ancestry_orderedD(2) [OF ord] have "?walk (ck_parent c) (acc @ x) = Some (acc @ x)"
        by (subst walk_commits.simps) (fastforce split: option.splits)
      with step here show ?thesis by (intro exI [of _ x]) (auto simp: x_def)
    qed
  qed
qed

lemma walk_from_any:
  assumes ord: "ancestry_ordered s"
  shows "\<exists>xs. walk_commits (fr_commits s) path h [] = Some xs \<and> distinct (map cmi_sha xs) \<and>
     cmi_sha ` set xs \<subseteq> fst ` set (fr_commits s)"
proof (cases "\<exists>i. h = Some (commit_id i)")
  case True
  with walk_ends [OF ord, of path _ "[]"] show ?thesis by fastforce
next
  case False
  with ancestry_orderedD(2) [OF ord] have "walk_commits (fr_commits s) path h [] = Some []"
    by (subst walk_commits.simps) (fastforce split: option.splits)
  then show ?thesis by simp
qed

section \<open>What the fakes promise\<close>

text \<open>The fake of the reconciliation port and the reconciler's own drift resolution answer alike.\<close>

lemma fake_reconcile_is_resolve_drift: "fake_reconcile = resolve_drift"
  by (intro ext) (auto simp: fake_reconcile_def resolve_drift_def)

lemma dict_set_same: "dict_get d k = Some v \<Longrightarrow> dict_set k v d = d"
  by (induction d) (auto split: if_splits)

text \<open>
  An external effect is minted at most once per idempotency key. For each keyed operation (branch, commit,
  change request, workspace, workflow run, CI job, mirror, baseline bootstrap, tracker status and approval
  request): once a call with a key has returned, every later admissible call with that key, whatever its
  other arguments and whatever calls of the operation came between, returns the same value and changes
  nothing. A commit call is admissible when its change set is not empty.
\<close>

theorem effects_minted_at_most_once:
  "minted_at_most_once branch_call (\<lambda>_. True) (\<lambda>_. True) \<and>
   minted_at_most_once commit_call (\<lambda>(_, _, changes, _). changes \<noteq> []) (\<lambda>_. True) \<and>
   minted_at_most_once fake_open (\<lambda>_. True) requests_sound \<and>
   minted_at_most_once fake_prepare_workspace (\<lambda>_. True) workspaces_sound \<and>
   minted_at_most_once fake_start (\<lambda>_. True) (\<lambda>_. True) \<and>
   minted_at_most_once fake_run_stage_job (\<lambda>_. True) (\<lambda>_. True) \<and>
   minted_at_most_once fake_ensure_mirror (\<lambda>_. True) (\<lambda>_. True) \<and>
   minted_at_most_once fake_bootstrap_baseline (\<lambda>_. True) (\<lambda>_. True) \<and>
   minted_at_most_once fake_publish_status (\<lambda>_. True) (\<lambda>_. True) \<and>
   minted_at_most_once fake_request_approval (\<lambda>_. True) (\<lambda>_. True) \<and>
   requests_sound new_fake_merge_requests \<and> workspaces_sound new_fake_execution"
proof (intro conjI)
  note minted = minted_at_most_once_def
  show "minted_at_most_once branch_call (\<lambda>_. True) (\<lambda>_. True)"
    unfolding minted using branches.minted_once by blast
  show "minted_at_most_once commit_call (\<lambda>(_, _, changes, _). changes \<noteq> []) (\<lambda>_. True)"
    unfolding minted using commits.minted_once by blast
  show "minted_at_most_once fake_open (\<lambda>_. True) requests_sound"
    unfolding minted using requests.minted_once by blast
  show "minted_at_most_once fake_prepare_workspace (\<lambda>_. True) workspaces_sound"
    unfolding minted using workspaces.minted_once by blast
  show "minted_at_most_once fake_start (\<lambda>_. True) (\<lambda>_. True)"
    unfolding minted using starts.minted_once by blast
  show "minted_at_most_once fake_run_stage_job (\<lambda>_. True) (\<lambda>_. True)"
    unfolding minted using jobs.minted_once by blast
  show "minted_at_most_once fake_ensure_mirror (\<lambda>_. True) (\<lambda>_. True)"
    unfolding minted using mirrors.minted_once by blast
  show "minted_at_most_once fake_bootstrap_baseline (\<lambda>_. True) (\<lambda>_. True)"
    unfolding minted using bootstraps.minted_once by blast
  show "minted_at_most_once fake_publish_status (\<lambda>_. True) (\<lambda>_. True)"
    unfolding minted using tracker_statuses.minted_once by blast
  show "minted_at_most_once fake_request_approval (\<lambda>_. True) (\<lambda>_. True)"
    unfolding minted using tracker_approvals.minted_once by blast
  show "requests_sound new_fake_merge_requests" by (simp add: requests_sound_def new_fake_merge_requests_def)
  show "workspaces_sound new_fake_execution" by (simp add: workspaces_sound_def new_fake_execution_def)
qed

text \<open>
  C40: listing the commits of a reference ends. In every state reached by creating branches at revisions that are
  not the identifier of a commit still to come, and by publishing commits, \<open>list_commits\<close> returns: an absent
  reference is the error, a present one the list of its recorded ancestors, none of them twice.
\<close>

theorem list_commits_ends:
  assumes "repo_reachable s"
  shows "\<exists>r. fake_list_commits s repository ref path = Some r \<and>
    (case r of Inl e \<Rightarrow> e = no_revision repository ref
     | Inr xs \<Rightarrow> distinct (map cmi_sha xs) \<and> cmi_sha ` set xs \<subseteq> fst ` set (fr_commits s))"
proof (cases "fake_resolve s repository ref")
  case (Inl e)
  then show ?thesis by (auto simp: fake_list_commits_def fake_resolve_def split: option.splits if_splits)
next
  case (Inr sha)
  from walk_from_any [OF reachable_ordered [OF assms], of path "Some sha"] Inr show ?thesis
    by (auto simp: fake_list_commits_def)
qed

definition sample_repository :: repository_ref where
  "sample_repository = \<lparr>rr_provider = Provider_GITHUB, rr_slug = ''a/b''\<rparr>"

definition sample_repo_state :: fake_repository where
  "sample_repo_state = snd (fake_publish_commit sample_repository ''main'' [(''f'', ''x'')] ''m'' ''k2''
     (snd (fake_ensure_branch sample_repository ''main'' ''base'' ''k1'' new_fake_repository)))"

theorem list_commits_ends_witness:
  "repo_reachable sample_repo_state \<and> (\<exists>r. fake_list_commits sample_repo_state sample_repository ''main'' None = Some r)"
proof -
  have "not_future new_fake_repository ''base''" by (auto simp: not_future_def commit_id_def)
  then have r: "repo_reachable sample_repo_state"
    unfolding sample_repo_state_def by (intro repo_reachable.intros)
  with list_commits_ends [OF r, of sample_repository "''main''" None] show ?thesis by blast
qed

text \<open>
  The condition on the base revisions is needed: a branch created at the identifier of the first commit
  makes that commit its own parent, and the walk over its ancestors does not end.
\<close>

lemma walk_of_a_cycle:
  assumes "dict_get cs h = Some c" and "ck_parent c = Some h"
  shows "walk_commits cs path (Some h) acc = None"
proof (rule ccontr)
  assume "walk_commits cs path (Some h) acc \<noteq> None"
  then obtain y where "walk_commits cs path (Some h) acc = Some y" by blast
  then have "Some h = Some h \<and> dict_get cs h = Some c \<longrightarrow> False"
    by (rule walk_commits.raw_induct [where P = "\<lambda>cs path x acc y. x = Some h \<and> dict_get cs h = Some c \<longrightarrow> False",
        rotated]) (use assms(2) in \<open>fastforce split: option.splits\<close>)
  with assms(1) show False by simp
qed

lemma future_base_never_lists:
  "fake_list_commits
     (snd (fake_publish_commit sample_repository ''main'' [(''f'', ''x'')] ''m'' ''k2''
       (snd (fake_ensure_branch sample_repository ''main'' ''c0001'' ''k1'' new_fake_repository))))
     sample_repository ''main'' None = None"
proof -
  let ?s = "snd (fake_publish_commit sample_repository ''main'' [(''f'', ''x'')] ''m'' ''k2''
       (snd (fake_ensure_branch sample_repository ''main'' ''c0001'' ''k1'' new_fake_repository)))"
  have "dict_get (fr_commits ?s) ''c0001'' = Some \<lparr>ck_sha = ''c0001'', ck_message = ''m'', ck_files = [(''f'', ''x'')],
      ck_parent = Some ''c0001''\<rparr>"
    and "fake_resolve ?s sample_repository ''main'' = Inr ''c0001''" by code_simp+
  with walk_of_a_cycle [of "fr_commits ?s" "''c0001''" _ None "[]"] show ?thesis
    by (simp add: fake_list_commits_def)
qed

text \<open>
  A merge is bound to the head it was asked for. \<open>merge\<close> on a recorded request fails exactly when its head is
  not the expected revision, leaving the provider as it was; otherwise the record of that request alone
  changes, to merged with its head kept, and an observation then reports the merged head.
\<close>

theorem merge_is_bound_to_head:
  "case request_record s cr of
     Inl e \<Rightarrow> fake_merge cr expected key s = (Inl e, s)
   | Inr c \<Rightarrow>
       (if cq_head_sha c = expected
        then fake_merge cr expected key s = (Inr (), put_request cr (c\<lparr>cq_status := ChangeRequestStatus_MERGED\<rparr>) s) \<and>
          fst (fake_observe cr (snd (fake_merge cr expected key s))) =
            Inr \<lparr>cro_status = ChangeRequestStatus_MERGED, cro_head_sha = Some expected, cro_merged_sha = Some expected,
                 cro_reviews = cq_reviews c\<rparr>
        else \<exists>why. fake_merge cr expected key s = (Inl (HeadMismatchError why), s))"
proof (cases "request_record s cr")
  case (Inl e)
  then show ?thesis by (simp add: fake_merge_def)
next
  case (Inr c)
  then have at_key: "dict_get (fm_records s) (repo_key (crr_repository cr), crr_number cr) = Some c"
    by (auto simp: request_record_def split: option.splits)
  have "put_request cr (c\<lparr>cq_status := ChangeRequestStatus_MERGED\<rparr>) s = s" if "cq_status c = ChangeRequestStatus_MERGED"
  proof -
    from that have "c\<lparr>cq_status := ChangeRequestStatus_MERGED\<rparr> = c" by simp
    with dict_set_same [OF at_key] show ?thesis by (simp add: put_request_def)
  qed
  with Inr have merged: "fake_merge cr expected key s = (Inr (), put_request cr (c\<lparr>cq_status := ChangeRequestStatus_MERGED\<rparr>) s)"
    if "cq_head_sha c = expected" using that by (auto simp: fake_merge_def)
  have "request_record (put_request cr d s) cr = Inr d" for d
    by (simp add: request_record_def put_request_def)
  with Inr merged show ?thesis by (auto simp: fake_observe_def fake_merge_def)
qed

end
