(* ===== verification/Release.thy ===== *)
theory Release
  imports Fakes
begin

text \<open>
  The release of a change: the release decision and its evidence (\<open>quality/release/decision.py\<close>,
  \<open>evidence.py\<close>), the smoke probes (\<open>quality/release/probes.py\<close>), and the release stage (\<open>orchestration/stages/release.py\<close>):
  the promotion of a digest through the ports and the resolution of the wait for the rollout. An HTTP request
  is an argument of the probes.

  The lemmas show exactly when an observation releases, that a resolution belongs to the waiting attempt and
  completes the run only on a release, that a promotion waits only after all its effects, and that a repeated
  promotion mints nothing.
\<close>

section \<open>The decision (\<open>decision.py\<close>)\<close>

definition DIGEST_UNKNOWN :: string where "DIGEST_UNKNOWN = ''unknown''"

definition folded_raw :: "string option \<Rightarrow> string option" where
  "folded_raw raw = (case raw of None \<Rightarrow> None
     | Some r \<Rightarrow> (let f = py_casefold (py_strip r) in if f = [] then None else Some f))"

datatype argo_sync_status = ArgoSync_SYNCED | ArgoSync_OUT_OF_SYNC | ArgoSync_UNKNOWN

fun argo_sync_value :: "argo_sync_status \<Rightarrow> string" where
  "argo_sync_value ArgoSync_SYNCED = ''Synced''"
| "argo_sync_value ArgoSync_OUT_OF_SYNC = ''OutOfSync''"
| "argo_sync_value ArgoSync_UNKNOWN = ''Unknown''"

definition argo_sync_from_raw :: "string option \<Rightarrow> argo_sync_status" where
  "argo_sync_from_raw raw =
     (case find (\<lambda>m. folded_raw raw = Some (py_casefold (argo_sync_value m)))
             [ArgoSync_SYNCED, ArgoSync_OUT_OF_SYNC, ArgoSync_UNKNOWN] of
        Some m \<Rightarrow> m | None \<Rightarrow> ArgoSync_UNKNOWN)"

datatype argo_health_status =
    ArgoHealth_HEALTHY | ArgoHealth_PROGRESSING | ArgoHealth_DEGRADED | ArgoHealth_SUSPENDED
  | ArgoHealth_MISSING | ArgoHealth_UNKNOWN

fun argo_health_value :: "argo_health_status \<Rightarrow> string" where
  "argo_health_value ArgoHealth_HEALTHY = ''Healthy''"
| "argo_health_value ArgoHealth_PROGRESSING = ''Progressing''"
| "argo_health_value ArgoHealth_DEGRADED = ''Degraded''"
| "argo_health_value ArgoHealth_SUSPENDED = ''Suspended''"
| "argo_health_value ArgoHealth_MISSING = ''Missing''"
| "argo_health_value ArgoHealth_UNKNOWN = ''Unknown''"

definition argo_health_from_raw :: "string option \<Rightarrow> argo_health_status" where
  "argo_health_from_raw raw =
     (case find (\<lambda>m. folded_raw raw = Some (py_casefold (argo_health_value m)))
             [ArgoHealth_HEALTHY, ArgoHealth_PROGRESSING, ArgoHealth_DEGRADED, ArgoHealth_SUSPENDED,
              ArgoHealth_MISSING, ArgoHealth_UNKNOWN] of
        Some m \<Rightarrow> m | None \<Rightarrow> ArgoHealth_UNKNOWN)"

datatype smoke_status = Smoke_NOT_RUN | Smoke_PASSED | Smoke_FAILED

definition smoke_outcome_status :: "smoke_probe_evidence list \<Rightarrow> smoke_status" where
  "smoke_outcome_status probes =
     (if probes = [] then Smoke_NOT_RUN
      else if \<exists>p\<in>set probes. \<not> sp_passed p then Smoke_FAILED else Smoke_PASSED)"

record release_observation =
  rlo_expected_digest :: "string option"
  rlo_observed_digest :: "string option"
  rlo_argo_sync_raw :: "string option"
  rlo_argo_health_raw :: "string option"
  rlo_smoke :: "smoke_probe_evidence list"
  rlo_application :: "string option"
  rlo_verified_at :: "instant option"

record release_decision =
  rld_status :: release_status
  rld_reason :: "string option"
  rld_rollback_signal :: "string option"

definition ROLLBACK_SIGNAL :: string where
  "ROLLBACK_SIGNAL = ''revert the GitOps commit that pinned this digest in the GitOps repository: Argo CD auto-sync then restores the previous digest (ADR-010, ADR-011 p.6)''"

definition normalize_digest :: "string option \<Rightarrow> string option" where
  "normalize_digest v = (case v of None \<Rightarrow> None
     | Some s \<Rightarrow> (let t = py_strip s in if t = [] then None else Some t))"

definition release_failed_with :: "string \<Rightarrow> release_decision" where
  "release_failed_with reason =
     \<lparr>rld_status = ReleaseStatus_RELEASE_FAILED, rld_reason = Some reason, rld_rollback_signal = Some ROLLBACK_SIGNAL\<rparr>"

definition raw_or_unknown :: "string option \<Rightarrow> string" where
  "raw_or_unknown raw = (case raw of None \<Rightarrow> DIGEST_UNKNOWN
     | Some r \<Rightarrow> (let s = py_strip r in if s = [] then DIGEST_UNKNOWN else py_repr s))"

definition digest_failure :: "release_observation \<Rightarrow> release_decision option" where
  "digest_failure ob =
     (case normalize_digest (rlo_expected_digest ob) of
        None \<Rightarrow> Some (release_failed_with
          ''cannot verify digest immutability: the expected digest is unknown (FR-011)'')
      | Some expected \<Rightarrow>
          (case normalize_digest (rlo_observed_digest ob) of
             None \<Rightarrow> Some (release_failed_with
               ''cannot verify digest immutability: the digest observed on the deployment is unknown (FR-011)'')
           | Some observed \<Rightarrow>
               if expected \<noteq> observed then Some (release_failed_with (''expected digest '' @ expected @
                 '' does not match the observed digest '' @ observed @ '': the release is stopped (FR-011)''))
               else None))"

definition argo_failure :: "release_observation \<Rightarrow> release_decision option" where
  "argo_failure ob =
     (if argo_sync_from_raw (rlo_argo_sync_raw ob) \<noteq> ArgoSync_SYNCED then
        Some (release_failed_with (''argo application sync status is '' @ raw_or_unknown (rlo_argo_sync_raw ob) @
          '', not '' @ py_repr ''Synced'' @ '' (ADR-010)''))
      else if argo_health_from_raw (rlo_argo_health_raw ob) \<noteq> ArgoHealth_HEALTHY then
        Some (release_failed_with (''argo application health status is '' @ raw_or_unknown (rlo_argo_health_raw ob) @
          '', not '' @ py_repr ''Healthy'' @ '' (ADR-010)''))
      else None)"

definition pre_smoke_failure :: "release_observation \<Rightarrow> release_decision option" where
  "pre_smoke_failure ob = or_else (digest_failure ob) (argo_failure ob)"

definition evaluate_release :: "release_observation \<Rightarrow> release_decision" where
  "evaluate_release ob =
     (case pre_smoke_failure ob of
        Some d \<Rightarrow> d
      | None \<Rightarrow>
          (case smoke_outcome_status (rlo_smoke ob) of
             Smoke_NOT_RUN \<Rightarrow> release_failed_with
               ''smoke was not run: the released status requires a passing smoke check (FR-013, ADR-011 p.6)''
           | Smoke_FAILED \<Rightarrow> release_failed_with (''smoke probes failed: '' @
               join_with '', '' (map sp_name (filter (\<lambda>p. \<not> sp_passed p) (rlo_smoke ob))) @ '' (ADR-011 p.6)'')
           | Smoke_PASSED \<Rightarrow> \<lparr>rld_status = ReleaseStatus_RELEASED, rld_reason = None, rld_rollback_signal = None\<rparr>))"

section \<open>The evidence (\<open>evidence.py\<close>)\<close>

definition build_release_evidence ::
    "release_observation \<Rightarrow> release_decision \<Rightarrow> instant \<Rightarrow> string option \<Rightarrow> release_evidence" where
  "build_release_evidence ob d verified_at application =
     \<lparr>re_verified_at = verified_at, re_decision = rld_status d, re_reason = rld_reason d,
      re_expected_digest = normalize_digest (rlo_expected_digest ob),
      re_observed_digest = normalize_digest (rlo_observed_digest ob),
      re_argo_sync_status = rlo_argo_sync_raw ob, re_argo_health_status = rlo_argo_health_raw ob,
      re_application = clean_text application, re_smoke = rlo_smoke ob,
      re_rollback_signal = rld_rollback_signal d\<rparr>"

section \<open>Smoke probes (\<open>probes.py\<close>)\<close>

definition SMOKE_PROBE_ATTEMPTS :: nat where "SMOKE_PROBE_ATTEMPTS = 3"

definition validated_attempts :: "int \<Rightarrow> port_error + int" where
  "validated_attempts n = (if n < 1 then Inl (ValueError (''attempts must be >= 1, got '' @ show_int n)) else Inr n)"

definition run_smoke_probes ::
    "(string \<times> ('w, port_error, smoke_probe_evidence) sem) list \<Rightarrow> 'w \<Rightarrow> smoke_probe_evidence list \<times> 'w" where
  "run_smoke_probes probes w = fold (\<lambda>(name, run) (results, w).
     (case run w of
        (Inr r, w') \<Rightarrow> (results @ [r], w')
      | (Inl e, w') \<Rightarrow> (results @ [\<lparr>sp_name = name, sp_passed = False,
           sp_detail = Some (''probe error: '' @ error_type_name e)\<rparr>], w'))) probes ([], w)"

record http_response =
  hr_status_code :: int
  hr_text :: string
  hr_headers :: "string \<Rightarrow> string option"

text \<open>
  One request is a function of the world that returns a response, raises an error of the HTTP client (\<open>Inl (Inl name)\<close>,
  retried) or any other exception (\<open>Inl (Inr e)\<close>, which leaves the probe). \<open>judge\<close> is the verdict on a 2xx
  response.
\<close>

type_synonym 'w http_get = "('w, string + port_error, http_response) sem"

fun probe_loop ::
    "(http_response \<Rightarrow> bool \<times> string) \<Rightarrow> string \<Rightarrow> 'w http_get \<Rightarrow> nat \<Rightarrow> nat \<Rightarrow> string option
      \<Rightarrow> ('w, port_error, smoke_probe_evidence) sem" where
  "probe_loop judge name get attempt 0 last_error = (\<lambda>w. case last_error of
       None \<Rightarrow> (Inl (OtherError ''RuntimeError''), w)
     | Some e \<Rightarrow> (Inr \<lparr>sp_name = name, sp_passed = False, sp_detail = Some e\<rparr>, w))"
| "probe_loop judge name get attempt (Suc left) last_error = (\<lambda>w. case get w of
       (Inl (Inr e), w') \<Rightarrow> (Inl e, w')
     | (Inl (Inl n), w') \<Rightarrow> probe_loop judge name get (Suc attempt) left
         (Some (''attempt '' @ show_nat attempt @ '': '' @ n)) w'
     | (Inr response, w') \<Rightarrow>
         if 200 \<le> hr_status_code response \<and> hr_status_code response < 300
         then (case judge response of (passed, detail) \<Rightarrow>
           (Inr \<lparr>sp_name = name, sp_passed = passed, sp_detail = Some detail\<rparr>, w'))
         else probe_loop judge name get (Suc attempt) left
           (Some (''attempt '' @ show_nat attempt @ '': HTTP '' @ show_int (hr_status_code response))) w')"

definition health_probe_run :: "string \<Rightarrow> 'w http_get \<Rightarrow> nat \<Rightarrow> ('w, port_error, smoke_probe_evidence) sem" where
  "health_probe_run name get attempts =
     probe_loop (\<lambda>r. (True, ''HTTP '' @ show_int (hr_status_code r))) name get 1 attempts None"

fun contains_text :: "string \<Rightarrow> string \<Rightarrow> bool" where
  "contains_text d [] = (d = [])"
| "contains_text d (c # s) = (starts_with d (c # s) \<or> contains_text d s)"

definition digest_found :: "string \<Rightarrow> string option \<Rightarrow> http_response \<Rightarrow> bool" where
  "digest_found digest header r = (case header of
       None \<Rightarrow> contains_text digest (hr_text r)
     | Some h \<Rightarrow> contains_text digest (case hr_headers r h of None \<Rightarrow> [] | Some v \<Rightarrow> v))"

definition found_detail :: "string option \<Rightarrow> string" where
  "found_detail header = (case header of None \<Rightarrow> ''digest found in the response body''
     | Some h \<Rightarrow> ''digest found in response header '' @ py_repr h)"

definition missing_detail :: "string option \<Rightarrow> string" where
  "missing_detail header = (case header of None \<Rightarrow> ''digest not found in the response body''
     | Some h \<Rightarrow> ''digest not found in response header '' @ py_repr h)"

definition digest_probe_run ::
    "string \<Rightarrow> string \<Rightarrow> string option \<Rightarrow> 'w http_get \<Rightarrow> nat \<Rightarrow> ('w, port_error, smoke_probe_evidence) sem" where
  "digest_probe_run name digest header get attempts =
     probe_loop (\<lambda>r. if digest_found digest header r then (True, found_detail header) else (False, missing_detail header))
       name get 1 attempts None"

section \<open>Resolving the wait (\<open>stages/release.py\<close>)\<close>

definition present :: "string option \<Rightarrow> bool" where
  "present v = (case v of None \<Rightarrow> False | Some s \<Rightarrow> py_strip s \<noteq> [])"

definition release_resolved :: "release_observation option \<Rightarrow> bool" where
  "release_resolved ob = (case ob of None \<Rightarrow> False
     | Some x \<Rightarrow> present (rlo_observed_digest x) \<and> present (rlo_argo_sync_raw x) \<and> present (rlo_argo_health_raw x))"

definition effective_observation :: "stage_result \<Rightarrow> release_observation \<Rightarrow> release_observation" where
  "effective_observation checkpoint ob =
     (case (rlo_expected_digest ob, res_release checkpoint) of
        (None, Some ev) \<Rightarrow> ob\<lparr>rlo_expected_digest := re_expected_digest ev\<rparr>
      | _ \<Rightarrow> ob)"

definition build_release_resolution ::
    "stage_result \<Rightarrow> release_observation \<Rightarrow> instant \<Rightarrow> port_error + stage_result" where
  "build_release_resolution checkpoint observation now =
     (if \<not> release_resolved (Some observation) then
        Inl (ValueError (''observation does not resolve the external wait of stage '' @
          stage_value (res_stage checkpoint) @ ''; the driver replays the waiting checkpoint instead''))
      else
        (let ob = effective_observation checkpoint observation;
             d = evaluate_release ob;
             release = build_release_evidence ob d
               (case rlo_verified_at ob of Some t \<Rightarrow> t | None \<Rightarrow> now) (rlo_application ob);
             gate_sha = normalize_digest (rlo_observed_digest ob);
             result_of = (\<lambda>status action. new_result (res_stage checkpoint) (res_run_id checkpoint)
               (res_change_id checkpoint) (res_attempt_number checkpoint) (res_input_revision checkpoint)
               status action now)
         in Inr (if rld_status d = ReleaseStatus_RELEASED
           then (result_of StageStatus_SUCCEEDED (ReleaseAction ''dev''
                  (Some (Txt ''release verified: digest unchanged, argo synced and healthy, smoke passed''))))
                \<lparr>res_gate_results := [new_gate_result Gate_RELEASE GateStatus_PASSED gate_sha
                    (Some (Txt ''release verification passed''))],
                  res_release := Some release\<rparr>
           else (let base = (case rld_reason d of Some why \<Rightarrow> (if why = [] then ''release verification failed (T034)'' else why)
                               | None \<Rightarrow> ''release verification failed (T034)'');
                     reason = (case rld_rollback_signal d of None \<Rightarrow> base | Some s \<Rightarrow> base @ ''; rollback: '' @ s)
                 in (result_of StageStatus_BLOCKED (StopAction StopOutcome_BLOCKED (Txt reason)))
                    \<lparr>res_gate_results := [new_gate_result Gate_RELEASE GateStatus_FAILED gate_sha
                        (map_option Txt (rld_reason d))],
                      res_release := Some release\<rparr>))))"

section \<open>Promotion (\<open>stages/release.py\<close>)\<close>

definition branch_name :: "string \<Rightarrow> string \<Rightarrow> string" where
  "branch_name prefix change_id =
     (let slug = strip_chars ''-.'' (map (\<lambda>c. if py_isalnum c \<or> c \<in> set ''._-'' then c else CHR ''-'') change_id)
      in prefix @ ''/'' @ (if slug = [] then ''change'' else slug))"

definition RELEASE_BRANCH_PREFIX :: string where "RELEASE_BRANCH_PREFIX = ''factory-release''"

definition digest_file :: "string \<Rightarrow> string" where
  "digest_file run_id = ''releases/'' @ run_id @ ''/digest''"

record 'w release_executor =
  rx_repository :: "'w repository_port"
  rx_merge_requests :: "'w merge_request_port"
  rx_gitops_repository :: repository_ref
  rx_expected_digest :: "string option"
  rx_target_branch :: string

definition release_blocked :: "stage_context \<Rightarrow> string \<Rightarrow> instant \<Rightarrow> stage_result" where
  "release_blocked ctx reason clk = executor_result ctx StageStatus_BLOCKED (StopAction StopOutcome_BLOCKED (Txt reason))
     (pending_gate_results (sx_required_gates ctx)) clk []"

definition request_uri :: "repository_ref \<Rightarrow> change_request_ref \<Rightarrow> string" where
  "request_uri repository cr = (case crr_url cr of
       Some u \<Rightarrow> (if u = [] then rr_slug repository @ ''#'' @ show_int (crr_number cr) else u)
     | None \<Rightarrow> rr_slug repository @ ''#'' @ show_int (crr_number cr))"

definition release_waiting ::
    "repository_ref \<Rightarrow> stage_context \<Rightarrow> string \<Rightarrow> string \<Rightarrow> sha \<Rightarrow> change_request_ref \<Rightarrow> instant \<Rightarrow> stage_result" where
  "release_waiting gitops ctx branch digest commit_sha cr clk =
     (executor_result ctx StageStatus_WAITING
        (WaitForCIAction (Txt (''stage '' @ stage_value (sx_stage ctx) @ '' pinned '' @ digest @ '' in '' @ rr_slug gitops @
             ''#'' @ show_int (crr_number cr) @ '' ('' @ branch @
             '') at the promotion commit; waiting for the Argo sync and the smoke probes'')) (Some cr))
        (pending_gate_results (sx_required_gates ctx)) clk [])
     \<lparr>res_artifacts := [\<lparr>ar_artifact_type = ''change_request'', ar_uri = request_uri gitops cr,
        ar_revision = Some commit_sha, ar_sha256 = None, ar_producer = Some (role_value Role_CI_CD)\<rparr>]\<rparr>"

definition promotion_key :: "stage_context \<Rightarrow> string \<Rightarrow> string \<Rightarrow> string" where
  "promotion_key ctx effect_type target = effect_key (operation_key (sx_run_id ctx) (sx_stage ctx)
     (case sx_input_revision ctx of None \<Rightarrow> [] | Some v \<Rightarrow> v)) effect_type target"

definition promotion_branch :: "stage_context \<Rightarrow> string" where
  "promotion_branch ctx = branch_name RELEASE_BRANCH_PREFIX (sx_run_id ctx)"

definition promotion_request :: "'w release_executor \<Rightarrow> stage_context \<Rightarrow> string \<Rightarrow> sha \<Rightarrow> open_change_request" where
  "promotion_request x ctx digest commit_sha =
     \<lparr>ocr_repository = rx_gitops_repository x, ocr_change_id = sx_run_id ctx,
      ocr_source_branch = promotion_branch ctx, ocr_target_branch = rx_target_branch x,
      ocr_title = ''factory release '' @ sx_run_id ctx,
      ocr_description = Some (''Pins the immutable image digest '' @ digest @ '' of run '' @ sx_run_id ctx @
        '' (change '' @ ch_id (sx_change ctx) @ '') for rollout (ADR-010).''),
      ocr_head_sha = commit_sha\<rparr>"

definition promotion_commit ::
    "'w release_executor \<Rightarrow> stage_context \<Rightarrow> string \<Rightarrow> ('w, port_error, sha) sem" where
  "promotion_commit x ctx digest =
     rp_publish_commit (rx_repository x) (rx_gitops_repository x) (promotion_branch ctx)
       [(digest_file (sx_run_id ctx), digest @ [CHR 0x0A])]
       (''factory release '' @ sx_run_id ctx @ '': pin digest '' @ digest)
       (promotion_key ctx ''gitops_commit'' (promotion_branch ctx @ '':'' @ digest))"

definition find_or_open ::
    "'w release_executor \<Rightarrow> stage_context \<Rightarrow> string \<Rightarrow> sha \<Rightarrow> ('w, port_error, change_request_ref) sem" where
  "find_or_open x ctx digest commit_sha =
     sm_bind (mp_find_existing (rx_merge_requests x) (rx_gitops_repository x) (sx_run_id ctx)) (\<lambda>found.
       case found of
         Some cr \<Rightarrow> sm_return cr
       | None \<Rightarrow> sm_bind (mk_open_change_request (promotion_request x ctx digest commit_sha)) (\<lambda>request.
           mp_open (rx_merge_requests x) request (promotion_key ctx ''gitops_change_request'' (promotion_branch ctx))))"

definition promotion_effects ::
    "'w release_executor \<Rightarrow> stage_context \<Rightarrow> string \<Rightarrow> ('w, port_error, sha \<times> change_request_ref) sem" where
  "promotion_effects x ctx digest =
     sm_bind (rp_get_revision (rx_repository x) (rx_gitops_repository x) (rx_target_branch x)) (\<lambda>base.
     sm_bind (rp_ensure_branch (rx_repository x) (rx_gitops_repository x) (promotion_branch ctx) base
                (promotion_key ctx ''gitops_branch'' (promotion_branch ctx))) (\<lambda>_.
     sm_bind (promotion_commit x ctx digest) (\<lambda>commit_sha.
     sm_bind (find_or_open x ctx digest commit_sha) (\<lambda>cr. sm_return (commit_sha, cr)))))"

definition promote :: "'w release_executor \<Rightarrow> instant \<Rightarrow> stage_context \<Rightarrow> 'w \<Rightarrow> stage_result \<times> 'w" where
  "promote x clk ctx w =
     (case normalize_digest (rx_expected_digest x) of
        None \<Rightarrow> (release_blocked ctx ''stage release: no expected digest is configured -- pass --expected-digest or --digest-json; promoting without one would be an invented release'' clk, w)
      | Some digest \<Rightarrow>
          (case promotion_effects x ctx digest w of
             (Inl e, w') \<Rightarrow> (release_blocked ctx (''stage '' @ stage_value (sx_stage ctx) @
                '': release promotion failed at the boundary ('' @ error_type_name e @ '')'') clk, w')
           | (Inr (commit_sha, cr), w') \<Rightarrow> (release_waiting (rx_gitops_repository x) ctx
                (promotion_branch ctx) digest commit_sha cr clk, w')))"

definition release_stage_executor ::
    "'w release_executor \<Rightarrow> (stage_context \<Rightarrow> 'w \<Rightarrow> stage_result \<times> 'w) \<Rightarrow> instant \<Rightarrow> stage_context \<Rightarrow> 'w \<Rightarrow> stage_result \<times> 'w" where
  "release_stage_executor x inner clk ctx w =
     (if sx_stage ctx \<noteq> Stage_RELEASE then inner ctx w else promote x clk ctx w)"

section \<open>The replay contract of the source control ports\<close>

locale scm_contract =
  fixes rp :: "'w repository_port" and mp :: "'w merge_request_port"
    and sound :: "'w \<Rightarrow> bool"
    and known :: "'w \<Rightarrow> repository_ref \<Rightarrow> string \<Rightarrow> bool"
    and branch_rec commit_rec :: "'w \<Rightarrow> string \<Rightarrow> sha option"
    and open_rec :: "'w \<Rightarrow> string \<Rightarrow> change_request_ref option"
    and request_of :: "'w \<Rightarrow> repository_ref \<Rightarrow> string \<Rightarrow> change_request_ref option"
  assumes revision_read: "rp_get_revision rp repo ref w = (r, w') \<Longrightarrow> w' = w \<and> ((\<exists>h. r = Inr h) \<longleftrightarrow> known w repo ref)"
    and branch_replays: "branch_rec w k = Some h \<Longrightarrow> rp_ensure_branch rp repo b base k w = (Inr h, w)"
    and branch_minted: "sound w \<Longrightarrow> rp_ensure_branch rp repo b base k w = (Inr h, w') \<Longrightarrow>
          sound w' \<and> branch_rec w' k = Some h \<and> (known w repo' ref \<longrightarrow> known w' repo' ref)"
    and commit_replays: "commit_rec w k = Some h \<Longrightarrow> changes \<noteq> [] \<Longrightarrow>
          rp_publish_commit rp repo b changes message k w = (Inr h, w)"
    and commit_minted: "sound w \<Longrightarrow> rp_publish_commit rp repo b changes message k w = (Inr h, w') \<Longrightarrow>
          sound w' \<and> commit_rec w' k = Some h \<and> branch_rec w' = branch_rec w \<and> (known w repo' ref \<longrightarrow> known w' repo' ref)"
    and request_found: "sound w \<Longrightarrow> mp_find_existing mp repo c w = (Inr (request_of w repo c), w)"
    and request_replays: "sound w \<Longrightarrow> open_rec w k = Some cr \<Longrightarrow> mp_open mp rq k w = (Inr cr, w)"
    and request_minted: "sound w \<Longrightarrow> mp_open mp rq k w = (Inr cr, w') \<Longrightarrow>
          sound w' \<and> open_rec w' k = Some cr \<and> branch_rec w' = branch_rec w \<and> commit_rec w' = commit_rec w \<and>
          known w' = known w \<and> (request_of w' (ocr_repository rq) (ocr_change_id rq) = Some cr \<or> w' = w)"
begin

text \<open>Effects that returned once return the same pair again and leave the world as it is.\<close>

lemma request_settled:
  assumes sound: "sound w" and mp: "rx_merge_requests x = mp"
    and first: "find_or_open x ctx digest h w = (Inr cr, w')"
  shows "find_or_open x ctx digest h w' = (Inr cr, w') \<and> sound w' \<and> branch_rec w' = branch_rec w \<and>
    commit_rec w' = commit_rec w \<and> known w' = known w"
proof (cases "request_of w (rx_gitops_repository x) (sx_run_id ctx)")
  case (Some c)
  with request_found [OF sound] have "find_or_open x ctx digest h w = (Inr c, w)"
    by (simp add: find_or_open_def mp sem_simps)
  with first sound show ?thesis by simp
next
  case None
  let ?k = "promotion_key ctx ''gitops_change_request'' (promotion_branch ctx)"
  let ?rq = "promotion_request x ctx digest h"
  have at_none: "find_or_open x ctx digest h u =
      sm_bind (mk_open_change_request ?rq) (\<lambda>request. mp_open mp request ?k) u"
    if "sound u" "request_of u (rx_gitops_repository x) (sx_run_id ctx) = None" for u
    using request_found [OF that(1)] that(2) by (simp add: find_or_open_def mp sem_simps)
  from first at_none [OF sound None] have o: "mp_open mp ?rq ?k w = (Inr cr, w')"
    and valid: "mk_open_change_request ?rq = (sm_return ?rq :: ('w, port_error, open_change_request) sem)"
    by (auto simp: sm_bind_eq_Inr mk_open_change_request_def sem_simps split: if_splits)
  from request_minted [OF sound o] have m: "sound w'" "open_rec w' ?k = Some cr"
    and same: "branch_rec w' = branch_rec w" "commit_rec w' = commit_rec w" "known w' = known w"
    and found: "request_of w' (rx_gitops_repository x) (sx_run_id ctx) = Some cr \<or> w' = w"
    by (auto simp: promotion_request_def)
  have "find_or_open x ctx digest h w' = (Inr cr, w')"
  proof (cases "request_of w' (rx_gitops_repository x) (sx_run_id ctx)")
    case (Some c)
    with found None have "c = cr" by auto
    with Some request_found [OF m(1)] show ?thesis by (simp add: find_or_open_def mp sem_simps)
  next
    case None
    with at_none [OF m(1)] valid request_replays [OF m] show ?thesis by (simp add: sem_simps)
  qed
  with m same show ?thesis by simp
qed

lemma promotion_replays:
  assumes sound: "sound w" and ports: "rx_repository x = rp" "rx_merge_requests x = mp"
    and first: "promotion_effects x ctx digest w = (Inr v, w')"
  shows "promotion_effects x ctx digest w' = (Inr v, w')"
proof -
  let ?repo = "rx_gitops_repository x" and ?target = "rx_target_branch x"
  let ?kb = "promotion_key ctx ''gitops_branch'' (promotion_branch ctx)"
  let ?kc = "promotion_key ctx ''gitops_commit'' (promotion_branch ctx @ '':'' @ digest)"
  from first [unfolded promotion_effects_def ports] obtain base w1 head w2 h w3 cr
    where 1: "rp_get_revision rp ?repo ?target w = (Inr base, w1)"
      and 2: "rp_ensure_branch rp ?repo (promotion_branch ctx) base ?kb w1 = (Inr head, w2)"
      and 3: "promotion_commit x ctx digest w2 = (Inr h, w3)"
      and 4: "find_or_open x ctx digest h w3 = (Inr cr, w')" and v: "v = (h, cr)"
    by (auto simp: sm_bind_eq_Inr sm_return_def)
  from revision_read [OF 1] have w1: "w1 = w" and "known w ?repo ?target" by auto
  with branch_minted [OF sound, OF 2 [unfolded w1]] have s2: "sound w2" "branch_rec w2 ?kb = Some head"
    "known w2 ?repo ?target" by auto
  from commit_minted [OF s2(1) 3 [unfolded promotion_commit_def ports]] s2
  have s3: "sound w3" "commit_rec w3 ?kc = Some h" "branch_rec w3 ?kb = Some head" "known w3 ?repo ?target" by auto
  from request_settled [OF s3(1) ports(2) 4] s3 have s4: "find_or_open x ctx digest h w' = (Inr cr, w')"
    "commit_rec w' ?kc = Some h" "branch_rec w' ?kb = Some head" "known w' ?repo ?target" by auto
  obtain r u where "rp_get_revision rp ?repo ?target w' = (r, u)" by force
  with revision_read [OF this] s4(4) obtain base' where "rp_get_revision rp ?repo ?target w' = (Inr base', w')" by auto
  moreover have "promotion_commit x ctx digest w' = (Inr h, w')"
    unfolding promotion_commit_def ports by (rule commit_replays [OF s4(2)]) simp
  ultimately show ?thesis
    using branch_replays [OF s4(3)] s4(1) v by (simp add: promotion_effects_def ports sem_simps)
qed

end

section \<open>The fakes keep the contract\<close>

record fake_world =
  fwd_repository :: fake_repository
  fwd_requests :: fake_merge_requests
  fwd_execution :: fake_execution

definition new_fake_world :: fake_world where
  "new_fake_world = \<lparr>fwd_repository = new_fake_repository, fwd_requests = new_fake_merge_requests,
     fwd_execution = new_fake_execution\<rparr>"

definition on_repository :: "(fake_repository, port_error, 'a) sem \<Rightarrow> (fake_world, port_error, 'a) sem" where
  "on_repository m = (\<lambda>w. case m (fwd_repository w) of (r, s) \<Rightarrow> (r, w\<lparr>fwd_repository := s\<rparr>))"

definition on_requests :: "(fake_merge_requests, port_error, 'a) sem \<Rightarrow> (fake_world, port_error, 'a) sem" where
  "on_requests m = (\<lambda>w. case m (fwd_requests w) of (r, s) \<Rightarrow> (r, w\<lparr>fwd_requests := s\<rparr>))"

definition fake_repository_port :: "fake_world repository_port" where
  "fake_repository_port =
     \<lparr>rp_get_revision = (\<lambda>r ref. on_repository (fake_get_revision r ref)),
      rp_ensure_branch = (\<lambda>r b base k. on_repository (fake_ensure_branch r b base k)),
      rp_publish_commit = (\<lambda>r b changes message k. on_repository (fake_publish_commit r b changes message k)),
      rp_read_file = (\<lambda>r ref path. on_repository (fake_read_file r ref path)),
      rp_list_tree = (\<lambda>r ref prefix. on_repository (fake_list_tree r ref prefix))\<rparr>"

definition fake_merge_request_port :: "fake_world merge_request_port" where
  "fake_merge_request_port =
     \<lparr>mp_open = (\<lambda>rq k. on_requests (fake_open rq k)),
      mp_find_existing = (\<lambda>r c. on_requests (fake_find_existing r c)),
      mp_add_comment = (\<lambda>cr body k. on_requests (fake_add_comment cr body k)),
      mp_merge = (\<lambda>cr expected k. on_requests (fake_merge cr expected k)),
      mp_observe = (\<lambda>cr. on_requests (fake_observe cr))\<rparr>"

definition scm_sound :: "fake_world \<Rightarrow> bool" where
  "scm_sound w \<longleftrightarrow> requests_sound (fwd_requests w) \<and>
     (\<forall>x rk. dict_get (fm_by_change (fwd_requests w)) x = Some rk \<longrightarrow> dict_get (fm_records (fwd_requests w)) rk \<noteq> None)"

definition fake_request_of :: "fake_world \<Rightarrow> repository_ref \<Rightarrow> string \<Rightarrow> change_request_ref option" where
  "fake_request_of w repo c = map_option request_ref
     (Option.bind (dict_get (fm_by_change (fwd_requests w)) (repo_key repo, c)) (dict_get (fm_records (fwd_requests w))))"

lemma fake_open_lookup:
  assumes "requests_sound s" and "fake_open rq k s = (Inr cr, s')"
  shows "s' = s \<or> (\<exists>rk c. dict_get (fm_by_change s') (repo_key (ocr_repository rq), ocr_change_id rq) = Some rk \<and>
     dict_get (fm_records s') rk = Some c \<and> cr = request_ref c)"
proof (cases "dict_get (fm_open_keys s) k")
  case None
  with assms(2) show ?thesis by (intro disjI2) (auto simp: fake_open_def Let_def simp del: split_paired_Ex)
next
  case (Some rk)
  with assms(2) show ?thesis by (simp add: fake_open_def)
qed

lemma scm_sound_open:
  assumes "scm_sound w"
  shows "scm_sound (w\<lparr>fwd_requests := snd (fake_open rq k (fwd_requests w))\<rparr>)"
proof -
  let ?s = "fwd_requests w" and ?t = "snd (fake_open rq k (fwd_requests w))"
  from assms have rs: "requests_sound ?s"
    and known: "dict_get (fm_by_change ?s) y = Some rk \<Longrightarrow> dict_get (fm_records ?s) rk \<noteq> None" for y rk
    unfolding scm_sound_def by blast+
  have "dict_get (fm_records ?t) rk \<noteq> None" if "dict_get (fm_by_change ?t) y = Some rk" for y rk
  proof (cases "dict_get (fm_open_keys ?s) k")
    case None
    with that known [of y rk] show ?thesis by (auto simp: fake_open_def Let_def split: if_splits)
  next
    case (Some a)
    with that known [of y rk] show ?thesis by (simp add: fake_open_def)
  qed
  with requests_sound_open [OF rs, of rq k] show ?thesis unfolding scm_sound_def by simp
qed

interpretation fake_scm: scm_contract fake_repository_port fake_merge_request_port scm_sound
  "\<lambda>w repo ref. dict_get (fr_branches (fwd_repository w)) (repo_key repo, ref) \<noteq> None"
  "\<lambda>w. dict_get (fr_branch_keys (fwd_repository w))" "\<lambda>w. dict_get (fr_commit_keys (fwd_repository w))"
  "\<lambda>w. opened_request (fwd_requests w)" fake_request_of
proof
  fix w w' :: fake_world and repo repo' :: repository_ref and ref b k :: string and base h :: sha
    and changes :: file_set and message c :: string and cr rq r
  note ports = fake_repository_port_def fake_merge_request_port_def on_repository_def on_requests_def
  show "rp_get_revision fake_repository_port repo ref w = (r, w') \<Longrightarrow> w' = w \<and>
      ((\<exists>h. r = Inr h) \<longleftrightarrow> dict_get (fr_branches (fwd_repository w)) (repo_key repo, ref) \<noteq> None)"
    by (auto simp: ports fake_get_revision_def split: option.splits)
  show "dict_get (fr_branch_keys (fwd_repository w)) k = Some h \<Longrightarrow>
      rp_ensure_branch fake_repository_port repo b base k w = (Inr h, w)"
    by (simp add: ports fake_ensure_branch_def)
  show "scm_sound w' \<and> dict_get (fr_branch_keys (fwd_repository w')) k = Some h \<and>
      (dict_get (fr_branches (fwd_repository w)) (repo_key repo', ref) \<noteq> None \<longrightarrow>
       dict_get (fr_branches (fwd_repository w')) (repo_key repo', ref) \<noteq> None)"
    if "scm_sound w" "rp_ensure_branch fake_repository_port repo b base k w = (Inr h, w')"
    using that by (auto simp: ports fake_ensure_branch_def scm_sound_def Let_def split: prod.splits option.splits)
  show "dict_get (fr_commit_keys (fwd_repository w)) k = Some h \<Longrightarrow> changes \<noteq> [] \<Longrightarrow>
      rp_publish_commit fake_repository_port repo b changes message k w = (Inr h, w)"
    by (simp add: ports fake_publish_commit_def)
  show "scm_sound w' \<and> dict_get (fr_commit_keys (fwd_repository w')) k = Some h \<and>
      dict_get (fr_branch_keys (fwd_repository w')) = dict_get (fr_branch_keys (fwd_repository w)) \<and>
      (dict_get (fr_branches (fwd_repository w)) (repo_key repo', ref) \<noteq> None \<longrightarrow>
       dict_get (fr_branches (fwd_repository w')) (repo_key repo', ref) \<noteq> None)"
    if "scm_sound w" "rp_publish_commit fake_repository_port repo b changes message k w = (Inr h, w')"
    using that by (auto simp: ports fake_publish_commit_def scm_sound_def Let_def split: prod.splits option.splits if_splits)
  show "mp_find_existing fake_merge_request_port repo c w = (Inr (fake_request_of w repo c), w)" if "scm_sound w"
  proof (cases "dict_get (fm_by_change (fwd_requests w)) (repo_key repo, c)")
    case (Some rk)
    with that obtain d where "dict_get (fm_records (fwd_requests w)) rk = Some d" unfolding scm_sound_def by blast
    with Some show ?thesis by (simp add: ports fake_find_existing_def fake_request_of_def stored_request_def)
  qed (simp add: ports fake_find_existing_def fake_request_of_def)
  show "mp_open fake_merge_request_port rq k w = (Inr cr, w)"
    if "scm_sound w" "opened_request (fwd_requests w) k = Some cr"
    using requests.replays [where s = "fwd_requests w" and x = rq and k = k and v = cr] that by (simp add: ports scm_sound_def)
  show "scm_sound w' \<and> opened_request (fwd_requests w') k = Some cr \<and>
      dict_get (fr_branch_keys (fwd_repository w')) = dict_get (fr_branch_keys (fwd_repository w)) \<and>
      dict_get (fr_commit_keys (fwd_repository w')) = dict_get (fr_commit_keys (fwd_repository w)) \<and>
      (\<lambda>repo ref. dict_get (fr_branches (fwd_repository w')) (repo_key repo, ref) \<noteq> None) =
      (\<lambda>repo ref. dict_get (fr_branches (fwd_repository w)) (repo_key repo, ref) \<noteq> None) \<and>
      (fake_request_of w' (ocr_repository rq) (ocr_change_id rq) = Some cr \<or> w' = w)"
    if w: "scm_sound w" and o: "mp_open fake_merge_request_port rq k w = (Inr cr, w')"
  proof -
    obtain t where t: "fake_open rq k (fwd_requests w) = (Inr cr, t)" and w': "w' = w\<lparr>fwd_requests := t\<rparr>"
      using o by (auto simp: ports split: prod.splits)
    from w have rs: "requests_sound (fwd_requests w)" by (simp add: scm_sound_def)
    from fake_open_lookup [OF rs t] have "fake_request_of w' (ocr_repository rq) (ocr_change_id rq) = Some cr \<or> w' = w"
      by (auto simp: w' fake_request_of_def)
    with scm_sound_open [OF w, of rq k] requests.records [OF rs t] t show ?thesis by (simp add: w')
  qed
qed

section \<open>What a release guarantees\<close>

lemma sync_from_raw_iff: "argo_sync_from_raw raw = ArgoSync_SYNCED \<longleftrightarrow> folded_raw raw = Some ''synced''"
proof -
  have "map (\<lambda>m. py_casefold (argo_sync_value m)) [ArgoSync_SYNCED, ArgoSync_OUT_OF_SYNC, ArgoSync_UNKNOWN] =
      [''synced'', ''outofsync'', ''unknown'']" by code_simp
  then show ?thesis by (auto simp: argo_sync_from_raw_def)
qed

lemma health_from_raw_iff: "argo_health_from_raw raw = ArgoHealth_HEALTHY \<longleftrightarrow> folded_raw raw = Some ''healthy''"
proof -
  have "map (\<lambda>m. py_casefold (argo_health_value m)) [ArgoHealth_HEALTHY, ArgoHealth_PROGRESSING, ArgoHealth_DEGRADED,
      ArgoHealth_SUSPENDED, ArgoHealth_MISSING, ArgoHealth_UNKNOWN] =
      [''healthy'', ''progressing'', ''degraded'', ''suspended'', ''missing'', ''unknown'']" by code_simp
  then show ?thesis by (auto simp: argo_health_from_raw_def)
qed

lemma smoke_passed_iff: "smoke_outcome_status ps = Smoke_PASSED \<longleftrightarrow> 0 < length ps \<and> list_all sp_passed ps"
  by (auto simp: smoke_outcome_status_def list_all_iff)

definition same_digest :: "release_observation \<Rightarrow> bool" where
  "same_digest ob = (case (normalize_digest (rlo_expected_digest ob), normalize_digest (rlo_observed_digest ob)) of
     (Some a, Some b) \<Rightarrow> a = b | _ \<Rightarrow> False)"

lemma pre_smoke_None_iff:
  "pre_smoke_failure ob = None \<longleftrightarrow> same_digest ob \<and> folded_raw (rlo_argo_sync_raw ob) = Some ''synced'' \<and>
     folded_raw (rlo_argo_health_raw ob) = Some ''healthy''"
  by (auto simp: pre_smoke_failure_def digest_failure_def argo_failure_def same_digest_def
      sync_from_raw_iff health_from_raw_iff split: option.splits)

text \<open>
  C38: a deployment is released exactly when every fact says so: the expected and the observed digest are both
  known and equal after trimming, the trimmed and case-folded Argo statuses are \<open>synced\<close> and \<open>healthy\<close>, and at
  least one smoke probe ran and all passed. Every other observation is a failed release that carries a
  reason and the rollback signal.
\<close>

theorem released_iff_every_fact_holds:
  "rld_status (evaluate_release ob) =
     (if same_digest ob \<and> folded_raw (rlo_argo_sync_raw ob) = Some ''synced'' \<and>
         folded_raw (rlo_argo_health_raw ob) = Some ''healthy'' \<and>
         0 < length (rlo_smoke ob) \<and> list_all sp_passed (rlo_smoke ob)
      then ReleaseStatus_RELEASED else ReleaseStatus_RELEASE_FAILED) \<and>
   (case rld_status (evaluate_release ob) of
      ReleaseStatus_RELEASED \<Rightarrow> rld_reason (evaluate_release ob) = None \<and> rld_rollback_signal (evaluate_release ob) = None
    | ReleaseStatus_RELEASE_FAILED \<Rightarrow> (\<exists>c cs. rld_reason (evaluate_release ob) = Some (c # cs)) \<and>
        rld_rollback_signal (evaluate_release ob) = Some ROLLBACK_SIGNAL)"
proof (cases "pre_smoke_failure ob")
  case None
  with pre_smoke_None_iff [of ob] smoke_passed_iff [of "rlo_smoke ob"] show ?thesis
    by (cases "smoke_outcome_status (rlo_smoke ob)") (auto simp: evaluate_release_def release_failed_with_def)
next
  case (Some d)
  then obtain c cs where "d = release_failed_with (c # cs)"
    by (auto simp: pre_smoke_failure_def digest_failure_def argo_failure_def or_else_def split: option.splits if_splits)
  with Some pre_smoke_None_iff [of ob] show ?thesis by (auto simp: evaluate_release_def release_failed_with_def)
qed

lemma resolution_fields:
  assumes "release_resolved (Some ob)"
  obtains res where "build_release_resolution cp ob now = Inr res"
    and "res_stage res = res_stage cp" "res_run_id res = res_run_id cp" "res_change_id res = res_change_id cp"
      "res_attempt_number res = res_attempt_number cp" "res_input_revision res = res_input_revision cp"
      "res_usage res = None" "res_escalations res = []" "result_violations res = []" "res_produced_at res = now"
    and "res_release res = Some (build_release_evidence (effective_observation cp ob)
        (evaluate_release (effective_observation cp ob))
        (case rlo_verified_at ob of Some t \<Rightarrow> t | None \<Rightarrow> now) (rlo_application ob))"
    and "if rld_status (evaluate_release (effective_observation cp ob)) = ReleaseStatus_RELEASED
      then \<exists>why. res_next_action res = ReleaseAction ''dev'' why \<and> map gr_gate (res_gate_results res) = [Gate_RELEASE] \<and>
        map gr_status (res_gate_results res) = [GateStatus_PASSED] \<and> res_status res = StageStatus_SUCCEEDED
      else \<exists>why. res_next_action res = StopAction StopOutcome_BLOCKED why \<and> res_status res = StageStatus_BLOCKED"
proof (rule that)
  let ?res = "projr (build_release_resolution cp ob now)"
  have [simp]: "rlo_verified_at (effective_observation cp ob) = rlo_verified_at ob"
    "rlo_application (effective_observation cp ob) = rlo_application ob"
    by (simp_all add: effective_observation_def split: prod.splits option.splits)
  show "build_release_resolution cp ob now = Inr ?res"
    using assms by (simp add: build_release_resolution_def Let_def)
  show "res_stage ?res = res_stage cp" "res_run_id ?res = res_run_id cp" "res_change_id ?res = res_change_id cp"
    "res_attempt_number ?res = res_attempt_number cp" "res_input_revision ?res = res_input_revision cp"
    "res_usage ?res = None" "res_escalations ?res = []" "result_violations ?res = []" "res_produced_at ?res = now"
    "res_release ?res = Some (build_release_evidence (effective_observation cp ob)
        (evaluate_release (effective_observation cp ob))
        (case rlo_verified_at ob of Some t \<Rightarrow> t | None \<Rightarrow> now) (rlo_application ob))"
    using assms by (simp_all add: build_release_resolution_def new_result_def result_violations_def Let_def)
  show "if rld_status (evaluate_release (effective_observation cp ob)) = ReleaseStatus_RELEASED
      then \<exists>why. res_next_action ?res = ReleaseAction ''dev'' why \<and> map gr_gate (res_gate_results ?res) = [Gate_RELEASE] \<and>
        map gr_status (res_gate_results ?res) = [GateStatus_PASSED] \<and> res_status ?res = StageStatus_SUCCEEDED
      else \<exists>why. res_next_action ?res = StopAction StopOutcome_BLOCKED why \<and> res_status ?res = StageStatus_BLOCKED"
    using assms by (simp add: build_release_resolution_def new_result_def new_gate_result_def Let_def)
qed

lemma release_gates: "required_gates rt Stage_RELEASE = {Gate_RELEASE}"
  by (cases rt) (simp_all add: required_gates_def route_extra_gates_def)

lemma sorted_release_gates: "sorted_gates (required_gates rt Stage_RELEASE) = [Gate_RELEASE]"
  by (simp add: sorted_gates_def release_gates gate_members_def)

lemma passed_release_gate:
  assumes "map gr_gate gs = [Gate_RELEASE]" and "map gr_status gs = [GateStatus_PASSED]"
  shows "unsatisfied_gates rt Stage_RELEASE gs = []"
proof -
  from assms obtain g where g: "gs = [g]" "gr_gate g = Gate_RELEASE" "gr_status g = GateStatus_PASSED"
    by (cases gs) auto
  with release_gates [of rt] show ?thesis by (simp add: unsatisfied_gates_def latest_gate_statuses_def gate_satisfied_def Let_def)
qed

text \<open>
  C39: resolving the wait for the rollout settles the run. For a run parked on its release attempt and an
  observation that resolves the wait, a result is built; it carries the identity of the waiting attempt,
  verbatim, and the release evidence; the flow engine takes it; and the run ends succeeded exactly when the
  facts release the deployment, no limit is exhausted, the effective class is inside the route's band, and no
  recorded result carries an unavailable required evidence or an open blocker.
\<close>

theorem release_resolution_settles_run:
  assumes observed: "release_resolved (Some ob)"
    and live: "\<not> run_terminal (cr_status r)"
    and parked: "active_stage_run r Stage_RELEASE = Some i"
    and checkpoint: "res_stage cp = Stage_RELEASE" "res_run_id cp = cr_id r" "res_change_id cp = cr_change_id r"
      "res_attempt_number cp = sr_attempt_number (cr_stages r ! i)"
  shows "\<exists>res d r'. build_release_resolution cp ob now = Inr res \<and>
    res_stage res = Stage_RELEASE \<and> res_run_id res = res_run_id cp \<and> res_change_id res = res_change_id cp \<and>
    res_attempt_number res = res_attempt_number cp \<and> res_input_revision res = res_input_revision cp \<and>
    map_option re_decision (res_release res) = Some (rld_status (evaluate_release (effective_observation cp ob))) \<and>
    apply_result clk res history now' ctx ds r = (Inr d, r') \<and>
    (cr_status r' = RunStatus_SUCCEEDED \<longleftrightarrow>
       rld_status (evaluate_release (effective_observation cp ob)) = ReleaseStatus_RELEASED \<and>
       continuation_violations (cr_budget r) now' = [] \<and> route_allows_risk (cr_route r) (run_risk_class r) \<and>
       concat (map result_violations history) = [])"
proof -
  obtain res where res: "build_release_resolution cp ob now = Inr res"
    and idn: "res_stage res = res_stage cp" "res_run_id res = res_run_id cp" "res_change_id res = res_change_id cp"
      "res_attempt_number res = res_attempt_number cp" "res_input_revision res = res_input_revision cp"
      "res_usage res = None" "res_escalations res = []" "result_violations res = []"
    and ev: "res_release res = Some (build_release_evidence (effective_observation cp ob)
        (evaluate_release (effective_observation cp ob))
        (case rlo_verified_at ob of Some t \<Rightarrow> t | None \<Rightarrow> now) (rlo_application ob))"
    and act: "if rld_status (evaluate_release (effective_observation cp ob)) = ReleaseStatus_RELEASED
      then \<exists>why. res_next_action res = ReleaseAction ''dev'' why \<and> map gr_gate (res_gate_results res) = [Gate_RELEASE] \<and>
        map gr_status (res_gate_results res) = [GateStatus_PASSED] \<and> res_status res = StageStatus_SUCCEEDED
      else \<exists>why. res_next_action res = StopAction StopOutcome_BLOCKED why \<and> res_status res = StageStatus_BLOCKED"
    by (rule resolution_fields [OF observed])
  have "result_accepted r res"
    using act live parked checkpoint idn
    by (auto simp: result_accepted_def attempt_accepted_def split: if_splits)
  from apply_result_enters [OF this, of clk history now' ctx ds] obtain j r1 where e: "entered r r1 j res"
    and eq: "apply_result clk res history now' ctx ds r = handle_action clk j res history now' ctx ds r1" by blast
  define r2 where "r2 = charged (res_usage res) r1"
  with e idn have ip: "in_progress r2 j" and same: "cr_route r2 = cr_route r" "run_risk_class r2 = run_risk_class r"
      "cr_budget r2 = cr_budget r"
    by (simp_all add: entered_def in_progress_def accumulate_usage_def)
  have "\<exists>d r'. handle_action clk j res history now' ctx ds r1 = (Inr d, r') \<and>
    (cr_status r' = RunStatus_SUCCEEDED \<longleftrightarrow>
       rld_status (evaluate_release (effective_observation cp ob)) = ReleaseStatus_RELEASED \<and>
       continuation_violations (cr_budget r) now' = [] \<and> route_allows_risk (cr_route r) (run_risk_class r) \<and>
       concat (map result_violations history) = [])"
  proof (cases "rld_status (evaluate_release (effective_observation cp ob)) = ReleaseStatus_RELEASED")
    case True
    with act obtain why where rel: "res_next_action res = ReleaseAction ''dev'' why"
      and gates: "unsatisfied_gates (cr_route r) Stage_RELEASE (res_gate_results res) = []"
      using passed_release_gate by auto
    have "handle_action clk j res history now' ctx ds r1 = handle_release clk j res history now' r2"
      by (simp add: handle_action_run rel r2_def)
    moreover have "first_some [block_reason r2 (res_stage res) (res_gate_results res) now',
        escalation_stop_reason (res_escalations res), risk_band_reason r2] = None \<longleftrightarrow>
        continuation_violations (cr_budget r) now' = [] \<and> route_allows_risk (cr_route r) (run_risk_class r)"
      using gates idn same checkpoint(1) by (simp add: first_some_nil_iff stop_reason_simps del: first_some.simps)
    moreover have "completion_violations RunStatus_SUCCEEDED (history @ [res]) = concat (map result_violations history)"
      using idn by (simp add: completion_violations_def)
    ultimately show ?thesis
      using True by (cases "first_some [block_reason r2 (res_stage res) (res_gate_results res) now',
          escalation_stop_reason (res_escalations res), risk_band_reason r2]")
        (auto simp: handle_release_run [OF ip] settle_def simp del: first_some.simps)
  next
    case False
    with act obtain why where "res_next_action res = StopAction StopOutcome_BLOCKED why" by auto
    then have "handle_action clk j res history now' ctx ds r1 = handle_stop clk j res StopOutcome_BLOCKED r2"
      by (simp add: handle_action_run r2_def)
    with False show ?thesis by (simp add: handle_stop_run [OF ip] settle_def)
  qed
  with res idn ev checkpoint eq show ?thesis by (auto simp: build_release_evidence_def)
qed

definition sample_rollout :: release_observation where
  "sample_rollout = \<lparr>rlo_expected_digest = Some ''sha256:1'', rlo_observed_digest = Some '' sha256:1'',
     rlo_argo_sync_raw = Some ''synced'', rlo_argo_health_raw = Some ''HEALTHY'',
     rlo_smoke = [\<lparr>sp_name = ''http'', sp_passed = True, sp_detail = None\<rparr>], rlo_application = None, rlo_verified_at = None\<rparr>"

theorem release_resolution_settles_run_witness:
  "\<exists>res d r'. build_release_resolution (sample_wait Stage_RELEASE) sample_rollout 0 = Inr res \<and>
     apply_result 0 res [] 0 None [] (sample_parked Route_QUICK Stage_RELEASE) = (Inr d, r') \<and>
     cr_status r' = RunStatus_SUCCEEDED"
proof -
  let ?r = "sample_parked Route_QUICK Stage_RELEASE" and ?cp = "sample_wait Stage_RELEASE"
  have observed: "release_resolved (Some sample_rollout)" by code_simp
  have live: "\<not> run_terminal (cr_status ?r)" by code_simp
  have parked: "active_stage_run ?r Stage_RELEASE = Some 0" by code_simp
  have cp: "res_stage ?cp = Stage_RELEASE" "res_run_id ?cp = cr_id ?r" "res_change_id ?cp = cr_change_id ?r"
    "res_attempt_number ?cp = sr_attempt_number (cr_stages ?r ! 0)" by code_simp+
  have facts: "rld_status (evaluate_release (effective_observation ?cp sample_rollout)) = ReleaseStatus_RELEASED"
    "continuation_violations (cr_budget ?r) 0 = []" "route_allows_risk (cr_route ?r) (run_risk_class ?r)" by code_simp+
  from release_resolution_settles_run [OF observed live parked cp, where now = 0 and now' = 0 and clk = 0 and
      history = "[]" and ctx = None and ds = "[]"] facts
  show ?thesis by auto
qed

lemma promote_waiting_iff:
  "promote x clk ctx w = (res, w') \<Longrightarrow> res_status res = StageStatus_WAITING \<longleftrightarrow>
     (\<exists>digest h cr. normalize_digest (rx_expected_digest x) = Some digest \<and>
        promotion_effects x ctx digest w = (Inr (h, cr), w') \<and>
        res = release_waiting (rx_gitops_repository x) ctx (promotion_branch ctx) digest h cr clk)"
  by (auto simp: promote_def release_blocked_def release_waiting_def executor_result_def new_result_def
      split: option.splits prod.splits sum.splits)

text \<open>
  Promoting a digest fails closed. Whatever the ports do, an attempt at the release stage keeps its identity,
  leaves every required gate unsatisfied and returns an action the flow engine allows at that stage; it waits
  exactly when a digest is configured and the branch, the commit and the change request were all made, and
  without a digest it blocks and the outside world is not touched.
\<close>

theorem promotion_fails_closed:
  "let ctx = build_context ch Stage_RELEASE rt run_id rv budget n risk contract enforce conversation ph;
       res = fst (release_stage_executor x inner clk ctx w); w' = snd (release_stage_executor x inner clk ctx w)
   in res_stage res = Stage_RELEASE \<and> res_run_id res = run_id \<and> res_change_id res = ch_id ch \<and>
      res_attempt_number res = n \<and> res_input_revision res = rv \<and>
      action_type (res_next_action res) \<in> FLOW_TRANSITIONS Stage_RELEASE \<and>
      res_status res = expected_result_status (res_next_action res) \<and>
      unsatisfied_gates rt Stage_RELEASE (res_gate_results res) = [Gate_RELEASE] \<and>
      (case normalize_digest (rx_expected_digest x) of
         None \<Rightarrow> res_status res = StageStatus_BLOCKED \<and> w' = w
       | Some digest \<Rightarrow> res_status res =
           (if isl (fst (promotion_effects x ctx digest w)) then StageStatus_BLOCKED else StageStatus_WAITING) \<and>
           w' = snd (promotion_effects x ctx digest w))"
proof -
  let ?ctx = "build_context ch Stage_RELEASE rt run_id rv budget n risk contract enforce conversation ph"
  have gates: "unsatisfied_gates rt Stage_RELEASE (pending_gate_results G) = [Gate_RELEASE]" for G
  proof -
    have "unsatisfied_gates rt Stage_RELEASE (pending_gate_results G) = sorted_gates (required_gates rt Stage_RELEASE)"
      by (rule unsatisfied_all) (auto simp: pending_gate_results_def new_gate_result_def gate_satisfied_def)
    also have "\<dots> = [Gate_RELEASE]" by (rule sorted_release_gates)
    finally show ?thesis .
  qed
  have at_stage: "sx_stage ?ctx = Stage_RELEASE" by (simp add: build_context_def Let_def)
  note fields = release_blocked_def release_waiting_def executor_result_def new_result_def build_context_def gates Let_def
  have run: "release_stage_executor x inner clk ?ctx w = promote x clk ?ctx w"
    by (simp add: release_stage_executor_def at_stage)
  show ?thesis
  proof (cases "normalize_digest (rx_expected_digest x)")
    case None
    then show ?thesis unfolding Let_def run by (simp add: promote_def fields)
  next
    case (Some digest)
    show ?thesis
    proof (cases "promotion_effects x ?ctx digest w")
      case (Pair r w')
      with Some show ?thesis
        unfolding Let_def run by (cases r) (auto simp: promote_def fields split: prod.splits)
    qed
  qed
qed

text \<open>
  A promotion is minted once. On the in-memory source control, an attempt that reached the wait and is run again,
  at any later moment, returns the same result (its own timestamp apart) and changes nothing: no second branch,
  commit or change request.
\<close>

theorem promotion_minted_once:
  assumes "scm_sound w" and ports: "rx_repository x = fake_repository_port" "rx_merge_requests x = fake_merge_request_port"
    and first: "promote x clk ctx w = (res, w')" and "res_status res = StageStatus_WAITING"
  shows "promote x clk' ctx w' = (res\<lparr>res_produced_at := clk'\<rparr>, w')"
proof -
  from promote_waiting_iff [OF first] assms(5) obtain digest h cr
    where d: "normalize_digest (rx_expected_digest x) = Some digest"
      and e: "promotion_effects x ctx digest w = (Inr (h, cr), w')"
      and res: "res = release_waiting (rx_gitops_repository x) ctx (promotion_branch ctx) digest h cr clk" by blast
  from fake_scm.promotion_replays [OF assms(1) ports e] d res show ?thesis
    by (simp add: promote_def release_waiting_def executor_result_def new_result_def)
qed

definition sample_executor :: "fake_world release_executor" where
  "sample_executor = \<lparr>rx_repository = fake_repository_port, rx_merge_requests = fake_merge_request_port,
     rx_gitops_repository = sample_repository, rx_expected_digest = Some ''sha256:1'', rx_target_branch = ''main''\<rparr>"

definition sample_gitops :: fake_world where
  "sample_gitops = new_fake_world\<lparr>fwd_repository :=
     snd (fake_ensure_branch sample_repository ''main'' ''base'' ''k1'' new_fake_repository)\<rparr>"

definition sample_release_context :: stage_context where
  "sample_release_context = build_context sample_change Stage_RELEASE Route_QUICK ''r1'' (Some ''abc'') default_budget 1
     None None False None None"

theorem promotion_minted_once_witness:
  "let out = promote sample_executor 0 sample_release_context sample_gitops
   in res_status (fst out) = StageStatus_WAITING \<and>
      promote sample_executor 9 sample_release_context (snd out) = ((fst out)\<lparr>res_produced_at := 9\<rparr>, snd out)"
proof -
  let ?out = "promote sample_executor 0 sample_release_context sample_gitops"
  have sound: "scm_sound sample_gitops"
    by (simp add: scm_sound_def requests_sound_def sample_gitops_def new_fake_world_def new_fake_merge_requests_def)
  have ports: "rx_repository sample_executor = fake_repository_port" "rx_merge_requests sample_executor = fake_merge_request_port"
    by (simp_all add: sample_executor_def)
  have wait: "res_status (fst ?out) = StageStatus_WAITING" by code_simp
  have out: "?out = (fst ?out, snd ?out)" by simp
  from promotion_minted_once [OF sound ports out wait, of 9] wait show ?thesis by (simp only: Let_def simp_thms)
qed

end
