(* ===== verification/Runner.thy ===== *)
theory Runner
  imports RunStore_Safety Release
begin

text \<open>
  The durable run driver (\<open>orchestration/runner.py\<close>): one advance of one run by one stage decision, over the run store,
  the flow engine, the wait resolvers and an injected executor. The run the driver holds in memory is passed
  from step to step; the store is the state. \<open>advance_run\<close> is the body, \<open>advance_in_transaction\<close> the call inside
  the caller's transaction, whose writes an exception rolls back. What other transactions commit between the unlocked
  read and the lease is the argument \<open>others\<close>; the executor, the revision resolver and the two facts providers are
  fields of the call, and since the driver asks some of them more than once their answers may differ by moment.

  The lemmas show that the attempt the driver executes is one the flow engine accepts. What the driver relies on in an
  executor is the locale \<open>stage_executor\<close>, interpreted on the deterministic executor and on the release executor over it.
\<close>

section \<open>Errors, outcomes, the call\<close>

datatype runner_error =
    RunNotFound string
  | RunIsTerminalError string run_status
  | NoStageLeft string
  | NotPersisted stage string
  | OfStore run_store_error
  | OfFlow flow_error
  | OfRunStatus "run_status status_error"
  | OfGateResolution resolution_error
  | OfReleaseResolution port_error
  | Escaped string

datatype run_advance_outcome =
    Advance_ADVANCED | Advance_WAITING | Advance_BLOCKED | Advance_COMPLETED | Advance_FAILED | Advance_REPLAYED

record run_advance =
  adv_outcome :: run_advance_outcome
  adv_stage :: stage
  adv_result :: stage_result
  adv_decision :: "flow_decision option"

datatype moment = Before_lease | Under_lease | After_decision

record advance_call =
  ax_change :: change
  ax_run_id :: string
  ax_owner_id :: string
  ax_executor :: "stage_context \<Rightarrow> string + stage_result"
  ax_revision_of :: "(moment \<Rightarrow> change \<Rightarrow> stage \<Rightarrow> string + string) option"
  ax_merge_context :: "merge_request_context option"
  ax_human_decisions :: "decision list"
  ax_gate_facts :: "(moment \<Rightarrow> change_run \<Rightarrow> stage \<Rightarrow> change \<Rightarrow> string + gate_observation option) option"
  ax_release_facts :: "(moment \<Rightarrow> change_run \<Rightarrow> stage \<Rightarrow> change \<Rightarrow> string + release_observation option) option"
  ax_lease_ttl :: duration
  ax_now :: instant
  ax_clk :: instant
  ax_conversation :: "conversation_inputs option"
  ax_phase :: "phase option"
  ax_digest :: "string \<Rightarrow> string"
  ax_to_json :: "change \<Rightarrow> string"
  ax_payload :: "stage_result \<Rightarrow> flow_decision \<Rightarrow> string"

type_synonym 'a runner_op = "(run_store, runner_error, 'a) sem"

definition on_store :: "'a store_op \<Rightarrow> 'a runner_op" where
  "on_store m = (\<lambda>s. case m s of (out, s') \<Rightarrow> (map_sum OfStore id out, s'))"

definition of_sum :: "('e \<Rightarrow> runner_error) \<Rightarrow> 'e + 'a \<Rightarrow> 'a runner_op" where
  "of_sum f x = (\<lambda>s. (map_sum f id x, s))"

section \<open>The attempt an advance executes\<close>

definition run_next_stage :: "change_run \<Rightarrow> stage option" where
  "run_next_stage r = find (\<lambda>st. \<exists>sr\<in>set (cr_stages r). sr_stage sr = st \<and> \<not> stage_terminal (sr_status sr))
     (rp_stages (ROUTE_PROFILES (cr_route r)))"

definition outcome_for :: "flow_decision \<Rightarrow> run_advance_outcome" where
  "outcome_for d =
     (if run_terminal (fd_run_status d)
      then (if fd_run_status d = RunStatus_SUCCEEDED then Advance_COMPLETED else Advance_FAILED)
      else if fd_run_status d = RunStatus_WAITING then Advance_WAITING
      else if fd_run_status d = RunStatus_BLOCKED then Advance_BLOCKED
      else Advance_ADVANCED)"

definition active_stage_runs :: "change_run \<Rightarrow> stage \<Rightarrow> stage_run list" where
  "active_stage_runs r st = filter (\<lambda>sr. sr_stage sr = st \<and> \<not> stage_terminal (sr_status sr)) (cr_stages r)"

definition next_attempt_number :: "change_run \<Rightarrow> stage \<Rightarrow> int" where
  "next_attempt_number r st =
     (let active = active_stage_runs r st in
      if active = [] then 1
      else if sr_status (last active) \<in> retryable_stage_statuses then sr_attempt_number (last active) + 1
      else sr_attempt_number (last active))"

definition pinned_revision :: "advance_call \<Rightarrow> moment \<Rightarrow> change_run \<Rightarrow> stage \<Rightarrow> runner_error + string" where
  "pinned_revision x m r st =
     (let active = active_stage_runs r st in
      case (if active = [] then None else sr_input_revision (last active)) of
        Some rv \<Rightarrow> Inr rv
      | None \<Rightarrow> (case ax_revision_of x of
            Some f \<Rightarrow> map_sum Escaped id (f m (ax_change x) st)
          | None \<Rightarrow> Inr (stage_input_revision (ax_digest x) (ax_to_json x) (ax_change x))))"

definition advanceable_run :: "string \<Rightarrow> change_run runner_op" where
  "advanceable_run run_id = (\<lambda>s. case load run_id s of
       None \<Rightarrow> (Inl (RunNotFound run_id), s)
     | Some r \<Rightarrow> if run_terminal (cr_status r) then (Inl (RunIsTerminalError run_id (cr_status r)), s) else (Inr r, s))"

definition next_stage_to_execute :: "change_run \<Rightarrow> stage runner_op" where
  "next_stage_to_execute r = (case run_next_stage r of None \<Rightarrow> sm_raise (NoStageLeft (cr_id r)) | Some st \<Rightarrow> sm_return st)"

record advance_identity =
  aid_run :: change_run
  aid_stage :: stage
  aid_attempt_number :: int
  aid_input_revision :: string

definition derive_identity :: "advance_call \<Rightarrow> moment \<Rightarrow> advance_identity runner_op" where
  "derive_identity x m =
     sm_bind (advanceable_run (ax_run_id x)) (\<lambda>r.
     sm_bind (next_stage_to_execute r) (\<lambda>st.
     sm_bind (of_sum id (pinned_revision x m r st)) (\<lambda>rv.
     sm_return \<lparr>aid_run = r, aid_stage = st, aid_attempt_number = next_attempt_number r st, aid_input_revision = rv\<rparr>)))"

definition committed_of :: "advance_identity \<Rightarrow> run_store \<Rightarrow> stage_result option" where
  "committed_of i = committed_result (cr_id (aid_run i)) (aid_stage i) (aid_attempt_number i) (aid_input_revision i)"

definition replayed_advance :: "stage_result \<Rightarrow> stage \<Rightarrow> run_advance" where
  "replayed_advance committed st = \<lparr>adv_outcome = Advance_REPLAYED, adv_stage = st, adv_result = committed, adv_decision = None\<rparr>"

section \<open>Resolving a wait\<close>

datatype wait_resolver =
    Gate_resolver stage_result gate_observation
  | Release_resolver stage_result release_observation

record wait_resolution =
  wx_result :: stage_result
  wx_merge_context :: "merge_request_context option"
  wx_approvals :: "decision list"

definition resolved_wait :: "advance_call \<Rightarrow> moment \<Rightarrow> advance_identity \<Rightarrow> stage_result \<Rightarrow> wait_resolver option runner_op" where
  "resolved_wait x m i checkpoint =
     (if res_status checkpoint \<noteq> StageStatus_WAITING then sm_return None
      else if aid_stage i = Stage_RELEASE then
        (case ax_release_facts x of
           None \<Rightarrow> sm_return None
         | Some facts \<Rightarrow> sm_bind (of_sum Escaped (facts m (aid_run i) (aid_stage i) (ax_change x))) (\<lambda>ob.
             sm_return (if release_resolved ob then Some (Release_resolver checkpoint (the ob)) else None)))
      else
        (case ax_gate_facts x of
           None \<Rightarrow> sm_return None
         | Some facts \<Rightarrow> sm_bind (of_sum Escaped (facts m (aid_run i) (aid_stage i) (ax_change x))) (\<lambda>ob.
             sm_return (if gate_resolved ob (aid_stage i) (cr_route (aid_run i)) (run_risk_class (aid_run i))
                        then Some (Gate_resolver checkpoint (the ob)) else None))))"

fun resolve_with :: "wait_resolver \<Rightarrow> advance_call \<Rightarrow> advance_identity \<Rightarrow> change_run \<Rightarrow> stage_result list \<Rightarrow> runner_error + wait_resolution" where
  "resolve_with (Gate_resolver checkpoint ob) x i r history =
     map_sum OfGateResolution (\<lambda>g. \<lparr>wx_result = gx_result g, wx_merge_context = gx_merge_context g, wx_approvals = go_approvals ob\<rparr>)
       (build_gate_resolution r (aid_stage i) (ax_change x) checkpoint ob (aid_input_revision i) (aid_attempt_number i)
          history (ax_now x))"
| "resolve_with (Release_resolver checkpoint ob) x i r history =
     map_sum OfReleaseResolution (\<lambda>res. \<lparr>wx_result = res, wx_merge_context = None, wx_approvals = []\<rparr>)
       (build_release_resolution checkpoint ob (ax_now x))"

text \<open>Every result is an instance of \<open>StageResult\<close>, whose constructor validates it.\<close>

definition validated :: "stage_result \<Rightarrow> runner_error + stage_result" where
  "validated result = (if stage_result_valid result then Inr result else Inl (Escaped ''ValidationError''))"

section \<open>Opening, deciding, persisting\<close>

record opened_attempt =
  oa_open_stage :: open_stage
  oa_expected_revision :: int
  oa_known_stage_runs :: nat

definition open_identity :: "advance_call \<Rightarrow> advance_identity \<Rightarrow> (opened_attempt \<times> change_run) runner_op" where
  "open_identity x i =
     (let r = aid_run i in
      sm_bind (if cr_status r = RunStatus_RUNNING then sm_return r
               else of_sum OfRunStatus (run_apply_status (ax_clk x) RunStatus_RUNNING r)) (\<lambda>running.
      sm_bind (on_store (open_attempt (ax_clk x) running (aid_stage i) (aid_input_revision i) (aid_attempt_number i))) (\<lambda>opn.
      sm_return (\<lparr>oa_open_stage = opn, oa_expected_revision = cr_state_revision r,
                  oa_known_stage_runs = length (cr_stages running)\<rparr>, running))))"

text \<open>
  The stage runs the decision created are the ones behind those the run had before it, since the flow engine
  only appends. The revision of each is pinned in turn and written back onto the run.
\<close>

fun created_stages :: "advance_call \<Rightarrow> nat list \<Rightarrow> change_run \<Rightarrow> runner_error + (stage_placement list \<times> change_run)" where
  "created_stages x [] r = Inr ([], r)"
| "created_stages x (k # ks) r =
     (case pinned_revision x After_decision r (sr_stage (cr_stages r ! k)) of
        Inl e \<Rightarrow> Inl e
      | Inr rv \<Rightarrow>
          (let r1 = r\<lparr>cr_stages := (cr_stages r)[k := (cr_stages r ! k)\<lparr>sr_input_revision := Some rv\<rparr>]\<rparr> in
           case created_stages x ks r1 of
             Inl e \<Rightarrow> Inl e
           | Inr (ps, r2) \<Rightarrow> Inr (\<lparr>pl_stage = sr_stage (cr_stages r ! k), pl_input_revision = rv\<rparr> # ps, r2)))"

definition persist_and_report ::
    "advance_call \<Rightarrow> int \<Rightarrow> advance_identity \<Rightarrow> opened_attempt \<Rightarrow> stage_result \<Rightarrow> flow_decision \<Rightarrow> change_run \<Rightarrow> run_advance runner_op" where
  "persist_and_report x token i opn result d r =
     sm_bind (of_sum id (created_stages x [oa_known_stage_runs opn..<length (cr_stages r)] r)) (\<lambda>(created, r1).
     sm_bind (on_store (persist_decision (ax_digest x) (ax_payload x) r1 result d (oa_open_stage opn) created
                (oa_expected_revision opn) token (ax_now x) STAGE_COMPLETED_CONSUMERS)) (\<lambda>persisted.
     sm_bind (on_store (release_lease (cr_id r1) (ax_owner_id x) token)) (\<lambda>_.
     if persisted
     then sm_return \<lparr>adv_outcome = outcome_for d, adv_stage = fd_stage d, adv_result = result, adv_decision = Some d\<rparr>
     else (\<lambda>s. case committed_result (cr_id r1) (aid_stage i) (res_attempt_number result)
                      (case res_input_revision result of None \<Rightarrow> [] | Some v \<Rightarrow> v) s of
             None \<Rightarrow> (Inl (NotPersisted (aid_stage i) (cr_id r1)), s)
           | Some committed \<Rightarrow> (Inr (replayed_advance committed (aid_stage i)), s)))))"

definition decide ::
    "advance_call \<Rightarrow> stage_result \<Rightarrow> stage_result list \<Rightarrow> merge_request_context option \<Rightarrow> decision list \<Rightarrow> change_run
      \<Rightarrow> (flow_decision \<times> change_run) runner_op" where
  "decide x result history merge_context decisions r =
     (case apply_result (ax_clk x) result history (ax_now x) merge_context decisions r of
        (Inl e, _) \<Rightarrow> sm_raise (OfFlow e)
      | (Inr d, r') \<Rightarrow> sm_return (d, r'))"

definition resume :: "advance_call \<Rightarrow> int \<Rightarrow> advance_identity \<Rightarrow> wait_resolver \<Rightarrow> run_advance runner_op" where
  "resume x token i resolver =
     sm_bind (open_identity x i) (\<lambda>(opn, r).
     sm_bind (sm_gets (load_history (cr_id r))) (\<lambda>history.
     sm_bind (of_sum id (resolve_with resolver x i r history)) (\<lambda>resolution.
     sm_bind (of_sum id (validated (wx_result resolution))) (\<lambda>result.
     sm_bind (decide x result history (or_else (wx_merge_context resolution) (ax_merge_context x))
                (ax_human_decisions x @ wx_approvals resolution) r) (\<lambda>(d, r').
     persist_and_report x token i opn result d r')))))"

definition context_of :: "advance_call \<Rightarrow> advance_identity \<Rightarrow> change_run \<Rightarrow> stage_context" where
  "context_of x i r = build_context (ax_change x) (aid_stage i) (cr_route r) (cr_id r) (Some (aid_input_revision i))
     (cr_budget r) (aid_attempt_number i) (Some (run_risk_class r)) (cr_implementation_contract r) True
     (ax_conversation x) (ax_phase x)"

definition execute_attempt :: "advance_call \<Rightarrow> int \<Rightarrow> advance_identity \<Rightarrow> run_advance runner_op" where
  "execute_attempt x token i =
     sm_bind (open_identity x i) (\<lambda>(opn, r).
     sm_bind (of_sum Escaped (ax_executor x (context_of x i r))) (\<lambda>made.
     sm_bind (of_sum id (validated made)) (\<lambda>result.
     sm_bind (sm_gets (load_history (cr_id r))) (\<lambda>history.
     sm_bind (decide x result history (ax_merge_context x) (ax_human_decisions x) r) (\<lambda>(d, r').
     persist_and_report x token i opn result d r')))))"

definition advance_under_lease :: "advance_call \<Rightarrow> int \<Rightarrow> run_advance runner_op" where
  "advance_under_lease x token =
     sm_bind (derive_identity x Under_lease) (\<lambda>i.
     sm_bind (sm_gets (committed_of i)) (\<lambda>committed.
     case committed of
       None \<Rightarrow> execute_attempt x token i
     | Some c \<Rightarrow>
         sm_bind (resolved_wait x Under_lease i c) (\<lambda>resolver.
         case resolver of
           Some rv \<Rightarrow> resume x token i rv
         | None \<Rightarrow> sm_bind (on_store (release_lease (cr_id (aid_run i)) (ax_owner_id x) token)) (\<lambda>_.
             sm_return (replayed_advance c (aid_stage i))))))"

definition advance_run :: "(run_store \<Rightarrow> run_store) \<Rightarrow> advance_call \<Rightarrow> run_advance runner_op" where
  "advance_run others x =
     sm_bind (derive_identity x Before_lease) (\<lambda>i.
     sm_bind (sm_gets (committed_of i)) (\<lambda>committed.
     sm_bind (case committed of None \<Rightarrow> sm_return None
              | Some c \<Rightarrow> sm_bind (resolved_wait x Before_lease i c) (\<lambda>resolver.
                  sm_return (if resolver = None then Some (replayed_advance c (aid_stage i)) else None))) (\<lambda>inert.
     case inert of
       Some a \<Rightarrow> sm_return a
     | None \<Rightarrow>
         sm_bind (sm_modify others) (\<lambda>_.
         sm_bind (on_store (acquire_lease (ax_clk x) (cr_id (aid_run i)) (ax_owner_id x) (ax_lease_ttl x)))
           (advance_under_lease x)))))"

definition advance_in_transaction :: "(run_store \<Rightarrow> run_store) \<Rightarrow> advance_call \<Rightarrow> run_store \<Rightarrow> (runner_error + run_advance) \<times> run_store" where
  "advance_in_transaction others x s = (case advance_run others x s of (Inl e, _) \<Rightarrow> (Inl e, others s) | returned \<Rightarrow> returned)"

section \<open>Steps of the driver\<close>

lemma on_store_Inr [simp]: "on_store m s = (Inr a, s') \<longleftrightarrow> m s = (Inr a, s')"
  by (cases "m s"; cases "fst (m s)") (auto simp: on_store_def)

lemma on_store_Inl [simp]: "on_store m s = (Inl e, s') \<longleftrightarrow> (\<exists>e'. m s = (Inl e', s') \<and> e = OfStore e')"
  by (cases "m s"; cases "fst (m s)") (auto simp: on_store_def)

lemma of_sum_Inr [simp]: "of_sum f y s = (Inr a, s') \<longleftrightarrow> y = Inr a \<and> s' = s"
  by (cases y) (auto simp: of_sum_def)

lemma of_sum_Inl [simp]: "of_sum f y s = (Inl e, s') \<longleftrightarrow> (\<exists>e'. y = Inl e' \<and> e = f e') \<and> s' = s"
  by (cases y) (auto simp: of_sum_def)

lemma gets_Inr [simp]: "sm_gets g s = (Inr a, s') \<longleftrightarrow> a = g s \<and> s' = s" "sm_gets g s \<noteq> (Inl e, s')"
  "sm_return b s = (Inr a, s') \<longleftrightarrow> a = b \<and> s' = s" "sm_return b s \<noteq> (Inl e, s')"
  by (auto simp: sem_simps)

lemma keeps_on_store: "keeps R m \<Longrightarrow> keeps R (on_store m)"
  by (simp add: keeps_def on_store_def split: prod.split) (metis snd_conv)

lemma keeps_of_sum: "(\<And>s. R s s) \<Longrightarrow> keeps R (of_sum f y)"
  by (simp add: keeps_def of_sum_def)

lemmas bind_cases = sm_bind_eq_Inr sm_bind_eq_Inl

lemma validated_Inr [simp]: "validated a = Inr b \<longleftrightarrow> stage_result_valid a \<and> b = a"
  by (auto simp: validated_def)

section \<open>The attempt and the flow engine\<close>

lemma active_runs_map:
  "active_stage_runs r st = map (\<lambda>i. cr_stages r ! i)
     (filter (\<lambda>i. sr_stage (cr_stages r ! i) = st \<and> \<not> stage_terminal (sr_status (cr_stages r ! i))) [0..<length (cr_stages r)])"
proof -
  have "cr_stages r = map (\<lambda>i. cr_stages r ! i) [0..<length (cr_stages r)]" by (simp add: map_nth)
  then have "active_stage_runs r st = filter (\<lambda>sr. sr_stage sr = st \<and> \<not> stage_terminal (sr_status sr))
      (map (\<lambda>i. cr_stages r ! i) [0..<length (cr_stages r)])" by (simp add: active_stage_runs_def)
  then show ?thesis by (simp add: filter_map comp_def)
qed

lemma active_runs_of_flow:
  "case active_stage_run r st of
     None \<Rightarrow> active_stage_runs r st = []
   | Some k \<Rightarrow> active_stage_runs r st \<noteq> [] \<and> last (active_stage_runs r st) = cr_stages r ! k"
  by (simp add: active_stage_run_def active_runs_map Let_def last_map)

text \<open>The number the driver picks is one \<open>ensure_stage_run\<close> takes: the same attempt for a resume, the next one for a retry.\<close>

lemma next_attempt_accepted:
  assumes "res_attempt_number res = next_attempt_number r (res_stage res)"
  shows "attempt_accepted r res"
proof (cases "active_stage_run r (res_stage res)")
  case None
  with active_runs_of_flow [of r "res_stage res"] assms show ?thesis
    by (simp add: attempt_accepted_def next_attempt_number_def)
next
  case (Some k)
  with active_runs_of_flow [of r "res_stage res"] assms show ?thesis
    by (auto simp: attempt_accepted_def next_attempt_number_def Let_def split: if_splits)
qed

lemma stages_only [simp]:
  "next_attempt_number (r\<lparr>cr_status := a, cr_state_revision := b, cr_updated_at := c, cr_finished_at := d\<rparr>) st = next_attempt_number r st"
  by (simp add: next_attempt_number_def active_stage_runs_def)

lemma derive_identity_Inr:
  "derive_identity x m s = (Inr i, s') \<longleftrightarrow> s' = s \<and> load (ax_run_id x) s = Some (aid_run i) \<and>
     \<not> run_terminal (cr_status (aid_run i)) \<and> run_next_stage (aid_run i) = Some (aid_stage i) \<and>
     aid_attempt_number i = next_attempt_number (aid_run i) (aid_stage i) \<and>
     pinned_revision x m (aid_run i) (aid_stage i) = Inr (aid_input_revision i)"
  by (cases i)
    (auto simp: derive_identity_def bind_cases advanceable_run_def next_stage_to_execute_def sm_run split: option.splits if_splits)

lemma derive_identity_reads: "keeps (=) (derive_identity x m)"
  unfolding derive_identity_def
  by (intro keeps_bind keeps_of_sum)
    (auto simp: keeps_def advanceable_run_def next_stage_to_execute_def sem_simps split: option.split)

lemma running_reachable: "\<not> run_terminal st \<Longrightarrow> st \<noteq> RunStatus_RUNNING \<Longrightarrow> RunStatus_RUNNING \<in> run_status_transitions st"
  by (cases st) simp_all

text \<open>The run as the driver opened it: only its status and bookkeeping moved.\<close>

definition opened_run :: "change_run \<Rightarrow> change_run \<Rightarrow> bool" where
  "opened_run r r' \<longleftrightarrow> cr_id r' = cr_id r \<and> cr_change_id r' = cr_change_id r \<and> cr_route r' = cr_route r \<and>
     cr_stages r' = cr_stages r \<and> cr_budget r' = cr_budget r \<and>
     cr_implementation_contract r' = cr_implementation_contract r \<and> cr_status r' = RunStatus_RUNNING"

lemma quiet_open_attempt: "keeps quiet (open_attempt now r st rv n)"
proof -
  have "keeps quiet (on_state (append_attempt row k))" for row k
    by (auto simp: keeps_def quiet_def on_state_def append_attempt_def Let_def split: option.splits)
  moreover have "keeps quiet (sm_modify (put_attempt k row t))" for k row t
    by (simp add: keeps_def quiet_def put_attempt_def sem_simps)
  ultimately show ?thesis unfolding open_attempt_def by (intro keeps_quiet quiet_ops)
qed

lemma open_identity_Inr:
  assumes "open_identity x i s = (Inr (opn, r), s')" "\<not> run_terminal (cr_status (aid_run i))"
  shows "opened_run (aid_run i) r" "quiet s s'" "store_evolves s s'"
    "oa_known_stage_runs opn = length (cr_stages r)" "oa_expected_revision opn = cr_state_revision (aid_run i)"
proof -
  from assms(1) obtain opa where
    run: "if cr_status (aid_run i) = RunStatus_RUNNING then r = aid_run i
          else run_apply_status (ax_clk x) RunStatus_RUNNING (aid_run i) = Inr r" and
    op: "open_attempt (ax_clk x) r (aid_stage i) (aid_input_revision i) (aid_attempt_number i) s = (Inr opa, s')" and
    opn: "opn = \<lparr>oa_open_stage = opa, oa_expected_revision = cr_state_revision (aid_run i),
                 oa_known_stage_runs = length (cr_stages r)\<rparr>"
    by (auto simp: open_identity_def bind_cases Let_def split: if_splits)
  show "opened_run (aid_run i) r" using run by (auto simp: opened_run_def split: if_splits)
  show "quiet s s'" using keepsD [OF quiet_open_attempt op] .
  show "store_evolves s s'" using keepsD [OF keeps_open_attempt op] .
  show "oa_known_stage_runs opn = length (cr_stages r)" "oa_expected_revision opn = cr_state_revision (aid_run i)"
    using opn by simp_all
qed

lemma opened_attempt_number: "opened_run r r' \<Longrightarrow> next_attempt_number r' st = next_attempt_number r st"
  by (simp add: opened_run_def next_attempt_number_def active_stage_runs_def)

text \<open>An accepted result that advances to the next stage of the route, if it advances at all, gets its decision.\<close>

lemma accepted_result_decides:
  assumes acc: "result_accepted r res"
    and nxt: "case res_next_action res of
        ExecuteStageAction nxt _ \<Rightarrow> next_stage (ROUTE_PROFILES (cr_route r)) (res_stage res) = Some nxt | _ \<Rightarrow> True"
  shows "\<exists>d r'. apply_result clk res history now ctx ds r = (Inr d, r')"
proof -
  from apply_result_enters [OF acc, of clk history now ctx ds] obtain j r1
    where e: "entered r r1 j res"
      and eq: "apply_result clk res history now ctx ds r = handle_action clk j res history now ctx ds r1"
    by blast
  from e have "in_progress r1 j" "cr_route r1 = cr_route r" by (simp_all add: entered_def)
  from handle_action_returns [OF this(1) acc this(2)] nxt eq show ?thesis by simp
qed

section \<open>Executors\<close>

text \<open>
  What the driver relies on in an executor: the result belongs to the attempt of the context, and on the contexts the
  executor admits its action is one the flow engine knows for the stage, with the status the action demands.
\<close>

definition of_context :: "stage_context \<Rightarrow> stage_result \<Rightarrow> bool" where
  "of_context ctx res \<longleftrightarrow> res_stage res = sx_stage ctx \<and> res_run_id res = sx_run_id ctx \<and>
     res_change_id res = ch_id (sx_change ctx) \<and> res_attempt_number res = sx_attempt_number ctx \<and>
     res_input_revision res = sx_input_revision ctx"

definition flow_action :: "stage_result \<Rightarrow> bool" where
  "flow_action res \<longleftrightarrow> action_type (res_next_action res) \<in> FLOW_TRANSITIONS (res_stage res) \<and>
     res_status res = expected_result_status (res_next_action res) \<and>
     (case res_next_action res of ExecuteStageAction _ _ \<Rightarrow> False | _ \<Rightarrow> True)"

locale stage_executor =
  fixes exec :: "stage_context \<Rightarrow> string + stage_result" and admits :: "stage_context \<Rightarrow> bool"
  assumes identity: "exec ctx = Inr res \<Longrightarrow> of_context ctx res"
    and action: "exec ctx = Inr res \<Longrightarrow> admits ctx \<Longrightarrow> flow_action res"
begin

lemma accepted:
  assumes "exec (context_of x i r) = Inr res" "admits (context_of x i r)" "cr_status r = RunStatus_RUNNING"
    "aid_attempt_number i = next_attempt_number r (aid_stage i)"
  shows "\<exists>d r'. apply_result clk res history now ctx ds r = (Inr d, r')"
proof -
  from identity [OF assms(1)] have res: "res_stage res = aid_stage i" "res_attempt_number res = aid_attempt_number i"
    by (simp_all add: of_context_def context_of_def build_context_def)
  from action [OF assms(1,2)] have act: "flow_action res" .
  have "result_accepted r res"
    using act assms(3,4) res next_attempt_accepted [of res r] by (simp add: result_accepted_def flow_action_def)
  with act show ?thesis
    by (intro accepted_result_decides) (auto simp: flow_action_def split: next_action.splits)
qed

end

section \<open>The executors the driver is run with\<close>

definition deterministic_stage_executor :: "(budget_reason \<Rightarrow> string) \<Rightarrow> instant \<Rightarrow> stage_context \<Rightarrow> stage_result" where
  "deterministic_stage_executor render clk ctx = run_deterministic_stage render ctx clk None"

lemma deterministic_result:
  fixes render clk ctx
  defines "res \<equiv> deterministic_stage_executor render clk ctx"
  shows "of_context ctx res" "res_status res = expected_result_status (res_next_action res)"
    "(\<exists>why. res_next_action res = StopAction StopOutcome_BLOCKED why) \<or> (\<exists>why. res_next_action res = WaitForInputAction why)"
  by (auto simp: res_def deterministic_stage_executor_def run_deterministic_stage_def executor_result_def new_result_def
      of_context_def Let_def split: option.splits)

interpretation deterministic: stage_executor "\<lambda>ctx. Inr (deterministic_stage_executor render clk ctx)" "\<lambda>ctx. sx_stage ctx \<noteq> Stage_RELEASE"
  for render clk
proof
  fix ctx res
  assume r: "Inr (deterministic_stage_executor render clk ctx) = Inr res"
  then show own: "of_context ctx res" using deterministic_result(1) by auto
  assume "sx_stage ctx \<noteq> Stage_RELEASE"
  with own r deterministic_result(2,3) [where render = render and clk = clk and ctx = ctx] show "flow_action res"
    by (cases "sx_stage ctx") (auto simp: flow_action_def of_context_def)
qed

lemma promotion_result:
  "of_context ctx (fst (promote rx clk ctx w))" "sx_stage ctx = Stage_RELEASE \<Longrightarrow> flow_action (fst (promote rx clk ctx w))"
  by (auto simp: promote_def release_blocked_def release_waiting_def executor_result_def new_result_def of_context_def
      flow_action_def split: option.splits prod.splits sum.splits)

text \<open>The release executor completes any executor of the other stages.\<close>

lemma with_release:
  assumes inner: "stage_executor (\<lambda>ctx. Inr (fst (inner ctx w))) (\<lambda>ctx. P ctx \<and> sx_stage ctx \<noteq> Stage_RELEASE)"
  shows "stage_executor (\<lambda>ctx. Inr (fst (release_stage_executor rx inner clk ctx w))) P"
proof
  fix ctx res
  assume r: "(Inr (fst (release_stage_executor rx inner clk ctx w)) :: string + stage_result) = Inr res"
  show "of_context ctx res"
    using r stage_executor.identity [OF inner, of ctx] promotion_result(1) by (auto simp: release_stage_executor_def split: if_splits)
  assume "P ctx"
  then show "flow_action res"
    using r stage_executor.action [OF inner, of ctx] promotion_result(2) by (auto simp: release_stage_executor_def split: if_splits)
qed

interpretation release_over_deterministic:
  stage_executor "\<lambda>ctx. Inr (fst (release_stage_executor rx (\<lambda>ctx w. (deterministic_stage_executor render clk ctx, w)) clk ctx w))" "\<lambda>_. True"
  for rx render clk w
  by (rule with_release) (simp add: deterministic.stage_executor_axioms)

text \<open>
  The default executor cannot run the release stage. Unless it is stopped by a limit, the deterministic path
  answers the release stage with a wait for input, which the transition table of that stage does not contain:
  the flow engine refuses the result whatever the run, so the attempt is never parked.
\<close>

theorem default_executor_refused_at_release:
  "let res = deterministic_stage_executor render clk
        (build_context ch Stage_RELEASE rt run_id rv budget n risk contract enforce conversation ph)
   in if res_status res = StageStatus_WAITING
      then action_type (res_next_action res) = AT_wait_for_input \<and> AT_wait_for_input \<notin> FLOW_TRANSITIONS Stage_RELEASE \<and>
        (if run_terminal (cr_status r) then True
         else apply_result clk' res history now ctx ds r = (Inl (InvalidFlowTransition Stage_RELEASE AT_wait_for_input), r))
      else res_next_action res \<in> range (StopAction StopOutcome_BLOCKED)"
proof -
  let ?ctx = "build_context ch Stage_RELEASE rt run_id rv budget n risk contract enforce conversation ph"
  define res where "res = deterministic_stage_executor render clk ?ctx"
  note d = deterministic_result [where render = render and clk = clk and ctx = ?ctx, folded res_def]
  have st: "res_stage res = Stage_RELEASE" using d(1) by (simp add: of_context_def build_context_def)
  from d(3) show ?thesis
  proof
    assume "\<exists>why. res_next_action res = WaitForInputAction why"
    with d(2) st show ?thesis unfolding res_def [symmetric] Let_def by (auto simp: apply_result_def Let_def)
  next
    assume "\<exists>why. res_next_action res = StopAction StopOutcome_BLOCKED why"
    with d(2) show ?thesis unfolding res_def [symmetric] Let_def by auto
  qed
qed

text \<open>
  A stage run that failed is still open, so starting its stage again finds it and creates nothing: the next
  execution is a retry of the failed operation, on the revision that operation was pinned to, whatever the
  revision resolver would answer now. This is what happens to the review stage after a rework of the construction.
\<close>

lemma failed_stage_retried_on_old_revision:
  assumes "active_stage_run r st = Some k" "sr_status (cr_stages r ! k) = StageStatus_FAILED"
    "sr_input_revision (cr_stages r ! k) = Some rv"
  shows "started st r = r" "next_attempt_number r st = sr_attempt_number (cr_stages r ! k) + 1" "pinned_revision x m r st = Inr rv"
  using assms active_runs_of_flow [of r st]
  by (simp_all add: started_def start_stage_def next_attempt_number_def pinned_revision_def Let_def retryable_stage_statuses_def)

end
