(* ===== verification/Runner_Safety.thy ===== *)
theory Runner_Safety
  imports Runner
begin

text \<open>
  What one advance of the run driver guarantees: it writes its whole decision or nothing, it never fails of its
  own making, and what cannot advance is refused before anything is written.
\<close>

section \<open>Committed results and resolutions\<close>

lemma row_revision:
  assumes "result_row_wf k row"
  shows "revision_text (res_input_revision (rw_payload row)) = revision_text (rw_input_revision row)"
proof -
  let ?p = "rw_payload row"
  from assms have "attempt_id (operation_key (res_run_id ?p) (res_stage ?p) (revision_text (res_input_revision ?p))) (res_attempt_number ?p) =
      attempt_id (operation_key (rw_run_id row) (rw_stage row) (revision_text (rw_input_revision row))) (rw_attempt_number row)"
    unfolding result_row_wf_def result_attempt_id_def result_operation_def by metis
  from attempt_id_inject [OF this] assms
  have "operation_key (res_run_id ?p) (res_stage ?p) (revision_text (res_input_revision ?p)) =
      operation_key (rw_run_id row) (rw_stage row) (revision_text (rw_input_revision row))"
    by (auto simp: result_row_wf_def)
  from operation_key_inject [OF this] assms show ?thesis by (auto simp: result_row_wf_def)
qed

lemma committed_Some:
  assumes wf: "results_wf (rs_results s)" and c: "committed_result k st n v s = Some c"
  shows "\<exists>row. dict_get (rs_results s) (result_attempt_id c) = Some row \<and> rw_payload row = c \<and> rw_status row = res_status c"
    and "res_run_id c = k \<and> res_stage c = st \<and> res_attempt_number c = n \<and> res_input_revision c = Some v"
proof -
  from c obtain row where row: "row \<in> snd ` set (rs_results s)" "rw_payload row = c" "res_input_revision c = Some v"
    "rw_run_id row = k" "rw_stage row = st" "rw_attempt_number row = n"
    by (auto simp: committed_result_def get_result_def split: option.splits if_splits dest!: min_by_Some)
      force
  then obtain key where key: "(key, row) \<in> set (rs_results s)" by auto
  with wf have w: "result_row_wf key row" and d: "distinct (map fst (rs_results s))" by (auto simp: results_wf_def)
  show "\<exists>row. dict_get (rs_results s) (result_attempt_id c) = Some row \<and> rw_payload row = c \<and> rw_status row = res_status c"
    using w row(2) key d by (auto simp: result_row_wf_def)
  show "res_run_id c = k \<and> res_stage c = st \<and> res_attempt_number c = n \<and> res_input_revision c = Some v"
    using w row by (auto simp: result_row_wf_def)
qed

lemma committed_None:
  assumes wf: "results_wf (rs_results s)" and ok: "storable res" and rv: "res_input_revision res = Some v" "v \<noteq> []"
    and none: "committed_result (res_run_id res) (res_stage res) (res_attempt_number res) v s = None"
  shows "dict_get (rs_results s) (result_attempt_id res) = None"
proof (rule ccontr)
  assume "dict_get (rs_results s) (result_attempt_id res) \<noteq> None"
  then obtain row where row: "dict_get (rs_results s) (result_attempt_id res) = Some row" by auto
  then have mem: "(result_attempt_id res, row) \<in> set (rs_results s)" by (rule map_of_SomeD)
  with wf have w: "result_row_wf (result_attempt_id res) row" by (auto simp: results_wf_def)
  note cols = row_of_attempt [OF w ok rv]
  let ?P = "\<lambda>row. rw_run_id row = res_run_id res \<and> rw_stage row = res_stage res \<and> rw_attempt_number row = res_attempt_number res \<and>
     (Some v = None \<or> rw_input_revision row = Some v)"
  from mem cols have "row \<in> set (filter ?P (map snd (rs_results s)))" by force
  then have "filter ?P (map snd (rs_results s)) \<noteq> []" by (metis empty_iff list.set(1))
  then obtain y where y: "min_by rw_produced_at (filter ?P (map snd (rs_results s))) = Some y" using min_by_None_iff by blast
  from min_by_Some [OF this] obtain key where "(key, y) \<in> set (rs_results s)" "rw_input_revision y = Some v" by auto
  with wf row_revision [of key y] rv(2) have "res_input_revision (rw_payload y) = Some v"
    by (auto simp: results_wf_def split: option.splits)
  with y none show False by (simp add: committed_result_def get_result_def)
qed

text \<open>A resolved wait gives a final result of the waiting attempt.\<close>

lemma rework_result_identity:
  "rework_result r a d = Inr res \<Longrightarrow> of_attempt r a res \<and> res_status res \<noteq> StageStatus_WAITING"
  by (auto simp: rework_result_def map_sum_eq_Inr of_attempt_def attempt_result_def new_result_def dest!: mk_rework_action_Inr
      split: if_splits)

lemma gate_resolution_identity:
  assumes "build_gate_resolution r st change_of checkpoint ob rv n history now = Inr g"
  shows "of_attempt r \<lparr>ai_stage = st, ai_input_revision = rv, ai_attempt_number = n, ai_now = now\<rparr> (gx_result g) \<and>
     res_status (gx_result g) \<noteq> StageStatus_WAITING"
proof -
  let ?a = "\<lparr>ai_stage = st, ai_input_revision = rv, ai_attempt_number = n, ai_now = now\<rparr>"
  have status: "res_status (attempt_result r a status action) = status" for a status action
    by (simp add: attempt_result_def new_result_def)
  define risk where "risk = effective_change_risk_class (cr_implementation_contract r) (cr_route r)"
  from assms consider "st = Stage_REVIEW_VERIFICATION" "resolve_review r ?a change_of checkpoint ob history risk = Inr g"
    | "resolve_human_gated r ?a ob risk = Inr g" | "resolve_machine_gated r ?a ob risk = Inr g"
    by (auto simp: build_gate_resolution_def risk_def Let_def split: if_splits)
  then show ?thesis
  proof cases
    case 1
    then show ?thesis
      by (auto simp: resolve_review_def observed_merge_def unmerged_def Let_def map_sum_eq_Inr status split: if_splits sum.splits
          dest!: rework_result_identity)
  next
    case 2
    then show ?thesis
      by (auto simp: resolve_human_gated_def resolve_rework_order_def unmerged_def Let_def map_sum_eq_Inr status
          split: if_splits sum.splits option.splits dest!: rework_result_identity)
  next
    case 3
    then show ?thesis
      by (auto simp: resolve_machine_gated_def unmerged_def Let_def map_sum_eq_Inr status
          split: if_splits option.splits dest!: mk_rework_action_Inr)
  qed
qed

text \<open>What the driver knows of a resolver: the checkpoint it was made from, and an observation that resolves it.\<close>

fun resolver_of :: "stage_result \<Rightarrow> stage \<Rightarrow> wait_resolver \<Rightarrow> bool" where
  "resolver_of c st (Gate_resolver checkpoint _) \<longleftrightarrow> checkpoint = c \<and> st \<noteq> Stage_RELEASE"
| "resolver_of c st (Release_resolver checkpoint ob) \<longleftrightarrow> checkpoint = c \<and> st = Stage_RELEASE \<and> release_resolved (Some ob)"

lemma resolved_wait_Some:
  assumes "resolved_wait x m i c s = (Inr (Some w), s')"
  shows "s' = s" "res_status c = StageStatus_WAITING" "resolver_of c (aid_stage i) w"
  using assms by (auto simp: resolved_wait_def bind_cases release_resolved_def split: if_splits option.splits)

lemma resolved_wait_reads: "keeps (=) (resolved_wait x m i c)"
  unfolding resolved_wait_def
  by (auto intro!: keeps_bind keeps_of_sum keeps_pure split: option.split)

lemma resolution_of_attempt:
  assumes res: "resolve_with w x i r history = Inr wx" and w: "resolver_of c (aid_stage i) w"
    and c: "res_run_id c = cr_id r" "res_stage c = aid_stage i" "res_attempt_number c = aid_attempt_number i"
      "res_input_revision c = Some (aid_input_revision i)"
  shows "result_attempt_id (wx_result wx) = result_attempt_id c" "res_run_id (wx_result wx) = cr_id r"
    "res_stage (wx_result wx) = aid_stage i" "res_attempt_number (wx_result wx) = aid_attempt_number i"
    "res_status (wx_result wx) \<noteq> StageStatus_WAITING"
    "res_status (wx_result wx) = expected_result_status (res_next_action (wx_result wx))"
proof -
  have "res_run_id (wx_result wx) = cr_id r \<and> res_stage (wx_result wx) = aid_stage i \<and>
      res_attempt_number (wx_result wx) = aid_attempt_number i \<and> res_input_revision (wx_result wx) = Some (aid_input_revision i) \<and>
      res_status (wx_result wx) \<noteq> StageStatus_WAITING \<and>
      res_status (wx_result wx) = expected_result_status (res_next_action (wx_result wx))"
  proof (cases w)
    case (Gate_resolver cp ob)
    with res obtain g where "build_gate_resolution r (aid_stage i) (ax_change x) cp ob (aid_input_revision i)
        (aid_attempt_number i) history (ax_now x) = Inr g" "wx_result wx = gx_result g"
      by (auto simp: map_sum_eq_Inr)
    with gate_resolution_identity [OF this(1)] show ?thesis by (auto simp: of_attempt_def)
  next
    case (Release_resolver cp ob)
    with w have ob: "release_resolved (Some ob)" "cp = c" by auto
    obtain out where "build_release_resolution c ob (ax_now x) = Inr out" "res_stage out = res_stage c"
      "res_run_id out = res_run_id c" "res_attempt_number out = res_attempt_number c" "res_input_revision out = res_input_revision c"
      "res_status out \<noteq> StageStatus_WAITING" "res_status out = expected_result_status (res_next_action out)"
      by (rule resolution_fields [OF ob(1), of c "ax_now x"]) (force split: if_splits)
    with res Release_resolver ob(2) c show ?thesis by auto
  qed
  with c show "result_attempt_id (wx_result wx) = result_attempt_id c" "res_run_id (wx_result wx) = cr_id r"
    "res_stage (wx_result wx) = aid_stage i" "res_attempt_number (wx_result wx) = aid_attempt_number i"
    "res_status (wx_result wx) \<noteq> StageStatus_WAITING"
    "res_status (wx_result wx) = expected_result_status (res_next_action (wx_result wx))"
    by (auto simp: result_attempt_id_def result_operation_def)
qed

section \<open>One advance\<close>

lemma decide_Inr [simp]:
  "decide x res history ctx ds r s = (Inr (d, r'), s') \<longleftrightarrow>
     apply_result (ax_clk x) res history (ax_now x) ctx ds r = (Inr d, r') \<and> s' = s"
  by (auto simp: decide_def sem_simps split: prod.splits sum.splits)

lemma decide_Inl [simp]:
  "decide x res history ctx ds r s = (Inl e, s') \<longleftrightarrow>
     (\<exists>e' r'. apply_result (ax_clk x) res history (ax_now x) ctx ds r = (Inl e', r') \<and> e = OfFlow e') \<and> s' = s"
  by (auto simp: decide_def sem_simps split: prod.splits sum.splits)

lemma created_stages_run: "created_stages x ks r = Inr (ps, r') \<Longrightarrow> \<exists>sts. r' = r\<lparr>cr_stages := sts\<rparr>"
proof (induction ks arbitrary: r ps)
  case Nil
  then show ?case by (intro exI [of _ "cr_stages r"]) simp
next
  case (Cons k ks)
  then show ?case by (auto simp: Let_def split: sum.splits prod.splits) fastforce
qed

lemma leases_of_persist:
  "keeps (\<lambda>s s'. ss_leases (rs_state s') = ss_leases (rs_state s))
     (persist_decision digest payload r res d opened created revision token now consumers)"
proof -
  let ?R = "\<lambda>s s' :: run_store. ss_leases (rs_state s') = ss_leases (rs_state s)"
  note rules = keeps_bind [where R = ?R] keeps_pure [where R = ?R] keeps_if [where R = ?R] keeps_modify [where R = ?R]
  have ops: "keeps ?R (place_stages now k ps)" "keeps ?R (advance_stage k2 target now)" "keeps ?R (finish_attempt k2 target now)"
    for k ps k2 target
    using quiet_place [of now k ps] quiet_ops(2,3) [of k2 target now] by (auto simp: keeps_def quiet_def)
  have more: "keeps ?R (on_state (update_status now k t rv tok))" "keeps ?R (on_outbox m)" "keeps ?R (set_detail k g)"
    for k t rv tok g and m :: "(outbox, state_error, outbox_event) sem"
    by (auto simp: keeps_def on_state_def on_outbox_def set_detail_def update_status_def Let_def sem_simps
        split: prod.splits option.splits sum.splits)
  let ?tail = "\<lambda>outcome table. sm_bind (sm_modify (\<lambda>s. s\<lparr>rs_results := table\<rparr>)) (\<lambda>_.
         sm_bind (place_stages now (cr_id r) created) (\<lambda>_.
         sm_bind (advance_stage (os_stage_row_id opened) (fd_stage_status d) now) (\<lambda>_.
         sm_bind (finish_attempt (os_attempt_id opened) (fd_stage_status d) now) (\<lambda>_.
         sm_bind (on_state (update_status now (cr_id r) (fd_run_status d) revision token)) (\<lambda>execution.
         let row = execution\<lparr>ex_state_revision := max (ex_state_revision execution) (cr_state_revision r)\<rparr> in
         sm_bind (sm_modify (\<lambda>s. s\<lparr>rs_state := (rs_state s)\<lparr>ss_executions := (ss_executions (rs_state s))(cr_id r \<mapsto> row)\<rparr>\<rparr>)) (\<lambda>_.
         sm_bind (set_detail (cr_id r) (\<lambda>x. x\<lparr>xd_budget := Some (cr_budget r)\<rparr>)) (\<lambda>_.
         sm_bind (on_outbox (publish now
                    (completed_event digest payload r res d opened outcome (ex_state_revision row)) consumers)) (\<lambda>_.
         sm_return True))))))))"
  have tail: "keeps ?R (?tail outcome table)" for outcome table
    unfolding Let_def by (intro rules ops more) simp_all
  show ?thesis unfolding keeps_def
  proof
    fix s :: run_store
    obtain outcome table where rec: "record_outcome_of res (rs_results s) = (outcome, table)" by force
    show "?R s (snd (persist_decision digest payload r res d opened created revision token now consumers s))"
    proof (cases "outcome = Replayed")
      case True
      then show ?thesis by (simp add: persist_decision_def rec)
    next
      case False
      then have "persist_decision digest payload r res d opened created revision token now consumers s = ?tail outcome table s"
        by (simp add: persist_decision_def rec)
      moreover have "?R s (snd (?tail outcome table s))" using tail by (simp only: keeps_def)
      ultimately show ?thesis by (simp only:)
    qed
  qed
qed

definition lease_of :: "run_store \<Rightarrow> string \<Rightarrow> lease_row option" where
  "lease_of s run_id = ss_leases (rs_state s) (LEASE_RESOURCE_TYPE, run_id)"

definition lease_held :: "run_store \<Rightarrow> string \<Rightarrow> string \<Rightarrow> int \<Rightarrow> bool" where
  "lease_held s run_id owner token \<longleftrightarrow>
     (case lease_of s run_id of None \<Rightarrow> False | Some l \<Rightarrow> le_owner_id l = owner \<and> le_fencing_token l = token)"

text \<open>Two stores that differ at most in their leases.\<close>

definition leases_only :: "run_store \<Rightarrow> run_store \<Rightarrow> bool" where
  "leases_only s s' \<longleftrightarrow> s' = s\<lparr>rs_state := (rs_state s)\<lparr>ss_leases := ss_leases (rs_state s')\<rparr>\<rparr>"

lemma leases_only_refl [simp]: "leases_only s s"
  by (simp add: leases_only_def)

lemma leases_only_iff: "leases_only s s' \<longleftrightarrow> (\<exists>f. s' = s\<lparr>rs_state := (rs_state s)\<lparr>ss_leases := f\<rparr>\<rparr>)"
  by (auto simp: leases_only_def)

lemma leases_only_trans: "leases_only a b \<Longrightarrow> leases_only b c \<Longrightarrow> leases_only a c"
  by (auto simp: leases_only_iff)

lemma leases_only_tables:
  assumes "leases_only s s'"
  shows "rs_results s' = rs_results s" "load k s' = load k s" "rs_outbox s' = rs_outbox s" "store_evolves s s'"
    "committed_result k st n rv s' = committed_result k st n rv s"
proof -
  from assms obtain f where s': "s' = s\<lparr>rs_state := (rs_state s)\<lparr>ss_leases := f\<rparr>\<rparr>" by (auto simp: leases_only_iff)
  then show "rs_results s' = rs_results s" "rs_outbox s' = rs_outbox s" by simp_all
  then show "committed_result k st n rv s' = committed_result k st n rv s" by (simp add: committed_result_def)
  from s' show "load k s' = load k s" by (simp add: load_def load_stages_def stage_rows_def Let_def cong: option.case_cong)
  from s' show "store_evolves s s'" using evolves_lease_state by simp
qed

lemma acquire_lease_Inr:
  assumes "acquire_lease clk k owner ttl s = (Inr token, s')"
  shows "leases_only s s'" "lease_held s' k owner token"
  using assms
  by (auto simp: acquire_lease_def on_state_def acquire_def leases_only_def lease_held_def lease_of_def Let_def
      split: option.splits if_splits)

lemma release_lease_Inr:
  assumes "release_lease k owner token s = (Inr ok, s')"
  shows "leases_only s s'" "lease_held s k owner token \<Longrightarrow> lease_of s' k = None"
  using assms
  by (auto simp: release_lease_def release_def leases_only_def lease_held_def lease_of_def split: option.splits if_splits prod.splits)

text \<open>What an advance that decided left behind, relative to the store it found under the lease.\<close>

definition advance_written :: "advance_call \<Rightarrow> run_advance \<Rightarrow> flow_decision \<Rightarrow> run_store \<Rightarrow> run_store \<Rightarrow> bool" where
  "advance_written x a d s s' \<longleftrightarrow>
     store_wf s' \<and> adv_outcome a = outcome_for d \<and> adv_stage a = fd_stage d \<and>
     (case dict_get (rs_results s) (result_attempt_id (adv_result a)) of
        None \<Rightarrow> True | Some row \<Rightarrow> rw_status row = StageStatus_WAITING) \<and>
     map_option rw_payload (dict_get (rs_results s') (result_attempt_id (adv_result a))) = Some (adv_result a) \<and>
     map_option cr_status (load (ax_run_id x) s') = Some (fd_run_status d) \<and>
     (\<exists>e. ob_events (rs_outbox s') = ob_events (rs_outbox s) @ [e] \<and> oe_aggregate_id e = ax_run_id x) \<and>
     lease_of s' (ax_run_id x) = None"

lemma persist_and_report_writes:
  assumes run: "persist_and_report x token i opn res d r s = (Inr a, s')" and wf: "store_wf s" and ok: "storable res"
    and id: "cr_id r = ax_run_id x" and lease: "lease_held s (ax_run_id x) (ax_owner_id x) token"
    and free: "case dict_get (rs_results s) (result_attempt_id res) of
        None \<Rightarrow> True | Some row \<Rightarrow> rw_status row = StageStatus_WAITING \<and> res_status res \<noteq> StageStatus_WAITING"
  shows "adv_decision a = Some d \<and> adv_result a = res \<and> advance_written x a d s s'"
proof -
  from run obtain created r1 persisted s1 ok' s2 where
    created: "created_stages x [oa_known_stage_runs opn..<length (cr_stages r)] r = Inr (created, r1)" and
    persist: "persist_decision (ax_digest x) (ax_payload x) r1 res d (oa_open_stage opn) created (oa_expected_revision opn) token
      (ax_now x) STAGE_COMPLETED_CONSUMERS s = (Inr persisted, s1)" and
    released: "release_lease (cr_id r1) (ax_owner_id x) token s1 = (Inr ok', s2)" and
    report: "(if persisted
       then sm_return \<lparr>adv_outcome = outcome_for d, adv_stage = fd_stage d, adv_result = res, adv_decision = Some d\<rparr>
       else (\<lambda>s. case committed_result (cr_id r1) (aid_stage i) (res_attempt_number res)
                      (case res_input_revision res of None \<Rightarrow> [] | Some v \<Rightarrow> v) s of
             None \<Rightarrow> (Inl (NotPersisted (aid_stage i) (cr_id r1)), s)
           | Some committed \<Rightarrow> (Inr (replayed_advance committed (aid_stage i)), s))) s2 = (Inr a, s')"
    unfolding persist_and_report_def sm_bind_eq_Inr on_store_Inr of_sum_Inr split_paired_Ex prod.case by blast
  from created_stages_run [OF created] id have id1: "cr_id r1 = ax_run_id x" by auto
  have persisted
  proof (rule ccontr)
    assume "\<not> persisted"
    with persist obtain table where "record_outcome_of res (rs_results s) = (Replayed, table)"
      by (auto simp: persist_decision_def bind_cases sm_run Let_def split: prod.splits if_splits)
    from replayed_only [OF this] free show False by auto
  qed
  with persist have persist': "persist_decision (ax_digest x) (ax_payload x) r1 res d (oa_open_stage opn) created
      (oa_expected_revision opn) token (ax_now x) STAGE_COMPLETED_CONSUMERS s = (Inr True, s1)" by simp
  from persist_decision_writes [OF wf ok this] have w: "decision_written r1 res d (oa_open_stage opn) created
      (oa_expected_revision opn) STAGE_COMPLETED_CONSUMERS s s1" .
  have wf1: "store_wf s1" using keepsD [OF persist_decision_evolves [OF ok] persist] wf by (simp add: store_evolves_def)
  have l1: "lease_held s1 (ax_run_id x) (ax_owner_id x) token"
    using keepsD [OF leases_of_persist persist] lease by (simp add: lease_held_def lease_of_def)
  have a': "a = \<lparr>adv_outcome = outcome_for d, adv_stage = fd_stage d, adv_result = res, adv_decision = Some d\<rparr>" and "s' = s2"
    using report \<open>persisted\<close> by simp_all
  note rel = release_lease_Inr [OF released [folded \<open>s' = s2\<close>]]
  note tables = leases_only_tables [OF rel(1)]
  have "store_wf s'" using tables(4) wf1 by (simp add: store_evolves_def)
  moreover have "map_option rw_payload (dict_get (rs_results s') (result_attempt_id res)) = Some res"
    using w tables(1) unfolding decision_written_def by auto
  moreover have "map_option cr_status (load (ax_run_id x) s') = Some (fd_run_status d)"
    using w tables(2) [of "ax_run_id x"] id1 unfolding decision_written_def by auto
  moreover have "\<exists>e. ob_events (rs_outbox s') = ob_events (rs_outbox s) @ [e] \<and> oe_aggregate_id e = ax_run_id x"
    using w tables(3) id1 unfolding decision_written_def by auto
  moreover have "lease_of s' (ax_run_id x) = None" using rel(2) l1 id1 by simp
  ultimately show ?thesis using free by (simp add: a' advance_written_def split: option.splits)
qed

text \<open>
  The conditions a call is made under: a run id without the key separator, an executor that keeps the identity
  of its context, and revisions of the run's operations that are not empty.
\<close>

definition plain_call :: "advance_call \<Rightarrow> run_store \<Rightarrow> bool" where
  "plain_call x s \<longleftrightarrow> CHR '':'' \<notin> set (ax_run_id x) \<and>
     (\<forall>ctx res. ax_executor x ctx = Inr res \<longrightarrow> of_context ctx res) \<and>
     (\<forall>r st. load (ax_run_id x) s = Some r \<longrightarrow> pinned_revision x Under_lease r st \<noteq> Inr [])"

lemma loaded_id: "store_wf s \<Longrightarrow> load k s = Some r \<Longrightarrow> cr_id r = k"
  by (auto simp: load_def Let_def dest: store_wfD(2) split: option.splits)

lemma advance_written_frame:
  "rs_results s1 = rs_results s \<Longrightarrow> rs_outbox s1 = rs_outbox s \<Longrightarrow> advance_written x a d s1 s' \<longleftrightarrow> advance_written x a d s s'"
  by (simp add: advance_written_def)

lemma executed_attempt_writes:
  assumes run: "execute_attempt x token i s = (Inr a, s')" and wf: "store_wf s" and plain: "plain_call x s"
    and i: "derive_identity x Under_lease s = (Inr i, s)" and none: "committed_of i s = None"
    and lease: "lease_held s (ax_run_id x) (ax_owner_id x) token"
  shows "\<exists>d. adv_decision a = Some d \<and> advance_written x a d s s'"
proof -
  from i have live: "\<not> run_terminal (cr_status (aid_run i))" and ld: "load (ax_run_id x) s = Some (aid_run i)"
    and rv: "pinned_revision x Under_lease (aid_run i) (aid_stage i) = Inr (aid_input_revision i)"
    by (simp_all add: derive_identity_Inr)
  from run obtain opn r s1 res d r' where
    op: "open_identity x i s = (Inr (opn, r), s1)" and exec: "ax_executor x (context_of x i r) = Inr res" and
    valid: "stage_result_valid res" and
    dec: "apply_result (ax_clk x) res (load_history (cr_id r) s1) (ax_now x) (ax_merge_context x) (ax_human_decisions x) r = (Inr d, r')" and
    tail: "persist_and_report x token i opn res d r' s1 = (Inr a, s')"
    by (auto simp: execute_attempt_def bind_cases)
  note o = open_identity_Inr [OF op live]
  from loaded_id [OF wf ld] o(1) have id: "cr_id r = ax_run_id x" by (simp add: opened_run_def)
  from plain exec have "of_context (context_of x i r) res" by (auto simp: plain_call_def)
  with id have res: "res_run_id res = ax_run_id x" "res_stage res = aid_stage i" "res_attempt_number res = aid_attempt_number i"
    "res_input_revision res = Some (aid_input_revision i)" by (simp_all add: of_context_def context_of_def build_context_def)
  have st: "storable res" using valid res(1) plain by (simp add: storable_def plain_call_def)
  have "aid_input_revision i \<noteq> []" using plain rv ld by (auto simp: plain_call_def)
  with committed_None [OF store_wfD(7) [OF wf] st res(4)] none res loaded_id [OF wf ld]
  have free: "dict_get (rs_results s) (result_attempt_id res) = None" by (simp add: committed_of_def)
  have wf1: "store_wf s1" using o(3) wf by (simp add: store_evolves_def)
  have q: "rs_results s1 = rs_results s" "rs_outbox s1 = rs_outbox s" "ss_leases (rs_state s1) = ss_leases (rs_state s)"
    using o(2) by (simp_all add: quiet_def)
  have id': "cr_id r' = ax_run_id x"
    using apply_result_evolves [of r "ax_clk x" res "load_history (cr_id r) s1" "ax_now x" "ax_merge_context x" "ax_human_decisions x"]
      dec id by (simp add: evolves_def)
  have "lease_held s1 (ax_run_id x) (ax_owner_id x) token" using lease q(3) by (simp add: lease_held_def lease_of_def)
  from persist_and_report_writes [OF tail wf1 st id' this] free q(1) advance_written_frame [OF q(1,2)] show ?thesis by auto
qed

lemma resumed_attempt_writes:
  assumes run: "resume x token i w s = (Inr a, s')" and wf: "store_wf s" and plain: "plain_call x s"
    and i: "derive_identity x Under_lease s = (Inr i, s)" and some: "committed_of i s = Some c"
    and wait: "res_status c = StageStatus_WAITING" "resolver_of c (aid_stage i) w"
    and lease: "lease_held s (ax_run_id x) (ax_owner_id x) token"
  shows "\<exists>d. adv_decision a = Some d \<and> advance_written x a d s s'"
proof -
  from i have live: "\<not> run_terminal (cr_status (aid_run i))" and ld: "load (ax_run_id x) s = Some (aid_run i)"
    by (simp_all add: derive_identity_Inr)
  from run obtain opn r s1 wx d r' where
    op: "open_identity x i s = (Inr (opn, r), s1)" and
    rsv: "resolve_with w x i r (load_history (cr_id r) s1) = Inr wx" and valid: "stage_result_valid (wx_result wx)" and
    dec: "apply_result (ax_clk x) (wx_result wx) (load_history (cr_id r) s1) (ax_now x)
      (or_else (wx_merge_context wx) (ax_merge_context x)) (ax_human_decisions x @ wx_approvals wx) r = (Inr d, r')" and
    tail: "persist_and_report x token i opn (wx_result wx) d r' s1 = (Inr a, s')"
    by (auto simp: resume_def bind_cases)
  note o = open_identity_Inr [OF op live]
  from loaded_id [OF wf ld] o(1) have id: "cr_id r = ax_run_id x" "cr_id (aid_run i) = ax_run_id x" by (simp_all add: opened_run_def)
  from committed_Some [OF store_wfD(7) [OF wf] some [unfolded committed_of_def]] id
  obtain row where row: "dict_get (rs_results s) (result_attempt_id c) = Some row" "rw_status row = res_status c"
    and c: "res_run_id c = cr_id r" "res_stage c = aid_stage i" "res_attempt_number c = aid_attempt_number i"
      "res_input_revision c = Some (aid_input_revision i)" by auto
  note res = resolution_of_attempt [OF rsv wait(2) c]
  have st: "storable (wx_result wx)" using valid res(2) id plain by (simp add: storable_def plain_call_def)
  have wf1: "store_wf s1" using o(3) wf by (simp add: store_evolves_def)
  have q: "rs_results s1 = rs_results s" "rs_outbox s1 = rs_outbox s" "ss_leases (rs_state s1) = ss_leases (rs_state s)"
    using o(2) by (simp_all add: quiet_def)
  have id': "cr_id r' = ax_run_id x"
    using apply_result_evolves [of r "ax_clk x" "wx_result wx" "load_history (cr_id r) s1" "ax_now x"
        "or_else (wx_merge_context wx) (ax_merge_context x)" "ax_human_decisions x @ wx_approvals wx"]
      dec id by (simp add: evolves_def)
  have "lease_held s1 (ax_run_id x) (ax_owner_id x) token" using lease q(3) by (simp add: lease_held_def lease_of_def)
  from persist_and_report_writes [OF tail wf1 st id' this] row wait(1) res(1,5) q(1) advance_written_frame [OF q(1,2)]
  show ?thesis by auto
qed

text \<open>An advance that reports a replay: the committed result, and not one row but the lease was touched.\<close>

definition advance_replayed :: "run_advance \<Rightarrow> run_store \<Rightarrow> run_store \<Rightarrow> bool" where
  "advance_replayed a s s' \<longleftrightarrow> adv_outcome a = Advance_REPLAYED \<and> adv_decision a = None \<and>
     map_option rw_payload (dict_get (rs_results s) (result_attempt_id (adv_result a))) = Some (adv_result a) \<and> leases_only s s'"

lemma committed_replay:
  assumes "store_wf s" "committed_of i s = Some c"
  shows "leases_only s s' \<Longrightarrow> advance_replayed (replayed_advance c st) s s'"
  using committed_Some(1) [OF store_wfD(7) [OF assms(1)] assms(2) [unfolded committed_of_def]]
  by (auto simp: advance_replayed_def replayed_advance_def)

lemma advance_under_lease_outcome:
  assumes run: "advance_under_lease x token s = (Inr a, s')" and wf: "store_wf s" and plain: "plain_call x s"
    and lease: "lease_held s (ax_run_id x) (ax_owner_id x) token"
  shows "case adv_decision a of Some d \<Rightarrow> advance_written x a d s s' | None \<Rightarrow> advance_replayed a s s'"
proof -
  from run obtain i s0 where i0: "derive_identity x Under_lease s = (Inr i, s0)" and
    rest: "(case committed_of i s0 of
       None \<Rightarrow> execute_attempt x token i
     | Some c \<Rightarrow>
         sm_bind (resolved_wait x Under_lease i c) (\<lambda>resolver.
         case resolver of
           Some rv \<Rightarrow> resume x token i rv
         | None \<Rightarrow> sm_bind (on_store (release_lease (cr_id (aid_run i)) (ax_owner_id x) token)) (\<lambda>_.
             sm_return (replayed_advance c (aid_stage i))))) s0 = (Inr a, s')"
    by (auto simp: advance_under_lease_def bind_cases)
  from i0 have s0: "s0 = s" by (simp add: derive_identity_Inr)
  with i0 have i: "derive_identity x Under_lease s = (Inr i, s)" by simp
  show ?thesis
  proof (cases "committed_of i s")
    case None
    with rest s0 have "execute_attempt x token i s = (Inr a, s')" by simp
    from executed_attempt_writes [OF this wf plain i None lease] show ?thesis by auto
  next
    case (Some c)
    with rest s0 obtain w s1 where w: "resolved_wait x Under_lease i c s = (Inr w, s1)" and
      cont: "(case w of Some rv \<Rightarrow> resume x token i rv
         | None \<Rightarrow> sm_bind (on_store (release_lease (cr_id (aid_run i)) (ax_owner_id x) token)) (\<lambda>_.
             sm_return (replayed_advance c (aid_stage i)))) s1 = (Inr a, s')" by (auto simp: bind_cases)
    have s1: "s1 = s" using keepsD [OF resolved_wait_reads w] by simp
    show ?thesis
    proof (cases w)
      case None
      with cont s1 obtain ok where "release_lease (cr_id (aid_run i)) (ax_owner_id x) token s = (Inr ok, s')"
        "a = replayed_advance c (aid_stage i)" by (auto simp: bind_cases)
      with release_lease_Inr(1) committed_replay [OF wf Some] show ?thesis by (auto simp: replayed_advance_def)
    next
      case rs: (Some rs)
      with w s1 have "resolved_wait x Under_lease i c s = (Inr (Some rs), s)" by simp
      note rw = resolved_wait_Some [OF this]
      from cont rs s1 have "resume x token i rs s = (Inr a, s')" by simp
      from resumed_attempt_writes [OF this wf plain i Some rw(2,3) lease] show ?thesis by auto
    qed
  qed
qed

text \<open>An advance that returns either replayed before the lease, or decided under it.\<close>

lemma advance_run_cases:
  assumes "advance_run others x s = (Inr a, s')"
  obtains (inert) i c where "committed_of i s = Some c" "a = replayed_advance c (aid_stage i)" "s' = s"
    | (leased) r token s2 where "load (ax_run_id x) s = Some r"
        "acquire_lease (ax_clk x) (cr_id r) (ax_owner_id x) (ax_lease_ttl x) (others s) = (Inr token, s2)"
        "advance_under_lease x token s2 = (Inr a, s')"
proof -
  from assms obtain i s0 where i0: "derive_identity x Before_lease s = (Inr i, s0)" and
    rest: "sm_bind (case committed_of i s0 of None \<Rightarrow> sm_return None
            | Some c \<Rightarrow> sm_bind (resolved_wait x Before_lease i c) (\<lambda>resolver.
                sm_return (if resolver = None then Some (replayed_advance c (aid_stage i)) else None))) (\<lambda>inert.
      case inert of Some a \<Rightarrow> sm_return a
      | None \<Rightarrow> sm_bind (sm_modify others) (\<lambda>_.
          sm_bind (on_store (acquire_lease (ax_clk x) (cr_id (aid_run i)) (ax_owner_id x) (ax_lease_ttl x)))
            (advance_under_lease x))) s0 = (Inr a, s')"
    by (auto simp: advance_run_def bind_cases)
  from i0 have s0: "s0 = s" and ld: "load (ax_run_id x) s = Some (aid_run i)" by (simp_all add: derive_identity_Inr)
  show ?thesis
  proof (cases "committed_of i s")
    case None
    with rest s0 have "\<exists>token s2. acquire_lease (ax_clk x) (cr_id (aid_run i)) (ax_owner_id x) (ax_lease_ttl x) (others s) = (Inr token, s2) \<and>
        advance_under_lease x token s2 = (Inr a, s')" by (auto simp: bind_cases sm_run)
    with leased [OF ld] show ?thesis by blast
  next
    case (Some c)
    from rest [unfolded s0 Some option.case sm_bind_eq_Inr gets_Inr] obtain w s1 where
      w: "resolved_wait x Before_lease i c s = (Inr w, s1)" and
      go: "(case (if w = None then Some (replayed_advance c (aid_stage i)) else None) of Some a \<Rightarrow> sm_return a
        | None \<Rightarrow> sm_bind (sm_modify others) (\<lambda>_.
            sm_bind (on_store (acquire_lease (ax_clk x) (cr_id (aid_run i)) (ax_owner_id x) (ax_lease_ttl x)))
              (advance_under_lease x))) s1 = (Inr a, s')"
      unfolding sm_bind_eq_Inr by blast
    have "s1 = s" using keepsD [OF resolved_wait_reads w] by simp
    with go have "if w = None then a = replayed_advance c (aid_stage i) \<and> s' = s
        else \<exists>token s2. acquire_lease (ax_clk x) (cr_id (aid_run i)) (ax_owner_id x) (ax_lease_ttl x) (others s) = (Inr token, s2) \<and>
          advance_under_lease x token s2 = (Inr a, s')" by (cases w) (auto simp: bind_cases sm_run)
    with inert [OF Some] leased [OF ld] show ?thesis by (auto split: if_splits)
  qed
qed

text \<open>
  C8: an advance writes its whole decision or nothing. On a well-formed store, whatever other transactions did
  before the lease was taken, an advance that returns a decision has stored exactly one result for an attempt
  that had none or only its waiting checkpoint, left the run in the decided status, appended exactly one event
  of the run and given the lease back; an advance that returns no decision reports a committed result and has
  changed nothing but leases, either of the store it first read or of the store it found under the lease.
\<close>

theorem advance_writes_all_or_nothing:
  assumes wf: "store_wf s" and others: "store_reaches s (others s)" and plain: "plain_call x (others s)"
  shows "case advance_run others x s of
      (Inl _, _) \<Rightarrow> True
    | (Inr a, s') \<Rightarrow>
        (case adv_decision a of
           Some d \<Rightarrow> advance_written x a d (others s) s'
         | None \<Rightarrow> advance_replayed a s s' \<or> advance_replayed a (others s) s')"
proof -
  have wf': "store_wf (others s)" using store_reaches_evolves [OF others] wf by (simp add: store_evolves_def)
  have "case adv_decision a of Some d \<Rightarrow> advance_written x a d (others s) s'
         | None \<Rightarrow> advance_replayed a s s' \<or> advance_replayed a (others s) s'"
    if run: "advance_run others x s = (Inr a, s')" for a s'
  proof -
    from run show ?thesis
    proof (cases rule: advance_run_cases)
      case (inert i c)
      with committed_replay [OF wf inert(1)] show ?thesis by (simp add: replayed_advance_def)
    next
      case (leased r token s2)
      note acq = acquire_lease_Inr [OF leased(2)]
      note tables = leases_only_tables [OF acq(1)]
      have "store_wf s2" using tables(4) wf' by (simp add: store_evolves_def)
      moreover have "plain_call x s2" using plain tables(2) by (simp add: plain_call_def)
      ultimately have "lease_held s2 (ax_run_id x) (ax_owner_id x) token \<Longrightarrow>
          case adv_decision a of Some d \<Rightarrow> advance_written x a d s2 s' | None \<Rightarrow> advance_replayed a s2 s'"
        by (rule advance_under_lease_outcome [OF leased(3)])
      with acq(2) loaded_id [OF wf leased(1)]
      have "case adv_decision a of Some d \<Rightarrow> advance_written x a d s2 s' | None \<Rightarrow> advance_replayed a s2 s'" by simp
      with tables acq(1) show ?thesis
        by (auto simp: advance_written_def advance_replayed_def intro: leases_only_trans split: option.splits)
    qed
  qed
  then show ?thesis by (auto split: prod.split sum.split)
qed

section \<open>What an advance may fail with\<close>

text \<open>Errors of the driver's own making: a decision the engine refuses, a lost write, an unbuildable release.\<close>

fun driver_fault :: "runner_error \<Rightarrow> bool" where
  "driver_fault (OfFlow _) = True"
| "driver_fault (OfRunStatus _) = True"
| "driver_fault (OfReleaseResolution _) = True"
| "driver_fault (NotPersisted _ _) = True"
| "driver_fault _ = False"

definition rounds_at_specification :: "advance_call \<Rightarrow> bool" where
  "rounds_at_specification x \<longleftrightarrow> (case ax_gate_facts x of None \<Rightarrow> True
     | Some facts \<Rightarrow> \<forall>m r st c ob. facts m r st c = Inr (Some ob) \<longrightarrow> go_next_phase ob \<noteq> None \<longrightarrow> st = Stage_SPECIFICATION)"

lemma map_sum_eq_Inl: "map_sum f g y = Inl e \<longleftrightarrow> (\<exists>a. y = Inl a \<and> e = f a)"
  by (cases y) auto

lemma pinned_revision_Inl: "pinned_revision x m r st = Inl e \<Longrightarrow> \<exists>why. e = Escaped why"
  by (auto simp: pinned_revision_def Let_def map_sum_eq_Inl split: option.splits if_splits)

lemma derive_identity_faultless:
  assumes "derive_identity x m s = (Inl e, s')"
  shows "\<not> driver_fault e"
proof -
  from assms have "advanceable_run (ax_run_id x) s = (Inl e, s') \<or> (\<exists>r s1. next_stage_to_execute r s1 = (Inl e, s')) \<or>
      (\<exists>r st. pinned_revision x m r st = Inl e)"
    unfolding derive_identity_def sm_bind_eq_Inl sm_bind_eq_Inr of_sum_Inl id_apply by (auto simp: sm_run)
  then show ?thesis
    by (auto simp: advanceable_run_def next_stage_to_execute_def sm_run split: option.splits if_splits dest!: pinned_revision_Inl)
qed

lemma resolved_wait_faultless: "resolved_wait x m i c s = (Inl e, s') \<Longrightarrow> \<not> driver_fault e"
  by (auto simp: resolved_wait_def bind_cases split: if_splits option.splits)

lemma open_identity_faultless:
  assumes "open_identity x i s = (Inl e, s')" "\<not> run_terminal (cr_status (aid_run i))"
  shows "\<not> driver_fault e"
  using assms running_reachable [OF assms(2)]
  by (auto simp: open_identity_def bind_cases Let_def run_apply_status_def split: if_splits)

lemma created_stages_faultless: "created_stages x ks r = Inl e \<Longrightarrow> \<not> driver_fault e"
proof (induction ks arbitrary: r)
  case (Cons k ks)
  then show ?case by (auto simp: Let_def split: sum.splits prod.splits dest: pinned_revision_Inl)
qed simp

lemma persist_and_report_faultless:
  assumes run: "persist_and_report x token i opn res d r s = (Inl e, s')"
    and free: "case dict_get (rs_results s) (result_attempt_id res) of
        None \<Rightarrow> True | Some row \<Rightarrow> rw_status row = StageStatus_WAITING \<and> res_status res \<noteq> StageStatus_WAITING"
  shows "\<not> driver_fault e"
proof -
  have no: "persist_decision digest payload r1 res d opened created revision token now consumers s \<noteq> (Inr False, s1)"
    for digest payload r1 opened created revision now consumers s1
  proof
    assume "persist_decision digest payload r1 res d opened created revision token now consumers s = (Inr False, s1)"
    then obtain table where "record_outcome_of res (rs_results s) = (Replayed, table)"
      by (auto simp: persist_decision_def bind_cases sm_run Let_def split: prod.splits if_splits)
    from replayed_only [OF this] free show False by auto
  qed
  from run consider "\<exists>ks. created_stages x ks r = Inl e" | "\<exists>e'. e = OfStore e'"
    unfolding persist_and_report_def sm_bind_eq_Inl sm_bind_eq_Inr on_store_Inl on_store_Inr of_sum_Inl of_sum_Inr id_apply
      split_paired_Ex prod.case
  proof (elim disjE exE conjE)
    fix created r1 s1 persisted s2 u s3
    assume p: "persist_decision (ax_digest x) (ax_payload x) r1 res d (oa_open_stage opn) created (oa_expected_revision opn) token
        (ax_now x) STAGE_COMPLETED_CONSUMERS s1 = (Inr persisted, s2)" and s1: "s1 = s"
      and l: "(if persisted
        then sm_return \<lparr>adv_outcome = outcome_for d, adv_stage = fd_stage d, adv_result = res, adv_decision = Some d\<rparr>
        else (\<lambda>s. case committed_result (cr_id r1) (aid_stage i) (res_attempt_number res)
                      (case res_input_revision res of None \<Rightarrow> [] | Some v \<Rightarrow> v) s of
             None \<Rightarrow> (Inl (NotPersisted (aid_stage i) (cr_id r1)), s)
           | Some committed \<Rightarrow> (Inr (replayed_advance committed (aid_stage i)), s))) s3 = (Inl e, s')"
    show thesis using p l no s1 by (cases persisted) simp_all
  qed blast+
  then show ?thesis by cases (auto dest: created_stages_faultless)
qed

lemma resolver_of_facts:
  assumes "resolved_wait x m i c s = (Inr (Some (Gate_resolver cp ob)), s')" "rounds_at_specification x"
  shows "go_next_phase ob \<noteq> None \<Longrightarrow> aid_stage i = Stage_SPECIFICATION"
  using assms
  by (auto simp: resolved_wait_def rounds_at_specification_def bind_cases gate_resolved_def split: if_splits option.splits)

lemma resolution_taken:
  assumes res: "resolve_with w x i r history = Inr wx" and w: "resolved_wait x m i c s = (Inr (Some w), s')"
    and c: "res_run_id c = cr_id r" "res_stage c = aid_stage i" "res_attempt_number c = aid_attempt_number i"
      "res_input_revision c = Some (aid_input_revision i)"
    and rounds: "rounds_at_specification x" and running: "cr_status r = RunStatus_RUNNING"
    and number: "aid_attempt_number i = next_attempt_number r (aid_stage i)"
  shows "\<exists>d r'. apply_result clk (wx_result wx) history' now ctx ds r = (Inr d, r')"
proof -
  note own = resolved_wait_Some [OF w]
  note f = resolution_of_attempt [OF res own(3) c]
  have act: "action_type (res_next_action (wx_result wx)) \<in> FLOW_TRANSITIONS (aid_stage i) \<and>
      (case res_next_action (wx_result wx) of
        ExecuteStageAction nxt _ \<Rightarrow> next_stage (ROUTE_PROFILES (cr_route r)) (aid_stage i) = Some nxt | _ \<Rightarrow> True)"
  proof (cases w)
    case (Gate_resolver cp ob)
    with res obtain g where g: "build_gate_resolution r (aid_stage i) (ax_change x) cp ob (aid_input_revision i)
        (aid_attempt_number i) history (ax_now x) = Inr g" "wx_result wx = gx_result g"
      by (auto simp: map_sum_eq_Inr)
    from w Gate_resolver have "resolved_wait x m i c s = (Inr (Some (Gate_resolver cp ob)), s')" by simp
    from resolution_proper [OF g(1) resolver_of_facts [OF this rounds]] g(2) show ?thesis
      by (simp add: proper_resolution_def split: next_action.splits)
  next
    case (Release_resolver cp ob)
    with own(3) have ob: "release_resolved (Some ob)" "cp = c" "aid_stage i = Stage_RELEASE" by auto
    obtain out where "build_release_resolution c ob (ax_now x) = Inr out"
      "action_type (res_next_action out) \<in> {AT_release, AT_stop}"
      by (rule resolution_fields [OF ob(1), of c "ax_now x"]) (force split: if_splits)
    with res Release_resolver ob show ?thesis by (auto split: next_action.splits)
  qed
  have "result_accepted r (wx_result wx)"
    using act running number f(3,4,6) next_attempt_accepted [of "wx_result wx" r] by (simp add: result_accepted_def)
  with act f(3) show ?thesis by (intro accepted_result_decides) (auto split: next_action.splits)
qed

lemma execute_attempt_faultless:
  assumes run: "execute_attempt x token i s = (Inl e, s')" and wf: "store_wf s" and plain: "plain_call x s"
    and exec: "stage_executor (ax_executor x) admits" and admitted: "\<And>i r. admits (context_of x i r)"
    and i: "derive_identity x Under_lease s = (Inr i, s)" and none: "committed_of i s = None"
  shows "\<not> driver_fault e"
proof -
  from i have live: "\<not> run_terminal (cr_status (aid_run i))" and ld: "load (ax_run_id x) s = Some (aid_run i)"
    and rv: "pinned_revision x Under_lease (aid_run i) (aid_stage i) = Inr (aid_input_revision i)"
    and n: "aid_attempt_number i = next_attempt_number (aid_run i) (aid_stage i)"
    by (simp_all add: derive_identity_Inr)
  from run consider (opn) "open_identity x i s = (Inl e, s')" | (escaped) why where "e = Escaped why"
    | (decided) opn r s1 res where "open_identity x i s = (Inr (opn, r), s1)" "ax_executor x (context_of x i r) = Inr res"
        "stage_result_valid res"
        "(\<exists>e' r'. apply_result (ax_clk x) res (load_history (cr_id r) s1) (ax_now x) (ax_merge_context x) (ax_human_decisions x) r = (Inl e', r')) \<or>
         (\<exists>d r'. persist_and_report x token i opn res d r' s1 = (Inl e, s'))"
    by (auto simp: execute_attempt_def bind_cases validated_def split: if_splits) blast+
  then show ?thesis
  proof cases
    case opn
    then show ?thesis using live by (rule open_identity_faultless)
  next
    case escaped
    then show ?thesis by simp
  next
    case decided
    note o = open_identity_Inr [OF decided(1) live]
    from loaded_id [OF wf ld] o(1) have id: "cr_id r = ax_run_id x" by (simp add: opened_run_def)
    from plain decided(2) have "of_context (context_of x i r) res" by (auto simp: plain_call_def)
    with id have res: "res_run_id res = ax_run_id x" "res_stage res = aid_stage i" "res_attempt_number res = aid_attempt_number i"
      "res_input_revision res = Some (aid_input_revision i)" by (simp_all add: of_context_def context_of_def build_context_def)
    have st: "storable res" using decided(3) res(1) plain by (simp add: storable_def plain_call_def)
    have "aid_input_revision i \<noteq> []" using plain rv ld by (auto simp: plain_call_def)
    with committed_None [OF store_wfD(7) [OF wf] st res(4)] none res loaded_id [OF wf ld]
    have free: "dict_get (rs_results s) (result_attempt_id res) = None" by (simp add: committed_of_def)
    have "\<exists>d r'. apply_result (ax_clk x) res (load_history (cr_id r) s1) (ax_now x) (ax_merge_context x) (ax_human_decisions x) r = (Inr d, r')"
      using stage_executor.accepted [OF exec decided(2) admitted] o(1) n opened_attempt_number [OF o(1)] by (simp add: opened_run_def)
    with decided(4) obtain d r' where "persist_and_report x token i opn res d r' s1 = (Inl e, s')" by auto
    from persist_and_report_faultless [OF this] free o(2) show ?thesis by (simp add: quiet_def)
  qed
qed

lemma resume_faultless:
  assumes run: "resume x token i w s = (Inl e, s')" and wf: "store_wf s" and rounds: "rounds_at_specification x"
    and i: "derive_identity x Under_lease s = (Inr i, s)" and some: "committed_of i s = Some c"
    and wait: "resolved_wait x Under_lease i c s = (Inr (Some w), s)"
  shows "\<not> driver_fault e"
proof -
  from i have live: "\<not> run_terminal (cr_status (aid_run i))" and ld: "load (ax_run_id x) s = Some (aid_run i)"
    and n: "aid_attempt_number i = next_attempt_number (aid_run i) (aid_stage i)"
    by (simp_all add: derive_identity_Inr)
  note own = resolved_wait_Some [OF wait]
  from run consider (opn) "open_identity x i s = (Inl e, s')" | (escaped) why where "e = Escaped why"
    | (unbuilt) r history where "resolve_with w x i r history = Inl e"
    | (decided) opn r s1 wx where "open_identity x i s = (Inr (opn, r), s1)"
        "resolve_with w x i r (load_history (cr_id r) s1) = Inr wx"
        "(\<exists>e' r'. apply_result (ax_clk x) (wx_result wx) (load_history (cr_id r) s1) (ax_now x)
            (or_else (wx_merge_context wx) (ax_merge_context x)) (ax_human_decisions x @ wx_approvals wx) r = (Inl e', r')) \<or>
         (\<exists>d r'. persist_and_report x token i opn (wx_result wx) d r' s1 = (Inl e, s'))"
    by (auto simp: resume_def bind_cases validated_def split: if_splits) blast+
  then show ?thesis
  proof cases
    case opn
    then show ?thesis using live by (rule open_identity_faultless)
  next
    case escaped
    then show ?thesis by simp
  next
    case unbuilt
    then show ?thesis using own(3)
      by (cases w) (auto simp: map_sum_eq_Inl build_release_resolution_def Let_def split: if_splits)
  next
    case decided
    note o = open_identity_Inr [OF decided(1) live]
    from loaded_id [OF wf ld] o(1) have id: "cr_id r = ax_run_id x" "cr_id (aid_run i) = ax_run_id x"
      and run': "cr_status r = RunStatus_RUNNING" by (simp_all add: opened_run_def)
    from committed_Some [OF store_wfD(7) [OF wf] some [unfolded committed_of_def]] id
    obtain row where row: "dict_get (rs_results s) (result_attempt_id c) = Some row" "rw_status row = res_status c"
      and c: "res_run_id c = cr_id r" "res_stage c = aid_stage i" "res_attempt_number c = aid_attempt_number i"
        "res_input_revision c = Some (aid_input_revision i)" by auto
    note res = resolution_of_attempt [OF decided(2) own(3) c]
    have "aid_attempt_number i = next_attempt_number r (aid_stage i)" using n opened_attempt_number [OF o(1)] by simp
    from resolution_taken [OF decided(2) wait c rounds run' this] decided(3)
    obtain d r' where "persist_and_report x token i opn (wx_result wx) d r' s1 = (Inl e, s')" by (metis Inl_Inr_False prod.inject)
    from persist_and_report_faultless [OF this] row own(2) res(1,5) o(2) show ?thesis by (simp add: quiet_def)
  qed
qed

lemma advance_under_lease_faultless:
  assumes run: "advance_under_lease x token s = (Inl e, s')" and wf: "store_wf s" and plain: "plain_call x s"
    and exec: "stage_executor (ax_executor x) admits" and admitted: "\<And>i r. admits (context_of x i r)"
    and rounds: "rounds_at_specification x"
  shows "\<not> driver_fault e"
proof (cases "derive_identity x Under_lease s")
  case (Pair out s0)
  then have s0: "s0 = s" using keepsD [OF derive_identity_reads] by blast
  show ?thesis
  proof (cases out)
    case (Inl e')
    with run Pair have "e' = e" by (simp add: advance_under_lease_def sm_bind_Inl)
    with Inl Pair derive_identity_faultless show ?thesis by blast
  next
    case (Inr i)
    with Pair s0 have i: "derive_identity x Under_lease s = (Inr i, s)" by simp
    show ?thesis
    proof (cases "committed_of i s")
      case None
      with run i have "execute_attempt x token i s = (Inl e, s')" by (simp add: advance_under_lease_def sm_bind_def [of "derive_identity x Under_lease"] sm_bind_def [of "sm_gets (committed_of i)"] sm_run)
      from execute_attempt_faultless [OF this wf plain exec admitted i None] show ?thesis .
    next
      case (Some c)
      with run i have go: "sm_bind (resolved_wait x Under_lease i c) (\<lambda>resolver.
         case resolver of Some rv \<Rightarrow> resume x token i rv
         | None \<Rightarrow> sm_bind (on_store (release_lease (cr_id (aid_run i)) (ax_owner_id x) token)) (\<lambda>_.
             sm_return (replayed_advance c (aid_stage i)))) s = (Inl e, s')"
        by (simp add: advance_under_lease_def sm_bind_def [of "derive_identity x Under_lease"] sm_bind_def [of "sm_gets (committed_of i)"] sm_run)
      obtain w s1 where w: "resolved_wait x Under_lease i c s = (w, s1)" by force
      then have s1: "s1 = s" using keepsD [OF resolved_wait_reads] by blast
      show ?thesis
      proof (cases w)
        case (Inl e')
        with go w have "e' = e" by (simp add: sm_bind_Inl)
        with Inl w resolved_wait_faultless show ?thesis by blast
      next
        case (Inr rs)
        with w s1 have wait: "resolved_wait x Under_lease i c s = (Inr rs, s)" by simp
        show ?thesis
        proof (cases rs)
          case None
          with go wait show ?thesis by (auto simp: sm_bind_def [of "resolved_wait x Under_lease i c"] bind_cases)
        next
          case rv: (Some rv)
          with go wait have "resume x token i rv s = (Inl e, s')" by (simp add: sm_bind_def [of "resolved_wait x Under_lease i c"])
          from resume_faultless [OF this wf rounds i Some] wait rv show ?thesis by simp
        qed
      qed
    qed
  qed
qed

text \<open>
  An advance never fails of its own making. With an executor whose results the flow engine knows, on every
  store the run store can reach while other transactions run, what remains are an unknown, finished or exhausted
  run, the store's own conflicts, an unbuildable rework, and what the injected parts raise themselves.
\<close>

lemma advance_never_faults:
  assumes wf: "store_wf s" and others: "store_reaches s (others s)" and plain: "plain_call x (others s)"
    and exec: "stage_executor (ax_executor x) admits" and admitted: "\<And>i r. admits (context_of x i r)"
    and rounds: "rounds_at_specification x"
  shows "case fst (advance_run others x s) of Inl e \<Rightarrow> \<not> driver_fault e | Inr _ \<Rightarrow> True"
proof -
  have wf': "store_wf (others s)" using store_reaches_evolves [OF others] wf by (simp add: store_evolves_def)
  have "\<not> driver_fault e" if run: "advance_run others x s = (Inl e, s')" for e s'
  proof (cases "derive_identity x Before_lease s")
    case (Pair out s0)
    then have s0: "s0 = s" using keepsD [OF derive_identity_reads] by blast
    show ?thesis
    proof (cases out)
      case (Inl e')
      with run Pair have "e' = e" by (simp add: advance_run_def sm_bind_Inl)
      with Inl Pair derive_identity_faultless show ?thesis by blast
    next
      case (Inr i)
      let ?last = "\<lambda>inert. case inert of Some a \<Rightarrow> sm_return a
        | None \<Rightarrow> sm_bind (sm_modify others) (\<lambda>_.
            sm_bind (on_store (acquire_lease (ax_clk x) (cr_id (aid_run i)) (ax_owner_id x) (ax_lease_ttl x))) (advance_under_lease x))"
      from run Pair Inr s0 have "(\<exists>c. resolved_wait x Before_lease i c s = (Inl e, s')) \<or> (\<exists>inert. ?last inert s = (Inl e, s'))"
        by (auto simp: advance_run_def sm_bind_def [of "derive_identity x Before_lease"] sm_bind_def [of "sm_gets (committed_of i)"]
            sm_run bind_cases split: option.splits dest: keepsD [OF resolved_wait_reads])
      then consider (observed) c where "resolved_wait x Before_lease i c s = (Inl e, s')"
        | (leased) inert where "?last inert s = (Inl e, s')" by blast
      then show ?thesis
      proof cases
        case observed
        then show ?thesis by (rule resolved_wait_faultless)
      next
        case leased
        then consider e' where "e = OfStore e'"
          | token s2 where "acquire_lease (ax_clk x) (cr_id (aid_run i)) (ax_owner_id x) (ax_lease_ttl x) (others s) = (Inr token, s2)"
              "advance_under_lease x token s2 = (Inl e, s')"
          by (cases inert) (auto simp: bind_cases sm_run)
        then show ?thesis
        proof cases
          case 2
          note tables = leases_only_tables [OF acquire_lease_Inr(1) [OF 2(1)]]
          have "store_wf s2" "plain_call x s2" using tables(2,4) wf' plain by (simp_all add: store_evolves_def plain_call_def)
          from advance_under_lease_faultless [OF 2(2) this exec admitted rounds] show ?thesis .
        qed simp
      qed
    qed
  qed
  then show ?thesis by (cases "advance_run others x s") (auto split: sum.splits)
qed

text \<open>
  What cannot advance is refused before anything is written. An unknown run, a finished run and a run with
  no open stage on its route are refused with their own error, and an operation whose committed result is
  final is replayed, all on the store as it was: no lease, no attempt, no event.
\<close>

lemma refused_before_any_write:
  "case load (ax_run_id x) s of
     None \<Rightarrow> advance_run others x s = (Inl (RunNotFound (ax_run_id x)), s)
   | Some r \<Rightarrow>
       (if run_terminal (cr_status r) then advance_run others x s = (Inl (RunIsTerminalError (ax_run_id x) (cr_status r)), s)
        else case run_next_stage r of
          None \<Rightarrow> advance_run others x s = (Inl (NoStageLeft (cr_id r)), s)
        | Some st \<Rightarrow>
            (case pinned_revision x Before_lease r st of
               Inl e \<Rightarrow> advance_run others x s = (Inl e, s)
             | Inr rv \<Rightarrow>
                 (case committed_result (cr_id r) st (next_attempt_number r st) rv s of
                    None \<Rightarrow> True
                  | Some c \<Rightarrow> if res_status c = StageStatus_WAITING then True
                      else advance_run others x s = (Inr (replayed_advance c st), s))))"
  by (auto simp: advance_run_def derive_identity_def advanceable_run_def next_stage_to_execute_def of_sum_def sm_bind_def
      sm_return_def sm_gets_def sm_raise_def committed_of_def resolved_wait_def split: option.splits sum.splits)

section \<open>A sample call\<close>

definition sample_call :: "(stage_context \<Rightarrow> stage_result) \<Rightarrow> advance_call" where
  "sample_call exec = \<lparr>ax_change = sample_change, ax_run_id = ''run_0a'', ax_owner_id = ''w'',
     ax_executor = (\<lambda>ctx. Inr (exec ctx)), ax_revision_of = None, ax_merge_context = None, ax_human_decisions = [],
     ax_gate_facts = None, ax_release_facts = None, ax_lease_ttl = 10, ax_now = 2, ax_clk = 2, ax_conversation = None,
     ax_phase = None, ax_digest = sample_digest, ax_to_json = (\<lambda>_. []), ax_payload = (\<lambda>_ _. [])\<rparr>"

text \<open>An executor that parks every stage.\<close>

definition parking :: "stage_context \<Rightarrow> stage_result" where
  "parking ctx = executor_result ctx StageStatus_WAITING (WaitForInputAction (Txt ''x'')) [] 2 []"

lemma pinned_revision_named:
  assumes "list_all (\<lambda>sr. sr_input_revision sr \<noteq> Some []) (cr_stages r)" "ax_revision_of x = None" "ax_digest x (ax_to_json x (ax_change x)) \<noteq> []"
  shows "pinned_revision x m r st \<noteq> Inr []"
proof (cases "active_stage_runs r st = []")
  case False
  then have "last (active_stage_runs r st) \<in> set (cr_stages r)"
    by (metis active_stage_runs_def filter_is_subset last_in_set subsetD)
  with assms False show ?thesis
    by (auto simp: pinned_revision_def stage_input_revision_def list_all_iff Let_def split: option.split)
qed (use assms in \<open>auto simp: pinned_revision_def stage_input_revision_def\<close>)

lemma sample_call_plain:
  assumes "\<And>ctx. of_context ctx (exec ctx)"
  shows "plain_call (sample_call exec) (id sample_rs)"
proof -
  have "pinned_revision (sample_call exec) Under_lease sample_loaded st \<noteq> Inr []" for st
  proof (rule pinned_revision_named)
    show "list_all (\<lambda>sr. sr_input_revision sr \<noteq> Some []) (cr_stages sample_loaded)" by code_simp
  qed (simp_all add: sample_call_def sample_digest_def)
  with assms show ?thesis
    unfolding plain_call_def by (auto simp: sample_call_def sample_loaded_def)
qed

lemma sample_call_others: "store_reaches sample_rs (id sample_rs)"
  by (simp add: store_reaches.start)

text \<open>The sample store with a final result of the first attempt: the advance replays it.\<close>

definition sample_final :: stage_result where
  "sample_final = (sample_result Stage_SPECIFICATION StageStatus_BLOCKED (StopAction StopOutcome_BLOCKED (Txt ''x'')) [])
     \<lparr>res_run_id := ''run_0a'', res_input_revision := Some ''abc''\<rparr>"

definition sample_committed :: run_store where
  "sample_committed = sample_rs\<lparr>rs_results := snd (record_outcome_of sample_final (rs_results sample_rs))\<rparr>"

lemma sample_committed_wf: "store_wf sample_committed"
proof -
  have "storable sample_final"
    by (simp add: storable_def sample_final_def stage_result_valid_def sample_result_def result_statuses_def)
  from evolves_record [OF this, of sample_rs] sample_rs_wf show ?thesis by (simp add: sample_committed_def store_evolves_def)
qed

theorem advance_writes_all_or_nothing_witness:
  "case advance_run id (sample_call parking) sample_committed of
      (Inr a, s') \<Rightarrow> adv_outcome a = Advance_REPLAYED \<and> adv_result a = sample_final \<and> leases_only sample_committed s'
    | _ \<Rightarrow> False"
proof -
  let ?x = "sample_call parking"
  have id: "ax_run_id ?x = ''run_0a''" by (simp add: sample_call_def)
  have same: "load k sample_committed = load k sample_rs" for k
    by (simp add: sample_committed_def load_def load_stages_def stage_rows_def Let_def cong: option.case_cong)
  have ld: "load ''run_0a'' sample_rs = Some sample_loaded" by code_simp
  have facts: "cr_status sample_loaded = RunStatus_PENDING" "run_next_stage sample_loaded = Some Stage_SPECIFICATION"
    "pinned_revision ?x Before_lease sample_loaded Stage_SPECIFICATION = Inr ''abc''"
    "next_attempt_number sample_loaded Stage_SPECIFICATION = 1" "cr_id sample_loaded = ''run_0a''"
    "committed_result ''run_0a'' Stage_SPECIFICATION 1 ''abc'' sample_committed = Some sample_final" by code_simp+
  have run: "advance_run id ?x sample_committed = (Inr (replayed_advance sample_final Stage_SPECIFICATION), sample_committed)"
    using refused_before_any_write [where x = ?x and s = sample_committed and others = id] facts by (simp add: id same ld) (simp add: sample_final_def sample_result_def)
  have own: "of_context ctx (parking ctx)" for ctx by (simp add: parking_def of_context_def executor_result_def new_result_def)
  from sample_call_plain [OF own] have "plain_call ?x (id sample_committed)" by (simp add: plain_call_def same)
  moreover have "store_reaches sample_committed (id sample_committed)" by (simp add: store_reaches.start)
  ultimately show ?thesis
    using advance_writes_all_or_nothing [where x = ?x and others = id, OF sample_committed_wf] run
    by (auto simp: replayed_advance_def advance_replayed_def)
qed

end
