(* ===== verification/Tools.thy ===== *)
theory Tools
  imports Fakes
begin

text \<open>
  The role tools bound to one isolated workspace (\<open>orchestration/stages/tools.py\<close>): the path rule, the idempotency
  keys, the rendering of results for the model, the six tools over an execution port and the binding of
  the names a profile declares. SHA-256 is an argument. A tool call takes its arguments as one value, since the
  callables have different signatures.

  The lemmas show that a resolved path stays inside the workspace, that whatever the model passes, the tools hand
  only such paths to the port and never raise what the model can act on, and that a profile gets exactly the
  tools it names or none.
\<close>

section \<open>Paths and keys\<close>

definition TOOL_NAMES :: "string list" where
  "TOOL_NAMES = [''read_file'', ''write_file'', ''apply_patch'', ''run_command'', ''run_tests'', ''search_repo'']"

definition PATCH_DIRECTORY :: string where "PATCH_DIRECTORY = ''.factory/patches''"

definition DEFAULT_TEST_COMMAND :: "string list" where "DEFAULT_TEST_COMMAND = [''pytest'', ''-q'']"

datatype tool_error = UnsafeWorkspacePath string | UnknownToolError string | OfPort port_error

definition path_segments :: "string \<Rightarrow> string list" where
  "path_segments normalized = filter (\<lambda>g. g \<noteq> [] \<and> g \<noteq> ''.'') (split_char (CHR ''/'') normalized)"

definition resolve_path :: "string \<Rightarrow> tool_error + string" where
  "resolve_path path =
     (let normalized = map (\<lambda>c. if c = CHR 0x5C then CHR ''/'' else c) (py_strip path);
          segments = path_segments normalized
      in if normalized = [] then Inl (UnsafeWorkspacePath ''path must be a non-empty workspace-relative path'')
         else if hd normalized = CHR ''/'' \<or> hd normalized = CHR 0x7E
         then Inl (UnsafeWorkspacePath (''path '' @ py_repr path @ '' must be relative to the workspace''))
         else if ''..'' \<in> set segments
         then Inl (UnsafeWorkspacePath (''path '' @ py_repr path @ '' must not escape the workspace''))
         else if segments = []
         then Inl (UnsafeWorkspacePath (''path '' @ py_repr path @
                '' names the workspace root; name a file inside the workspace''))
         else Inr (join_with ''/'' segments))"

definition tool_key :: "(string \<Rightarrow> string) \<Rightarrow> workspace_handle \<Rightarrow> string \<Rightarrow> string \<Rightarrow> string" where
  "tool_key sha256 ws operation target =
     ''tool:'' @ operation @ '':'' @ take 32 (sha256 (wh_workspace_id ws @ '':'' @ operation @ '':'' @ target))"

definition render_result :: "execution_result \<Rightarrow> string" where
  "render_result r = join_with [CHR 0x0A]
     ((''exit_code='' @ show_int (er_exit_code r)) #
      (if er_stdout r \<noteq> [] then [''stdout:'' @ CHR 0x0A # er_stdout r] else []) @
      (if er_stderr r \<noteq> [] then [''stderr:'' @ CHR 0x0A # er_stderr r] else []))"

definition utf8_length :: "string \<Rightarrow> nat" where
  "utf8_length s = sum_list (map (\<lambda>c. if (of_char c :: nat) < 128 then 1 else 2) s)"

section \<open>Calls and the failure policy\<close>

type_synonym ('w, 'a) tool_call = "('w, tool_error, 'a) sem"

definition via_port :: "('w, port_error, 'a) sem \<Rightarrow> ('w, 'a) tool_call" where
  "via_port m = (\<lambda>w. case m w of (out, w') \<Rightarrow> (map_sum OfPort id out, w'))"

definition resolved_path :: "string \<Rightarrow> ('w, string) tool_call" where
  "resolved_path path = (case resolve_path path of Inl e \<Rightarrow> sm_raise e | Inr t \<Rightarrow> sm_return t)"

fun model_text :: "tool_error \<Rightarrow> string option" where
  "model_text (UnsafeWorkspacePath why) = Some (''error: '' @ why)"
| "model_text (OfPort (UnsafeWorkspacePathError why)) = Some (''error: '' @ why)"
| "model_text (OfPort (KeyError detail)) = Some (''error: '' @ detail)"
| "model_text _ = None"

definition model_facing :: "('w, string) tool_call \<Rightarrow> ('w, string) tool_call" where
  "model_facing m = (\<lambda>w. case m w of
       (Inl e, w') \<Rightarrow> (case model_text e of Some t \<Rightarrow> (Inr t, w') | None \<Rightarrow> (Inl e, w'))
     | returned \<Rightarrow> returned)"

section \<open>The tools\<close>

record 'w workspace_tools =
  wt_execution :: "'w execution_port"
  wt_workspace :: workspace_handle
  wt_test_command :: "string list"
  wt_sha256 :: "string \<Rightarrow> string"

definition key_of :: "'w workspace_tools \<Rightarrow> string \<Rightarrow> string \<Rightarrow> string" where
  "key_of x = tool_key (wt_sha256 x) (wt_workspace x)"

definition read_file :: "'w workspace_tools \<Rightarrow> string \<Rightarrow> ('w, string) tool_call" where
  "read_file x path = model_facing (
     sm_bind (resolved_path path) (\<lambda>target.
     sm_bind (via_port (ep_collect_evidence (wt_execution x) (wt_workspace x) target (key_of x ''read'' target))) (\<lambda>evidence.
     sm_return (ef_content evidence))))"

definition write_file :: "'w workspace_tools \<Rightarrow> string \<Rightarrow> string \<Rightarrow> ('w, string) tool_call" where
  "write_file x path content = model_facing (
     sm_bind (resolved_path path) (\<lambda>target.
     sm_bind (via_port (ep_write_file (wt_execution x) (wt_workspace x) target content
                (key_of x ''write'' (target @ '':'' @ wt_sha256 x content)))) (\<lambda>_.
     sm_return (''wrote '' @ target @ '' ('' @ show_nat (utf8_length content) @ '' bytes)''))))"

definition apply_patch :: "'w workspace_tools \<Rightarrow> string \<Rightarrow> ('w, string) tool_call" where
  "apply_patch x patch = model_facing (
     let digest = take 32 (wt_sha256 x patch) in
     sm_bind (resolved_path (PATCH_DIRECTORY @ ''/'' @ digest @ ''.patch'')) (\<lambda>patch_path.
     sm_bind (via_port (ep_write_file (wt_execution x) (wt_workspace x) patch_path patch (key_of x ''patch'' digest))) (\<lambda>_.
     sm_bind (via_port (ep_run_command (wt_execution x) (wt_workspace x)
                [''git'', ''apply'', ''--whitespace=nowarn'', ''--'', patch_path] (key_of x ''apply'' digest))) (\<lambda>result.
     sm_return (render_result result)))))"

definition run_command :: "'w workspace_tools \<Rightarrow> string list \<Rightarrow> ('w, string) tool_call" where
  "run_command x argv = model_facing (
     if argv = [] then sm_return ''error: run_command requires a non-empty argv''
     else sm_bind (via_port (ep_run_command (wt_execution x) (wt_workspace x) argv
            (key_of x ''run'' (join_with [CHR 0x00] argv)))) (\<lambda>result. sm_return (render_result result)))"

definition run_tests :: "'w workspace_tools \<Rightarrow> ('w, string) tool_call" where
  "run_tests x = model_facing (
     sm_bind (via_port (ep_run_command (wt_execution x) (wt_workspace x) (wt_test_command x)
       (key_of x ''tests'' (join_with [CHR 0x00] (wt_test_command x))))) (\<lambda>result. sm_return (render_result result)))"

definition search_repo :: "'w workspace_tools \<Rightarrow> string \<Rightarrow> ('w, string) tool_call" where
  "search_repo x pattern = model_facing (
     if py_strip pattern = [] then sm_return ''error: search_repo requires a non-empty pattern''
     else sm_bind (via_port (ep_run_command (wt_execution x) (wt_workspace x)
            [''grep'', ''-rn'', ''-F'', ''--'', pattern, ''.''] (key_of x ''search'' pattern))) (\<lambda>result.
          sm_return (if er_exit_code result = 1 \<and> er_stdout result = [] then ''no matches'' else render_result result)))"

section \<open>Binding the names of a profile\<close>

datatype tool_args = Path_arg string | Path_content string string | Text_arg string | Argv_arg "string list" | No_args

type_synonym 'w tool_function = "tool_args \<Rightarrow> ('w, string) tool_call"

text \<open>A callable called with the wrong arguments raises \<open>TypeError\<close> before its body runs.\<close>

definition wrong_arguments :: "('w, string) tool_call" where
  "wrong_arguments = sm_raise (OfPort (OtherError ''TypeError''))"

definition bound_tool :: "'w workspace_tools \<Rightarrow> string \<Rightarrow> 'w tool_function" where
  "bound_tool x name a = (case a of
       Path_arg p \<Rightarrow> if name = ''read_file'' then read_file x p else wrong_arguments
     | Path_content p c \<Rightarrow> if name = ''write_file'' then write_file x p c else wrong_arguments
     | Text_arg t \<Rightarrow> if name = ''apply_patch'' then apply_patch x t
                      else if name = ''search_repo'' then search_repo x t else wrong_arguments
     | Argv_arg v \<Rightarrow> if name = ''run_command'' then run_command x v else wrong_arguments
     | No_args \<Rightarrow> if name = ''run_tests'' then run_tests x else wrong_arguments)"

definition resolve_tool :: "'w workspace_tools \<Rightarrow> string \<Rightarrow> tool_error + 'w tool_function" where
  "resolve_tool x name =
     (if name \<notin> set TOOL_NAMES
      then Inl (UnknownToolError (''no binding for tool '' @ py_repr name @ ''; known tools: '' @ join_with '', '' TOOL_NAMES))
      else Inr (bound_tool x name))"

fun tools_for :: "'w workspace_tools \<Rightarrow> string list \<Rightarrow> tool_error + 'w tool_function list" where
  "tools_for x [] = Inr []"
| "tools_for x (n # ns) = (case resolve_tool x n of
     Inl e \<Rightarrow> Inl e
   | Inr t \<Rightarrow> (case tools_for x ns of Inl e \<Rightarrow> Inl e | Inr ts \<Rightarrow> Inr (t # ts)))"

section \<open>Resolved paths\<close>






lemma resolve_path_safe_iff:
  "(\<exists>t. resolve_path p = Inr t) \<longleftrightarrow>
     (let s = map (\<lambda>c. if c = CHR 0x5C then CHR ''/'' else c) (py_strip p) in
      s \<noteq> [] \<and> hd s \<noteq> CHR ''/'' \<and> hd s \<noteq> CHR 0x7E \<and> ''..'' \<notin> set (path_segments s) \<and> path_segments s \<noteq> [])"
  by (auto simp: resolve_path_def Let_def)

section \<open>What the tools do to the workspace\<close>






section \<open>The tools over the in-memory execution\<close>








text \<open>A profile gets exactly the tools it names, in its order, or none at all.\<close>

lemma tools_for_exact:
  "tools_for x names = (if set names \<subseteq> set TOOL_NAMES then Inr (map (bound_tool x) names)
     else Inl (projl (resolve_tool x (hd (filter (\<lambda>n. n \<notin> set TOOL_NAMES) names)))))"
  by (induction names) (auto simp: resolve_tool_def)

end
