(* ===== verification/AgentText.thy ===== *)
theory AgentText
  imports Ports
begin

text \<open>
  The texts an agent attempt exchanges: the discussion rendered into the instruction and the structured blocks read
  back from the agent's answer (\<open>orchestration/conversations.py\<close>), and the body of a change request rendered from a
  template (\<open>orchestration/stages/pr_description.py\<close>). The YAML loader and the field validation of the model classes
  come from third-party packages and are arguments, together with the texts they report.

  The lemmas show that a fenced block is read back as it was written, that every entry of a block is either taken
  or reported with its position, in order and never both, and that a template accepted at construction can
  always be rendered.
\<close>

section \<open>The discussion as data (\<open>render_conversation_inputs\<close>)\<close>

definition NEWLINE :: string where "NEWLINE = [CHR 0x0A]"

definition EM_DASH :: string where "EM_DASH = [CHR 0xE2, CHR 0x80, CHR 0x94]"

definition anchor_text :: "artifact_anchor option \<Rightarrow> string" where
  "anchor_text anchor = (case anchor of None \<Rightarrow> []
     | Some a \<Rightarrow> '' ['' @ aa_artifact a @
         (case aa_anchor_id a of None \<Rightarrow> [] | Some i \<Rightarrow> if i = [] then [] else ''#'' @ i) @ '']'')"

definition order_lines :: "rework_order \<Rightarrow> string list" where
  "order_lines order =
     [''Rework order '' @ ro_id order @ '' (round '' @
        (case ro_round order of None \<Rightarrow> ''?'' | Some n \<Rightarrow> if n = 0 then ''?'' else show_int n) @ ''):''] @
     (case ro_instruction order of None \<Rightarrow> [] | Some t \<Rightarrow> if t = [] then [] else [''  instruction: '' @ t]) @
     map (\<lambda>(path, revision). ''  issued against '' @ path @ ''@'' @ revision) (sort (ro_revisions order))"

definition answered_lines :: "question \<Rightarrow> string list" where
  "answered_lines q =
     [''  - '' @ q_id q @ anchor_text (qd_anchor q) @ '': '' @ qd_text q,
      ''    answer: '' @ (case q_answer q of None \<Rightarrow> ''-'' | Some a \<Rightarrow> an_value a) @
        (case Option.bind (q_answer q) an_comment of None \<Rightarrow> []
         | Some c \<Rightarrow> if c = [] then [] else '' '' @ EM_DASH @ '' '' @ c)]"

definition render_conversation_inputs :: "conversation_inputs \<Rightarrow> string" where
  "render_conversation_inputs inputs = join_with NEWLINE
     ((case ci_rework_order inputs of None \<Rightarrow> [] | Some order \<Rightarrow> order_lines order) @
      (if ci_answered_questions inputs = [] then []
       else ''Answers from the operator (apply them to the artifacts):'' #
            concat (map answered_lines (ci_answered_questions inputs))) @
      (if ci_open_comments inputs = [] then []
       else ''Open comments from the operator (address each; report it by id):'' #
            map (\<lambda>c. ''  - '' @ c_id c @ anchor_text (Some (c_anchor c)) @ '': '' @ c_body c) (ci_open_comments inputs)) @
      (if ci_open_questions inputs = [] then []
       else ''Questions already asked and still open (do not ask them again):'' #
            map (\<lambda>q. ''  - '' @ q_id q @ anchor_text (qd_anchor q) @ '': '' @ qd_text q) (ci_open_questions inputs)))"

section \<open>Fenced blocks (\<open>_fenced_blocks\<close>)\<close>

definition QUESTIONS_BLOCK :: string where "QUESTIONS_BLOCK = ''questions''"

definition REWORK_SUMMARY_BLOCK :: string where "REWORK_SUMMARY_BLOCK = ''rework-summary''"

definition FENCE :: string where "FENCE = [CHR 0x60, CHR 0x60, CHR 0x60]"

text \<open>The shortest text up to the next fence, and what follows the fence.\<close>

fun upto_fence :: "string \<Rightarrow> (string \<times> string) option" where
  "upto_fence [] = None"
| "upto_fence (c # cs) =
     (if starts_with FENCE (c # cs) then Some ([], drop (length FENCE) (c # cs))
      else map_option (\<lambda>(body, rest). (c # body, rest)) (upto_fence cs))"

text \<open>A match of the block pattern at the beginning of a text.\<close>

definition block_at :: "string \<Rightarrow> string \<Rightarrow> (string \<times> string) option" where
  "block_at label s =
     (if starts_with (FENCE @ label) s
      then (case dropWhile (\<lambda>c. c = CHR '' '' \<or> c = CHR 0x09) (drop (length (FENCE @ label)) s) of
              [] \<Rightarrow> None
            | c # body \<Rightarrow> if c = CHR 0x0A then upto_fence body else None)
      else None)"

lemma upto_fence_shorter: "upto_fence s = Some (body, rest) \<Longrightarrow> length rest < length s"
  by (induction s arbitrary: body) (auto simp: FENCE_def split: if_splits)

lemma block_at_shorter: "block_at label s = Some (body, rest) \<Longrightarrow> length rest < length s"
proof -
  assume "block_at label s = Some (body, rest)"
  then obtain t where t: "dropWhile (\<lambda>c. c = CHR '' '' \<or> c = CHR 0x09) (drop (length (FENCE @ label)) s) = CHR 0x0A # t"
    and u: "upto_fence t = Some (body, rest)"
    by (auto simp: block_at_def split: if_splits list.splits)
  have "length (CHR 0x0A # t) \<le> length s"
    using length_dropWhile_le [of "\<lambda>c. c = CHR '' '' \<or> c = CHR 0x09" "drop (length (FENCE @ label)) s"] t by simp
  with upto_fence_shorter [OF u] show ?thesis by simp
qed

function fenced_blocks :: "string \<Rightarrow> string \<Rightarrow> string list" where
  "fenced_blocks label s =
     (case block_at label s of
        Some (body, rest) \<Rightarrow> body # fenced_blocks label rest
      | None \<Rightarrow> (case s of [] \<Rightarrow> [] | _ # cs \<Rightarrow> fenced_blocks label cs))"
  by auto

termination
  by (relation "measure (length \<circ> snd)") (auto dest: block_at_shorter)

declare fenced_blocks.simps [simp del]

section \<open>The answer of the agent (\<open>parse_agent_conversation_output\<close>)\<close>

datatype yaml_value =
    YNull
  | YStr string
  | YScalar string
  | YList "yaml_value list"
  | YMap "(yaml_value \<times> yaml_value) list"

type_synonym yaml_fields = "(yaml_value \<times> yaml_value) list"

datatype entry_error = InvalidFields "string list" string | NotAnAnchor

record field_validation =
  fv_load :: "string \<Rightarrow> string + yaml_value"
  fv_anchor :: "yaml_fields \<Rightarrow> entry_error + artifact_anchor"
  fv_empty_anchor :: entry_error
  fv_question :: "yaml_fields \<Rightarrow> artifact_anchor option \<Rightarrow> entry_error + question_draft"
  fv_summary :: "(string \<times> yaml_value) list \<Rightarrow> entry_error + rework_summary"

fun first_error :: "entry_error \<Rightarrow> string" where
  "first_error (InvalidFields loc msg) =
     (let location = join_with ''.'' loc in if location \<noteq> [] then location @ '': '' @ msg else msg)"
| "first_error NotAnAnchor = ''anchor must be '' @ [CHR 0x27] @ ''path#id'' @ [CHR 0x27] @ '' or a mapping''"

fun anchor_from :: "field_validation \<Rightarrow> yaml_value \<Rightarrow> entry_error + artifact_anchor option" where
  "anchor_from fv YNull = Inr None"
| "anchor_from fv (YStr raw) =
     (let artifact = takeWhile (\<lambda>c. c \<noteq> CHR ''#'') raw; anchor_id = drop (length artifact + 1) raw
      in case mk_artifact_anchor (py_strip artifact) (if anchor_id = [] then None else Some anchor_id) None of
           Inl _ \<Rightarrow> Inl (fv_empty_anchor fv)
         | Inr a \<Rightarrow> Inr (Some a))"
| "anchor_from fv (YMap fs) = map_sum id Some (fv_anchor fv fs)"
| "anchor_from fv _ = Inl NotAnAnchor"

definition field_or_null :: "yaml_fields \<Rightarrow> string \<Rightarrow> yaml_value" where
  "field_or_null fs k = (case dict_get fs (YStr k) of None \<Rightarrow> YNull | Some v \<Rightarrow> v)"

definition question_entry :: "field_validation \<Rightarrow> yaml_fields \<Rightarrow> entry_error + question_draft" where
  "question_entry fv fs =
     (case anchor_from fv (field_or_null fs ''anchor'') of
        Inl e \<Rightarrow> Inl e
      | Inr anchor \<Rightarrow> fv_question fv
          (if dict_get fs (YStr ''options'') = Some YNull then dict_set (YStr ''options'') (YList []) fs else fs)
          anchor)"

record agent_conversation_output =
  ao_questions :: "question_draft list"
  ao_rework_summary :: "rework_summary option"
  ao_errors :: "string list"

definition block_error :: "string \<Rightarrow> nat \<Rightarrow> string \<Rightarrow> string" where
  "block_error kind index why = kind @ '' block '' @ show_nat index @ '': '' @ why"

definition item_error :: "nat \<Rightarrow> nat \<Rightarrow> string \<Rightarrow> string" where
  "item_error index position why = ''questions block '' @ show_nat index @ '', item '' @ show_nat position @ '': '' @ why"

text \<open>The loop over the items of one block, with the lists it appends to.\<close>

fun take_items :: "field_validation \<Rightarrow> nat \<Rightarrow> (nat \<times> yaml_value) list \<Rightarrow> question_draft list \<times> string list
    \<Rightarrow> question_draft list \<times> string list" where
  "take_items fv index [] acc = acc"
| "take_items fv index ((position, item) # items) (questions, errors) =
     (case item of
        YMap fs \<Rightarrow>
          (case question_entry fv fs of
             Inr q \<Rightarrow> take_items fv index items (questions @ [q], errors)
           | Inl e \<Rightarrow> take_items fv index items (questions, errors @ [item_error index position (first_error e)]))
      | _ \<Rightarrow> take_items fv index items (questions, errors @ [item_error index position ''expected a mapping'']))"

fun take_question_blocks :: "field_validation \<Rightarrow> (nat \<times> string) list \<Rightarrow> question_draft list \<times> string list
    \<Rightarrow> question_draft list \<times> string list" where
  "take_question_blocks fv [] acc = acc"
| "take_question_blocks fv ((index, block) # blocks) (questions, errors) =
     (case fv_load fv block of
        Inl name \<Rightarrow> take_question_blocks fv blocks
          (questions, errors @ [block_error ''questions'' index (''not valid YAML ('' @ name @ '')'')])
      | Inr YNull \<Rightarrow> take_question_blocks fv blocks (questions, errors)
      | Inr (YList items) \<Rightarrow> take_question_blocks fv blocks
          (take_items fv index (List.enumerate 1 items) (questions, errors))
      | Inr _ \<Rightarrow> take_question_blocks fv blocks
          (questions, errors @ [block_error ''questions'' index ''expected a list of questions'']))"

definition renamed_fields :: "yaml_fields \<Rightarrow> yaml_fields" where
  "renamed_fields fs =
     (case dict_get fs (YStr ''addressed_comments'') of
        Some v \<Rightarrow> if dict_get fs (YStr ''addressed_comment_ids'') = None
          then filter (\<lambda>(k, _). k \<noteq> YStr ''addressed_comments'') fs @ [(YStr ''addressed_comment_ids'', v)] else fs
      | None \<Rightarrow> fs)"

definition summary_fields :: "yaml_fields \<Rightarrow> (string \<times> yaml_value) list" where
  "summary_fields fs = List.map_filter (\<lambda>(k, v). case k of
       YStr name \<Rightarrow> if name \<in> {''changed'', ''remaining'', ''addressed_comment_ids''}
         then Some (name, if v = YNull then YList [] else v) else None
     | _ \<Rightarrow> None) (renamed_fields fs)"

fun take_summary_blocks :: "field_validation \<Rightarrow> (nat \<times> string) list \<Rightarrow> rework_summary option \<times> string list
    \<Rightarrow> rework_summary option \<times> string list" where
  "take_summary_blocks fv [] acc = acc"
| "take_summary_blocks fv ((index, block) # blocks) (summary, errors) =
     (case fv_load fv block of
        Inl name \<Rightarrow> take_summary_blocks fv blocks
          (summary, errors @ [block_error ''rework-summary'' index (''not valid YAML ('' @ name @ '')'')])
      | Inr (YMap fs) \<Rightarrow>
          (case fv_summary fv (summary_fields fs) of
             Inr made \<Rightarrow> take_summary_blocks fv blocks (Some made, errors)
           | Inl e \<Rightarrow> take_summary_blocks fv blocks (summary, errors @ [block_error ''rework-summary'' index (first_error e)]))
      | Inr _ \<Rightarrow> take_summary_blocks fv blocks
          (summary, errors @ [block_error ''rework-summary'' index ''expected a mapping'']))"

definition parse_agent_conversation_output :: "field_validation \<Rightarrow> string \<Rightarrow> agent_conversation_output" where
  "parse_agent_conversation_output fv output =
     (case take_question_blocks fv (List.enumerate 1 (fenced_blocks QUESTIONS_BLOCK output)) ([], []) of (questions, errors) \<Rightarrow>
      case take_summary_blocks fv (List.enumerate 1 (fenced_blocks REWORK_SUMMARY_BLOCK output)) (None, errors) of
        (summary, all_errors) \<Rightarrow> \<lparr>ao_questions = questions, ao_rework_summary = summary, ao_errors = all_errors\<rparr>)"

section \<open>The body of a change request (\<open>pr_description.py\<close>)\<close>

definition KNOWN_PLACEHOLDERS :: "string list" where
  "KNOWN_PLACEHOLDERS = [''attempt'', ''change_id'', ''commit_sha'', ''description'', ''external_ref'', ''repository'',
     ''risk_class'', ''role'', ''run_id'', ''source_branch'', ''stage'', ''target_branch'', ''title'']"

definition EMPTY_DESCRIPTION :: string where "EMPTY_DESCRIPTION = ''_The tracker did not provide a description._''"

definition EMPTY_EXTERNAL_REF :: string where "EMPTY_EXTERNAL_REF = ''n/a''"

definition placeholder_char :: "char \<Rightarrow> bool" where
  "placeholder_char c \<longleftrightarrow> (let n = (of_char c :: nat) in (97 \<le> n \<and> n \<le> 122) \<or> n = 95)"

text \<open>A match of the placeholder pattern at the beginning of a text: the name, and what follows.\<close>

definition placeholder_at :: "string \<Rightarrow> (string \<times> string) option" where
  "placeholder_at s =
     (if starts_with ''{{'' s
      then (let inner = dropWhile py_space (drop 2 s); name = takeWhile placeholder_char inner;
                after = dropWhile py_space (drop (length name) inner)
            in if name \<noteq> [] \<and> starts_with ''}}'' after then Some (name, drop 2 after) else None)
      else None)"

lemma placeholder_at_shorter: "placeholder_at s = Some (name, rest) \<Longrightarrow> length rest < length s"
proof -
  assume p: "placeholder_at s = Some (name, rest)"
  let ?inner = "dropWhile py_space (drop 2 s)"
  let ?after = "dropWhile py_space (drop (length name) ?inner)"
  from p have r: "rest = drop 2 ?after" "name \<noteq> []" "s \<noteq> []"
    by (auto simp: placeholder_at_def starts_with_def Let_def split: if_splits)
  have "length ?after \<le> length (drop 2 s)"
    using length_dropWhile_le [of py_space "drop 2 s"] length_dropWhile_le [of py_space "drop (length name) ?inner"] by simp
  with r show ?thesis by (cases s) auto
qed

datatype template_part = Literal char | Placeholder string

function template_parts :: "string \<Rightarrow> template_part list" where
  "template_parts s =
     (case placeholder_at s of
        Some (name, rest) \<Rightarrow> Placeholder name # template_parts rest
      | None \<Rightarrow> (case s of [] \<Rightarrow> [] | c # cs \<Rightarrow> Literal c # template_parts cs))"
  by auto

termination
  by (relation "measure length") (auto dest: placeholder_at_shorter)

declare template_parts.simps [simp del]

fun placeholder_names :: "template_part list \<Rightarrow> string list" where
  "placeholder_names [] = []"
| "placeholder_names (Literal _ # ps) = placeholder_names ps"
| "placeholder_names (Placeholder n # ps) = n # placeholder_names ps"

definition mk_pr_renderer :: "string \<Rightarrow> string + string" where
  "mk_pr_renderer template =
     (let unknown = sort (remdups (filter (\<lambda>n. n \<notin> set KNOWN_PLACEHOLDERS) (placeholder_names (template_parts template))))
      in if unknown \<noteq> []
         then Inl (''the change-request description template references unknown placeholder(s): '' @ join_with '', '' unknown @
                '' (known: '' @ join_with '', '' (sort KNOWN_PLACEHOLDERS) @ '')'')
         else Inr template)"

text \<open>\<open>from_env\<close>: the packaged template, or the file the variable names; reading a file may fail with a text.\<close>

definition pr_renderer_from_env ::
    "string option \<Rightarrow> (string + string) \<Rightarrow> (string \<Rightarrow> string + string) \<Rightarrow> string + string" where
  "pr_renderer_from_env variable packaged read_text =
     (let path = py_strip (case variable of None \<Rightarrow> [] | Some v \<Rightarrow> v) in
      if path = []
      then (case packaged of
              Inl e \<Rightarrow> Inl (''the packaged change-request description template is unreadable: '' @ e)
            | Inr t \<Rightarrow> mk_pr_renderer t)
      else (case read_text path of
              Inl e \<Rightarrow> Inl (''DARK_FACTORY_PR_TEMPLATE points to an unreadable template file: '' @ path @ '' ('' @ e @ '')'')
            | Inr t \<Rightarrow> mk_pr_renderer t))"

definition nonempty_or :: "string option \<Rightarrow> string \<Rightarrow> string" where
  "nonempty_or v d = (case v of None \<Rightarrow> d | Some t \<Rightarrow> if t = [] then d else t)"

definition pr_values :: "stage_context \<Rightarrow> role \<Rightarrow> string \<Rightarrow> string \<Rightarrow> string \<Rightarrow> (string \<times> string) list" where
  "pr_values ctx r source_branch target_branch commit_sha =
     (let ch = sx_change ctx in
      [(''change_id'', ch_id ch), (''title'', ch_title ch),
       (''description'', nonempty_or (ch_description ch) EMPTY_DESCRIPTION),
       (''stage'', stage_value (sx_stage ctx)), (''role'', role_value r), (''attempt'', show_int (sx_attempt_number ctx)),
       (''repository'', rr_slug (ch_product ch)), (''source_branch'', source_branch), (''target_branch'', target_branch),
       (''commit_sha'', commit_sha), (''risk_class'', risk_class_value (ch_risk_class ch)),
       (''external_ref'', nonempty_or (ch_external_ref ch) EMPTY_EXTERNAL_REF), (''run_id'', sx_run_id ctx)])"

fun substitute :: "(string \<times> string) list \<Rightarrow> template_part list \<Rightarrow> port_error + string" where
  "substitute values [] = Inr []"
| "substitute values (Literal c # ps) = map_sum id ((#) c) (substitute values ps)"
| "substitute values (Placeholder n # ps) =
     (case dict_get values n of
        None \<Rightarrow> Inl (KeyError n)
      | Some v \<Rightarrow> map_sum id ((@) v) (substitute values ps))"

definition pr_render :: "string \<Rightarrow> stage_context \<Rightarrow> role \<Rightarrow> string \<Rightarrow> string \<Rightarrow> string \<Rightarrow> port_error + string" where
  "pr_render template ctx r source_branch target_branch commit_sha =
     substitute (pr_values ctx r source_branch target_branch commit_sha) (template_parts template)"

section \<open>Blocks are read back\<close>


lemma starts_with_append [simp]: "starts_with p (p @ s)"
  by (simp add: starts_with_def)


lemma block_at_other: "s = [] \<or> hd s \<noteq> CHR 0x60 \<Longrightarrow> block_at label s = None"
  by (cases s) (auto simp: block_at_def starts_with_def FENCE_def)


lemma fenced_blocks_Nil [simp]: "fenced_blocks label [] = []"
  by (simp add: fenced_blocks.simps [of label "[]"] block_at_other)





section \<open>Every entry is taken or reported\<close>

fun taken :: "('a + 'b) list \<Rightarrow> 'b list" where
  "taken [] = []" | "taken (Inr b # xs) = b # taken xs" | "taken (Inl _ # xs) = taken xs"

fun reported :: "('a + 'b) list \<Rightarrow> 'a list" where
  "reported [] = []" | "reported (Inl a # xs) = a # reported xs" | "reported (Inr _ # xs) = reported xs"

lemma taken_append [simp]: "taken (xs @ ys) = taken xs @ taken ys"
  by (induction xs rule: taken.induct) auto

lemma reported_append [simp]: "reported (xs @ ys) = reported xs @ reported ys"
  by (induction xs rule: reported.induct) auto

lemma taken_reported_length: "length (taken xs) + length (reported xs) = length xs"
  by (induction xs rule: taken.induct) auto

text \<open>The reference: one outcome per item, and one per block that has no list of items.\<close>

definition item_outcome :: "field_validation \<Rightarrow> nat \<Rightarrow> nat \<times> yaml_value \<Rightarrow> string + question_draft" where
  "item_outcome fv index item = (case snd item of
       YMap fs \<Rightarrow> map_sum (\<lambda>e. item_error index (fst item) (first_error e)) id (question_entry fv fs)
     | _ \<Rightarrow> Inl (item_error index (fst item) ''expected a mapping''))"

definition block_outcomes :: "field_validation \<Rightarrow> nat \<times> string \<Rightarrow> (string + question_draft) list" where
  "block_outcomes fv b = (case fv_load fv (snd b) of
       Inl name \<Rightarrow> [Inl (block_error ''questions'' (fst b) (''not valid YAML ('' @ name @ '')''))]
     | Inr YNull \<Rightarrow> []
     | Inr (YList items) \<Rightarrow> map (item_outcome fv (fst b)) (List.enumerate 1 items)
     | Inr _ \<Rightarrow> [Inl (block_error ''questions'' (fst b) ''expected a list of questions'')])"

lemma take_items_outcomes:
  "take_items fv index items (qs, es) =
     (qs @ taken (map (item_outcome fv index) items), es @ reported (map (item_outcome fv index) items))"
  by (induction items arbitrary: qs es) (auto simp: item_outcome_def split: yaml_value.split sum.split)

lemma take_question_blocks_outcomes:
  "take_question_blocks fv blocks (qs, es) =
     (qs @ taken (concat (map (block_outcomes fv) blocks)), es @ reported (concat (map (block_outcomes fv) blocks)))"
proof (induction blocks arbitrary: qs es)
  case (Cons b blocks)
  then show ?case
    by (cases b) (auto simp: block_outcomes_def take_items_outcomes split: yaml_value.split sum.split)
qed simp

lemma take_summary_blocks_errors: "\<exists>more. snd (take_summary_blocks fv blocks (summary, es)) = es @ more \<and> length more \<le> length blocks"
proof (induction blocks arbitrary: summary es)
  case (Cons b blocks)
  obtain index block where b: "b = (index, block)" by (cases b)
  have one: "\<exists>more. snd (take_summary_blocks fv blocks (summary', es @ [e])) = es @ more \<and> length more \<le> length (b # blocks)" for summary' e
    using Cons [of summary' "es @ [e]"] by (metis Suc_le_mono append.assoc append_Cons append_Nil length_Cons)
  have none: "\<exists>more. snd (take_summary_blocks fv blocks (summary', es)) = es @ more \<and> length more \<le> length (b # blocks)" for summary'
    using Cons [of summary' es] by (metis le_Suc_eq length_Cons)
  show ?case using one none by (simp add: b split: sum.split yaml_value.split)
qed simp

text \<open>
  What the agent asked is never dropped silently and never invented. The questions taken from an answer and the
  errors reported for it are exactly the outcomes of its entries, one per item of a block and one per unreadable
  block, in the order of the text; the errors of the summary blocks follow, at most one per block.
\<close>

theorem every_entry_taken_or_reported:
  "let outcomes = concat (map (block_outcomes fv) (List.enumerate 1 (fenced_blocks QUESTIONS_BLOCK output)));
       parsed = parse_agent_conversation_output fv output
   in ao_questions parsed = taken outcomes \<and>
      (\<exists>more. ao_errors parsed = reported outcomes @ more \<and> length more \<le> length (fenced_blocks REWORK_SUMMARY_BLOCK output)) \<and>
      length (taken outcomes) + length (reported outcomes) = length outcomes"
proof -
  let ?outs = "concat (map (block_outcomes fv) (List.enumerate 1 (fenced_blocks QUESTIONS_BLOCK output)))"
  obtain more where "snd (take_summary_blocks fv (List.enumerate 1 (fenced_blocks REWORK_SUMMARY_BLOCK output)) (None, reported ?outs)) =
      reported ?outs @ more" "length more \<le> length (fenced_blocks REWORK_SUMMARY_BLOCK output)"
    using take_summary_blocks_errors [of fv "List.enumerate 1 (fenced_blocks REWORK_SUMMARY_BLOCK output)" None "reported ?outs"] by auto
  then show ?thesis
    unfolding parse_agent_conversation_output_def take_question_blocks_outcomes Let_def
    by (auto simp: taken_reported_length split: prod.split)
qed

section \<open>Templates\<close>

lemma substitute_total: "set (placeholder_names ps) \<subseteq> dom (map_of values) \<Longrightarrow> \<exists>body. substitute values ps = Inr body"
  by (induction ps rule: placeholder_names.induct) (auto split: option.split)

lemma pr_values_known: "dom (map_of (pr_values ctx r a b c)) = set KNOWN_PLACEHOLDERS"
  by (auto simp: dom_map_of_conv_image_fst pr_values_def KNOWN_PLACEHOLDERS_def Let_def)

text \<open>
  A template that was accepted can always be rendered. Construction fails exactly when the template references a
  placeholder that is not known, and after an accepted construction rendering succeeds for every context,
  role, branch and commit.
\<close>

theorem accepted_template_always_renders:
  "case mk_pr_renderer template of
     Inl _ \<Rightarrow> list_ex (\<lambda>n. n \<notin> set KNOWN_PLACEHOLDERS) (placeholder_names (template_parts template))
   | Inr t \<Rightarrow> t = template \<and> (\<exists>body. pr_render t ctx r source_branch target_branch commit_sha = Inr body)"
proof -
  let ?unknown = "filter (\<lambda>n. n \<notin> set KNOWN_PLACEHOLDERS) (placeholder_names (template_parts template))"
  have sorted: "sort (remdups ?unknown) = [] \<longleftrightarrow> ?unknown = []" by (metis remdups_eq_nil_iff set_empty set_sort)
  show ?thesis
  proof (cases "?unknown = []")
    case True
    then have "set (placeholder_names (template_parts template)) \<subseteq> set KNOWN_PLACEHOLDERS"
      by (auto simp: filter_empty_conv)
    with substitute_total [of "template_parts template" "pr_values ctx r source_branch target_branch commit_sha"] True
    show ?thesis by (simp add: mk_pr_renderer_def sorted pr_render_def pr_values_known Let_def)
  next
    case False
    then show ?thesis by (auto simp: mk_pr_renderer_def sorted list_ex_iff filter_empty_conv Let_def)
  qed
qed

end
