(* ===== verification/AgentStage.thy ===== *)
theory AgentStage
  imports Tools AgentText Runner
begin

text \<open>
  The harness-backed stage executor (\<open>orchestration/stages/agent.py\<close>): the role and the skill of a stage, one attempt
  (workspace, bound tools, agent call, publication), its results, and the resolver of the revision a stage starts
  from. The ports are those of \<open>Ports\<close>; the harness factory, the profile and skill registries and the field
  validation are arguments, as the constructor takes them; the telemetry span has no effect on the result and is
  left out. An exception inside an attempt keeps what the ports changed before it was raised.

  The lemmas show that whatever the harness and the ports do, an attempt keeps the contract of the executor seam,
  claims no gate and never lets an exception escape, and that a repeated publication mints nothing.
\<close>

section \<open>Roles and skills of the stages\<close>

fun STAGE_ROLE :: "stage \<Rightarrow> role" where
  "STAGE_ROLE Stage_SPECIFICATION = Role_PRODUCT"
| "STAGE_ROLE Stage_PLANNING = Role_PRODUCT"
| "STAGE_ROLE Stage_CONSTRUCTION = Role_DEVELOP"
| "STAGE_ROLE Stage_REVIEW_VERIFICATION = Role_QUALITY"
| "STAGE_ROLE Stage_RELEASE = Role_CI_CD"

fun STAGE_SKILL :: "stage \<Rightarrow> string option" where
  "STAGE_SKILL Stage_SPECIFICATION = Some ''spec-authoring''"
| "STAGE_SKILL Stage_PLANNING = Some ''change-request''"
| "STAGE_SKILL Stage_CONSTRUCTION = Some ''implementation''"
| "STAGE_SKILL Stage_REVIEW_VERIFICATION = Some ''code-review''"
| "STAGE_SKILL Stage_RELEASE = None"

fun PHASE_ROLE :: "phase \<Rightarrow> role option" where
  "PHASE_ROLE Phase_ARCHITECTURE = Some Role_ARCHITECT"
| "PHASE_ROLE Phase_INTERFACE = Some Role_DESIGN"
| "PHASE_ROLE _ = None"

fun PHASE_SKILL :: "phase \<Rightarrow> string option" where
  "PHASE_SKILL Phase_ARCHITECTURE = Some ''solution-design''"
| "PHASE_SKILL Phase_INTERFACE = Some ''ui-spec''"
| "PHASE_SKILL _ = None"

definition role_of :: "stage \<Rightarrow> phase option \<Rightarrow> role" where
  "role_of st ph = (case Option.bind ph PHASE_ROLE of Some r \<Rightarrow> r | None \<Rightarrow> STAGE_ROLE st)"

definition skill_of :: "stage \<Rightarrow> phase option \<Rightarrow> string option" where
  "skill_of st ph = or_else (Option.bind ph PHASE_SKILL) (STAGE_SKILL st)"

section \<open>The executor\<close>

record agent_profile =
  ap_role :: role
  ap_tools :: "string list"

record skill_manifest =
  sk_id :: string
  sk_instruction :: string

record 'w agent_executor =
  ae_harness_of :: "agent_profile \<Rightarrow> 'w tool_function list \<Rightarrow>
    ('w, port_error, task_envelope \<Rightarrow> ('w, port_error, agent_result) sem) sem"
  ae_repository :: "'w repository_port"
  ae_merge_requests :: "'w merge_request_port"
  ae_execution :: "'w execution_port"
  ae_template :: string
  ae_target_branch :: string
  ae_branch_prefix :: string
  ae_profile_of :: "role \<Rightarrow> string + agent_profile"
  ae_skill_of :: "string \<Rightarrow> port_error + skill_manifest"
  ae_validation :: field_validation
  ae_sha256 :: "string \<Rightarrow> string"

definition raised :: "'e + 'a \<Rightarrow> ('w, 'e, 'a) sem" where
  "raised y = (case y of Inl e \<Rightarrow> sm_raise e | Inr a \<Rightarrow> sm_return a)"

section \<open>Results\<close>

definition agent_stage_result ::
    "stage_context \<Rightarrow> stage_status \<Rightarrow> next_action \<Rightarrow> artifact_ref list \<Rightarrow> usage option \<Rightarrow> agent_conversation_output \<Rightarrow> instant
      \<Rightarrow> stage_result" where
  "agent_stage_result ctx status action artifacts used conversation clk =
     (executor_result ctx status action (pending_gate_results (sx_required_gates ctx)) clk [])
     \<lparr>res_artifacts := artifacts, res_usage := used, res_questions := ao_questions conversation,
      res_rework_summary := ao_rework_summary conversation, res_conversation_errors := ao_errors conversation,
      res_phase := sx_phase ctx\<rparr>"

definition no_conversation :: agent_conversation_output where
  "no_conversation = \<lparr>ao_questions = [], ao_rework_summary = None, ao_errors = []\<rparr>"

definition agent_blocked :: "stage_context \<Rightarrow> message \<Rightarrow> usage option \<Rightarrow> instant \<Rightarrow> stage_result" where
  "agent_blocked ctx reason used clk =
     agent_stage_result ctx StageStatus_BLOCKED (StopAction StopOutcome_BLOCKED reason) [] used no_conversation clk"

definition task_branch :: "'w agent_executor \<Rightarrow> stage_context \<Rightarrow> string" where
  "task_branch x ctx = branch_name (ae_branch_prefix x) (ch_id (sx_change ctx))"

definition agent_waiting ::
    "'w agent_executor \<Rightarrow> stage_context \<Rightarrow> artifact_ref list \<Rightarrow> change_request_ref \<Rightarrow> usage option \<Rightarrow> agent_conversation_output
      \<Rightarrow> instant \<Rightarrow> stage_result" where
  "agent_waiting x ctx artifacts cr used conversation clk =
     (let machine_gates = sx_required_gates ctx - sx_human_gates ctx;
          produced = ''stage '' @ stage_value (sx_stage ctx) @ '' produced '' @ rr_slug (crr_repository cr) @ ''#'' @
            show_int (crr_number cr) @ '' at '' @ task_branch x ctx;
          action = (if machine_gates \<noteq> {}
            then WaitForCIAction (Txt (produced @ ''; machine gates run on the final SHA in CI (FR-009)'')) (Some cr)
            else WaitForInputAction (Txt (produced @ ''; the stage'' @ [CHR 0x27] @ ''s gates are human decisions (ADR-018)'')))
      in agent_stage_result ctx StageStatus_WAITING action artifacts used conversation clk)"

section \<open>The instruction\<close>

definition shown_option :: "string option \<Rightarrow> string" where
  "shown_option v = (case v of None \<Rightarrow> ''None'' | Some t \<Rightarrow> t)"

definition brief_lines :: "intake_brief \<Rightarrow> string list" where
  "brief_lines b = [''Problem: '' @ shown_option (ib_problem b), ''Goal: '' @ shown_option (ib_goal b)] @
     map (\<lambda>c. ''Constraint: '' @ c) (ib_constraints b) @ map (\<lambda>c. ''Out of scope: '' @ c) (ib_out_of_scope b)"

definition agent_instruction :: "stage_context \<Rightarrow> skill_manifest \<Rightarrow> string" where
  "agent_instruction ctx skill = join_with NEWLINE
     ([sk_instruction skill, [], ''Change: '' @ ch_title (sx_change ctx), ''Stage: '' @ stage_value (sx_stage ctx),
       ''Attempt: '' @ show_int (sx_attempt_number ctx)] @
      (case sx_phase ctx of None \<Rightarrow> [] | Some ph \<Rightarrow> [''Phase: '' @ phase_value ph]) @
      (case ch_description (sx_change ctx) of None \<Rightarrow> [] | Some t \<Rightarrow> if t = [] then [] else [''Description: '' @ t]) @
      (case ch_brief (sx_change ctx) of None \<Rightarrow> [] | Some b \<Rightarrow> if brief_is_complete b then brief_lines b else []) @
      (case sx_conversation ctx of None \<Rightarrow> []
       | Some inputs \<Rightarrow> if conversation_is_empty inputs then []
           else [[], ''Discussion so far:'', render_conversation_inputs inputs]))"

section \<open>Publication\<close>

definition attempt_identity_key :: "stage_context \<Rightarrow> string" where
  "attempt_identity_key ctx = operation_key (sx_run_id ctx) (sx_stage ctx)
     (case sx_input_revision ctx of None \<Rightarrow> [] | Some v \<Rightarrow> v)"

definition attempt_effect :: "stage_context \<Rightarrow> string \<Rightarrow> string \<Rightarrow> string" where
  "attempt_effect ctx effect_type target = effect_key (attempt_identity_key ctx) effect_type target"

definition is_open_request :: "change_request_ref option \<Rightarrow> bool" where
  "is_open_request cr = (case cr of None \<Rightarrow> False | Some c \<Rightarrow> crr_status c = ChangeRequestStatus_OPEN)"

definition request_artifact :: "stage_context \<Rightarrow> change_request_ref \<Rightarrow> string option \<Rightarrow> role \<Rightarrow> artifact_ref" where
  "request_artifact ctx cr revision producer =
     \<lparr>ar_artifact_type = ''change_request'', ar_uri = request_uri (ch_product (sx_change ctx)) cr,
      ar_revision = revision, ar_sha256 = None, ar_producer = Some (role_value producer)\<rparr>"

definition published_under_review ::
    "'w agent_executor \<Rightarrow> stage_context \<Rightarrow> ('w, port_error, (artifact_ref list \<times> change_request_ref) option) sem" where
  "published_under_review x ctx =
     (if sx_stage ctx \<noteq> Stage_REVIEW_VERIFICATION then sm_return None
      else sm_bind (mp_find_existing (ae_merge_requests x) (ch_product (sx_change ctx)) (ch_id (sx_change ctx))) (\<lambda>found.
        sm_return (if is_open_request found
          then Some ([request_artifact ctx (the found) (sx_input_revision ctx) (STAGE_ROLE (sx_stage ctx))], the found)
          else None)))"

definition task_request :: "'w agent_executor \<Rightarrow> stage_context \<Rightarrow> string \<Rightarrow> sha \<Rightarrow> open_change_request" where
  "task_request x ctx description commit_sha =
     \<lparr>ocr_repository = ch_product (sx_change ctx), ocr_change_id = ch_id (sx_change ctx),
      ocr_source_branch = task_branch x ctx, ocr_target_branch = ae_target_branch x,
      ocr_title = ch_title (sx_change ctx), ocr_description = Some description, ocr_head_sha = commit_sha\<rparr>"

definition open_or_reuse ::
    "'w agent_executor \<Rightarrow> stage_context \<Rightarrow> string \<Rightarrow> sha \<Rightarrow> ('w, port_error, change_request_ref) sem" where
  "open_or_reuse x ctx description commit_sha =
     sm_bind (mp_find_existing (ae_merge_requests x) (ch_product (sx_change ctx)) (ch_id (sx_change ctx))) (\<lambda>found.
       if is_open_request found then sm_return (the found)
       else sm_bind (mk_open_change_request (task_request x ctx description commit_sha)) (\<lambda>request.
         mp_open (ae_merge_requests x) request (attempt_effect ctx ''change_request'' (task_branch x ctx))))"

definition commit_message :: "stage_context \<Rightarrow> string" where
  "commit_message ctx = ''factory: '' @ ch_id (sx_change ctx) @ '' ('' @ stage_value (sx_stage ctx) @
     (case sx_phase ctx of None \<Rightarrow> [] | Some ph \<Rightarrow> ''/'' @ phase_value ph) @ '')''"

definition publish_changes ::
    "'w agent_executor \<Rightarrow> stage_context \<Rightarrow> file_set \<Rightarrow> ('w, port_error, artifact_ref list \<times> change_request_ref) sem" where
  "publish_changes x ctx changes =
     (let repository = ch_product (sx_change ctx); branch = task_branch x ctx; r = role_of (sx_stage ctx) (sx_phase ctx) in
      sm_bind (rp_ensure_branch (ae_repository x) repository branch
                 (case sx_input_revision ctx of None \<Rightarrow> [] | Some v \<Rightarrow> v) (attempt_effect ctx ''branch'' branch)) (\<lambda>_.
      sm_bind (rp_publish_commit (ae_repository x) repository branch changes (commit_message ctx)
                 (attempt_effect ctx ''commit'' branch)) (\<lambda>commit_sha.
      sm_bind (raised (pr_render (ae_template x) ctx r branch (ae_target_branch x) commit_sha)) (\<lambda>description.
      sm_bind (open_or_reuse x ctx description commit_sha) (\<lambda>cr.
      sm_return ([request_artifact ctx cr (Some commit_sha) r], cr))))))"

definition publish_work ::
    "'w agent_executor \<Rightarrow> stage_context \<Rightarrow> workspace_handle
      \<Rightarrow> ('w, port_error, (artifact_ref list \<times> change_request_ref) option) sem" where
  "publish_work x ctx workspace =
     sm_bind (ep_collect_changes (ae_execution x) workspace
                (attempt_effect ctx ''collect_changes'' (ch_id (sx_change ctx)))) (\<lambda>changes.
     if changes = [] then published_under_review x ctx
     else sm_bind (publish_changes x ctx changes) (\<lambda>published. sm_return (Some published)))"

section \<open>One attempt\<close>

definition bound_tools :: "'w agent_executor \<Rightarrow> workspace_handle \<Rightarrow> agent_profile \<Rightarrow> ('w, port_error, 'w tool_function list) sem" where
  "bound_tools x workspace profile = raised (map_sum (\<lambda>_. OtherError ''UnknownToolError'') id
     (tools_for \<lparr>wt_execution = ae_execution x, wt_workspace = workspace, wt_test_command = DEFAULT_TEST_COMMAND,
                wt_sha256 = ae_sha256 x\<rparr> (ap_tools profile)))"

definition agent_attempt ::
    "'w agent_executor \<Rightarrow> instant \<Rightarrow> stage_context \<Rightarrow> agent_profile \<Rightarrow> skill_manifest \<Rightarrow> ('w, port_error, stage_result) sem" where
  "agent_attempt x clk ctx profile skill =
     sm_bind (mk_workspace_request \<lparr>wr_repository = ch_product (sx_change ctx),
                wr_revision = (case sx_input_revision ctx of None \<Rightarrow> [] | Some v \<Rightarrow> v), wr_change_id = ch_id (sx_change ctx)\<rparr>) (\<lambda>request.
     sm_bind (ep_prepare_workspace (ae_execution x) request (attempt_effect ctx ''workspace'' (ch_id (sx_change ctx)))) (\<lambda>workspace.
     sm_bind (bound_tools x workspace profile) (\<lambda>tools.
     sm_bind (ae_harness_of x profile tools) (\<lambda>run_stage.
     sm_bind (mk_task_envelope \<lparr>te_change_id = ch_id (sx_change ctx), te_run_id = sx_run_id ctx, te_stage = sx_stage ctx,
                te_role = ap_role profile, te_instruction = agent_instruction ctx skill, te_skill_id = Some (sk_id skill)\<rparr>) (\<lambda>envelope.
     sm_bind (run_stage envelope) (\<lambda>answer.
     if \<not> agr_ok answer
     then sm_return (agent_blocked ctx (Txt (''stage '' @ stage_value (sx_stage ctx) @
            '': harness did not produce a result (see harness health for the missing configuration)'')) (agr_usage answer) clk)
     else sm_bind (publish_work x ctx workspace) (\<lambda>published.
       case published of
         None \<Rightarrow> sm_return (agent_blocked ctx (Txt (''stage '' @ stage_value (sx_stage ctx) @
             '': the attempt produced no changes to publish'')) (agr_usage answer) clk)
       | Some (artifacts, cr) \<Rightarrow> sm_return (agent_waiting x ctx artifacts cr (agr_usage answer)
           (parse_agent_conversation_output (ae_validation x) (agr_output answer)) clk))))))))"

definition agent_execute :: "'w agent_executor \<Rightarrow> instant \<Rightarrow> stage_context \<Rightarrow> 'w \<Rightarrow> stage_result \<times> 'w" where
  "agent_execute x clk ctx w =
     (let st = stage_value (sx_stage ctx); r = role_of (sx_stage ctx) (sx_phase ctx) in
      case construction_entry_reason ctx of
        Some reason \<Rightarrow> (agent_blocked ctx reason None clk, w)
      | None \<Rightarrow>
          (case ae_profile_of x r of
             Inl why \<Rightarrow> (agent_blocked ctx (Txt (''stage '' @ st @ '': '' @ why)) None clk, w)
           | Inr profile \<Rightarrow>
               (case skill_of (sx_stage ctx) (sx_phase ctx) of
                  None \<Rightarrow> (agent_blocked ctx (Txt (''stage '' @ st @ '': no skill is mapped to this stage (role '' @
                      py_repr (role_value r) @ '')'')) None clk, w)
                | Some skill_id \<Rightarrow>
                    if sx_input_revision ctx = None
                    then (agent_blocked ctx (Txt (''stage '' @ st @ '': the attempt has no pinned input revision'')) None clk, w)
                    else (case sm_bind (raised (ae_skill_of x skill_id)) (agent_attempt x clk ctx profile) w of
                            (Inr result, w') \<Rightarrow> (result, w')
                          | (Inl e, w') \<Rightarrow> (agent_blocked ctx (Txt (''stage '' @ st @ '': agent stage failed at the boundary ('' @
                              error_type_name e @ '')'')) None clk, w')))))"

section \<open>The revision a stage starts from (\<open>ScmRevision\<close>)\<close>

definition known_revision :: "'w repository_port \<Rightarrow> repository_ref \<Rightarrow> string \<Rightarrow> ('w, port_error, sha option) sem" where
  "known_revision repository repo ref = (\<lambda>w. case rp_get_revision repository repo ref w of
       (Inr h, w') \<Rightarrow> (Inr (Some h), w')
     | (Inl (KeyError _), w') \<Rightarrow> (Inr None, w')
     | (Inl e, w') \<Rightarrow> (Inl e, w'))"

definition scm_revision ::
    "'w repository_port \<Rightarrow> string \<Rightarrow> string \<Rightarrow> change \<Rightarrow> ('w, port_error, sha) sem" where
  "scm_revision repository base_ref branch_prefix change_of =
     sm_bind (known_revision repository (ch_product change_of) (branch_name branch_prefix (ch_id change_of))) (\<lambda>head.
     case head of
       Some h \<Rightarrow> sm_return h
     | None \<Rightarrow> sm_bind (known_revision repository (ch_product change_of) base_ref) (\<lambda>base.
         sm_return (case base of Some b \<Rightarrow> b | None \<Rightarrow> base_ref)))"

section \<open>What every attempt guarantees\<close>

text \<open>Every path ends in a result of the context: blocked, or waiting on a change request.\<close>

definition attempt_ended :: "'w agent_executor \<Rightarrow> instant \<Rightarrow> stage_context \<Rightarrow> stage_result \<Rightarrow> bool" where
  "attempt_ended x clk ctx res \<longleftrightarrow> (\<exists>reason used. res = agent_blocked ctx reason used clk) \<or>
     (\<exists>artifacts cr used conversation. res = agent_waiting x ctx artifacts cr used conversation clk)"

lemma attempt_ends: "agent_attempt x clk ctx profile skill w = (Inr res, w') \<Longrightarrow> attempt_ended x clk ctx res"
  by (auto simp: agent_attempt_def attempt_ended_def sm_bind_eq_Inr sm_return_def split: if_splits option.splits prod.splits) blast+

lemma execute_ends: "attempt_ended x clk ctx (fst (agent_execute x clk ctx w))"
proof -
  have blocked: "attempt_ended x clk ctx (agent_blocked ctx reason used clk)" for reason used
    by (auto simp: attempt_ended_def)
  show ?thesis
    by (auto simp: agent_execute_def blocked sm_bind_eq_Inr Let_def split: option.split sum.split prod.split dest!: attempt_ends)
qed

lemma waiting_action:
  "if sx_required_gates ctx - sx_human_gates ctx = {}
   then \<exists>why. res_next_action (agent_waiting x ctx artifacts cr used conversation clk) = WaitForInputAction why
   else \<exists>why. res_next_action (agent_waiting x ctx artifacts cr used conversation clk) = WaitForCIAction why (Some cr)"
  by (simp add: agent_waiting_def agent_stage_result_def executor_result_def new_result_def Let_def)

lemma ended_result:
  assumes "attempt_ended x clk ctx res"
  shows "of_context ctx res" "res_gate_results res = pending_gate_results (sx_required_gates ctx)"
    "res_status res = expected_result_status (res_next_action res)"
    "(\<exists>why. res_next_action res = StopAction StopOutcome_BLOCKED why) \<or>
     (if sx_required_gates ctx - sx_human_gates ctx = {} then \<exists>why. res_next_action res = WaitForInputAction why
      else \<exists>why cr. res_next_action res = WaitForCIAction why cr)"
proof -
  have fields: "of_context ctx (agent_stage_result ctx status action artifacts used conversation clk)"
    "res_gate_results (agent_stage_result ctx status action artifacts used conversation clk) = pending_gate_results (sx_required_gates ctx)"
    "res_status (agent_stage_result ctx status action artifacts used conversation clk) = status"
    "res_next_action (agent_stage_result ctx status action artifacts used conversation clk) = action"
    for status action artifacts used conversation
    by (simp_all add: agent_stage_result_def executor_result_def new_result_def of_context_def)
  have w: "res_status (agent_waiting x ctx artifacts cr used conversation clk) = StageStatus_WAITING"
    for artifacts cr used conversation by (simp add: agent_waiting_def fields Let_def)
  from assms consider reason used where "res = agent_blocked ctx reason used clk"
    | artifacts cr used conversation where "res = agent_waiting x ctx artifacts cr used conversation clk"
    by (auto simp: attempt_ended_def)
  then have "of_context ctx res \<and> res_gate_results res = pending_gate_results (sx_required_gates ctx) \<and>
      res_status res = expected_result_status (res_next_action res) \<and>
      ((\<exists>why. res_next_action res = StopAction StopOutcome_BLOCKED why) \<or>
       (if sx_required_gates ctx - sx_human_gates ctx = {} then \<exists>why. res_next_action res = WaitForInputAction why
        else \<exists>why cr. res_next_action res = WaitForCIAction why cr))"
  proof cases
    case 1
    then show ?thesis by (simp add: agent_blocked_def fields)
  next
    case (2 artifacts cr used conversation)
    have "of_context ctx res" "res_gate_results res = pending_gate_results (sx_required_gates ctx)"
      unfolding 2 agent_waiting_def Let_def by (rule fields)+
    with 2 waiting_action [of ctx x artifacts cr used conversation clk] w [of artifacts cr used conversation] show ?thesis
      by (auto split: if_splits)
  qed
  then show "of_context ctx res" "res_gate_results res = pending_gate_results (sx_required_gates ctx)"
    "res_status res = expected_result_status (res_next_action res)"
    "(\<exists>why. res_next_action res = StopAction StopOutcome_BLOCKED why) \<or>
     (if sx_required_gates ctx - sx_human_gates ctx = {} then \<exists>why. res_next_action res = WaitForInputAction why
      else \<exists>why cr. res_next_action res = WaitForCIAction why cr)" by blast+
qed

text \<open>The contexts the driver builds: the gates are those of the route and the stage.\<close>

definition gates_of_policy :: "stage_context \<Rightarrow> bool" where
  "gates_of_policy ctx \<longleftrightarrow> sx_required_gates ctx = required_gates (sx_route ctx) (sx_stage ctx) \<and>
     HUMAN_GATES \<inter> sx_required_gates ctx \<subseteq> sx_human_gates ctx"


lemma specification_gates_human: "gates_of_policy ctx \<Longrightarrow> sx_stage ctx = Stage_SPECIFICATION \<Longrightarrow> sx_required_gates ctx - sx_human_gates ctx = {}"
  by (cases "sx_route ctx") (auto simp: gates_of_policy_def required_gates_def route_extra_gates_def HUMAN_GATES_def)

interpretation agent: stage_executor "\<lambda>ctx. Inr (fst (agent_execute x clk ctx w))"
    "\<lambda>ctx. gates_of_policy ctx \<and> sx_stage ctx \<noteq> Stage_RELEASE" for x clk w
proof
  fix ctx res
  assume "(Inr (fst (agent_execute x clk ctx w)) :: string + stage_result) = Inr res"
  then have res: "attempt_ended x clk ctx res" using execute_ends by auto
  note facts = ended_result [OF res]
  show "of_context ctx res" by (rule facts(1))
  assume ok: "gates_of_policy ctx \<and> sx_stage ctx \<noteq> Stage_RELEASE"
  show "flow_action res"
    using facts ok specification_gates_human [of ctx]
    by (cases "sx_stage ctx") (auto simp: flow_action_def of_context_def split: if_splits)
qed

interpretation release_over_agent: stage_executor
    "\<lambda>ctx. Inr (fst (release_stage_executor rx (agent_execute x clk) clk ctx w))" gates_of_policy for rx x clk w
  by (rule with_release) (rule agent.stage_executor_axioms)


section \<open>Publication on the in-memory ports\<close>

context scm_contract
begin

text \<open>A publication that returned once returns the same again and leaves the world as it is.\<close>

lemma request_reused:
  assumes sound: "sound w" and mp: "ae_merge_requests x = mp"
    and first: "open_or_reuse x ctx description h w = (Inr cr, w')"
  shows "open_or_reuse x ctx description h w' = (Inr cr, w') \<and> sound w' \<and> branch_rec w' = branch_rec w \<and> commit_rec w' = commit_rec w"
proof -
  let ?of = "\<lambda>u. request_of u (ch_product (sx_change ctx)) (ch_id (sx_change ctx))"
  let ?k = "attempt_effect ctx ''change_request'' (task_branch x ctx)" and ?rq = "task_request x ctx description h"
  have at: "open_or_reuse x ctx description h u = (if is_open_request (?of u) then (Inr (the (?of u)), u)
      else sm_bind (mk_open_change_request ?rq) (\<lambda>request. mp_open mp request ?k) u)" if "sound u" for u
    using request_found [OF that] by (simp add: open_or_reuse_def mp sem_simps)
  show ?thesis
  proof (cases "is_open_request (?of w)")
    case True
    with first at [OF sound] sound show ?thesis by auto
  next
    case False
    with first at [OF sound] have o: "mp_open mp ?rq ?k w = (Inr cr, w')"
      and valid: "mk_open_change_request ?rq = (sm_return ?rq :: ('w, port_error, open_change_request) sem)"
      by (auto simp: sm_bind_eq_Inr mk_open_change_request_def sem_simps split: if_splits)
    from request_minted [OF sound o] have m: "sound w'" "open_rec w' ?k = Some cr" "branch_rec w' = branch_rec w"
      "commit_rec w' = commit_rec w" and found: "?of w' = Some cr \<or> w' = w" by (auto simp: task_request_def)
    have "open_or_reuse x ctx description h w' = (Inr cr, w')"
      using at [OF m(1)] found False request_replays [OF m(1,2), of ?rq] valid
      by (cases "is_open_request (?of w')") (auto simp: sem_simps)
    with m show ?thesis by simp
  qed
qed

lemma publication_replays:
  assumes sound: "sound w" and ports: "ae_repository x = rp" "ae_merge_requests x = mp" and changes: "changes \<noteq> []"
    and first: "publish_changes x ctx changes w = (Inr v, w')"
  shows "publish_changes x ctx changes w' = (Inr v, w')"
proof -
  let ?repo = "ch_product (sx_change ctx)" and ?b = "task_branch x ctx" and ?r = "role_of (sx_stage ctx) (sx_phase ctx)"
  let ?base = "case sx_input_revision ctx of None \<Rightarrow> [] | Some v \<Rightarrow> v"
  let ?kb = "attempt_effect ctx ''branch'' ?b" and ?kc = "attempt_effect ctx ''commit'' ?b"
  from first [unfolded publish_changes_def ports Let_def] obtain head w1 h w2 description w3 cr where
      1: "rp_ensure_branch rp ?repo ?b ?base ?kb w = (Inr head, w1)"
    and 2: "rp_publish_commit rp ?repo ?b changes (commit_message ctx) ?kc w1 = (Inr h, w2)"
    and 3: "raised (pr_render (ae_template x) ctx ?r ?b (ae_target_branch x) h) w2 = (Inr description, w3)"
    and 4: "open_or_reuse x ctx description h w3 = (Inr cr, w')"
    and v: "v = ([request_artifact ctx cr (Some h) ?r], cr)"
    by (auto simp: sm_bind_eq_Inr sm_return_def)
  from 3 have w3: "w3 = w2" and d: "pr_render (ae_template x) ctx ?r ?b (ae_target_branch x) h = Inr description"
    by (auto simp: raised_def sem_simps split: sum.splits)
  from branch_minted [OF sound 1] have s1: "sound w1" "branch_rec w1 ?kb = Some head" by auto
  from commit_minted [OF s1(1) 2] s1 have s2: "sound w2" "commit_rec w2 ?kc = Some h" "branch_rec w2 ?kb = Some head" by auto
  from request_reused [OF s2(1) ports(2) 4 [unfolded w3]] s2
  have s3: "open_or_reuse x ctx description h w' = (Inr cr, w')" "commit_rec w' ?kc = Some h" "branch_rec w' ?kb = Some head" by auto
  show ?thesis
    using branch_replays [OF s3(3)] commit_replays [OF s3(2) changes] s3(1) d v
    by (simp add: publish_changes_def ports Let_def raised_def sem_simps)
qed

end

definition on_execution :: "(fake_execution, port_error, 'a) sem \<Rightarrow> (fake_world, port_error, 'a) sem" where
  "on_execution m = (\<lambda>w. case m (fwd_execution w) of (out, s) \<Rightarrow> (out, w\<lparr>fwd_execution := s\<rparr>))"

definition fake_world_execution :: "(string \<Rightarrow> string) \<Rightarrow> fake_world execution_port" where
  "fake_world_execution sha256 = \<lparr>ep_prepare_workspace = (\<lambda>r k. on_execution (fake_prepare_workspace r k)),
     ep_write_file = (\<lambda>ws p c k. on_execution (fake_write_file ws p c k)),
     ep_run_command = (\<lambda>ws v k. on_execution (fake_run_command ws v k)),
     ep_collect_evidence = (\<lambda>ws p k. on_execution (fake_collect_evidence sha256 ws p k)),
     ep_collect_changes = (\<lambda>ws k. on_execution (fake_collect_changes ws k))\<rparr>"

text \<open>An executor over the in-memory ports, whatever its harness, registries and texts are.\<close>

definition over_fakes :: "(string \<Rightarrow> string) \<Rightarrow> fake_world agent_executor \<Rightarrow> fake_world agent_executor" where
  "over_fakes sha256 x = x\<lparr>ae_repository := fake_repository_port, ae_merge_requests := fake_merge_request_port,
     ae_execution := fake_world_execution sha256\<rparr>"

text \<open>
  C11: a publication is minted once. On every sound in-memory source control, once the publication of a change set has
  returned, publishing it again under the same operation returns the same artifacts and the same change request,
  and creates no second branch, commit or request.
\<close>

theorem publication_minted_once:
  assumes "scm_sound w" "changes \<noteq> []" "publish_changes (over_fakes sha256 x) ctx changes w = (Inr v, w')"
  shows "publish_changes (over_fakes sha256 x) ctx changes w' = (Inr v, w')"
  using fake_scm.publication_replays [OF assms(1) _ _ assms(2,3)] by (simp add: over_fakes_def)

text \<open>
  An attempt without changes publishes nothing. When the workspace of an attempt holds no file, publishing touches
  neither the repository nor the change requests; it returns nothing at all except at the review stage, where it
  returns the open request under review.
\<close>

theorem unchanged_workspace_publishes_nothing:
  "case publish_work (over_fakes sha256 x) ctx ws w of (out, w') \<Rightarrow>
     (if workspace_files (fwd_execution w) (wh_workspace_id ws) = []
      then w' = w \<and> (case out of
          Inr (Some (artifacts, cr)) \<Rightarrow> sx_stage ctx = Stage_REVIEW_VERIFICATION \<and> crr_status cr = ChangeRequestStatus_OPEN \<and>
            map ar_revision artifacts = [sx_input_revision ctx]
        | _ \<Rightarrow> True)
      else True)"
proof -
  have read: "mp_find_existing fake_merge_request_port repo c w = (r, w') \<Longrightarrow> w' = w" for repo c r w'
    by (auto simp: fake_merge_request_port_def on_requests_def fake_find_existing_def sem_simps split: prod.splits option.splits)
  show ?thesis
    by (auto simp: publish_work_def over_fakes_def fake_world_execution_def on_execution_def fake_collect_changes_def in_workspace_def
        published_under_review_def request_artifact_def is_open_request_def sm_bind_def sm_gets_def sm_return_def
        split: prod.splits sum.splits option.splits dest!: read)
qed

text \<open>The branch of the change wins over the base, a missing reference falls back, any other failure is passed on.\<close>

lemma scm_revision_cases:
  assumes "rp_get_revision repository (ch_product ch) (branch_name prefix (ch_id ch)) w = (r, w1)"
  shows "scm_revision repository base prefix ch w = (case r of
      Inr h \<Rightarrow> (Inr h, w1)
    | Inl (KeyError _) \<Rightarrow> (case rp_get_revision repository (ch_product ch) base w1 of
          (Inr b, w2) \<Rightarrow> (Inr b, w2) | (Inl (KeyError _), w2) \<Rightarrow> (Inr base, w2) | (Inl e, w2) \<Rightarrow> (Inl e, w2))
    | Inl e \<Rightarrow> (Inl e, w1))"
  using assms by (auto simp: scm_revision_def known_revision_def sm_bind_def sm_return_def split: sum.split prod.split port_error.split)

section \<open>A sample executor\<close>

definition sample_validation :: field_validation where
  "sample_validation = \<lparr>fv_load = (\<lambda>_. Inr YNull), fv_anchor = (\<lambda>_. Inl NotAnAnchor), fv_empty_anchor = NotAnAnchor,
     fv_question = (\<lambda>_ _. Inl NotAnAnchor), fv_summary = (\<lambda>_. Inl NotAnAnchor)\<rparr>"

definition sample_agent :: "fake_world agent_executor" where
  "sample_agent = over_fakes (\<lambda>t. t)
     \<lparr>ae_harness_of = (\<lambda>_ _. sm_return (\<lambda>_. sm_return \<lparr>agr_ok = True, agr_output = [], agr_usage = None\<rparr>)),
      ae_repository = fake_repository_port, ae_merge_requests = fake_merge_request_port,
      ae_execution = fake_world_execution (\<lambda>t. t), ae_template = ''{{title}}'', ae_target_branch = ''main'',
      ae_branch_prefix = ''factory'', ae_profile_of = (\<lambda>r. Inr \<lparr>ap_role = r, ap_tools = [''read_file'']\<rparr>),
      ae_skill_of = (\<lambda>i. Inr \<lparr>sk_id = i, sk_instruction = ''do''\<rparr>), ae_validation = sample_validation, ae_sha256 = (\<lambda>t. t)\<rparr>"

definition sample_agent_context :: stage_context where
  "sample_agent_context = build_context sample_change Stage_CONSTRUCTION Route_QUICK ''r1'' (Some ''base'') default_budget 1
     None None False None None"

theorem publication_minted_once_witness:
  "case publish_changes (over_fakes (\<lambda>t. t) sample_agent) sample_agent_context [(''a'', ''b'')] sample_gitops of
     (Inr v, w') \<Rightarrow> publish_changes (over_fakes (\<lambda>t. t) sample_agent) sample_agent_context [(''a'', ''b'')] w' = (Inr v, w')
   | _ \<Rightarrow> False"
proof -
  let ?p = "publish_changes (over_fakes (\<lambda>t. t) sample_agent) sample_agent_context [(''a'', ''b'')]"
  have sound: "scm_sound sample_gitops"
    by (simp add: scm_sound_def requests_sound_def sample_gitops_def new_fake_world_def new_fake_merge_requests_def)
  have "isl (fst (?p sample_gitops)) = False" by code_simp
  then obtain v w' where run: "?p sample_gitops = (Inr v, w')"
    by (cases "?p sample_gitops"; cases "fst (?p sample_gitops)") auto
  from publication_minted_once [OF sound _ run] run show ?thesis by simp
qed

end
