(* ===== verification/ChangeStore.thy ===== *)
theory ChangeStore
  imports RunStore_Safety
begin

text \<open>
  The repositories of intake, products, decisions and audit (\<open>orchestration/state/change_store.py\<close>) and of the
  discussion and the documents (\<open>orchestration/state/conversation_store.py\<close>, records of \<open>changes/documents.py\<close>).
  A table is an ordered dictionary under its primary key; a row carries the denormalized columns beside the
  document (\<open>payload\<close>), as \<open>state/models.py\<close> declares them. A foreign key, a partial unique index or a check that a
  write violates is \<open>IntegrityError\<close>; the widths of the text columns are not modelled. An insertion with
  \<open>ON CONFLICT DO NOTHING\<close> touches only its own conflict target.

  The locale \<open>document_table\<close> is what a client relies on: a row is determined by its document, and rewriting the
  columns a save rewrites keeps that, as long as the document's fixed fields did not move. It is interpreted
  on the three tables of the discussion.
\<close>

section \<open>Rows\<close>

record question_row =
  qr_change_id :: string
  qr_run_id :: "string option"
  qr_phase :: phase
  qr_kind :: answer_kind
  qr_status :: question_status
  qr_blocking :: bool
  qr_artifact :: "string option"
  qr_anchor_id :: "string option"
  qr_payload :: question
  qr_asked_at :: instant
  qr_updated_at :: instant

record comment_row =
  cw_change_id :: string
  cw_phase :: phase
  cw_status :: comment_status
  cw_artifact :: string
  cw_anchor_id :: "string option"
  cw_anchor_revision :: "string option"
  cw_rework_order_id :: "string option"
  cw_payload :: comment
  cw_created_at :: instant
  cw_updated_at :: instant

record order_row =
  ow_change_id :: string
  ow_run_id :: "string option"
  ow_phase :: phase
  ow_status :: rework_order_status
  ow_round :: "int option"
  ow_payload :: rework_order
  ow_created_at :: instant
  ow_updated_at :: instant

record artifact_draft =
  dr_change_id :: string
  dr_artifact :: string
  dr_content :: string
  dr_base_revision :: "string option"
  dr_saved_by :: string
  dr_updated_at :: instant

record view_mark =
  vm_change_id :: string
  vm_artifact :: string
  vm_revision :: string
  vm_viewed_by :: string
  vm_viewed_at :: instant

record change_row =
  hr_title :: string
  hr_description :: "string option"
  hr_source :: change_source
  hr_external_ref :: "string option"
  hr_risk_class :: risk_class
  hr_product :: repository_ref
  hr_product_id :: "string option"
  hr_payload :: change
  hr_state_revision :: int
  hr_created_at :: instant

record product_row =
  pw_name :: string
  pw_description :: "string option"
  pw_repository :: repository_ref
  pw_repository_url :: "string option"
  pw_baseline_ref :: "string option"
  pw_dev_env_ref :: "string option"
  pw_status :: product_status
  pw_status_reason :: "string option"
  pw_payload :: product
  pw_state_revision :: int
  pw_created_at :: instant

text \<open>A decision has no document: every field is a column, and \<open>role\<close> holds the caller's API role.\<close>

record decision_row =
  dw_change_id :: string
  dw_gate :: gate
  dw_outcome :: decision_outcome
  dw_decided_by :: decision_source
  dw_role :: "string option"
  dw_commit_sha :: "sha option"
  dw_comment :: "string option"
  dw_decided_at :: instant
  dw_evidence_ids :: "string list"
  dw_idempotency_key :: "string option"
  dw_phase :: "phase option"

text \<open>The tables of one session. \<open>db_execution_ids\<close> lists the primary keys of the \<open>execution\<close> table.\<close>

record session_db =
  db_runs :: run_store
  db_execution_ids :: "string list"
  db_changes :: "(string \<times> change_row) list"
  db_products :: "(string \<times> product_row) list"
  db_decisions :: "(string \<times> decision_row) list"
  db_questions :: "(string \<times> question_row) list"
  db_comments :: "(string \<times> comment_row) list"
  db_orders :: "(string \<times> order_row) list"
  db_drafts :: "((string \<times> string) \<times> artifact_draft) list"
  db_views :: "((string \<times> string \<times> string) \<times> view_mark) list"

type_synonym 'a db_op = "(session_db, state_error, 'a) sem"

definition known_change :: "session_db \<Rightarrow> string \<Rightarrow> bool" where
  "known_change s k \<longleftrightarrow> dict_get (db_changes s) k \<noteq> None"

definition wanted :: "'a option \<Rightarrow> 'a \<Rightarrow> bool" where
  "wanted filter_value v = (case filter_value of None \<Rightarrow> True | Some x \<Rightarrow> v = x)"

definition wanted_in :: "'a list option \<Rightarrow> 'a \<Rightarrow> bool" where
  "wanted_in filter_values v = (case filter_values of None \<Rightarrow> True | Some xs \<Rightarrow> v \<in> set xs)"

section \<open>Questions (\<open>ConversationRepository\<close>)\<close>

definition question_row_of :: "question \<Rightarrow> question_row" where
  "question_row_of q = \<lparr>qr_change_id = q_change_id q, qr_run_id = q_run_id q, qr_phase = q_phase q, qr_kind = qd_kind q,
     qr_status = q_status q, qr_blocking = qd_blocking q, qr_artifact = map_option aa_artifact (qd_anchor q),
     qr_anchor_id = Option.bind (qd_anchor q) aa_anchor_id, qr_payload = q, qr_asked_at = q_asked_at q,
     qr_updated_at = q_updated_at q\<rparr>"

definition get_question :: "string \<Rightarrow> session_db \<Rightarrow> question option" where
  "get_question question_id s = map_option qr_payload (dict_get (db_questions s) question_id)"

definition add_question :: "question \<Rightarrow> (question \<times> bool) db_op" where
  "add_question q = (\<lambda>s. case get_question (q_id q) s of
       Some existing \<Rightarrow> (Inr (existing, False), s)
     | None \<Rightarrow> if \<not> known_change s (q_change_id q) then (Inl IntegrityError, s)
         else (Inr (q, True), s\<lparr>db_questions := dict_set (q_id q) (question_row_of q) (db_questions s)\<rparr>))"

definition refresh_question_row :: "question \<Rightarrow> question_row \<Rightarrow> question_row" where
  "refresh_question_row q row = row\<lparr>qr_status := q_status q, qr_blocking := qd_blocking q, qr_payload := q,
     qr_updated_at := q_updated_at q\<rparr>"

definition save_question :: "question \<Rightarrow> question db_op" where
  "save_question q = (\<lambda>s. case dict_get (db_questions s) (q_id q) of
       None \<Rightarrow> (Inl (StateConflict (q_id q)), s)
     | Some row \<Rightarrow> (Inr q, s\<lparr>db_questions := dict_set (q_id q) (refresh_question_row q row) (db_questions s)\<rparr>))"

definition list_questions ::
    "string \<Rightarrow> phase option \<Rightarrow> question_status list option \<Rightarrow> string option \<Rightarrow> session_db \<Rightarrow> question list" where
  "list_questions change_id ph statuses artifact s =
     map (\<lambda>(k, row). qr_payload row) (sort_key (\<lambda>(k, row). (qr_asked_at row, k))
       (filter (\<lambda>(k, row). qr_change_id row = change_id \<and> wanted ph (qr_phase row) \<and> wanted_in statuses (qr_status row) \<and>
            (artifact = None \<or> qr_artifact row = artifact)) (db_questions s)))"

section \<open>Comments\<close>

definition comment_row_of :: "comment \<Rightarrow> comment_row" where
  "comment_row_of c = \<lparr>cw_change_id = c_change_id c, cw_phase = c_phase c, cw_status = c_status c,
     cw_artifact = aa_artifact (c_anchor c), cw_anchor_id = aa_anchor_id (c_anchor c),
     cw_anchor_revision = aa_revision (c_anchor c), cw_rework_order_id = c_rework_order_id c, cw_payload = c,
     cw_created_at = c_created_at c, cw_updated_at = c_updated_at c\<rparr>"

definition get_comment :: "string \<Rightarrow> session_db \<Rightarrow> comment option" where
  "get_comment comment_id s = map_option cw_payload (dict_get (db_comments s) comment_id)"

definition store_comment :: "comment \<Rightarrow> (comment \<times> bool) db_op" where
  "store_comment c = (\<lambda>s. case get_comment (c_id c) s of
       Some existing \<Rightarrow> (Inr (existing, False), s)
     | None \<Rightarrow> if \<not> known_change s (c_change_id c) then (Inl IntegrityError, s)
         else (Inr (c, True), s\<lparr>db_comments := dict_set (c_id c) (comment_row_of c) (db_comments s)\<rparr>))"

definition refresh_comment_row :: "comment \<Rightarrow> comment_row \<Rightarrow> comment_row" where
  "refresh_comment_row c row = row\<lparr>cw_status := c_status c, cw_rework_order_id := c_rework_order_id c, cw_payload := c,
     cw_updated_at := c_updated_at c\<rparr>"

definition save_comment :: "comment \<Rightarrow> comment db_op" where
  "save_comment c = (\<lambda>s. case dict_get (db_comments s) (c_id c) of
       None \<Rightarrow> (Inl (StateConflict (c_id c)), s)
     | Some row \<Rightarrow> (Inr c, s\<lparr>db_comments := dict_set (c_id c) (refresh_comment_row c row) (db_comments s)\<rparr>))"

definition list_comments ::
    "string \<Rightarrow> phase option \<Rightarrow> comment_status list option \<Rightarrow> string option \<Rightarrow> session_db \<Rightarrow> comment list" where
  "list_comments change_id ph statuses artifact s =
     map (\<lambda>(k, row). cw_payload row) (sort_key (\<lambda>(k, row). (cw_created_at row, k))
       (filter (\<lambda>(k, row). cw_change_id row = change_id \<and> wanted ph (cw_phase row) \<and> wanted_in statuses (cw_status row) \<and>
            wanted artifact (cw_artifact row)) (db_comments s)))"

section \<open>Rework orders\<close>

definition order_row_of :: "rework_order \<Rightarrow> order_row" where
  "order_row_of o' = \<lparr>ow_change_id = ro_change_id o', ow_run_id = ro_run_id o', ow_phase = ro_phase o', ow_status = ro_status o',
     ow_round = ro_round o', ow_payload = o', ow_created_at = ro_created_at o', ow_updated_at = ro_updated_at o'\<rparr>"

text \<open>The check \<open>round IS NULL OR round >= 1\<close>.\<close>

definition round_positive :: "rework_order \<Rightarrow> bool" where
  "round_positive o' = (case ro_round o' of None \<Rightarrow> True | Some n \<Rightarrow> n \<ge> 1)"

definition get_rework_order :: "string \<Rightarrow> session_db \<Rightarrow> rework_order option" where
  "get_rework_order order_id s = map_option ow_payload (dict_get (db_orders s) order_id)"

definition add_rework_order :: "rework_order \<Rightarrow> (rework_order \<times> bool) db_op" where
  "add_rework_order o' = (\<lambda>s.
     if \<not> round_positive o' then (Inl IntegrityError, s)
     else case get_rework_order (ro_id o') s of
       Some existing \<Rightarrow> (Inr (existing, False), s)
     | None \<Rightarrow> if \<not> known_change s (ro_change_id o') then (Inl IntegrityError, s)
         else (Inr (o', True), s\<lparr>db_orders := dict_set (ro_id o') (order_row_of o') (db_orders s)\<rparr>))"

definition refresh_order_row :: "rework_order \<Rightarrow> order_row \<Rightarrow> order_row" where
  "refresh_order_row o' row = row\<lparr>ow_status := ro_status o', ow_round := ro_round o', ow_run_id := ro_run_id o', ow_payload := o',
     ow_updated_at := ro_updated_at o'\<rparr>"

definition save_rework_order :: "rework_order \<Rightarrow> rework_order db_op" where
  "save_rework_order o' = (\<lambda>s. case dict_get (db_orders s) (ro_id o') of
       None \<Rightarrow> (Inl (StateConflict (ro_id o')), s)
     | Some row \<Rightarrow> if \<not> round_positive o' then (Inl IntegrityError, s)
         else (Inr o', s\<lparr>db_orders := dict_set (ro_id o') (refresh_order_row o' row) (db_orders s)\<rparr>))"

definition list_rework_orders ::
    "string \<Rightarrow> phase option \<Rightarrow> rework_order_status list option \<Rightarrow> session_db \<Rightarrow> rework_order list" where
  "list_rework_orders change_id ph statuses s =
     map (\<lambda>(k, row). ow_payload row) (sort_key (\<lambda>(k, row). (ow_created_at row, k))
       (filter (\<lambda>(k, row). ow_change_id row = change_id \<and> wanted ph (ow_phase row) \<and> wanted_in statuses (ow_status row))
          (db_orders s)))"

definition head_option :: "'a list \<Rightarrow> 'a option" where
  "head_option xs = (case xs of [] \<Rightarrow> None | x # _ \<Rightarrow> Some x)"

definition pending_order_of :: "string \<Rightarrow> phase option \<Rightarrow> session_db \<Rightarrow> rework_order option" where
  "pending_order_of change_id ph s = head_option (list_rework_orders change_id ph (Some [ReworkOrderStatus_PENDING]) s)"

definition active_order_of :: "string \<Rightarrow> phase option \<Rightarrow> session_db \<Rightarrow> rework_order option" where
  "active_order_of change_id ph s = head_option (list_rework_orders change_id ph (Some [ReworkOrderStatus_IN_PROGRESS]) s)"

section \<open>Drafts and view marks (\<open>ArtifactDraftRepository\<close>, \<open>ArtifactViewRepository\<close>)\<close>

definition put_draft :: "artifact_draft \<Rightarrow> artifact_draft db_op" where
  "put_draft d = (\<lambda>s. if \<not> known_change s (dr_change_id d) then (Inl IntegrityError, s)
     else (Inr d, s\<lparr>db_drafts := dict_set (dr_change_id d, dr_artifact d) d (db_drafts s)\<rparr>))"

definition get_draft :: "string \<Rightarrow> string \<Rightarrow> session_db \<Rightarrow> artifact_draft option" where
  "get_draft change_id artifact s = dict_get (db_drafts s) (change_id, artifact)"

definition delete_draft :: "string \<Rightarrow> string \<Rightarrow> bool db_op" where
  "delete_draft change_id artifact = (\<lambda>s. case get_draft change_id artifact s of
       None \<Rightarrow> (Inr False, s)
     | Some _ \<Rightarrow> (Inr True, s\<lparr>db_drafts := AList.delete (change_id, artifact) (db_drafts s)\<rparr>))"

definition list_drafts :: "string \<Rightarrow> session_db \<Rightarrow> artifact_draft list" where
  "list_drafts change_id s = sort_key dr_artifact (map snd (filter (\<lambda>((c, a), d). c = change_id) (db_drafts s)))"

definition mark_viewed :: "view_mark \<Rightarrow> view_mark db_op" where
  "mark_viewed m = (\<lambda>s.
     let k = (vm_change_id m, vm_artifact m, vm_revision m) in
     case dict_get (db_views s) k of
       Some _ \<Rightarrow> (Inr m, s)
     | None \<Rightarrow> if \<not> known_change s (vm_change_id m) then (Inl IntegrityError, s)
         else (Inr m, s\<lparr>db_views := dict_set k m (db_views s)\<rparr>))"

definition list_views :: "string \<Rightarrow> string option \<Rightarrow> session_db \<Rightarrow> view_mark list" where
  "list_views change_id artifact s =
     sort_key (\<lambda>m. (vm_viewed_at m, vm_artifact m))
       (map snd (filter (\<lambda>((c, a, r), m). c = change_id \<and> wanted artifact a) (db_views s)))"

definition viewed :: "string \<Rightarrow> string \<Rightarrow> string \<Rightarrow> session_db \<Rightarrow> bool" where
  "viewed change_id artifact revision s \<longleftrightarrow> dict_get (db_views s) (change_id, artifact, revision) \<noteq> None"

section \<open>Changes (\<open>ChangeRepository\<close>)\<close>

definition change_row_of :: "change \<Rightarrow> change_row" where
  "change_row_of c = \<lparr>hr_title = ch_title c, hr_description = ch_description c, hr_source = ch_source c,
     hr_external_ref = ch_external_ref c, hr_risk_class = ch_risk_class c, hr_product = ch_product c,
     hr_product_id = ch_product_id c, hr_payload = c, hr_state_revision = 1, hr_created_at = ch_created_at c\<rparr>"

definition get_change :: "string \<Rightarrow> session_db \<Rightarrow> change option" where
  "get_change change_id s = map_option hr_payload (dict_get (db_changes s) change_id)"

definition external_ref_taken :: "session_db \<Rightarrow> string option \<Rightarrow> bool" where
  "external_ref_taken s ref \<longleftrightarrow> ref \<noteq> None \<and> list_ex (\<lambda>(k, row). hr_external_ref row = ref) (db_changes s)"

definition create_change :: "change \<Rightarrow> (change \<times> bool) db_op" where
  "create_change c = (\<lambda>s. case get_change (ch_id c) s of
       Some existing \<Rightarrow> (Inr (existing, False), s)
     | None \<Rightarrow> if external_ref_taken s (ch_external_ref c) then (Inl IntegrityError, s)
         else (Inr (c, True), s\<lparr>db_changes := dict_set (ch_id c) (change_row_of c) (db_changes s)\<rparr>))"

definition find_by_external_ref :: "string \<Rightarrow> session_db \<Rightarrow> change option" where
  "find_by_external_ref ref s =
     map_option (\<lambda>(k, row). hr_payload row) (find (\<lambda>(k, row). hr_external_ref row = Some ref) (db_changes s))"

definition list_changes :: "nat \<Rightarrow> nat \<Rightarrow> string option \<Rightarrow> session_db \<Rightarrow> change list" where
  "list_changes limit offset product_id s =
     map (\<lambda>(k, row). hr_payload row) (take limit (drop offset (sort_key (\<lambda>(k, row). (hr_created_at row, k))
       (filter (\<lambda>(k, row). product_id = None \<or> hr_product_id row = product_id) (db_changes s)))))"

definition update_brief :: "string \<Rightarrow> intake_brief \<Rightarrow> change db_op" where
  "update_brief change_id brief = (\<lambda>s. case dict_get (db_changes s) change_id of
       None \<Rightarrow> (Inl (StateConflict change_id), s)
     | Some row \<Rightarrow>
         (let c = (hr_payload row)\<lparr>ch_brief := Some brief\<rparr>
          in (Inr c, s\<lparr>db_changes := dict_set change_id (row\<lparr>hr_payload := c\<rparr>) (db_changes s)\<rparr>)))"

section \<open>Products (\<open>ProductRepository\<close>)\<close>

definition product_row_of :: "product \<Rightarrow> product_row" where
  "product_row_of p = \<lparr>pw_name = pr_name p, pw_description = pr_description p, pw_repository = pr_repository p,
     pw_repository_url = pr_repository_url p, pw_baseline_ref = pr_baseline_ref p, pw_dev_env_ref = pr_dev_env_ref p,
     pw_status = pr_status p, pw_status_reason = pr_status_reason p, pw_payload = p,
     pw_state_revision = pr_state_revision p, pw_created_at = pr_created_at p\<rparr>"

definition get_product :: "string \<Rightarrow> session_db \<Rightarrow> product option" where
  "get_product product_id s = map_option pw_payload (dict_get (db_products s) product_id)"

definition create_product :: "product \<Rightarrow> (product \<times> bool) db_op" where
  "create_product p = (\<lambda>s. case get_product (pr_id p) s of
       Some existing \<Rightarrow> (Inr (existing, False), s)
     | None \<Rightarrow> if pr_state_revision p < 1 then (Inl IntegrityError, s)
         else (Inr (p, True), s\<lparr>db_products := dict_set (pr_id p) (product_row_of p) (db_products s)\<rparr>))"

definition list_products :: "nat \<Rightarrow> nat \<Rightarrow> session_db \<Rightarrow> product list" where
  "list_products limit offset s =
     map (\<lambda>(k, row). pw_payload row) (take limit (drop offset
       (sort_key (\<lambda>(k, row). (pw_created_at row, k)) (db_products s))))"

datatype product_store_error = OfProductState state_error | OfProductDomain product_error

definition update_product_status ::
    "string \<Rightarrow> product_status \<Rightarrow> int \<Rightarrow> string option \<Rightarrow> (session_db, product_store_error, product) sem" where
  "update_product_status product_id target expected_revision reason = (\<lambda>s.
     case dict_get (db_products s) product_id of
       None \<Rightarrow> (Inl (OfProductState (StateConflict product_id)), s)
     | Some row \<Rightarrow>
         if pw_state_revision row \<noteq> expected_revision then (Inl (OfProductState (StateConflict product_id)), s)
         else (case product_apply_status target reason (pw_payload row) of
             Inl e \<Rightarrow> (Inl (OfProductDomain e), s)
           | Inr p \<Rightarrow> (Inr p, s\<lparr>db_products := dict_set product_id
               (row\<lparr>pw_status := pr_status p, pw_status_reason := pr_status_reason p,
                    pw_state_revision := pr_state_revision p, pw_payload := p\<rparr>) (db_products s)\<rparr>)))"

section \<open>Decisions (\<open>DecisionRepository\<close>)\<close>

definition role_from_value :: "string option \<Rightarrow> role option" where
  "role_from_value v = Option.bind v (from_value role_members role_value)"

definition decision_from_row :: "string \<Rightarrow> decision_row \<Rightarrow> decision" where
  "decision_from_row k row = \<lparr>d_id = k, d_gate = dw_gate row, d_outcome = dw_outcome row, d_decided_by = dw_decided_by row,
     d_role = role_from_value (dw_role row), d_decided_at = dw_decided_at row, d_commit_sha = dw_commit_sha row,
     d_comment = dw_comment row, d_evidence_ids = dw_evidence_ids row, d_phase = dw_phase row\<rparr>"

definition decision_row_of :: "decision \<Rightarrow> string \<Rightarrow> string option \<Rightarrow> string option \<Rightarrow> decision_row" where
  "decision_row_of d change_id idempotency_key actor_role =
     \<lparr>dw_change_id = change_id, dw_gate = d_gate d, dw_outcome = d_outcome d, dw_decided_by = d_decided_by d,
      dw_role = actor_role, dw_commit_sha = d_commit_sha d, dw_comment = d_comment d, dw_decided_at = d_decided_at d,
      dw_evidence_ids = d_evidence_ids d, dw_idempotency_key = idempotency_key, dw_phase = d_phase d\<rparr>"

definition find_decision_by_key :: "string \<Rightarrow> session_db \<Rightarrow> decision option" where
  "find_decision_by_key idempotency_key s =
     map_option (\<lambda>(k, row). decision_from_row k row)
       (find (\<lambda>(k, row). dw_idempotency_key row = Some idempotency_key) (db_decisions s))"

definition record_decision ::
    "decision \<Rightarrow> string \<Rightarrow> string option \<Rightarrow> string option \<Rightarrow> (decision \<times> bool) db_op" where
  "record_decision d change_id idempotency_key actor_role = (\<lambda>s.
     case Option.bind idempotency_key (\<lambda>key. find_decision_by_key key s) of
       Some replayed \<Rightarrow> (Inr (replayed, False), s)
     | None \<Rightarrow>
         if dict_get (db_decisions s) (d_id d) \<noteq> None \<or> \<not> known_change s change_id then (Inl IntegrityError, s)
         else (Inr (d, True), s\<lparr>db_decisions := dict_set (d_id d)
                 (decision_row_of d change_id idempotency_key actor_role) (db_decisions s)\<rparr>))"

definition get_decision :: "string \<Rightarrow> session_db \<Rightarrow> decision option" where
  "get_decision decision_id s = map_option (decision_from_row decision_id) (dict_get (db_decisions s) decision_id)"

definition list_decisions :: "string \<Rightarrow> session_db \<Rightarrow> decision list" where
  "list_decisions change_id s =
     map (\<lambda>(k, row). decision_from_row k row) (sort_key (\<lambda>(k, row). (dw_decided_at row, k))
       (filter (\<lambda>(k, row). dw_change_id row = change_id) (db_decisions s)))"

section \<open>Audit (\<open>AuditRepository\<close>)\<close>

definition append_audit :: "audit_entry \<Rightarrow> audit_entry db_op" where
  "append_audit entry = (\<lambda>s. (Inr entry, s\<lparr>db_runs := (db_runs s)\<lparr>rs_audit := rs_audit (db_runs s) @ [entry]\<rparr>\<rparr>))"

definition list_audit :: "string \<Rightarrow> string \<Rightarrow> session_db \<Rightarrow> audit_entry list" where
  "list_audit resource_type resource_id s =
     sort_key ae_occurred_at (filter (\<lambda>a. ae_resource_type a = resource_type \<and> ae_resource_id a = resource_id)
       (rs_audit (db_runs s)))"

section \<open>A row is determined by its document\<close>

definition rows_agree :: "('p \<Rightarrow> string) \<Rightarrow> ('p \<Rightarrow> 'r) \<Rightarrow> ('r \<Rightarrow> 'p) \<Rightarrow> (string \<times> 'r) list \<Rightarrow> bool" where
  "rows_agree id_of row_of payload_of t \<longleftrightarrow>
     distinct (map fst t) \<and> list_all (\<lambda>(k, r). r = row_of (payload_of r) \<and> k = id_of (payload_of r)) t"

lemma dict_set_elems: "distinct (map fst d) \<Longrightarrow> set (dict_set k v d) = insert (k, v) {p \<in> set d. fst p \<noteq> k}"
  by (induction d) (auto simp: image_iff)

locale document_table =
  fixes id_of :: "'p \<Rightarrow> string" and row_of :: "'p \<Rightarrow> 'r" and refresh :: "'p \<Rightarrow> 'r \<Rightarrow> 'r"
    and payload_of :: "'r \<Rightarrow> 'p" and fixed :: "'p \<Rightarrow> 'c"
  assumes payload_row [simp]: "payload_of (row_of p) = p"
    and refresh_row: "fixed p = fixed p' \<Longrightarrow> refresh p (row_of p') = row_of p"
begin

lemma agree_row: "rows_agree id_of row_of payload_of t \<Longrightarrow> (k, r) \<in> set t \<Longrightarrow> r = row_of (payload_of r) \<and> k = id_of (payload_of r)"
  unfolding rows_agree_def list_all_iff by blast

lemma agree_lookup:
  assumes "rows_agree id_of row_of payload_of t" "dict_get t k = Some r"
  shows "r = row_of (payload_of r)" "k = id_of (payload_of r)"
  using agree_row [OF assms(1) map_of_SomeD [OF assms(2)]] by blast+

lemma agree_set:
  assumes "rows_agree id_of row_of payload_of t"
  shows "rows_agree id_of row_of payload_of (dict_set (id_of p) (row_of p) t)"
  unfolding rows_agree_def
proof
  have d: "distinct (map fst t)" using assms by (simp add: rows_agree_def)
  then show "distinct (map fst (dict_set (id_of p) (row_of p) t))" by (rule dict_distinct_set)
  show "list_all (\<lambda>(k, r). r = row_of (payload_of r) \<and> k = id_of (payload_of r)) (dict_set (id_of p) (row_of p) t)"
    unfolding list_all_iff dict_set_elems [OF d] using agree_row [OF assms] by (clarsimp simp del: split_paired_All)
qed

lemma agree_refresh:
  assumes "rows_agree id_of row_of payload_of t" "dict_get t (id_of p) = Some r" "fixed p = fixed (payload_of r)"
  shows "rows_agree id_of row_of payload_of (dict_set (id_of p) (refresh p r) t)"
proof -
  have "refresh p r = row_of p"
    using refresh_row [OF assms(3)] agree_lookup(1) [OF assms(1,2), symmetric] by simp
  then show ?thesis using agree_set [OF assms(1), of p] by simp
qed

end

definition question_fixed where
  "question_fixed q = (q_change_id q, q_run_id q, q_phase q, qd_kind q, qd_anchor q, q_asked_at q)"

definition comment_fixed where
  "comment_fixed c = (c_change_id c, c_phase c, c_anchor c, c_created_at c)"

definition order_fixed where
  "order_fixed o' = (ro_change_id o', ro_phase o', ro_created_at o')"

lemma refresh_question_same:
  "question_fixed p = question_fixed p' \<Longrightarrow> refresh_question_row p (question_row_of p') = question_row_of p"
  unfolding question_fixed_def prod.inject refresh_question_row_def question_row_of_def
  by (elim conjE) simp

lemma refresh_comment_same:
  "comment_fixed p = comment_fixed p' \<Longrightarrow> refresh_comment_row p (comment_row_of p') = comment_row_of p"
  unfolding comment_fixed_def prod.inject refresh_comment_row_def comment_row_of_def
  by (elim conjE) simp

lemma refresh_order_same:
  "order_fixed p = order_fixed p' \<Longrightarrow> refresh_order_row p (order_row_of p') = order_row_of p"
  unfolding order_fixed_def prod.inject refresh_order_row_def order_row_of_def
  by (elim conjE) simp

interpretation question_docs: document_table q_id question_row_of refresh_question_row qr_payload question_fixed
  by (rule document_table.intro) (simp add: question_row_of_def, rule refresh_question_same)

interpretation comment_docs: document_table c_id comment_row_of refresh_comment_row cw_payload comment_fixed
  by (rule document_table.intro) (simp add: comment_row_of_def, rule refresh_comment_same)

interpretation order_docs: document_table ro_id order_row_of refresh_order_row ow_payload order_fixed
  by (rule document_table.intro) (simp add: order_row_of_def, rule refresh_order_same)

end
