(* ===== verification/Frontmatter.thy ===== *)
theory Frontmatter
  imports AgentText
begin

text \<open>
  Documents with YAML frontmatter: splitting (\<open>context/sdd/frontmatter.py\<close>), properties, their edit and the paths of
  artifacts (\<open>context/artifacts.py\<close>), and the architect's statement about the interface (\<open>context/design.py\<close>). A
  character is a code point below 256. The YAML loader and dumper and Python's \<open>str\<close> of a nested value are
  parameters: \<open>load\<close> raises a YAML error, named by its class, or returns a value.

  The lemmas show what an edit of the properties keeps, that it can be read back, and what it does to the body.
\<close>

section \<open>Lines (\<open>str.splitlines\<close>)\<close>

definition line_break :: "char \<Rightarrow> bool" where
  "line_break c \<longleftrightarrow> c \<in> {CHR 0x0A, CHR 0x0B, CHR 0x0C, CHR 0x0D, CHR 0x1C, CHR 0x1D, CHR 0x1E, CHR 0x85}"

fun splitlines :: "string \<Rightarrow> string list" where
  "splitlines [] = []"
| "splitlines (c # cs) =
     (if c = CHR 0x0D \<and> cs \<noteq> [] \<and> hd cs = CHR 0x0A then [] # splitlines (tl cs)
      else if line_break c then [] # splitlines cs
      else case splitlines cs of [] \<Rightarrow> [[c]] | w # ws \<Rightarrow> (c # w) # ws)"

declare splitlines.simps(2) [simp del]

definition join_lines :: "string list \<Rightarrow> string" where
  "join_lines ls = join_with NEWLINE ls"

section \<open>Splitting a document (\<open>split_frontmatter\<close>)\<close>

definition DELIMITER :: string where "DELIMITER = ''---''"

datatype document_failure = FrontmatterError string | YAMLError string

type_synonym yaml_loader = "string \<Rightarrow> string + yaml_value"

definition delimiter_line :: "string \<Rightarrow> bool" where
  "delimiter_line l \<longleftrightarrow> py_strip l = DELIMITER"

definition frontmatter_of :: "yaml_value \<Rightarrow> document_failure + yaml_fields" where
  "frontmatter_of raw = (case raw of
       YNull \<Rightarrow> Inr []
     | YMap fs \<Rightarrow> Inr fs
     | _ \<Rightarrow> Inl (FrontmatterError ''frontmatter must be a YAML mapping''))"

definition split_frontmatter :: "yaml_loader \<Rightarrow> string \<Rightarrow> document_failure + yaml_fields option \<times> string" where
  "split_frontmatter load txt =
     (case splitlines txt of
        [] \<Rightarrow> Inr (None, txt)
      | first # others \<Rightarrow>
          if \<not> delimiter_line first then Inr (None, txt)
          else
            let block = takeWhile (\<lambda>l. \<not> delimiter_line l) others;
                after = dropWhile (\<lambda>l. \<not> delimiter_line l) others
            in if after = [] then Inl (FrontmatterError ''unterminated frontmatter block'')
               else case load (join_lines block) of
                 Inl e \<Rightarrow> Inl (YAMLError e)
               | Inr raw \<Rightarrow> map_sum id (\<lambda>fs. (Some fs, join_lines (tl after))) (frontmatter_of raw))"

section \<open>Properties (\<open>document_properties\<close>, \<open>apply_properties\<close>)\<close>

definition PROTECTED_PROPERTIES :: "string list" where
  "PROTECTED_PROPERTIES = [''schema'', ''id'', ''type'', ''product'', ''change'']"

text \<open>Only a \<open>FrontmatterError\<close> is caught: an error of the YAML parser leaves the function.\<close>

definition document_properties ::
    "yaml_loader \<Rightarrow> string \<Rightarrow> document_failure + yaml_fields option \<times> string \<times> string option" where
  "document_properties load content = (case split_frontmatter load content of
       Inl (FrontmatterError e) \<Rightarrow> Inr (None, content, Some e)
     | Inl (YAMLError e) \<Rightarrow> Inl (YAMLError e)
     | Inr (raw, body) \<Rightarrow> Inr (raw, body, None))"

definition editable_properties :: "yaml_fields \<Rightarrow> yaml_fields" where
  "editable_properties vs = filter (\<lambda>(k, v). k \<notin> YStr ` set PROTECTED_PROPERTIES) vs"

datatype property_error = ProtectedProperty string | BrokenDocument document_failure

text \<open>\<open>None\<close> removes a key; a protected key may only be given the value it has.\<close>

fun update_values :: "(string \<times> yaml_value) list \<Rightarrow> yaml_fields \<Rightarrow> property_error + yaml_fields" where
  "update_values [] vs = Inr vs"
| "update_values ((k, v) # us) vs =
     (if k \<in> set PROTECTED_PROPERTIES \<and> field_or_null vs k \<noteq> v then Inl (ProtectedProperty k)
      else update_values us (if v = YNull then AList.delete (YStr k) vs else dict_set (YStr k) v vs))"

definition kept_newline :: "string \<Rightarrow> string \<Rightarrow> string" where
  "kept_newline content body =
     (if content \<noteq> [] \<and> last content = CHR 0x0A \<and> \<not> (body \<noteq> [] \<and> last body = CHR 0x0A) then body @ NEWLINE else body)"

definition render_properties :: "(yaml_fields \<Rightarrow> string) \<Rightarrow> yaml_fields \<Rightarrow> string \<Rightarrow> string" where
  "render_properties dump vs body =
     DELIMITER @ NEWLINE @ py_strip (dump vs) @ NEWLINE @ DELIMITER @ NEWLINE @
     (if body = [] \<or> hd body = CHR 0x0A then [] else NEWLINE) @ body"

definition apply_properties ::
    "yaml_loader \<Rightarrow> (yaml_fields \<Rightarrow> string) \<Rightarrow> string \<Rightarrow> (string \<times> yaml_value) list \<Rightarrow> property_error + string" where
  "apply_properties load dump content updates =
     (case split_frontmatter load content of
        Inl e \<Rightarrow> Inl (BrokenDocument e)
      | Inr (raw, body) \<Rightarrow>
          (case update_values updates (case raw of None \<Rightarrow> [] | Some vs \<Rightarrow> vs) of
             Inl e \<Rightarrow> Inl e
           | Inr vs \<Rightarrow>
               let body' = kept_newline content body
               in Inr (if vs = [] then body' else render_properties dump vs body')))"

section \<open>The statement about the interface (\<open>ui_requirement_of\<close>)\<close>

definition yaml_str :: "(yaml_value \<Rightarrow> string) \<Rightarrow> yaml_value \<Rightarrow> string" where
  "yaml_str nested v = (case v of YStr s \<Rightarrow> s | YScalar s \<Rightarrow> s | _ \<Rightarrow> nested v)"

definition normalized_ui :: "string \<Rightarrow> string" where
  "normalized_ui v = map (\<lambda>c. if c = CHR ''-'' \<or> c = CHR '' '' then CHR ''_'' else c) (lower_text (py_strip v))"

definition ui_statement :: "(yaml_value \<Rightarrow> string) \<Rightarrow> yaml_fields \<Rightarrow> ui_requirement option" where
  "ui_statement nested fs = (case field_or_null fs ''ui'' of
       YStr v \<Rightarrow>
         let reason = (case field_or_null fs ''ui_reason'' of YNull \<Rightarrow> None | r \<Rightarrow> clean_text (Some (yaml_str nested r)));
             stated = (\<lambda>required. Some \<lparr>ui_required = required, ui_source_of = Ui_agent, ui_reason = map_option Stated reason\<rparr>)
         in if normalized_ui v \<in> {''not_required'', ''none'', ''no'', ''false''} then stated False
            else if normalized_ui v \<in> {''required'', ''yes'', ''true''} then stated True
            else None
     | _ \<Rightarrow> None)"

definition ui_requirement_of ::
    "yaml_loader \<Rightarrow> (yaml_value \<Rightarrow> string) \<Rightarrow> string option \<Rightarrow> document_failure + ui_requirement option" where
  "ui_requirement_of load nested overview = (case overview of
       None \<Rightarrow> Inr None
     | Some txt \<Rightarrow> (case split_frontmatter load txt of
           Inl (FrontmatterError _) \<Rightarrow> Inr None
         | Inl (YAMLError e) \<Rightarrow> Inl (YAMLError e)
         | Inr (None, _) \<Rightarrow> Inr None
         | Inr (Some fs, _) \<Rightarrow> Inr (ui_statement nested fs)))"

section \<open>Artifact paths\<close>

definition is_changeset_artifact :: "string \<Rightarrow> bool" where
  "is_changeset_artifact path \<longleftrightarrow>
     (let normalized = strip_slashes path in
      starts_with (CHANGES_ROOT @ ''/'') normalized \<and> CHR ''.'' \<in> set normalized \<and>
      lower_text (rev (takeWhile (\<lambda>c. c \<noteq> CHR ''.'') (rev normalized))) \<in> {''md'', ''yaml'', ''yml'', ''json'', ''txt''})"

section \<open>Reading an edit back\<close>







lemma field_set [simp]: "field_or_null (dict_set (YStr k) v vs) k' = (if k' = k then v else field_or_null vs k')"
  by (simp add: field_or_null_def)

lemma field_delete [simp]: "field_or_null (AList.delete (YStr k) vs) k' = (if k' = k then YNull else field_or_null vs k')"
  by (auto simp: field_or_null_def delete_conv' fun_upd_def)

definition updated :: "string \<Rightarrow> yaml_value \<Rightarrow> yaml_fields \<Rightarrow> yaml_fields" where
  "updated k v vs = (if v = YNull then AList.delete (YStr k) vs else dict_set (YStr k) v vs)"

lemma field_updated [simp]: "field_or_null (updated k v vs) k' = (if k' = k then v else field_or_null vs k')"
  by (simp add: updated_def)






definition sample_document :: string where
  "sample_document = ''---'' @ NEWLINE @ ''id: a'' @ NEWLINE @ ''---'' @ NEWLINE @ ''Text''"

definition sample_load :: yaml_loader where
  "sample_load t = (if t = ''id: a'' then Inr (YMap [(YStr ''id'', YStr ''a'')])
     else if t = ''id: a'' @ NEWLINE @ ''ui: not_required'' then Inr (YMap [(YStr ''id'', YStr ''a''), (YStr ''ui'', YStr ''not_required'')])
     else Inl ''ScannerError'')"

definition sample_dump :: "yaml_fields \<Rightarrow> string" where
  "sample_dump vs = join_lines (map (\<lambda>(k, v). yaml_str (\<lambda>_. []) k @ '': '' @ yaml_str (\<lambda>_. []) v) vs) @ NEWLINE"


text \<open>
  An edit without any update rewrites the body: the blank line before it is added, carriage returns and the last of
  several final newlines are lost.
\<close>

theorem property_edit_moves_body:
  "split_frontmatter sample_load sample_document = Inr (Some [(YStr ''id'', YStr ''a'')], ''Text'') \<and>
   Option.bind (case apply_properties sample_load sample_dump sample_document [] of Inl _ \<Rightarrow> None | Inr out \<Rightarrow> Some out)
     (\<lambda>out. case split_frontmatter sample_load out of Inl _ \<Rightarrow> None | Inr (_, body) \<Rightarrow> Some body) = Some (NEWLINE @ ''Text'')"
  by code_simp

text \<open>
  A block the YAML parser rejects is not reported as a broken document: the parser's error leaves the readers of
  properties and of the interface statement.
\<close>

theorem broken_yaml_escapes:
  assumes "split_frontmatter load txt = Inl (YAMLError e)"
  shows "document_properties load txt = Inl (YAMLError e)" "ui_requirement_of load nested (Some txt) = Inl (YAMLError e)"
  using assms by (simp_all add: document_properties_def ui_requirement_of_def)

theorem broken_yaml_escapes_sample:
  "document_properties sample_load (''---'' @ NEWLINE @ ''a: ['' @ NEWLINE @ ''---'' @ NEWLINE) = Inl (YAMLError ''ScannerError'')"
  by code_simp

end
