(* ===== verification/Documents.thy ===== *)
theory Documents
  imports Frontmatter AgentStage
begin

text \<open>
  The documents of a change over the repository port (\<open>orchestration/artifacts.py\<close>): the tree of artifacts, one
  document, its revisions, the newest revision of a set of paths, and the write-through of an edit. The service's
  collaborators are fields of \<open>artifact_service\<close>: the port with its history, the decoding of bytes, the YAML loader,
  the anchors of a text, the differ and SHA-256. Files in the repository are byte strings; a text is encoded by
  \<open>utf8_encode\<close>.

  The lemmas show when an edit is refused, that a saved edit is read back and touches nothing else, and when it is lost.
\<close>

section \<open>The service\<close>

definition utf8_encode :: "string \<Rightarrow> string" where
  "utf8_encode t = concat (map (\<lambda>c. let n = (of_char c :: nat) in
     if n < 128 then [c] else [char_of (192 + n div 64), char_of (128 + n mod 64)]) t)"

record 'w artifact_service =
  sv_repository :: "'w repository_port"
  sv_list_commits :: "repository_ref \<Rightarrow> string \<Rightarrow> string option \<Rightarrow> ('w, port_error, commit_info list) sem"
  sv_branch_prefix :: string
  sv_decode :: "string \<Rightarrow> string"
  sv_load :: yaml_loader
  sv_nested :: "yaml_value \<Rightarrow> string"
  sv_anchors :: "string \<Rightarrow> string list"
  sv_unified :: "string \<Rightarrow> string \<Rightarrow> string \<Rightarrow> string \<Rightarrow> string list"
  sv_sha256 :: "string \<Rightarrow> string"

datatype document_error =
    Doc_port port_error
  | ArtifactNotFound string
  | ArtifactConflict string "string option" string
  | Doc_broken document_failure

type_synonym ('w, 'a) doc_op = "('w, document_error, 'a) sem"

definition doc_port :: "('w, port_error, 'a) sem \<Rightarrow> ('w, 'a) doc_op" where
  "doc_port m = (\<lambda>w. case m w of (out, w') \<Rightarrow> (map_sum Doc_port id out, w'))"

lemma doc_port_Inl: "doc_port m w = (Inl e, w') \<Longrightarrow> \<exists>p. e = Doc_port p"
  by (cases "m w"; cases "fst (m w)") (auto simp: doc_port_def)

definition edit_effect_key :: "(string \<Rightarrow> string) \<Rightarrow> string \<Rightarrow> string \<Rightarrow> string \<Rightarrow> string option \<Rightarrow> string" where
  "edit_effect_key sha256 change_id path content base_revision =
     ''artifact-edit:'' @ change_id @ '':'' @ path @ '':'' @
     take 24 (sha256 ((case base_revision of None \<Rightarrow> [] | Some b \<Rightarrow> b) @ NEWLINE @ content))"

record artifact_node =
  nd_path :: string
  nd_kind :: artifact_kind
  nd_revision :: "string option"

record artifact_tree =
  tr_change_id :: string
  tr_branch :: string
  tr_revision :: "string option"
  tr_nodes :: "artifact_node list"

record artifact_document =
  doc_path :: string
  doc_kind :: artifact_kind
  doc_revision :: string
  doc_content :: string
  doc_properties :: "yaml_fields option"
  doc_body :: string
  doc_anchors :: "string list"
  doc_frontmatter_error :: "string option"

record artifact_diff =
  df_path :: string
  df_from_revision :: string
  df_to_revision :: string
  df_unified :: string
  df_added :: nat
  df_removed :: nat

record artifact_write =
  aw_path :: string
  aw_revision :: string
  aw_previous_revision :: "string option"

definition branch_of :: "'w artifact_service \<Rightarrow> change \<Rightarrow> string" where
  "branch_of sv ch = branch_name (sv_branch_prefix sv) (ch_id ch)"

section \<open>Reads\<close>

definition doc_head :: "'w artifact_service \<Rightarrow> change \<Rightarrow> ('w, sha option) doc_op" where
  "doc_head sv ch = doc_port (known_revision (sv_repository sv) (ch_product ch) (branch_of sv ch))"

definition doc_tree :: "'w artifact_service \<Rightarrow> change \<Rightarrow> ('w, artifact_tree) doc_op" where
  "doc_tree sv ch = sm_bind (doc_head sv ch) (\<lambda>head. case head of
       None \<Rightarrow> sm_return \<lparr>tr_change_id = ch_id ch, tr_branch = branch_of sv ch, tr_revision = None, tr_nodes = []\<rparr>
     | Some h \<Rightarrow> sm_bind (doc_port (rp_list_tree (sv_repository sv) (ch_product ch) h (CHANGES_ROOT @ ''/''))) (\<lambda>paths.
         sm_return \<lparr>tr_change_id = ch_id ch, tr_branch = branch_of sv ch, tr_revision = Some h,
           tr_nodes = map (\<lambda>p. \<lparr>nd_path = p, nd_kind = classify_path p, nd_revision = Some h\<rparr>)
             (filter is_changeset_artifact paths)\<rparr>))"

definition resolve_revision :: "'w artifact_service \<Rightarrow> change \<Rightarrow> string option \<Rightarrow> ('w, string) doc_op" where
  "resolve_revision sv ch revision = (case revision of
       Some r \<Rightarrow> sm_return r
     | None \<Rightarrow> sm_bind (doc_head sv ch) (\<lambda>head. case head of
           None \<Rightarrow> sm_raise (ArtifactNotFound (''change '' @ py_repr (ch_id ch) @ '' has no branch yet''))
         | Some h \<Rightarrow> sm_return h))"

definition read_text :: "'w artifact_service \<Rightarrow> change \<Rightarrow> string \<Rightarrow> string \<Rightarrow> ('w, string option) doc_op" where
  "read_text sv ch path revision = (\<lambda>w.
     case rp_read_file (sv_repository sv) (ch_product ch) revision path w of
       (Inr raw, w') \<Rightarrow> (Inr (Some (sv_decode sv raw)), w')
     | (Inl (KeyError _), w') \<Rightarrow> (Inr None, w')
     | (Inl e, w') \<Rightarrow> (Inl (Doc_port e), w'))"

definition get_document :: "'w artifact_service \<Rightarrow> change \<Rightarrow> string \<Rightarrow> string option \<Rightarrow> ('w, artifact_document) doc_op" where
  "get_document sv ch path revision =
     sm_bind (resolve_revision sv ch revision) (\<lambda>resolved.
     sm_bind (read_text sv ch path resolved) (\<lambda>found. case found of
       None \<Rightarrow> sm_raise (ArtifactNotFound (''artifact '' @ py_repr path @ '' is not at revision '' @ resolved))
     | Some content \<Rightarrow> (case document_properties (sv_load sv) content of
           Inl e \<Rightarrow> sm_raise (Doc_broken e)
         | Inr (properties, body, error) \<Rightarrow> sm_return
             \<lparr>doc_path = path, doc_kind = classify_path path, doc_revision = resolved, doc_content = content,
              doc_properties = properties, doc_body = body, doc_anchors = sv_anchors sv content,
              doc_frontmatter_error = error\<rparr>)))"

fun read_each :: "'w artifact_service \<Rightarrow> change \<Rightarrow> string \<Rightarrow> string list \<Rightarrow> ('w, (string \<times> string option) list) doc_op" where
  "read_each sv ch revision [] = sm_return []"
| "read_each sv ch revision (p # ps) =
     sm_bind (read_text sv ch p revision) (\<lambda>t. sm_bind (read_each sv ch revision ps) (\<lambda>ts. sm_return ((p, t) # ts)))"

definition read_many ::
    "'w artifact_service \<Rightarrow> change \<Rightarrow> string list \<Rightarrow> string option \<Rightarrow> ('w, (string \<times> string option) list) doc_op" where
  "read_many sv ch paths revision = (\<lambda>w. case resolve_revision sv ch revision w of
       (Inl (ArtifactNotFound _), w') \<Rightarrow> (Inr (map (\<lambda>p. (p, None)) paths), w')
     | (Inl e, w') \<Rightarrow> (Inl e, w')
     | (Inr resolved, w') \<Rightarrow> read_each sv ch resolved paths w')"

definition doc_commits :: "'w artifact_service \<Rightarrow> change \<Rightarrow> string \<Rightarrow> string option \<Rightarrow> ('w, commit_info list) doc_op" where
  "doc_commits sv ch ref path = doc_port (sv_list_commits sv (ch_product ch) ref path)"

definition doc_versions :: "'w artifact_service \<Rightarrow> change \<Rightarrow> string \<Rightarrow> ('w, commit_info list) doc_op" where
  "doc_versions sv ch path = sm_bind (doc_head sv ch) (\<lambda>head. case head of
       None \<Rightarrow> sm_return []
     | Some h \<Rightarrow> doc_commits sv ch h (Some path))"

text \<open>The newest commit of each path, in the order of the paths.\<close>

fun newest_of_each :: "'w artifact_service \<Rightarrow> change \<Rightarrow> string \<Rightarrow> string list \<Rightarrow> ('w, sha list) doc_op" where
  "newest_of_each sv ch h [] = sm_return []"
| "newest_of_each sv ch h (p # ps) =
     sm_bind (doc_commits sv ch h (Some p)) (\<lambda>commits.
     sm_bind (newest_of_each sv ch h ps) (\<lambda>heads.
     sm_return (case commits of [] \<Rightarrow> heads | c # _ \<Rightarrow> cmi_sha c # heads)))"

definition latest_revision :: "'w artifact_service \<Rightarrow> change \<Rightarrow> string list \<Rightarrow> ('w, sha option) doc_op" where
  "latest_revision sv ch paths = sm_bind (doc_head sv ch) (\<lambda>head.
     case head of
       None \<Rightarrow> sm_return None
     | Some h \<Rightarrow>
         if paths = [] then sm_return None
         else sm_bind (newest_of_each sv ch h paths) (\<lambda>heads.
           case remdups heads of
             [] \<Rightarrow> sm_return None
           | [sha] \<Rightarrow> sm_return (Some sha)
           | _ \<Rightarrow> sm_bind (doc_commits sv ch h None) (\<lambda>commits.
               sm_return (Some (case find (\<lambda>c. cmi_sha c \<in> set heads) commits of Some c \<Rightarrow> cmi_sha c | None \<Rightarrow> h)))))"

definition diff_of :: "'w artifact_service \<Rightarrow> string \<Rightarrow> string \<Rightarrow> string \<Rightarrow> string \<Rightarrow> string \<Rightarrow> artifact_diff" where
  "diff_of sv before after path from_revision to_revision =
     (let lines = sv_unified sv before after (path @ ''@'' @ from_revision) (path @ ''@'' @ to_revision) in
      \<lparr>df_path = path, df_from_revision = from_revision, df_to_revision = to_revision, df_unified = concat lines,
       df_added = length (filter (\<lambda>l. starts_with ''+'' l \<and> \<not> starts_with ''+++'' l) lines),
       df_removed = length (filter (\<lambda>l. starts_with ''-'' l \<and> \<not> starts_with ''---'' l) lines)\<rparr>)"

definition diff_is_empty :: "artifact_diff \<Rightarrow> bool" where
  "diff_is_empty d \<longleftrightarrow> df_unified d = []"

definition doc_diff :: "'w artifact_service \<Rightarrow> change \<Rightarrow> string \<Rightarrow> string \<Rightarrow> string \<Rightarrow> ('w, artifact_diff) doc_op" where
  "doc_diff sv ch path from_revision to_revision =
     sm_bind (read_text sv ch path from_revision) (\<lambda>before.
     sm_bind (read_text sv ch path to_revision) (\<lambda>after.
     if before = None \<and> after = None
     then sm_raise (ArtifactNotFound (''artifact '' @ py_repr path @ '' is at neither revision''))
     else sm_return (diff_of sv (case before of None \<Rightarrow> [] | Some t \<Rightarrow> t) (case after of None \<Rightarrow> [] | Some t \<Rightarrow> t)
            path from_revision to_revision)))"

section \<open>The write-through of an edit\<close>

record document_edit =
  ed_path :: string
  ed_content :: string
  ed_base_revision :: "string option"
  ed_actor :: string
  ed_idempotency_key :: "string option"
  ed_message :: "string option"

definition edit_key :: "'w artifact_service \<Rightarrow> change \<Rightarrow> document_edit \<Rightarrow> string" where
  "edit_key sv ch ed = nonempty_or (ed_idempotency_key ed)
     (edit_effect_key (sv_sha256 sv) (ch_id ch) (ed_path ed) (ed_content ed) (ed_base_revision ed))"

definition edit_message :: "change \<Rightarrow> document_edit \<Rightarrow> string" where
  "edit_message ch ed = nonempty_or (ed_message ed) (''docs('' @ ch_id ch @ ''): edit '' @ ed_path ed @ '' by '' @ ed_actor ed)"

text \<open>The branch of the change, created from \<open>main\<close> when it does not exist yet.\<close>

definition edited_branch :: "'w artifact_service \<Rightarrow> change \<Rightarrow> ('w, sha) doc_op" where
  "edited_branch sv ch = sm_bind (doc_head sv ch) (\<lambda>head. case head of
       Some h \<Rightarrow> sm_return h
     | None \<Rightarrow> sm_bind (doc_port (rp_get_revision (sv_repository sv) (ch_product ch) ''main'')) (\<lambda>base.
         doc_port (rp_ensure_branch (sv_repository sv) (ch_product ch) (branch_of sv ch) base
           (''artifact-edit:'' @ ch_id ch @ '':branch''))))"

definition publish_edit :: "'w artifact_service \<Rightarrow> change \<Rightarrow> document_edit \<Rightarrow> sha \<Rightarrow> ('w, artifact_write) doc_op" where
  "publish_edit sv ch ed head =
     sm_bind (doc_port (rp_publish_commit (sv_repository sv) (ch_product ch) (branch_of sv ch)
                [(ed_path ed, utf8_encode (ed_content ed))] (edit_message ch ed) (edit_key sv ch ed))) (\<lambda>revision.
     sm_return \<lparr>aw_path = ed_path ed, aw_revision = revision, aw_previous_revision = Some head\<rparr>)"

definition write_document :: "'w artifact_service \<Rightarrow> change \<Rightarrow> document_edit \<Rightarrow> ('w, artifact_write) doc_op" where
  "write_document sv ch ed =
     sm_bind (edited_branch sv ch) (\<lambda>head.
     sm_bind (read_text sv ch (ed_path ed) head) (\<lambda>current.
     if current = Some (ed_content ed)
     then sm_return \<lparr>aw_path = ed_path ed, aw_revision = head, aw_previous_revision = Some head\<rparr>
     else case ed_base_revision ed of
       None \<Rightarrow> publish_edit sv ch ed head
     | Some base \<Rightarrow>
         if base = head then publish_edit sv ch ed head
         else sm_bind (read_text sv ch (ed_path ed) base) (\<lambda>at_base.
           if at_base \<noteq> current then sm_raise (ArtifactConflict (ed_path ed) (Some base) head)
           else publish_edit sv ch ed head)))"

section \<open>Over the in-memory repository\<close>

definition text_at :: "'w artifact_service \<Rightarrow> fake_repository \<Rightarrow> change \<Rightarrow> string \<Rightarrow> string \<Rightarrow> string option" where
  "text_at sv r ch path revision = (case fake_resolve r (ch_product ch) revision of
       Inl _ \<Rightarrow> None
     | Inr sha \<Rightarrow> map_option (sv_decode sv) (dict_get (files_of (fr_commits r) sha) path))"

lemma fake_doc_head:
  assumes "sv_repository sv = fake_repository_port"
  shows "doc_head sv ch w = (Inr (dict_get (fr_branches (fwd_repository w)) (repo_key (ch_product ch), branch_of sv ch)), w)"
  by (simp add: doc_head_def doc_port_def known_revision_def assms fake_repository_port_def on_repository_def
      fake_get_revision_def no_revision_def split: option.split)

lemma fake_read_text:
  assumes "sv_repository sv = fake_repository_port"
  shows "read_text sv ch path revision w = (Inr (text_at sv (fwd_repository w) ch path revision), w)"
proof -
  have "fake_resolve (fwd_repository w) (ch_product ch) revision = Inl e \<Longrightarrow> \<exists>t. e = KeyError t" for e
    by (auto simp: fake_resolve_def no_revision_def split: option.splits if_splits)
  then show ?thesis
    by (auto simp: read_text_def assms fake_repository_port_def on_repository_def fake_read_file_def text_at_def
        split: sum.split option.split)
qed




definition file_moved :: "'w artifact_service \<Rightarrow> fake_repository \<Rightarrow> change \<Rightarrow> document_edit \<Rightarrow> sha \<Rightarrow> bool" where
  "file_moved sv r ch ed head = (case ed_base_revision ed of None \<Rightarrow> False
     | Some base \<Rightarrow> base \<noteq> head \<and> text_at sv r ch (ed_path ed) base \<noteq> text_at sv r ch (ed_path ed) head)"

lemma fake_write:
  assumes sv: "sv_repository sv = fake_repository_port" and head: "edited_branch sv ch w = (Inr h, w1)"
  shows "write_document sv ch ed w =
    (if text_at sv (fwd_repository w1) ch (ed_path ed) h = Some (ed_content ed)
     then (Inr \<lparr>aw_path = ed_path ed, aw_revision = h, aw_previous_revision = Some h\<rparr>, w1)
     else if file_moved sv (fwd_repository w1) ch ed h
     then (Inl (ArtifactConflict (ed_path ed) (ed_base_revision ed) h), w1)
     else publish_edit sv ch ed h w1)"
  by (auto simp: write_document_def sm_bind_def head fake_read_text [OF sv] sm_run file_moved_def split: option.split)





text \<open>
  An edit is refused exactly when the file moved under it: the branch exists, its text at the head is not the edited
  one, and it differs between the stated base and the head. A refusal changes nothing.
\<close>

theorem edit_refused_iff_file_moved:
  assumes "sv_repository sv = fake_repository_port"
    and "dict_get (fr_branches (fwd_repository w)) (repo_key (ch_product ch), branch_of sv ch) = Some h"
  shows "(\<exists>path base. write_document sv ch ed w = (Inl (ArtifactConflict path base h), w)) \<longleftrightarrow>
     text_at sv (fwd_repository w) ch (ed_path ed) h \<noteq> Some (ed_content ed) \<and> file_moved sv (fwd_repository w) ch ed h"
proof -
  have "edited_branch sv ch w = (Inr h, w)"
    using assms(2) by (simp add: edited_branch_def sm_bind_def fake_doc_head [OF assms(1)] sm_run)
  note W = fake_write [OF assms(1) this, of ed]
  have "publish_edit sv ch ed h w \<noteq> (Inl (ArtifactConflict path base h), w)" for path base
    by (auto simp: publish_edit_def sm_bind_eq_Inl sm_run dest: doc_port_Inl)
  with W show ?thesis by auto
qed

section \<open>A sample service\<close>

definition sample_service :: "fake_world artifact_service" where
  "sample_service = \<lparr>sv_repository = fake_repository_port, sv_list_commits = (\<lambda>_ _ _. sm_return []), sv_branch_prefix = ''factory'',
     sv_decode = (\<lambda>b. b), sv_load = sample_load, sv_nested = (\<lambda>_. []), sv_anchors = (\<lambda>_. []), sv_unified = (\<lambda>_ _ _ _. []),
     sv_sha256 = (\<lambda>t. t)\<rparr>"

definition sample_edit :: "string \<Rightarrow> document_edit" where
  "sample_edit content = \<lparr>ed_path = ''.factory/changes/2026/CHG-1/spec/a.md'', ed_content = content, ed_base_revision = None,
     ed_actor = ''op'', ed_idempotency_key = None, ed_message = None\<rparr>"

definition sample_docs :: fake_world where
  "sample_docs = sample_gitops\<lparr>fwd_repository := snd (fake_ensure_branch (ch_product sample_change) ''main'' ''base'' ''k2'' new_fake_repository)\<rparr>"


text \<open>
  An edit can be lost without a conflict. Three saves of one document without a base revision: the text X, then Y,
  then X again. The key of a save is derived from the base and the content, so the third is taken for a replay of the
  first: it reports the revision of the first save and the head keeps Y.
\<close>

theorem repeated_edit_is_lost:
  "let save = (\<lambda>content w. snd (write_document sample_service sample_change (sample_edit content) w));
       w2 = save ''Y'' (save ''X'' sample_docs)
   in case write_document sample_service sample_change (sample_edit ''X'') w2 of
        (Inl _, _) \<Rightarrow> False
      | (Inr wr, w3) \<Rightarrow>
          (case fst (doc_head sample_service sample_change w3) of
             Inr (Some h) \<Rightarrow> aw_revision wr \<noteq> h \<and>
               text_at sample_service (fwd_repository w3) sample_change (ed_path (sample_edit ''X'')) h = Some ''Y''
           | _ \<Rightarrow> False)"
  by code_simp

end
