(* ===== verification/Discussion.thy ===== *)
theory Discussion
  imports ChangeStore Documents
begin

text \<open>
  The operator's side of a change over the session and the repository: the facts of the phases
  (\<open>orchestration/state/phases.py\<close>, \<open>state/guidance.py\<close>), the operations of the discussion
  (\<open>state/conversation_ops.py\<close>) and what one advance does to it (\<open>state/conversations.py\<close>). The state is the session's
  tables and the repository's world; an exception keeps what was written before it. \<open>uuid4().hex\<close> is an argument,
  \<open>utc_now()\<close> is \<open>clk\<close>. A message of an error keeps the ingredients of its text.
\<close>

section \<open>Session and repository\<close>

type_synonym 'w session = "session_db \<times> 'w"

datatype conversation_conflict =
    RevisionBehindHead
  | OrderInProgress string phase rework_order_status
  | QuestionNotOpen string question_status
  | PhaseHasNoGate phase
  | GateClosed phase "gate_reason list"
  | NotCurrentRevision "string option" string

datatype conversation_input = BadAnswer answer_error | EmptyOrder | WaiverWithoutReason | NoRevisionToBind

datatype conversation_error =
    ConversationNotFound string string
  | ConversationConflict conversation_conflict
  | ConversationInput conversation_input
  | Of_db state_error
  | Of_documents document_error
  | Of_question question_error
  | Of_transition string
  | Of_validation string

type_synonym ('w, 'a) session_op = "('w session, conversation_error, 'a) sem"

definition on_db :: "'a db_op \<Rightarrow> ('w, 'a) session_op" where
  "on_db m = (\<lambda>(s, w). case m s of (out, s') \<Rightarrow> (map_sum Of_db id out, (s', w)))"

definition on_docs :: "('w, 'a) doc_op \<Rightarrow> ('w, 'a) session_op" where
  "on_docs m = (\<lambda>(s, w). case m w of (out, w') \<Rightarrow> (map_sum Of_documents id out, (s, w')))"

definition reading :: "(session_db \<Rightarrow> 'a) \<Rightarrow> ('w, 'a) session_op" where
  "reading f = (\<lambda>(s, w). (Inr (f s), (s, w)))"

definition of_result :: "('e \<Rightarrow> conversation_error) \<Rightarrow> 'e + 'a \<Rightarrow> ('w, 'a) session_op" where
  "of_result err r = (case r of Inl e \<Rightarrow> sm_raise (err e) | Inr a \<Rightarrow> sm_return a)"

section \<open>Runs and results (\<open>state/guidance.py\<close>)\<close>

definition execution_created :: "run_store \<Rightarrow> string \<Rightarrow> instant" where
  "execution_created r k = (case rs_details r k of Some d \<Rightarrow> xd_created_at d
     | None \<Rightarrow> (case ss_executions (rs_state r) k of Some row \<Rightarrow> ex_updated_at row | None \<Rightarrow> 0))"

definition latest_run :: "string \<Rightarrow> session_db \<Rightarrow> change_run option" where
  "latest_run change_id s =
     (case rev (sort_key (\<lambda>k. (execution_created (db_runs s) k, k))
            (filter (\<lambda>k. case ss_executions (rs_state (db_runs s)) k of None \<Rightarrow> False | Some row \<Rightarrow> ex_change_id row = change_id)
               (db_execution_ids s))) of
        [] \<Rightarrow> None
      | k # _ \<Rightarrow> load k (db_runs s))"

definition latest_result :: "change_run option \<Rightarrow> session_db \<Rightarrow> stage_result option" where
  "latest_result run s = (case run of None \<Rightarrow> None
     | Some r \<Rightarrow> (let history = load_history (cr_id r) (db_runs s) in if history = [] then None else Some (last history)))"

definition waiting_on :: "change_run option \<Rightarrow> session_db \<Rightarrow> next_action option" where
  "waiting_on run s = map_option res_next_action (latest_result run s)"

definition waiting_phase :: "change_run option \<Rightarrow> session_db \<Rightarrow> phase option" where
  "waiting_phase run s = (case latest_result run s of None \<Rightarrow> None
     | Some latest \<Rightarrow> if res_status latest \<noteq> StageStatus_WAITING then None else res_phase latest)"

section \<open>Facts of the phases (\<open>state/phases.py\<close>)\<close>

type_synonym phase_revision_map = "(phase \<times> string option) list"

definition revision_of :: "phase_revision_map \<Rightarrow> phase \<Rightarrow> string option" where
  "revision_of m ph = (case dict_get m ph of None \<Rightarrow> None | Some r \<Rightarrow> r)"

definition grouped_paths :: "artifact_node list \<Rightarrow> (phase \<times> string list) list" where
  "grouped_paths nodes = fold (\<lambda>n g. case phase_of_path (nd_path n) of None \<Rightarrow> g
     | Some ph \<Rightarrow> dict_set ph ((case dict_get g ph of None \<Rightarrow> [] | Some ps \<Rightarrow> ps) @ [nd_path n]) g) nodes []"

fun group_revisions ::
    "'w artifact_service \<Rightarrow> change \<Rightarrow> string option \<Rightarrow> (phase \<times> string list) list \<Rightarrow> phase_revision_map
      \<Rightarrow> ('w, phase_revision_map) doc_op" where
  "group_revisions sv ch head [] m = sm_return m"
| "group_revisions sv ch head ((ph, paths) # gs) m =
     sm_bind (latest_revision sv ch paths) (\<lambda>latest.
       group_revisions sv ch head gs
         (dict_set ph (case latest of Some r \<Rightarrow> if r = [] then head else Some r | None \<Rightarrow> head) m))"

definition phase_revisions :: "'w artifact_service option \<Rightarrow> change \<Rightarrow> ('w, phase_revision_map) doc_op" where
  "phase_revisions artifacts ch = (case artifacts of
       None \<Rightarrow> sm_return []
     | Some sv \<Rightarrow> sm_bind (doc_tree sv ch) (\<lambda>tree.
         let revisions = map (\<lambda>ph. (ph, None)) SPECIFICATION_PHASES @ [(Phase_PLAN, None)] in
         if tr_revision tree = None then sm_return revisions
         else group_revisions sv ch (tr_revision tree) (grouped_paths (tr_nodes tree)) revisions))"

definition ends_with :: "string \<Rightarrow> string \<Rightarrow> bool" where
  "ends_with suffix t \<longleftrightarrow> length suffix \<le> length t \<and> drop (length t - length suffix) t = suffix"

definition DESIGN_OVERVIEW_PATH :: string where "DESIGN_OVERVIEW_PATH = ''design/overview.md''"

definition stated_ui_requirement :: "'w artifact_service option \<Rightarrow> change \<Rightarrow> ('w, ui_requirement option) doc_op" where
  "stated_ui_requirement artifacts ch = (case artifacts of
       None \<Rightarrow> sm_return None
     | Some sv \<Rightarrow> sm_bind (doc_tree sv ch) (\<lambda>tree.
         if tr_revision tree = None then sm_return None
         else case find (\<lambda>n. ends_with (''/'' @ DESIGN_OVERVIEW_PATH) (nd_path n)) (tr_nodes tree) of
           None \<Rightarrow> sm_return None
         | Some n \<Rightarrow> sm_bind (read_many sv ch [nd_path n] None) (\<lambda>texts.
             case ui_requirement_of (sv_load sv) (sv_nested sv) (case dict_get texts (nd_path n) of None \<Rightarrow> None | Some t \<Rightarrow> t) of
               Inl e \<Rightarrow> sm_raise (Doc_broken e)
             | Inr ui \<Rightarrow> sm_return ui)))"

record change_phase_facts =
  cf_decisions :: "decision list"
  cf_revisions :: phase_revision_map
  cf_ui_requirement :: "ui_requirement option"

definition load_phase_facts :: "'w artifact_service option \<Rightarrow> change \<Rightarrow> ('w, change_phase_facts) session_op" where
  "load_phase_facts artifacts ch =
     sm_bind (reading (list_decisions (ch_id ch))) (\<lambda>decisions.
     sm_bind (on_docs (phase_revisions artifacts ch)) (\<lambda>revisions.
     sm_bind (on_docs (stated_ui_requirement artifacts ch)) (\<lambda>ui.
     sm_return \<lparr>cf_decisions = decisions, cf_revisions = revisions, cf_ui_requirement = ui\<rparr>)))"

definition current_change_phase ::
    "'w artifact_service option \<Rightarrow> change \<Rightarrow> change_run option \<Rightarrow> change_phase_facts option \<Rightarrow> ('w, phase) session_op" where
  "current_change_phase artifacts ch run facts = (case run of
       None \<Rightarrow> sm_return (current_phase None [] (\<lambda>_. None))
     | Some r \<Rightarrow>
         sm_bind (case facts of Some f \<Rightarrow> sm_return f | None \<Rightarrow> load_phase_facts artifacts ch) (\<lambda>f.
         sm_return (current_phase (Some r) (cf_decisions f) (revision_of (cf_revisions f)))))"

section \<open>The gate of a phase from the store (\<open>build_phase_gate\<close>)\<close>

definition current_revision :: "'w artifact_service option \<Rightarrow> change \<Rightarrow> ('w, string option) doc_op" where
  "current_revision artifacts ch = (case artifacts of None \<Rightarrow> sm_return None | Some sv \<Rightarrow> doc_head sv ch)"

definition detached_comment_ids :: "'w artifact_service option \<Rightarrow> change \<Rightarrow> comment list \<Rightarrow> ('w, string list) doc_op" where
  "detached_comment_ids artifacts ch comments = (case artifacts of
       None \<Rightarrow> sm_return []
     | Some sv \<Rightarrow>
         (let open_comments = filter (\<lambda>c. c_status c \<noteq> CommentStatus_CLOSED) comments in
          if open_comments = [] then sm_return []
          else sm_bind (read_many sv ch (sort (remdups (map (\<lambda>c. aa_artifact (c_anchor c)) open_comments))) None) (\<lambda>texts.
            sm_return (map c_id (filter (\<lambda>c. anchor_state_of (sv_anchors sv) (Some (c_anchor c))
                (case dict_get texts (aa_artifact (c_anchor c)) of None \<Rightarrow> None | Some t \<Rightarrow> t) = AnchorState_DETACHED)
              open_comments)))))"

definition build_phase_gate ::
    "'w artifact_service option \<Rightarrow> change \<Rightarrow> phase \<Rightarrow> change_run option \<Rightarrow> change_phase_facts option
      \<Rightarrow> ('w, phase_gate_view) session_op" where
  "build_phase_gate artifacts ch ph run facts =
     sm_bind (reading (list_comments (ch_id ch) (Some ph) None None)) (\<lambda>comments.
     sm_bind (case facts of Some f \<Rightarrow> sm_return f | None \<Rightarrow> load_phase_facts artifacts ch) (\<lambda>resolved.
     sm_bind (if ph \<in> set SPECIFICATION_PHASES \<and> artifacts \<noteq> None then sm_return (revision_of (cf_revisions resolved) ph)
              else on_docs (current_revision artifacts ch)) (\<lambda>revision.
     sm_bind (reading (list_questions (ch_id ch) (Some ph) None None)) (\<lambda>questions.
     sm_bind (reading (list_rework_orders (ch_id ch) (Some ph) None)) (\<lambda>orders.
     sm_bind (on_docs (detached_comment_ids artifacts ch comments)) (\<lambda>detached.
     sm_return (phase_gate (ch_id ch) ph
       \<lparr>gf_questions = questions, gf_comments = comments, gf_rework_orders = orders, gf_decisions = cf_decisions resolved,
        gf_current_revision = revision, gf_budget = map_option cr_budget run, gf_detached_comment_ids = detached,
        gf_revision_observable = (artifacts \<noteq> None), gf_route = map_option cr_route run,
        gf_ui_requirement = cf_ui_requirement resolved\<rparr>)))))))"

fun build_gates ::
    "'w artifact_service option \<Rightarrow> change \<Rightarrow> change_run option \<Rightarrow> change_phase_facts \<Rightarrow> phase list
      \<Rightarrow> ('w, (phase \<times> phase_gate_view) list) session_op" where
  "build_gates artifacts ch run facts [] = sm_return []"
| "build_gates artifacts ch run facts (ph # phs) =
     sm_bind (build_phase_gate artifacts ch ph run (Some facts)) (\<lambda>g.
     sm_bind (build_gates artifacts ch run facts phs) (\<lambda>gs. sm_return ((ph, g) # gs)))"

definition build_phases ::
    "'w artifact_service option \<Rightarrow> change \<Rightarrow> change_run option \<Rightarrow> next_action option \<Rightarrow> phase option
      \<Rightarrow> ('w, phases_projection) session_op" where
  "build_phases artifacts ch run waiting waiting_ph =
     sm_bind (load_phase_facts artifacts ch) (\<lambda>facts.
     sm_bind (build_gates artifacts ch run facts (filter (\<lambda>ph. ph \<notin> {Phase_INITIATIVE, Phase_DONE}) phase_members)) (\<lambda>gates.
     sm_return (project_phases (ch_id ch)
       \<lparr>pf_run = run, pf_decisions = cf_decisions facts, pf_revisions = revision_of (cf_revisions facts),
        pf_gates = map_of gates, pf_waiting_on = waiting, pf_ui_requirement = cf_ui_requirement facts,
        pf_brief_complete = (case ch_brief ch of None \<Rightarrow> False | Some b \<Rightarrow> brief_is_complete b),
        pf_waiting_phase = waiting_ph\<rparr>)))"

section \<open>Operations of the discussion (\<open>state/conversation_ops.py\<close>)\<close>

definition derived_id :: "(string \<Rightarrow> string) \<Rightarrow> string \<Rightarrow> string option \<Rightarrow> string \<Rightarrow> string" where
  "derived_id sha256 prefix idempotency_key uuid =
     prefix @ take 16 (case idempotency_key of None \<Rightarrow> uuid | Some k \<Rightarrow> if k = [] then uuid else sha256 k)"

definition answer_question ::
    "instant \<Rightarrow> change \<Rightarrow> string \<Rightarrow> string \<Rightarrow> string option \<Rightarrow> string \<Rightarrow> ('w, question \<times> bool) session_op" where
  "answer_question clk ch question_id val comment answered_by =
     sm_bind (reading (get_question question_id)) (\<lambda>found.
     case found of
       None \<Rightarrow> sm_raise (ConversationNotFound ''question'' question_id)
     | Some q \<Rightarrow>
         if q_change_id q \<noteq> ch_id ch then sm_raise (ConversationNotFound ''question'' question_id)
         else if q_status q \<noteq> QuestionStatus_OPEN
         then (if q_status q = QuestionStatus_ANSWERED \<and> map_option an_value (q_answer q) = Some (py_strip val)
               then sm_return (q, False)
               else sm_raise (ConversationConflict (QuestionNotOpen question_id (q_status q))))
         else (case answer_with clk val answered_by comment q of
             (Inl (Question_InvalidAnswer e), _) \<Rightarrow> sm_raise (ConversationInput (BadAnswer e))
           | (Inl e, _) \<Rightarrow> sm_raise (Of_question e)
           | (Inr _, q') \<Rightarrow> sm_bind (on_db (save_question q')) (\<lambda>_. sm_return (q', True))))"

definition mk_comment ::
    "string \<Rightarrow> string \<Rightarrow> phase \<Rightarrow> artifact_anchor \<Rightarrow> string \<Rightarrow> string \<Rightarrow> instant \<Rightarrow> validation_error + comment" where
  "mk_comment i change_id ph anchor body author clk =
     (if i = [] \<or> change_id = [] \<or> py_strip body = [] \<or> author = [] then Inl Conversations.ValidationError
      else Inr \<lparr>c_id = i, c_change_id = change_id, c_phase = ph, c_anchor = anchor, c_body = py_strip body, c_author = author,
                c_status = CommentStatus_OPEN, c_rework_order_id = None, c_addressed_note = None,
                c_created_at = clk, c_updated_at = clk\<rparr>)"

definition add_comment ::
    "(string \<Rightarrow> string) \<Rightarrow> instant \<Rightarrow> string \<Rightarrow> 'w artifact_service option \<Rightarrow> change \<Rightarrow> phase \<Rightarrow> string \<Rightarrow> string option
      \<Rightarrow> string \<Rightarrow> string \<Rightarrow> string option \<Rightarrow> string option \<Rightarrow> ('w, comment \<times> bool) session_op" where
  "add_comment sha256 clk uuid artifacts ch ph artifact anchor_id body author revision idempotency_key =
     sm_bind (if revision \<noteq> None \<and> revision \<noteq> Some [] then sm_return revision else on_docs (current_revision artifacts ch)) (\<lambda>bound.
     sm_bind (of_result (\<lambda>_. Of_validation ''anchor'') (mk_artifact_anchor artifact anchor_id bound)) (\<lambda>anchor.
     sm_bind (of_result (\<lambda>_. Of_validation ''comment'')
                (mk_comment (derived_id sha256 ''cmt_'' idempotency_key uuid) (ch_id ch) ph anchor body author clk)) (\<lambda>c.
     on_db (store_comment c))))"

record order_request =
  rq_phase :: phase
  rq_comment_ids :: "string list"
  rq_question_ids :: "string list"
  rq_instruction :: "string option"
  rq_issued_by :: string
  rq_actor_role :: "string option"
  rq_expected_revision :: "string option"
  rq_idempotency_key :: "string option"
  rq_decision_ids :: "string list"

fun named_comments :: "string \<Rightarrow> string list \<Rightarrow> session_db \<Rightarrow> conversation_error + comment list" where
  "named_comments change_id [] s = Inr []"
| "named_comments change_id (i # is) s = (case get_comment i s of
       None \<Rightarrow> Inl (ConversationNotFound ''comment'' i)
     | Some c \<Rightarrow> if c_change_id c \<noteq> change_id then Inl (ConversationNotFound ''comment'' i)
         else map_sum id (Cons c) (named_comments change_id is s))"

definition question_named :: "string \<Rightarrow> session_db \<Rightarrow> string \<Rightarrow> bool" where
  "question_named change_id s i = (case get_question i s of None \<Rightarrow> False | Some q \<Rightarrow> q_change_id q = change_id)"

definition named_questions :: "string \<Rightarrow> string list \<Rightarrow> session_db \<Rightarrow> conversation_error + unit" where
  "named_questions change_id is s = (case find (\<lambda>i. \<not> question_named change_id s i) is of
       Some i \<Rightarrow> Inl (ConversationNotFound ''question'' i) | None \<Rightarrow> Inr ())"

definition set_default :: "'k \<Rightarrow> 'v \<Rightarrow> ('k \<times> 'v) list \<Rightarrow> ('k \<times> 'v) list" where
  "set_default k v d = (if dict_get d k = None then dict_set k v d else d)"

definition comment_revisions :: "comment list \<Rightarrow> (string \<times> string) list" where
  "comment_revisions comments = fold (\<lambda>c d. case aa_revision (c_anchor c) of None \<Rightarrow> d
     | Some r \<Rightarrow> set_default (aa_artifact (c_anchor c)) r d) comments []"

definition order_revisions ::
    "'w artifact_service option \<Rightarrow> change \<Rightarrow> string option \<Rightarrow> comment list \<Rightarrow> ('w, (string \<times> string) list) doc_op" where
  "order_revisions artifacts ch head comments = (case (head, artifacts) of
       (Some h, Some sv) \<Rightarrow> sm_bind (doc_tree sv ch) (\<lambda>tree.
         sm_return (fold (\<lambda>n. set_default (nd_path n) h) (tr_nodes tree) (comment_revisions comments)))
     | _ \<Rightarrow> sm_return (comment_revisions comments))"

fun carry_comments :: "string \<Rightarrow> comment list \<Rightarrow> unit db_op" where
  "carry_comments order_id [] = sm_return ()"
| "carry_comments order_id (c # cs) =
     sm_bind (save_comment (c\<lparr>c_rework_order_id := Some order_id\<rparr>)) (\<lambda>_. carry_comments order_id cs)"

definition human_decision ::
    "string \<Rightarrow> gate \<Rightarrow> decision_outcome \<Rightarrow> instant \<Rightarrow> string option \<Rightarrow> string option \<Rightarrow> phase \<Rightarrow> decision" where
  "human_decision uuid g outcome clk revision comment ph = \<lparr>d_id = ''dec_'' @ uuid, d_gate = g, d_outcome = outcome,
     d_decided_by = DecisionSource_HUMAN, d_role = None, d_decided_at = clk, d_commit_sha = revision, d_comment = comment,
     d_evidence_ids = [], d_phase = Some ph\<rparr>"

text \<open>The writes of the send-back: the order, the comments it carries, the rejection of the phase gate.\<close>

definition send_back ::
    "instant \<Rightarrow> string \<Rightarrow> change \<Rightarrow> order_request \<Rightarrow> string option \<Rightarrow> comment list \<Rightarrow> rework_order \<Rightarrow> (rework_order \<times> bool) db_op" where
  "send_back clk decision_uuid ch rq head comments order =
     sm_bind (add_rework_order order) (\<lambda>(stored, created).
     sm_bind (carry_comments (ro_id stored) comments) (\<lambda>_.
     case PHASE_GATE (rq_phase rq) of
       None \<Rightarrow> sm_return (stored, created)
     | Some g \<Rightarrow> sm_bind (record_decision
           (human_decision decision_uuid g DecisionOutcome_REJECTED clk head
              (Some (nonempty_or (rq_instruction rq) (''rework order '' @ ro_id stored))) (rq_phase rq))
           (ch_id ch) (Some (''rework:'' @ ro_id stored)) (rq_actor_role rq)) (\<lambda>_. sm_return (stored, created))))"

definition active_or_pending :: "string \<Rightarrow> phase \<Rightarrow> session_db \<Rightarrow> rework_order option" where
  "active_or_pending change_id ph s = or_else (pending_order_of change_id (Some ph) s) (active_order_of change_id (Some ph) s)"

definition place_order ::
    "instant \<Rightarrow> string \<Rightarrow> 'w artifact_service option \<Rightarrow> change \<Rightarrow> order_request \<Rightarrow> string \<Rightarrow> string option
      \<Rightarrow> ('w, rework_order \<times> bool) session_op" where
  "place_order clk decision_uuid artifacts ch rq order_id head =
     sm_bind (reading (named_comments (ch_id ch) (rq_comment_ids rq))) (\<lambda>found.
     sm_bind (of_result id found) (\<lambda>comments.
     sm_bind (reading (named_questions (ch_id ch) (rq_question_ids rq))) (\<lambda>known.
     sm_bind (of_result id known) (\<lambda>_.
     sm_bind (on_docs (order_revisions artifacts ch head comments)) (\<lambda>revisions.
     sm_bind (of_result (\<lambda>_. ConversationInput EmptyOrder)
       (mk_rework_order order_id (ch_id ch) (rq_phase rq) revisions (rq_comment_ids rq) (rq_question_ids rq)
          (rq_instruction rq) (rq_decision_ids rq) (rq_issued_by rq) clk)) (\<lambda>order.
     on_db (send_back clk decision_uuid ch rq head comments order)))))))"

definition issue_rework_order ::
    "(string \<Rightarrow> string) \<Rightarrow> instant \<Rightarrow> string \<Rightarrow> string \<Rightarrow> 'w artifact_service option \<Rightarrow> change \<Rightarrow> order_request
      \<Rightarrow> ('w, rework_order \<times> bool) session_op" where
  "issue_rework_order sha256 clk uuid decision_uuid artifacts ch rq =
     sm_bind (on_docs (current_revision artifacts ch)) (\<lambda>head.
     if rq_expected_revision rq \<noteq> None \<and> head \<noteq> None \<and> rq_expected_revision rq \<noteq> head
     then sm_raise (ConversationConflict RevisionBehindHead)
     else
       let order_id = derived_id sha256 ''rw_'' (rq_idempotency_key rq) uuid in
       sm_bind (reading (get_rework_order order_id)) (\<lambda>existing.
       case existing of
         Some order \<Rightarrow> sm_return (order, False)
       | None \<Rightarrow>
           sm_bind (reading (active_or_pending (ch_id ch) (rq_phase rq))) (\<lambda>active.
           case active of
             Some order \<Rightarrow> sm_raise (ConversationConflict (OrderInProgress (ro_id order) (rq_phase rq) (ro_status order)))
           | None \<Rightarrow> place_order clk decision_uuid artifacts ch rq order_id head)))"

definition decision_allowed ::
    "decision_outcome \<Rightarrow> string option \<Rightarrow> string option \<Rightarrow> phase \<Rightarrow> phase_gate_view \<Rightarrow> conversation_error + gate \<times> string option" where
  "decision_allowed outcome subject_revision comment ph gate =
     (case pg_gate gate of
        None \<Rightarrow> Inl (ConversationConflict (PhaseHasNoGate ph))
      | Some g \<Rightarrow>
          if outcome = DecisionOutcome_WAIVED \<and> clean_text comment = None then Inl (ConversationInput WaiverWithoutReason)
          else
            let revision = (case subject_revision of Some r \<Rightarrow> if r = [] then pg_current_revision gate else Some r
                            | None \<Rightarrow> pg_current_revision gate)
            in if outcome = DecisionOutcome_APPROVED \<and> \<not> pg_available gate
               then Inl (ConversationConflict (GateClosed ph (pg_reasons gate)))
               else if outcome = DecisionOutcome_APPROVED \<and> pg_current_revision gate \<noteq> None \<and> revision \<noteq> pg_current_revision gate
               then Inl (ConversationConflict (NotCurrentRevision revision (the (pg_current_revision gate))))
               else if revision = None \<and> outcome \<noteq> DecisionOutcome_WAIVED then Inl (ConversationInput NoRevisionToBind)
               else Inr (g, revision))"

definition record_phase_decision ::
    "instant \<Rightarrow> string \<Rightarrow> 'w artifact_service option \<Rightarrow> change \<Rightarrow> phase \<Rightarrow> decision_outcome \<Rightarrow> string option \<Rightarrow> string option
      \<Rightarrow> string option \<Rightarrow> string option \<Rightarrow> ('w, decision \<times> phase_gate_view) session_op" where
  "record_phase_decision clk uuid artifacts ch ph outcome subject_revision comment actor_role idempotency_key =
     sm_bind (reading (latest_run (ch_id ch))) (\<lambda>run.
     sm_bind (build_phase_gate artifacts ch ph run None) (\<lambda>gate.
     sm_bind (of_result id (decision_allowed outcome subject_revision comment ph gate)) (\<lambda>(g, revision).
     sm_bind (on_db (record_decision (human_decision uuid g outcome clk revision comment ph) (ch_id ch) idempotency_key actor_role))
       (\<lambda>(stored, _).
     sm_bind (reading (latest_run (ch_id ch))) (\<lambda>run'.
     sm_bind (build_phase_gate artifacts ch ph run' None) (\<lambda>after.
     sm_return (stored, after)))))))"

section \<open>The discussion around an advance (\<open>state/conversations.py\<close>)\<close>

definition phase_of_stage :: "stage \<Rightarrow> phase" where
  "phase_of_stage st = the (stage_phase st)"

definition question_id_for :: "(string \<Rightarrow> string) \<Rightarrow> stage_result \<Rightarrow> nat \<Rightarrow> string" where
  "question_id_for sha256 result index =
     ''q_'' @ take 16 (sha256 (attempt_id (operation_key (res_run_id result) (res_stage result)
        (case res_input_revision result of None \<Rightarrow> [] | Some r \<Rightarrow> r)) (res_attempt_number result) @ '':'' @ show_int (int index)))"

definition waiting_phase_of :: "change_run \<Rightarrow> stage \<Rightarrow> session_db \<Rightarrow> phase option" where
  "waiting_phase_of r st s = (case find (\<lambda>result. res_stage result = st) (rev (load_history (cr_id r) (db_runs s))) of
       None \<Rightarrow> None
     | Some result \<Rightarrow> if res_status result = StageStatus_WAITING then res_phase result else None)"

definition load_rework_orders :: "string \<Rightarrow> phase \<Rightarrow> session_db \<Rightarrow> rework_order list" where
  "load_rework_orders change_id ph s = list_rework_orders change_id (Some ph) None s"

definition load_conversation_inputs :: "string \<Rightarrow> stage \<Rightarrow> phase option \<Rightarrow> session_db \<Rightarrow> conversation_inputs" where
  "load_conversation_inputs change_id st ph s =
     (let p = (case ph of Some x \<Rightarrow> x | None \<Rightarrow> phase_of_stage st) in
      \<lparr>ci_answered_questions = list_questions change_id (Some p) (Some [QuestionStatus_ANSWERED]) None s,
       ci_open_questions = list_questions change_id (Some p) (Some [QuestionStatus_OPEN]) None s,
       ci_open_comments = list_comments change_id (Some p) (Some [CommentStatus_OPEN, CommentStatus_ADDRESSED]) None s,
       ci_rework_order = or_else (active_order_of change_id (Some p) s) (pending_order_of change_id (Some p) s)\<rparr>)"

type_synonym 'w facts_provider = "change_run \<Rightarrow> stage \<Rightarrow> change \<Rightarrow> ('w, gate_observation option) session_op"

definition bound_revision ::
    "bool \<Rightarrow> phase_revision_map \<Rightarrow> stage \<Rightarrow> string option \<Rightarrow> decision \<Rightarrow> string option" where
  "bound_revision bound_repository revisions st head d =
     (let decided = decision_phase d; known = revision_of revisions decided in
      if st = Stage_SPECIFICATION \<and> decided \<in> set SPECIFICATION_PHASES \<and> (known \<noteq> None \<or> bound_repository) then known else head)"

definition folded_decisions ::
    "bool \<Rightarrow> phase_revision_map \<Rightarrow> stage \<Rightarrow> string option \<Rightarrow> decision list \<Rightarrow> decision list" where
  "folded_decisions bound_repository revisions st head ds =
     filter (\<lambda>d. d_outcome d = DecisionOutcome_WAIVED \<or>
       d_commit_sha d \<noteq> None \<and> d_commit_sha d = bound_revision bound_repository revisions st head d) ds"

definition observe_with_store ::
    "'w artifact_service option \<Rightarrow> string \<Rightarrow> 'w facts_provider \<Rightarrow> 'w facts_provider" where
  "observe_with_store artifacts change_id provider r st ch =
     sm_bind (provider r st ch) (\<lambda>observed.
     case observed of
       None \<Rightarrow> sm_return None
     | Some ob \<Rightarrow>
         sm_bind (load_phase_facts artifacts ch) (\<lambda>facts.
         sm_bind (reading (waiting_phase_of r st)) (\<lambda>parked.
         let ph = (if st = Stage_SPECIFICATION
               then Some (case parked of Some p \<Rightarrow> p
                          | None \<Rightarrow> specification_phase (cr_route r) (cf_decisions facts) (revision_of (cf_revisions facts)))
               else None);
             upcoming = Option.bind ph (next_specification_phase (cr_route r));
             bound = folded_decisions (artifacts \<noteq> None) (cf_revisions facts) st (go_head_sha ob) (cf_decisions facts) in
         sm_bind (reading (load_rework_orders change_id (case ph of Some p \<Rightarrow> p | None \<Rightarrow> phase_of_stage st))) (\<lambda>orders.
         sm_return (Some \<lparr>go_head_sha = go_head_sha ob, go_merged = go_merged ob, go_pipeline_status = go_pipeline_status ob,
           go_approvals = go_approvals ob @ bound, go_rework_orders = orders, go_phase = ph, go_next_phase = upcoming\<rparr>)))))"

definition with_store_facts ::
    "'w artifact_service option \<Rightarrow> string \<Rightarrow> 'w facts_provider option \<Rightarrow> 'w facts_provider option" where
  "with_store_facts artifacts change_id gate_facts = map_option (observe_with_store artifacts change_id) gate_facts"

section \<open>Recording what an advance did\<close>

definition question_of ::
    "(string \<Rightarrow> string) \<Rightarrow> instant \<Rightarrow> stage_result \<Rightarrow> string \<Rightarrow> phase \<Rightarrow> nat \<times> question_draft \<Rightarrow> question" where
  "question_of sha256 clk result change_id ph d =
     \<lparr>qd_text = qd_text (snd d), qd_kind = qd_kind (snd d), qd_options = qd_options (snd d), qd_anchor = qd_anchor (snd d),
      qd_blocking = qd_blocking (snd d), q_id = question_id_for sha256 result (fst d), q_change_id = change_id, q_phase = ph,
      q_run_id = Some (res_run_id result), q_asked_by = Some (role_of (res_stage result) (res_phase result)),
      q_status = QuestionStatus_OPEN, q_answer = None, q_asked_at = clk, q_updated_at = clk\<rparr>"

fun each_do :: "('x \<Rightarrow> 'a db_op) \<Rightarrow> 'x list \<Rightarrow> unit db_op" where
  "each_do f [] = sm_return ()"
| "each_do f (x # xs) = sm_bind (f x) (\<lambda>_. each_do f xs)"

definition store_questions :: "(string \<Rightarrow> string) \<Rightarrow> instant \<Rightarrow> stage_result \<Rightarrow> string \<Rightarrow> phase \<Rightarrow> unit db_op" where
  "store_questions sha256 clk result change_id ph =
     each_do (\<lambda>d. add_question (question_of sha256 clk result change_id ph d)) (List.enumerate 1 (res_questions result))"

text \<open>
  The transitions below start from the status the listing filtered by, so a refused one cannot occur; the session error
  stands for the \<open>InvalidStatusTransition\<close>.
\<close>

definition transition :: "'e + 'a \<Rightarrow> ('a \<Rightarrow> 'b db_op) \<Rightarrow> 'b db_op" where
  "transition r f = (case r of Inl _ \<Rightarrow> sm_raise (StateConflict ''transition'') | Inr a \<Rightarrow> f a)"

definition mark_claimed :: "instant \<Rightarrow> string list \<Rightarrow> string \<Rightarrow> unit db_op" where
  "mark_claimed clk claimed comment_id = (\<lambda>s. case get_comment comment_id s of
       None \<Rightarrow> (Inr (), s)
     | Some c \<Rightarrow>
         if c_status c \<noteq> CommentStatus_OPEN \<or> comment_id \<notin> set claimed then (Inr (), s)
         else transition (mark_addressed clk None c) (\<lambda>c'. sm_bind (save_comment c') (\<lambda>_. sm_return ())) s)"

definition mark_all_addressed :: "instant \<Rightarrow> rework_summary \<Rightarrow> rework_order \<Rightarrow> unit db_op" where
  "mark_all_addressed clk summary order =
     each_do (mark_claimed clk (rs_addressed_comment_ids summary))
       (remdups (rs_addressed_comment_ids summary @ ro_comment_ids order))"

definition resolve_question :: "instant \<Rightarrow> question \<Rightarrow> question db_op" where
  "resolve_question clk q = transition (question_apply_status clk QuestionStatus_RESOLVED q) save_question"

definition escalate_stored :: "instant \<Rightarrow> string \<Rightarrow> rework_order \<Rightarrow> rework_order db_op" where
  "escalate_stored clk reason order = transition (escalate_order clk reason order) save_rework_order"

definition finish_active :: "instant \<Rightarrow> stage_result \<Rightarrow> string \<Rightarrow> phase \<Rightarrow> unit db_op" where
  "finish_active clk result change_id ph =
     sm_bind (sm_gets (active_order_of change_id (Some ph))) (\<lambda>active. case active of
       None \<Rightarrow> sm_return ()
     | Some order \<Rightarrow>
         (let summary = (case res_rework_summary result of Some r \<Rightarrow> r | None \<Rightarrow> mk_rework_summary [] [] []) in
          transition (finish_order clk summary order) (\<lambda>order'.
            sm_bind (save_rework_order order') (\<lambda>_. mark_all_addressed clk summary order'))))"

definition start_pending :: "instant \<Rightarrow> int \<Rightarrow> stage_result \<Rightarrow> string \<Rightarrow> phase \<Rightarrow> unit db_op" where
  "start_pending clk rnd result change_id ph =
     sm_bind (sm_gets (pending_order_of change_id (Some ph))) (\<lambda>pending. case pending of
       None \<Rightarrow> sm_return ()
     | Some order \<Rightarrow> transition (start_order clk rnd (res_run_id result) order) (\<lambda>order'.
         sm_bind (save_rework_order order') (\<lambda>_. sm_return ())))"

definition escalate_open :: "instant \<Rightarrow> string \<Rightarrow> string \<Rightarrow> phase \<Rightarrow> unit db_op" where
  "escalate_open clk reason change_id ph =
     sm_bind (sm_gets (list_rework_orders change_id (Some ph)
                (Some [ReworkOrderStatus_PENDING, ReworkOrderStatus_IN_PROGRESS]))) (each_do (escalate_stored clk reason))"

definition take_in_answers :: "instant \<Rightarrow> stage_result \<Rightarrow> string \<Rightarrow> phase \<Rightarrow> unit db_op" where
  "take_in_answers clk result change_id ph =
     sm_bind (sm_gets (list_questions change_id (Some ph) (Some [QuestionStatus_ANSWERED]) None)) (\<lambda>answered.
     sm_bind (each_do (resolve_question clk) answered) (\<lambda>_. finish_active clk result change_id ph))"

text \<open>\<open>text_of\<close> renders the reason of a stop.\<close>

definition record_stage_outcome ::
    "(string \<Rightarrow> string) \<Rightarrow> (message \<Rightarrow> string) \<Rightarrow> instant \<Rightarrow> run_advance \<Rightarrow> string \<Rightarrow> unit db_op" where
  "record_stage_outcome sha256 text_of clk adv change_id =
     (if adv_outcome adv = Advance_REPLAYED then sm_return ()
      else case adv_decision adv of
        None \<Rightarrow> sm_return ()
      | Some d \<Rightarrow>
          (let result = adv_result adv;
               ph = (case res_phase result of Some p \<Rightarrow> p | None \<Rightarrow> phase_of_stage (res_stage result))
           in case fd_action d of
             ReworkAction rnd _ _ \<Rightarrow> start_pending clk rnd result change_id ph
           | StopAction _ reason \<Rightarrow> escalate_open clk (text_of reason) change_id ph
           | action \<Rightarrow> sm_bind (store_questions sha256 clk result change_id ph) (\<lambda>_.
               if action_type action \<in> {AT_request_approval, AT_wait_for_input}
               then take_in_answers clk result change_id ph else sm_return ())))"

end
