(* ===== verification/Discussion_Safety.thy ===== *)
theory Discussion_Safety
  imports Discussion
begin

text \<open>
  What the discussion guarantees along every history of operations: the columns of its tables always agree with the
  documents, a phase has at most one open rework order, a refused operation writes nothing, recording an advance twice
  writes once, and the decisions folded into an observation are exactly those the phase projection counts.
\<close>

section \<open>Well-formed tables\<close>

definition order_open :: "rework_order \<Rightarrow> bool" where
  "order_open o' \<longleftrightarrow> ro_status o' \<in> {ReworkOrderStatus_PENDING, ReworkOrderStatus_IN_PROGRESS}"

definition one_round :: "session_db \<Rightarrow> bool" where
  "one_round s \<longleftrightarrow> (\<forall>i j x y. get_rework_order i s = Some x \<longrightarrow> get_rework_order j s = Some y \<longrightarrow>
     order_open x \<longrightarrow> order_open y \<longrightarrow> ro_change_id x = ro_change_id y \<longrightarrow> ro_phase x = ro_phase y \<longrightarrow> i = j)"

definition discussion_wf :: "session_db \<Rightarrow> bool" where
  "discussion_wf s \<longleftrightarrow> rows_agree q_id question_row_of qr_payload (db_questions s) \<and>
     rows_agree c_id comment_row_of cw_payload (db_comments s) \<and>
     rows_agree ro_id order_row_of ow_payload (db_orders s) \<and> one_round s"

lemma discussion_wfD:
  assumes "discussion_wf s"
  shows "rows_agree q_id question_row_of qr_payload (db_questions s)" "rows_agree c_id comment_row_of cw_payload (db_comments s)"
    "rows_agree ro_id order_row_of ow_payload (db_orders s)" "one_round s"
  using assms by (simp_all add: discussion_wf_def)

lemma one_roundD:
  "one_round s \<Longrightarrow> get_rework_order i s = Some x \<Longrightarrow> get_rework_order j s = Some y \<Longrightarrow> order_open x \<Longrightarrow> order_open y \<Longrightarrow>
     ro_change_id x = ro_change_id y \<Longrightarrow> ro_phase x = ro_phase y \<Longrightarrow> i = j"
  unfolding one_round_def by blast

lemma stored_ids:
  assumes "discussion_wf s"
  shows "get_question i s = Some q \<Longrightarrow> q_id q = i" "get_comment i s = Some c \<Longrightarrow> c_id c = i" "get_rework_order i s = Some x \<Longrightarrow> ro_id x = i"
  using question_docs.agree_lookup(2) [OF discussion_wfD(1) [OF assms]] comment_docs.agree_lookup(2) [OF discussion_wfD(2) [OF assms]]
    order_docs.agree_lookup(2) [OF discussion_wfD(3) [OF assms]]
  by (auto simp: get_question_def get_comment_def get_rework_order_def)

lemma one_round_elsewhere [simp]:
  "one_round (s\<lparr>db_questions := qs\<rparr>) = one_round s" "one_round (s\<lparr>db_comments := cs\<rparr>) = one_round s"
  "one_round (s\<lparr>db_decisions := ds\<rparr>) = one_round s" "one_round (s\<lparr>db_runs := r\<rparr>) = one_round s"
  "one_round (s\<lparr>db_execution_ids := ks\<rparr>) = one_round s"
  by (simp_all add: one_round_def get_rework_order_def)

section \<open>Single writes\<close>

lemma add_question_wf: "discussion_wf s \<Longrightarrow> discussion_wf (snd (add_question q s))"
  using question_docs.agree_set [OF discussion_wfD(1), of s q]
  by (auto simp: add_question_def discussion_wf_def split: option.split)

lemma save_question_wf:
  assumes "discussion_wf s" "get_question (q_id q) s = Some q0" "question_fixed q = question_fixed q0"
  shows "discussion_wf (snd (save_question q s))"
proof -
  from assms(2) obtain row where row: "dict_get (db_questions s) (q_id q) = Some row" "qr_payload row = q0"
    by (auto simp: get_question_def)
  have "rows_agree q_id question_row_of qr_payload (dict_set (q_id q) (refresh_question_row q row) (db_questions s))"
    using question_docs.agree_refresh [OF discussion_wfD(1) [OF assms(1)] row(1)] row(2) assms(3) by simp
  with assms(1) row(1) show ?thesis by (simp add: save_question_def discussion_wf_def)
qed

lemma store_comment_wf: "discussion_wf s \<Longrightarrow> discussion_wf (snd (store_comment c s))"
  using comment_docs.agree_set [OF discussion_wfD(2), of s c]
  by (auto simp: store_comment_def discussion_wf_def split: option.split)

lemma save_comment_wf:
  assumes "discussion_wf s" "get_comment (c_id c) s = Some c0" "comment_fixed c = comment_fixed c0"
  shows "discussion_wf (snd (save_comment c s))"
proof -
  from assms(2) obtain row where row: "dict_get (db_comments s) (c_id c) = Some row" "cw_payload row = c0"
    by (auto simp: get_comment_def)
  have "rows_agree c_id comment_row_of cw_payload (dict_set (c_id c) (refresh_comment_row c row) (db_comments s))"
    using comment_docs.agree_refresh [OF discussion_wfD(2) [OF assms(1)] row(1)] row(2) assms(3) by simp
  with assms(1) row(1) show ?thesis by (simp add: save_comment_def discussion_wf_def)
qed

lemma get_order_set: "get_rework_order i (s\<lparr>db_orders := dict_set k row (db_orders s)\<rparr>) = (if i = k then Some (ow_payload row) else get_rework_order i s)"
  by (simp add: get_rework_order_def)

lemma add_order_wf:
  assumes "discussion_wf s" "\<And>i y. get_rework_order i s = Some y \<Longrightarrow> order_open y \<Longrightarrow> ro_change_id y = ro_change_id x \<Longrightarrow> ro_phase y \<noteq> ro_phase x"
  shows "discussion_wf (snd (add_rework_order x s))"
proof (cases "add_rework_order x s = (Inr (x, True), s\<lparr>db_orders := dict_set (ro_id x) (order_row_of x) (db_orders s)\<rparr>)")
  case True
  have "one_round (s\<lparr>db_orders := dict_set (ro_id x) (order_row_of x) (db_orders s)\<rparr>)"
    unfolding one_round_def get_order_set using one_roundD [OF discussion_wfD(4) [OF assms(1)]] assms(2)
    by (auto simp: order_row_of_def split: if_splits) metis+
  with True order_docs.agree_set [OF discussion_wfD(3) [OF assms(1)], of x] assms(1) show ?thesis by (simp add: discussion_wf_def)
next
  case False
  then have "snd (add_rework_order x s) = s" by (auto simp: add_rework_order_def split: option.splits if_splits)
  with assms(1) show ?thesis by simp
qed

lemma save_order_wf:
  assumes wf: "discussion_wf s" and old: "get_rework_order (ro_id x) s = Some x0" and fixed: "order_fixed x = order_fixed x0"
    and kept_open: "order_open x \<Longrightarrow> order_open x0"
  shows "discussion_wf (snd (save_rework_order x s))"
proof -
  from old obtain row where row: "dict_get (db_orders s) (ro_id x) = Some row" "ow_payload row = x0"
    by (auto simp: get_rework_order_def)
  show ?thesis
  proof (cases "round_positive x")
    case True
    let ?s = "s\<lparr>db_orders := dict_set (ro_id x) (refresh_order_row x row) (db_orders s)\<rparr>"
    have "rows_agree ro_id order_row_of ow_payload (db_orders ?s)"
      using order_docs.agree_refresh [OF discussion_wfD(3) [OF wf] row(1)] row(2) fixed by simp
    moreover have "one_round ?s"
      unfolding one_round_def get_order_set
    proof (intro allI impI)
      fix i j a b
      assume prems: "(if i = ro_id x then Some (ow_payload (refresh_order_row x row)) else get_rework_order i s) = Some a"
        "(if j = ro_id x then Some (ow_payload (refresh_order_row x row)) else get_rework_order j s) = Some b"
        "order_open a" "order_open b" "ro_change_id a = ro_change_id b" "ro_phase a = ro_phase b"
      have stored: "\<exists>c0. get_rework_order k s = Some c0 \<and> order_open c0 \<and> ro_change_id c0 = ro_change_id c \<and> ro_phase c0 = ro_phase c"
        if "(if k = ro_id x then Some (ow_payload (refresh_order_row x row)) else get_rework_order k s) = Some c" "order_open c" for k c
        using that old fixed kept_open by (auto simp: refresh_order_row_def order_fixed_def split: if_splits)
      from stored [OF prems(1,3)] stored [OF prems(2,4)] prems(5,6) show "i = j"
        using one_roundD [OF discussion_wfD(4) [OF wf]] by metis
    qed
    ultimately show ?thesis using True wf row(1) by (simp add: save_rework_order_def discussion_wf_def)
  next
    case False
    with row(1) wf show ?thesis by (simp add: save_rework_order_def)
  qed
qed

section \<open>What a listing returns\<close>

lemma listed_iff:
  assumes "distinct (map fst t)"
  shows "x \<in> set (map (\<lambda>(k, r). f r) (sort_key g (filter P t))) \<longleftrightarrow> (\<exists>k r. dict_get t k = Some r \<and> P (k, r) \<and> x = f r)"
  using assms by (force simp: map_of_eq_Some_iff)

lemma listed_questions:
  assumes "discussion_wf s"
  shows "q \<in> set (list_questions c (Some ph) (Some sts) None s) \<longleftrightarrow>
     get_question (q_id q) s = Some q \<and> q_change_id q = c \<and> q_phase q = ph \<and> q_status q \<in> set sts"
proof -
  note agree = discussion_wfD(1) [OF assms]
  have d: "distinct (map fst (db_questions s))" using agree by (simp add: rows_agree_def)
  have row: "k = q_id (qr_payload r) \<and> qr_change_id r = q_change_id (qr_payload r) \<and> qr_phase r = q_phase (qr_payload r) \<and>
      qr_status r = q_status (qr_payload r)" if "dict_get (db_questions s) k = Some r" for k r
    using question_docs.agree_lookup [OF agree that] by (metis question_row.select_convs(1,3,5) question_row_of_def)
  have "q \<in> set (list_questions c (Some ph) (Some sts) None s) \<longleftrightarrow>
      (\<exists>k r. dict_get (db_questions s) k = Some r \<and> (qr_change_id r = c \<and> qr_phase r = ph \<and> qr_status r \<in> set sts) \<and> q = qr_payload r)"
    unfolding list_questions_def listed_iff [OF d] by (simp add: wanted_def wanted_in_def)
  also have "\<dots> \<longleftrightarrow> (\<exists>r. dict_get (db_questions s) (q_id q) = Some r \<and> qr_payload r = q \<and> q_change_id q = c \<and> q_phase q = ph \<and> q_status q \<in> set sts)"
    using row by (intro iffI; elim exE conjE) (metis, metis)
  also have "\<dots> \<longleftrightarrow> get_question (q_id q) s = Some q \<and> q_change_id q = c \<and> q_phase q = ph \<and> q_status q \<in> set sts"
    by (auto simp: get_question_def)
  finally show ?thesis .
qed

lemma listed_orders:
  assumes "discussion_wf s"
  shows "x \<in> set (list_rework_orders c (Some ph) (Some sts) s) \<longleftrightarrow>
     get_rework_order (ro_id x) s = Some x \<and> ro_change_id x = c \<and> ro_phase x = ph \<and> ro_status x \<in> set sts"
proof -
  note agree = discussion_wfD(3) [OF assms]
  have d: "distinct (map fst (db_orders s))" using agree by (simp add: rows_agree_def)
  have row: "k = ro_id (ow_payload r) \<and> ow_change_id r = ro_change_id (ow_payload r) \<and> ow_phase r = ro_phase (ow_payload r) \<and>
      ow_status r = ro_status (ow_payload r)" if "dict_get (db_orders s) k = Some r" for k r
    using order_docs.agree_lookup [OF agree that] by (metis order_row.select_convs(1,3,4) order_row_of_def)
  have "x \<in> set (list_rework_orders c (Some ph) (Some sts) s) \<longleftrightarrow>
      (\<exists>k r. dict_get (db_orders s) k = Some r \<and> (ow_change_id r = c \<and> ow_phase r = ph \<and> ow_status r \<in> set sts) \<and> x = ow_payload r)"
    unfolding list_rework_orders_def listed_iff [OF d] by (simp add: wanted_def wanted_in_def)
  also have "\<dots> \<longleftrightarrow> (\<exists>r. dict_get (db_orders s) (ro_id x) = Some r \<and> ow_payload r = x \<and> ro_change_id x = c \<and> ro_phase x = ph \<and> ro_status x \<in> set sts)"
    using row by (intro iffI; elim exE conjE) (metis, metis)
  also have "\<dots> \<longleftrightarrow> get_rework_order (ro_id x) s = Some x \<and> ro_change_id x = c \<and> ro_phase x = ph \<and> ro_status x \<in> set sts"
    by (auto simp: get_rework_order_def)
  finally show ?thesis .
qed

lemma head_option_Some: "head_option xs = Some x \<Longrightarrow> x \<in> set xs"
  by (cases xs) (simp_all add: head_option_def)

lemma head_option_None: "head_option xs = None \<longleftrightarrow> xs = []"
  by (cases xs) (simp_all add: head_option_def)

lemma pending_order:
  assumes "discussion_wf s"
  shows "pending_order_of c (Some ph) s = Some x \<Longrightarrow>
      get_rework_order (ro_id x) s = Some x \<and> ro_change_id x = c \<and> ro_phase x = ph \<and> ro_status x = ReworkOrderStatus_PENDING"
    and "pending_order_of c (Some ph) s = None \<Longrightarrow> get_rework_order i s = Some y \<Longrightarrow> ro_change_id y = c \<Longrightarrow> ro_phase y = ph \<Longrightarrow>
      ro_status y \<noteq> ReworkOrderStatus_PENDING"
  using listed_orders [OF assms, of _ c ph "[ReworkOrderStatus_PENDING]"] stored_ids(3) [OF assms]
  by (auto simp: pending_order_of_def head_option_None dest!: head_option_Some)

lemma active_order:
  assumes "discussion_wf s"
  shows "active_order_of c (Some ph) s = Some x \<Longrightarrow>
      get_rework_order (ro_id x) s = Some x \<and> ro_change_id x = c \<and> ro_phase x = ph \<and> ro_status x = ReworkOrderStatus_IN_PROGRESS"
    and "active_order_of c (Some ph) s = None \<Longrightarrow> get_rework_order i s = Some y \<Longrightarrow> ro_change_id y = c \<Longrightarrow> ro_phase y = ph \<Longrightarrow>
      ro_status y \<noteq> ReworkOrderStatus_IN_PROGRESS"
  using listed_orders [OF assms, of _ c ph "[ReworkOrderStatus_IN_PROGRESS]"] stored_ids(3) [OF assms]
  by (auto simp: active_order_of_def head_option_None dest!: head_option_Some)

lemma no_open_order:
  assumes "discussion_wf s" "active_or_pending c ph s = None" "get_rework_order i s = Some y" "order_open y" "ro_change_id y = c"
  shows "ro_phase y \<noteq> ph"
  using assms pending_order(2) [OF assms(1), of c ph i y] active_order(2) [OF assms(1), of c ph i y]
  by (auto simp: active_or_pending_def order_open_def)

section \<open>The operations of the operator\<close>

lemma map_sum_Inr_elim: "map_sum f g y = Inr b \<Longrightarrow> (\<And>a. y = Inr a \<Longrightarrow> b = g a \<Longrightarrow> thesis) \<Longrightarrow> thesis"
  by (cases y) auto

lemma on_db_run: "on_db m (s, w) = (map_sum Of_db id (fst (m s)), (snd (m s), w))"
  by (simp add: on_db_def split: prod.split)

lemma reading_run: "reading f (s, w) = (Inr (f s), (s, w))"
  by (simp add: reading_def)

lemma on_docs_run: "on_docs m (s, w) = (map_sum Of_documents id (fst (m w)), (s, snd (m w)))"
  by (simp add: on_docs_def split: prod.split)

lemma answer_with_keeps:
  "answer_with clk val by_whom remark q = (r, q') \<Longrightarrow> question_fixed q' = question_fixed q \<and> q_id q' = q_id q"
  by (auto simp: answer_with_def question_apply_status_def question_fixed_def split: sum.splits if_splits)

lemma answer_question_cases:
  assumes "answer_question clk ch i val remark by_whom (s, w) = (out, (s', w'))"
  shows "s' = s \<or> (\<exists>q q' a. get_question i s = Some q \<and> q_status q = QuestionStatus_OPEN \<and>
     answer_with clk val by_whom remark q = (Inr a, q') \<and> s' = snd (save_question q' s) \<and>
     out = (case fst (save_question q' s) of Inl e \<Rightarrow> Inl (Of_db e) | Inr _ \<Rightarrow> Inr (q', True)))"
  using assms
  by (auto simp: answer_question_def sm_bind_def reading_run on_db_run sm_run map_sum_def
      split: option.splits if_splits sum.splits prod.splits question_error.splits)

lemma answer_question_wf:
  assumes "discussion_wf s" "answer_question clk ch i val remark by_whom (s, w) = (out, (s', w'))"
  shows "discussion_wf s'"
  using answer_question_cases [OF assms(2)] assms(1)
proof (elim disjE exE conjE)
  fix q q' a
  assume q: "get_question i s = Some q" "answer_with clk val by_whom remark q = (Inr a, q')" "s' = snd (save_question q' s)"
  note k = answer_with_keeps [OF q(2)] stored_ids(1) [OF assms(1) q(1)]
  from save_question_wf [OF assms(1), of q' q] k q show ?thesis by simp
qed simp

lemma add_comment_cases:
  assumes "add_comment sha clk uuid artifacts ch ph artifact anchor body author rv key (s, w) = (out, (s', w'))"
  shows "s' = s \<or> (\<exists>c. s' = snd (store_comment c s) \<and> out = map_sum Of_db id (fst (store_comment c s)))"
  using assms
  by (auto simp: add_comment_def sm_bind_def on_db_run on_docs_run sm_run of_result_def
      split: if_splits sum.splits prod.splits)

lemma discussion_wf_elsewhere [simp]:
  "discussion_wf (s\<lparr>db_decisions := ds\<rparr>) = discussion_wf s" "discussion_wf (s\<lparr>db_runs := r\<rparr>) = discussion_wf s"
  "discussion_wf (s\<lparr>db_execution_ids := ks\<rparr>) = discussion_wf s"
  by (simp_all add: discussion_wf_def)

lemma record_decision_wf: "discussion_wf (snd (record_decision d c key actor s)) = discussion_wf s"
  by (simp add: record_decision_def split: option.split)

lemma record_decision_kept: "record_decision d c key actor s = (out, s') \<Longrightarrow> discussion_wf s \<Longrightarrow> discussion_wf s'"
  using record_decision_wf [of d c key actor s] by simp

lemma get_comment_saved:
  "get_comment i (snd (save_comment c s)) = (if i = c_id c \<and> get_comment i s \<noteq> None then Some c else get_comment i s)"
  by (auto simp: save_comment_def get_comment_def refresh_comment_row_def split: option.split)

definition comments_stored :: "comment list \<Rightarrow> session_db \<Rightarrow> bool" where
  "comments_stored cs s \<longleftrightarrow> (\<forall>c\<in>set cs. \<exists>c0. get_comment (c_id c) s = Some c0 \<and> comment_fixed c = comment_fixed c0)"

lemma comments_stored_saved:
  assumes "comments_stored cs s" "get_comment (c_id c) s = Some c0" "comment_fixed c = comment_fixed c0"
  shows "comments_stored cs (snd (save_comment c s))"
  using assms unfolding comments_stored_def get_comment_saved by auto

lemma carry_comments_wf:
  "discussion_wf s \<Longrightarrow> comments_stored cs s \<Longrightarrow> discussion_wf (snd (carry_comments i cs s))"
proof (induction cs arbitrary: s)
  case (Cons c cs)
  let ?c = "c\<lparr>c_rework_order_id := Some i\<rparr>"
  obtain c0 where c0: "get_comment (c_id ?c) s = Some c0" "comment_fixed ?c = comment_fixed c0"
    using Cons.prems(2) by (auto simp: comments_stored_def comment_fixed_def)
  have "comments_stored cs s" using Cons.prems(2) by (simp add: comments_stored_def)
  from Cons.IH [OF save_comment_wf [OF Cons.prems(1) c0] comments_stored_saved [OF this c0]] save_comment_wf [OF Cons.prems(1) c0]
  show ?case by (auto simp: sm_bind_def split: prod.split sum.split)
qed (simp add: sm_run)

lemma named_comments_stored:
  "discussion_wf s \<Longrightarrow> named_comments c is s = Inr cs \<Longrightarrow> comments_stored cs s"
proof (induction "is" arbitrary: cs)
  case (Cons i "is")
  then obtain c1 cs1 where c1: "get_comment i s = Some c1" "named_comments c is s = Inr cs1" "cs = c1 # cs1"
    by (auto split: option.splits if_splits elim!: map_sum_Inr_elim)
  with Cons.IH [OF Cons.prems(1) c1(2)] stored_ids(2) [OF Cons.prems(1) c1(1)] show ?case by (simp add: comments_stored_def)
qed (simp add: comments_stored_def)

lemma send_back_wf:
  assumes wf: "discussion_wf s" and free: "active_or_pending (ro_change_id order) (ro_phase order) s = None" and cs: "comments_stored cs s"
  shows "discussion_wf (snd (send_back clk uuid ch rq head cs order s))"
proof (cases "add_rework_order order s")
  case (Pair out s1)
  have wf1: "discussion_wf s1"
    using add_order_wf [OF wf, of order] no_open_order [OF wf free] Pair by auto
  have "db_comments s1 = db_comments s" using Pair by (auto simp: add_rework_order_def split: option.splits if_splits)
  then have "comments_stored cs s1" using cs by (simp add: comments_stored_def get_comment_def)
  note wf2 = carry_comments_wf [OF wf1 this]
  show ?thesis
  proof (cases out)
    case (Inr oc)
    obtain out2 s2 where carry: "carry_comments (ro_id (fst oc)) cs s1 = (out2, s2)" by (metis surj_pair)
    with wf2 have "discussion_wf s2" by (metis snd_conv)
    with Pair Inr carry show ?thesis
      by (cases out2) (auto simp: send_back_def sm_bind_def [of "add_rework_order order"] sm_bind_def [of "carry_comments _ _"]
          sm_bind_def [of "record_decision _ _ _ _"] sm_run split: option.split prod.split sum.split
          dest: record_decision_kept)
  qed (use Pair wf1 in \<open>simp add: send_back_def sm_bind_def\<close>)
qed

definition order_placed ::
    "instant \<Rightarrow> string \<Rightarrow> change \<Rightarrow> order_request \<Rightarrow> string \<Rightarrow> session_db \<Rightarrow> conversation_error + rework_order \<times> bool \<Rightarrow> session_db \<Rightarrow> bool" where
  "order_placed clk uuid ch rq i s out s' \<longleftrightarrow> (\<exists>head comments revisions order.
     named_comments (ch_id ch) (rq_comment_ids rq) s = Inr comments \<and>
     mk_rework_order i (ch_id ch) (rq_phase rq) revisions (rq_comment_ids rq) (rq_question_ids rq) (rq_instruction rq)
       (rq_decision_ids rq) (rq_issued_by rq) clk = Inr order \<and>
     out = map_sum Of_db id (fst (send_back clk uuid ch rq head comments order s)) \<and>
     s' = snd (send_back clk uuid ch rq head comments order s))"

lemma place_order_cases:
  assumes "place_order clk uuid artifacts ch rq i head (s, w) = (out, (s', w'))"
  shows "(s' = s \<and> isl out) \<or> order_placed clk uuid ch rq i s out s'"
  using assms unfolding order_placed_def
  by (auto simp: place_order_def sm_bind_def reading_run of_result_def sm_run on_docs_run on_db_run split: sum.splits)

text \<open>An order is issued only through \<open>send_back\<close>, after every check.\<close>

lemma issue_cases:
  assumes run: "issue_rework_order sha clk uuid decision_uuid artifacts ch rq (s, w) = (out, (s', w'))"
  defines "i \<equiv> derived_id sha ''rw_'' (rq_idempotency_key rq) uuid"
  shows "(s' = s \<and> (case out of Inl e \<Rightarrow> True | Inr (x, created) \<Rightarrow> \<not> created \<and> get_rework_order i s = Some x)) \<or>
    (get_rework_order i s = None \<and> active_or_pending (ch_id ch) (rq_phase rq) s = None \<and>
       order_placed clk decision_uuid ch rq i s out s')"
  using run unfolding i_def
  by (auto simp: issue_rework_order_def sm_bind_def [of "on_docs _"] sm_bind_def [of "reading _"] on_docs_run reading_run sm_run Let_def
      split: sum.splits option.splits if_splits dest!: place_order_cases)

lemma placed_order_wf:
  assumes "discussion_wf s" "active_or_pending (ch_id ch) (rq_phase rq) s = None" "order_placed clk uuid ch rq i s out s'"
  shows "discussion_wf s'"
proof -
  from assms(3) obtain head comments revisions order where
    o: "named_comments (ch_id ch) (rq_comment_ids rq) s = Inr comments"
      "mk_rework_order i (ch_id ch) (rq_phase rq) revisions (rq_comment_ids rq) (rq_question_ids rq) (rq_instruction rq)
         (rq_decision_ids rq) (rq_issued_by rq) clk = Inr order"
      "s' = snd (send_back clk uuid ch rq head comments order s)" by (auto simp: order_placed_def)
  have "ro_change_id order = ch_id ch" "ro_phase order = rq_phase rq"
    using o(2) by (auto simp: mk_rework_order_def Let_def split: if_splits)
  with send_back_wf [OF assms(1) _ named_comments_stored [OF assms(1) o(1)], of order] assms(2) o(3) show ?thesis by simp
qed

lemma issue_wf:
  assumes "discussion_wf s" "issue_rework_order sha clk uuid decision_uuid artifacts ch rq (s, w) = (out, (s', w'))"
  shows "discussion_wf s'"
  using issue_cases [OF assms(2)] placed_order_wf [OF assms(1)] assms(1) by blast

text \<open>Reading the gate of a phase leaves the tables alone.\<close>

definition same_db :: "'w session \<Rightarrow> 'w session \<Rightarrow> bool" where
  "same_db p p' \<longleftrightarrow> fst p' = fst p"

lemma same_db_basic:
  "keeps same_db (sm_return a)" "keeps same_db (sm_raise e)" "keeps same_db (reading f)" "keeps same_db (on_docs m)"
  by (auto simp: keeps_def same_db_def sm_run reading_def on_docs_def split: prod.splits)

lemma same_db_bind: "keeps same_db m \<Longrightarrow> (\<And>a. keeps same_db (f a)) \<Longrightarrow> keeps same_db (sm_bind m f)"
  by (rule keeps_bind) (simp_all add: same_db_def)

lemma load_phase_facts_reads: "keeps same_db (load_phase_facts artifacts ch)"
  unfolding load_phase_facts_def by (intro same_db_bind same_db_basic)

lemma build_phase_gate_reads: "keeps same_db (build_phase_gate artifacts ch ph run facts)"
  unfolding build_phase_gate_def
  by (intro same_db_bind same_db_basic keeps_if; cases facts) (simp_all add: same_db_basic load_phase_facts_reads)

lemma build_phase_gate_db: "build_phase_gate artifacts ch ph run facts (s, w) = (out, p) \<Longrightarrow> p = (s, snd p)"
  using keepsD [OF build_phase_gate_reads, of artifacts ch ph run facts "(s, w)" out p] by (cases p) (simp add: same_db_def)

fun refusal :: "conversation_error \<Rightarrow> bool" where
  "refusal (ConversationNotFound _ _) = True"
| "refusal (ConversationConflict _) = True"
| "refusal (ConversationInput _) = True"
| "refusal _ = False"

definition unrefused :: "('w, 'a) session_op \<Rightarrow> bool" where
  "unrefused m \<longleftrightarrow> (\<forall>p e p'. m p = (Inl e, p') \<longrightarrow> \<not> refusal e)"

lemma unrefusedD: "unrefused m \<Longrightarrow> m p = (Inl e, p') \<Longrightarrow> \<not> refusal e"
  unfolding unrefused_def by blast

lemma unrefused_bind: "unrefused m \<Longrightarrow> (\<And>a. unrefused (f a)) \<Longrightarrow> unrefused (sm_bind m f)"
  unfolding unrefused_def sm_bind_eq_Inl by blast

lemma unrefused_basic: "unrefused (sm_return a)" "unrefused (reading f)" "unrefused (on_docs m)"
proof -
  have "map_sum Of_documents id r = Inl e \<Longrightarrow> \<not> refusal e" for r :: "document_error + 'z" and e by (cases r) auto
  then show "unrefused (on_docs m)" by (fastforce simp: unrefused_def on_docs_run)
qed (auto simp: unrefused_def sm_run reading_def)

lemma build_phase_gate_unrefused: "unrefused (build_phase_gate artifacts ch ph run facts)"
proof -
  have "unrefused (load_phase_facts artifacts ch)"
    unfolding load_phase_facts_def by (intro unrefused_bind unrefused_basic)
  then show ?thesis
    unfolding build_phase_gate_def
    by (intro unrefused_bind unrefused_basic; cases facts) (simp_all add: unrefused_basic split: if_split)
qed

definition decision_recorded ::
    "instant \<Rightarrow> string \<Rightarrow> change \<Rightarrow> phase \<Rightarrow> decision_outcome \<Rightarrow> string option \<Rightarrow> string option \<Rightarrow> string option
      \<Rightarrow> gate \<Rightarrow> string option \<Rightarrow> session_db \<Rightarrow> (state_error + decision \<times> bool) \<times> session_db" where
  "decision_recorded clk uuid ch ph outcome remark actor key g rv s =
     record_decision (human_decision uuid g outcome clk rv remark ph) (ch_id ch) key actor s"

lemma decision_cases:
  assumes run: "record_phase_decision clk uuid artifacts ch ph outcome subject remark actor key (s, w) = (out, (s', w'))"
  shows "(s' = s \<and> isl out) \<or> (\<exists>gate g rv. fst (build_phase_gate artifacts ch ph (latest_run (ch_id ch) s) None (s, w)) = Inr gate \<and>
     decision_allowed outcome subject remark ph gate = Inr (g, rv) \<and>
     s' = snd (decision_recorded clk uuid ch ph outcome remark actor key g rv s) \<and>
     (case fst (decision_recorded clk uuid ch ph outcome remark actor key g rv s) of
        Inl e \<Rightarrow> out = Inl (Of_db e)
      | Inr (stored, created) \<Rightarrow> (case out of Inl e \<Rightarrow> \<not> refusal e | Inr (d, _) \<Rightarrow> d = stored)))"
proof -
  obtain out1 p1 where gate: "build_phase_gate artifacts ch ph (latest_run (ch_id ch) s) None (s, w) = (out1, p1)" by (metis surj_pair)
  obtain w1 where p1: "p1 = (s, w1)" using build_phase_gate_db [OF gate] by (cases p1) simp
  show ?thesis
  proof (cases out1)
    case (Inr gv)
    show ?thesis
    proof (cases "decision_allowed outcome subject remark ph gv")
      case allowed: (Inr gr)
      obtain g rv where gr: "gr = (g, rv)" by force
      obtain out2 s2 where rec: "record_decision (human_decision uuid g outcome clk rv remark ph) (ch_id ch) key actor s = (out2, s2)" by (metis surj_pair)
      obtain out3 p3 where after: "build_phase_gate artifacts ch ph (latest_run (ch_id ch) s2) None (s2, w1) = (out3, p3)" by (metis surj_pair)
      obtain w3 where p3: "p3 = (s2, w3)" using build_phase_gate_db [OF after] by (cases p3) simp
      have "\<And>e. out3 = Inl e \<Longrightarrow> \<not> refusal e" using unrefusedD [OF build_phase_gate_unrefused] after by blast
      with run gate p1 Inr allowed gr rec after p3
      have "s' = s2 \<and> (case out2 of Inl e \<Rightarrow> out = Inl (Of_db e) | Inr (stored, created) \<Rightarrow> (case out of Inl e \<Rightarrow> \<not> refusal e | Inr (d, _) \<Rightarrow> d = stored))"
        by (auto simp: record_phase_decision_def sm_bind_def reading_run of_result_def sm_run on_db_run split: sum.splits prod.splits)
      with gate Inr allowed gr rec show ?thesis by (auto simp: decision_recorded_def)
    qed (use run gate p1 Inr in \<open>auto simp: record_phase_decision_def sm_bind_def reading_run of_result_def sm_run\<close>)
  qed (use run gate p1 in \<open>auto simp: record_phase_decision_def sm_bind_def reading_run\<close>)
qed

lemma record_phase_decision_wf:
  assumes "discussion_wf s" "record_phase_decision clk uuid artifacts ch ph outcome subject remark actor key (s, w) = (out, (s', w'))"
  shows "discussion_wf s'"
  using decision_cases [OF assms(2)] assms(1) by (auto simp: decision_recorded_def record_decision_wf)

section \<open>What an advance does to the discussion\<close>

lemma each_do_inv:
  assumes "\<And>x s. x \<in> set xs \<Longrightarrow> I s \<Longrightarrow> I (snd (f x s))"
  shows "I s \<Longrightarrow> I (snd (each_do f xs s))"
  using assms
proof (induction xs arbitrary: s)
  case (Cons x xs)
  obtain r s1 where one: "f x s = (r, s1)" by (metis surj_pair)
  with Cons.prems(2) [of x s] Cons.prems(1) have "I s1" by simp
  with Cons.IH [of s1] Cons.prems(2) one show ?case by (cases r) (simp_all add: sm_bind_def)
qed (simp add: sm_run)

lemma each_do_all:
  assumes "\<And>x s a s'. x \<in> set xs \<Longrightarrow> f x s = (Inr a, s') \<Longrightarrow> Q x s'"
    and "\<And>x y s. x \<in> set xs \<Longrightarrow> Q y s \<Longrightarrow> Q y (snd (f x s))"
  shows "each_do f xs s = (Inr (), s') \<Longrightarrow> x \<in> set xs \<Longrightarrow> Q x s'"
  using assms
proof (induction xs arbitrary: s)
  case (Cons y ys)
  from Cons.prems(1) obtain a s1 where one: "f y s = (Inr a, s1)" and rest: "each_do f ys s1 = (Inr (), s')"
    by (auto simp: sm_bind_eq_Inr)
  show ?case
  proof (cases "x \<in> set ys")
    case True
    with Cons.IH [OF rest] Cons.prems show ?thesis by simp
  next
    case False
    with Cons.prems have "Q x s1" using one by auto
    then have "Q x (snd (each_do f ys s1))" using Cons.prems(4) by (intro each_do_inv [where I = "Q x"]) auto
    with rest show ?thesis by simp
  qed
qed simp

lemma get_question_saved:
  "get_question i (snd (save_question q s)) = (if i = q_id q \<and> get_question i s \<noteq> None then Some q else get_question i s)"
  by (auto simp: save_question_def get_question_def refresh_question_row_def split: option.split)

lemma get_order_saved:
  "get_rework_order i (snd (save_rework_order x s)) = (if i = ro_id x \<and> get_rework_order i s \<noteq> None \<and> round_positive x then Some x else get_rework_order i s)"
  by (auto simp: save_rework_order_def get_rework_order_def refresh_order_row_def split: option.split)

definition questions_stored :: "question list \<Rightarrow> session_db \<Rightarrow> bool" where
  "questions_stored qs s \<longleftrightarrow> (\<forall>q\<in>set qs. \<exists>q0. get_question (q_id q) s = Some q0 \<and> question_fixed q = question_fixed q0)"

definition orders_stored :: "rework_order list \<Rightarrow> session_db \<Rightarrow> bool" where
  "orders_stored xs s \<longleftrightarrow> (\<forall>x\<in>set xs. \<exists>x0. get_rework_order (ro_id x) s = Some x0 \<and> order_fixed x = order_fixed x0)"

lemma resolve_question_step:
  assumes "discussion_wf s \<and> questions_stored qs s" "q \<in> set qs"
  shows "discussion_wf (snd (resolve_question clk q s)) \<and> questions_stored qs (snd (resolve_question clk q s))"
proof (cases "question_apply_status clk QuestionStatus_RESOLVED q")
  case (Inr q')
  then have q': "q_id q' = q_id q" "question_fixed q' = question_fixed q"
    by (auto simp: question_apply_status_def question_fixed_def split: if_splits)
  obtain q0 where q0: "get_question (q_id q) s = Some q0" "question_fixed q = question_fixed q0"
    using assms by (auto simp: questions_stored_def)
  from save_question_wf [of s q' q0] assms q' q0 have "discussion_wf (snd (save_question q' s))" by simp
  moreover have "questions_stored qs (snd (save_question q' s))"
    using assms q' q0 unfolding questions_stored_def get_question_saved by auto
  ultimately show ?thesis using Inr by (simp add: resolve_question_def transition_def)
qed (use assms in \<open>simp add: resolve_question_def transition_def sm_run\<close>)

lemma escalate_step:
  assumes "discussion_wf s \<and> orders_stored xs s" "x \<in> set xs"
  shows "discussion_wf (snd (escalate_stored clk reason x s)) \<and> orders_stored xs (snd (escalate_stored clk reason x s))"
proof (cases "escalate_order clk reason x")
  case (Inr x')
  then have x': "ro_id x' = ro_id x" "order_fixed x' = order_fixed x" "\<not> order_open x'"
    by (auto simp: escalate_order_def rework_order_apply_status_def order_fixed_def order_open_def split: if_splits)
  obtain x0 where x0: "get_rework_order (ro_id x) s = Some x0" "order_fixed x = order_fixed x0"
    using assms by (auto simp: orders_stored_def)
  from save_order_wf [of s x' x0] assms x' x0 have "discussion_wf (snd (save_rework_order x' s))" by simp
  moreover have "orders_stored xs (snd (save_rework_order x' s))"
    using assms x' x0 unfolding orders_stored_def get_order_saved by auto
  ultimately show ?thesis using Inr by (simp add: escalate_stored_def transition_def)
qed (use assms in \<open>simp add: escalate_stored_def transition_def sm_run\<close>)

lemma mark_claimed_wf: "discussion_wf s \<Longrightarrow> discussion_wf (snd (mark_claimed clk claimed i s))"
proof -
  assume wf: "discussion_wf s"
  have "discussion_wf (snd (save_comment c' s))" if "get_comment i s = Some c" "mark_addressed clk None c = Inr c'" for c c'
  proof -
    have "c_id c' = c_id c" "comment_fixed c' = comment_fixed c"
      using that(2) by (auto simp: mark_addressed_def comment_apply_status_def comment_fixed_def split: if_splits)
    with save_comment_wf [OF wf, of c' c] stored_ids(2) [OF wf that(1)] that(1) show ?thesis by simp
  qed
  then show ?thesis using wf
    by (auto simp: mark_claimed_def transition_def sm_run sm_bind_def split: option.split sum.split prod.split) (metis snd_conv)+
qed

lemma finish_active_wf:
  assumes wf: "discussion_wf s"
  shows "discussion_wf (snd (finish_active clk result c ph s))"
proof (cases "active_order_of c (Some ph) s")
  case (Some x)
  note x = active_order(1) [OF wf Some]
  let ?sum = "case res_rework_summary result of Some r \<Rightarrow> r | None \<Rightarrow> mk_rework_summary [] [] []"
  show ?thesis
  proof (cases "finish_order clk ?sum x")
    case (Inr x')
    then have x': "ro_id x' = ro_id x" "order_fixed x' = order_fixed x" "\<not> order_open x'"
      by (auto simp: finish_order_def rework_order_apply_status_def order_fixed_def order_open_def split: if_splits)
    have saved: "discussion_wf (snd (save_rework_order x' s))" using save_order_wf [OF wf, of x' x] x x' by simp
    have "discussion_wf (snd (mark_all_addressed clk ?sum x' (snd (save_rework_order x' s))))"
      unfolding mark_all_addressed_def by (rule each_do_inv [where I = discussion_wf, OF mark_claimed_wf saved])
    with saved Some Inr show ?thesis
      by (auto simp: finish_active_def sm_bind_def sm_run transition_def Let_def split: prod.split sum.split)
  qed (use Some wf in \<open>simp add: finish_active_def sm_bind_def sm_run transition_def Let_def\<close>)
qed (use wf in \<open>simp add: finish_active_def sm_bind_def sm_run\<close>)

lemma start_pending_wf:
  assumes wf: "discussion_wf s"
  shows "discussion_wf (snd (start_pending clk rnd result c ph s))"
proof (cases "pending_order_of c (Some ph) s")
  case (Some x)
  note x = pending_order(1) [OF wf Some]
  show ?thesis
  proof (cases "start_order clk rnd (res_run_id result) x")
    case (Inr x')
    then have x': "ro_id x' = ro_id x" "order_fixed x' = order_fixed x"
      by (auto simp: start_order_def rework_order_apply_status_def order_fixed_def split: if_splits)
    have "discussion_wf (snd (save_rework_order x' s))" using save_order_wf [OF wf, of x' x] x x' by (simp add: order_open_def)
    with Some Inr show ?thesis
      by (auto simp: start_pending_def sm_bind_def sm_run transition_def split: prod.split sum.split)
  qed (use Some wf in \<open>simp add: start_pending_def sm_bind_def sm_run transition_def\<close>)
qed (use wf in \<open>simp add: start_pending_def sm_bind_def sm_run\<close>)

lemma escalate_open_wf: "discussion_wf s \<Longrightarrow> discussion_wf (snd (escalate_open clk reason c ph s))"
proof -
  assume wf: "discussion_wf s"
  let ?xs = "list_rework_orders c (Some ph) (Some [ReworkOrderStatus_PENDING, ReworkOrderStatus_IN_PROGRESS]) s"
  have "orders_stored ?xs s" using listed_orders [OF wf] by (auto simp: orders_stored_def)
  with wf have "discussion_wf (snd (each_do (escalate_stored clk reason) ?xs s)) \<and> orders_stored ?xs (snd (each_do (escalate_stored clk reason) ?xs s))"
    by (intro each_do_inv [where I = "\<lambda>t. discussion_wf t \<and> orders_stored ?xs t"] escalate_step) simp_all
  then show ?thesis by (simp add: escalate_open_def sm_bind_def sm_run)
qed

lemma take_in_answers_wf: "discussion_wf s \<Longrightarrow> discussion_wf (snd (take_in_answers clk result c ph s))"
proof -
  assume wf: "discussion_wf s"
  let ?qs = "list_questions c (Some ph) (Some [QuestionStatus_ANSWERED]) None s"
  have "questions_stored ?qs s" using listed_questions [OF wf] by (auto simp: questions_stored_def)
  with wf have "discussion_wf (snd (each_do (resolve_question clk) ?qs s)) \<and> questions_stored ?qs (snd (each_do (resolve_question clk) ?qs s))"
    by (intro each_do_inv [where I = "\<lambda>t. discussion_wf t \<and> questions_stored ?qs t"] resolve_question_step) simp_all
  then show ?thesis
    by (auto simp: take_in_answers_def sm_bind_def sm_run split: prod.split sum.split dest: finish_active_wf)
qed

lemma store_questions_wf: "discussion_wf s \<Longrightarrow> discussion_wf (snd (store_questions sha clk result c ph s))"
  unfolding store_questions_def by (rule each_do_inv [where I = discussion_wf]) (rule add_question_wf)

lemma record_stage_outcome_wf: "discussion_wf s \<Longrightarrow> discussion_wf (snd (record_stage_outcome sha text_of clk adv c s))"
  using start_pending_wf escalate_open_wf store_questions_wf take_in_answers_wf
  by (auto simp: record_stage_outcome_def sm_run Let_def sm_bind_def split: option.split next_action.split prod.split sum.split) (metis snd_conv)+

section \<open>Every history\<close>

text \<open>Any interleaving of the operator's operations, recorded advances, and changes of the runs and the repository.\<close>

inductive discussion_reaches :: "'w session \<Rightarrow> 'w session \<Rightarrow> bool" for p where
  start: "discussion_reaches p p"
| answered: "discussion_reaches p q \<Longrightarrow> discussion_reaches p (snd (answer_question clk ch i val remark who q))"
| commented: "discussion_reaches p q \<Longrightarrow>
    discussion_reaches p (snd (add_comment sha clk uuid artifacts ch ph artifact anchor body author rv key q))"
| sent_back: "discussion_reaches p q \<Longrightarrow> discussion_reaches p (snd (issue_rework_order sha clk uuid uuid' artifacts ch rq q))"
| decided: "discussion_reaches p q \<Longrightarrow>
    discussion_reaches p (snd (record_phase_decision clk uuid artifacts ch ph outcome subject remark actor key q))"
| advanced: "discussion_reaches p (s, w) \<Longrightarrow> discussion_reaches p (snd (record_stage_outcome sha text_of clk adv c s), w)"
| elsewhere: "discussion_reaches p (s, w) \<Longrightarrow> discussion_reaches p (s\<lparr>db_runs := r, db_execution_ids := ks\<rparr>, w')"

lemma discussion_reaches_wf: "discussion_reaches p q \<Longrightarrow> discussion_wf (fst p) \<Longrightarrow> discussion_wf (fst q)"
proof (induction rule: discussion_reaches.induct)
  case (answered q clk ch i val remark who)
  then show ?case using answer_question_wf [of "fst q" clk ch i val remark who "snd q"] by (metis prod.collapse)
next
  case (commented q sha clk uuid artifacts ch ph artifact anchor body author rv key)
  then have wf: "discussion_wf (fst q)" by blast
  obtain out s' w' where run: "add_comment sha clk uuid artifacts ch ph artifact anchor body author rv key (fst q, snd q) = (out, (s', w'))"
    by (metis surj_pair)
  from add_comment_cases [OF run] wf store_comment_wf [OF wf] run show ?case by auto
next
  case (sent_back q sha clk uuid uuid' artifacts ch rq)
  then show ?case using issue_wf [of "fst q" sha clk uuid uuid' artifacts ch rq "snd q"] by (metis prod.collapse)
next
  case (decided q clk uuid artifacts ch ph outcome subject remark actor key)
  then show ?case
    using record_phase_decision_wf [of "fst q" clk uuid artifacts ch ph outcome subject remark actor key "snd q"] by (metis prod.collapse)
qed (simp_all add: record_stage_outcome_wf)

lemma open_orders_le_1:
  assumes wf: "discussion_wf s"
  shows "length (list_rework_orders c (Some ph) (Some [ReworkOrderStatus_PENDING, ReworkOrderStatus_IN_PROGRESS]) s) \<le> 1"
proof -
  let ?xs = "list_rework_orders c (Some ph) (Some [ReworkOrderStatus_PENDING, ReworkOrderStatus_IN_PROGRESS]) s"
  have all: "x = y" if "x \<in> set ?xs" "y \<in> set ?xs" for x y
  proof -
    from that listed_orders [OF wf] have xy: "get_rework_order (ro_id x) s = Some x" "get_rework_order (ro_id y) s = Some y"
      "order_open x" "order_open y" "ro_change_id x = ro_change_id y" "ro_phase x = ro_phase y"
      by (auto simp: order_open_def)
    from one_roundD [OF discussion_wfD(4) [OF wf] xy] have "ro_id x = ro_id y" .
    with xy(1,2) show ?thesis by (metis option.inject)
  qed
  let ?rows = "sort_key (\<lambda>(k, row). (ow_created_at row, k)) (filter (\<lambda>(k, row). ow_change_id row = c \<and> wanted (Some ph) (ow_phase row) \<and>
      wanted_in (Some [ReworkOrderStatus_PENDING, ReworkOrderStatus_IN_PROGRESS]) (ow_status row)) (db_orders s))"
  have id: "ro_id (ow_payload row) = k" if "(k, row) \<in> set (db_orders s)" for k row
    using order_docs.agree_row [OF discussion_wfD(3) [OF wf] that, THEN conjunct2] by (rule sym)
  have "map ro_id ?xs = map (\<lambda>kr. ro_id (ow_payload (snd kr))) ?rows"
    by (simp only: list_rework_orders_def map_map comp_def case_prod_beta)
  also have "\<dots> = map fst ?rows"
    by (rule map_cong [OF refl]) (rule id, auto)
  finally have ids: "map ro_id ?xs = map fst ?rows" .
  have "distinct (map fst (db_orders s))"
    using discussion_wfD(3) [OF wf] unfolding rows_agree_def by (rule conjunct1)
  then have "distinct (map fst ?rows)"
    by (simp add: distinct_map inj_on_def distinct_sort)
  then have "distinct (map ro_id ?xs)" by (simp only: ids)
  then have "distinct ?xs" by (simp add: distinct_map)
  with all show ?thesis by (cases ?xs rule: remdups_adj.cases) fastforce+
qed

text \<open>
  C14: the discussion stays well-formed. Along every history of answers, comments, send-backs, phase decisions and
  recorded advances, the denormalized columns of every row agree with its document, so that a list narrowed by columns is
  the list narrowed by the documents, and a phase of a change has at most one rework order pending or in progress.
\<close>

theorem discussion_stays_wellformed:
  assumes "discussion_wf (fst p)" "discussion_reaches p q"
  shows "rows_agree q_id question_row_of qr_payload (db_questions (fst q)) \<and>
    rows_agree c_id comment_row_of cw_payload (db_comments (fst q)) \<and>
    rows_agree ro_id order_row_of ow_payload (db_orders (fst q)) \<and>
    length (list_rework_orders c (Some ph) (Some [ReworkOrderStatus_PENDING, ReworkOrderStatus_IN_PROGRESS]) (fst q)) \<le> 1"
  using discussion_reaches_wf [OF assms(2,1)] open_orders_le_1 discussion_wfD by blast

definition refused_quietly :: "('w, 'a) session_op \<Rightarrow> 'w session \<Rightarrow> bool" where
  "refused_quietly m p = (case m p of (Inl e, p') \<Rightarrow> if refusal e then fst p' = fst p else True | _ \<Rightarrow> True)"

lemma refused_quietlyI:
  "(\<And>e s' w'. m p = (Inl e, (s', w')) \<Longrightarrow> refusal e \<Longrightarrow> s' = fst p) \<Longrightarrow> refused_quietly m p"
  by (auto simp: refused_quietly_def split: prod.splits sum.splits)

text \<open>
  C18: a refused operation writes nothing. Whenever an operation of the discussion is refused (an unknown entity, a
  conflict with the current state, an input that does not fit), the tables are as they were before it.
\<close>

theorem refused_operations_write_nothing:
  "refused_quietly (answer_question clk ch i val remark who) p \<and>
   refused_quietly (add_comment sha clk uuid artifacts ch ph artifact anchor body author rv key) p \<and>
   refused_quietly (issue_rework_order sha clk uuid uuid' artifacts ch rq) p \<and>
   refused_quietly (record_phase_decision clk uuid artifacts ch ph outcome subject remark actor key) p"
proof -
  obtain s w where p: "p = (s, w)" by force
  have db: "map_sum Of_db id r = Inl e \<Longrightarrow> \<not> refusal e" for r :: "state_error + 'z" and e by (cases r) auto
  have 1: "refused_quietly (answer_question clk ch i val remark who) p"
    unfolding p by (rule refused_quietlyI) (auto dest!: answer_question_cases split: sum.splits)
  have 2: "refused_quietly (add_comment sha clk uuid artifacts ch ph artifact anchor body author rv key) p"
    unfolding p by (rule refused_quietlyI) (auto dest!: add_comment_cases db [OF sym])
  have 3: "refused_quietly (issue_rework_order sha clk uuid uuid' artifacts ch rq) p"
    unfolding p by (rule refused_quietlyI) (auto simp: order_placed_def dest!: issue_cases db [OF sym])
  have 4: "refused_quietly (record_phase_decision clk uuid artifacts ch ph outcome subject remark actor key) p"
    unfolding p by (rule refused_quietlyI) (auto dest!: decision_cases split: sum.splits)
  from 1 2 3 4 show ?thesis by blast
qed

section \<open>Recording an advance twice\<close>

lemma each_do_inert:
  assumes "\<And>x. x \<in> set xs \<Longrightarrow> \<exists>a. f x s = (Inr a, s)"
  shows "each_do f xs s = (Inr (), s)"
  using assms
proof (induction xs)
  case (Cons x xs)
  then obtain a where "f x s = (Inr a, s)" by auto
  with Cons show ?case by (simp add: sm_bind_def)
qed (simp add: sm_run)

lemma add_question_found:
  shows add_question_inert: "get_question (q_id q) s \<noteq> None \<Longrightarrow> \<exists>a. add_question q s = (Inr a, s)"
    and add_question_there: "add_question q s = (Inr a, s') \<Longrightarrow> get_question (q_id q) s' \<noteq> None"
    and add_question_kept: "get_question i s \<noteq> None \<Longrightarrow> get_question i (snd (add_question q s)) \<noteq> None"
  by (auto simp: add_question_def get_question_def split: option.splits if_splits)

lemma store_questions_inert:
  assumes run: "store_questions sha clk result c ph s = (Inr (), s1)"
    and later: "\<And>i. get_question i s1 \<noteq> None \<Longrightarrow> get_question i s2 \<noteq> None"
  shows "store_questions sha clk' result c ph s2 = (Inr (), s2)"
proof -
  let ?i = "\<lambda>d. question_id_for sha result (fst d)"
  let ?ds = "List.enumerate 1 (res_questions result)"
  have id: "q_id (question_of sha k result c ph d) = ?i d" for k d by (simp add: question_of_def)
  have "get_question (?i d) s1 \<noteq> None" if "d \<in> set ?ds" for d
    using each_do_all [of ?ds "\<lambda>d. add_question (question_of sha clk result c ph d)" "\<lambda>d t. get_question (?i d) t \<noteq> None" s s1 d]
      add_question_there [of "question_of sha clk result c ph _", unfolded id] add_question_kept run that
    unfolding store_questions_def by blast
  then have "\<exists>a. add_question (question_of sha clk' result c ph d) s2 = (Inr a, s2)" if "d \<in> set ?ds" for d
    using add_question_inert [of "question_of sha clk' result c ph d" s2] later that unfolding id by blast
  then show ?thesis unfolding store_questions_def by (rule each_do_inert)
qed

text \<open>Only the order just saved can be open in its phase.\<close>

lemma only_saved_open:
  assumes wf: "discussion_wf s" and x: "get_rework_order (ro_id x) s = Some x" "order_open x"
    and id: "ro_id x' = ro_id x" and saved: "save_rework_order x' s = (Inr a, s1)"
    and y: "get_rework_order i s1 = Some y" "order_open y" "ro_change_id y = ro_change_id x" "ro_phase y = ro_phase x"
  shows "y = x'"
proof (rule ccontr)
  assume neq: "y \<noteq> x'"
  have "round_positive x'" using saved by (auto simp: save_rework_order_def split: option.splits if_splits)
  then have "get_rework_order i s1 = (if i = ro_id x then Some x' else get_rework_order i s)"
    using get_order_saved [of i x' s] saved x(1) id by simp
  with y(1) neq have "get_rework_order i s = Some y" "i \<noteq> ro_id x" by (auto split: if_splits)
  with one_roundD [OF discussion_wfD(4) [OF wf] _ x(1) y(2) x(2) y(3,4)] show False by blast
qed

lemma start_pending_repeat:
  assumes wf: "discussion_wf s" and run: "start_pending clk rnd result c ph s = (Inr (), s1)"
  shows "start_pending clk' rnd result c ph s1 = (Inr (), s1)"
proof (cases "pending_order_of c (Some ph) s")
  case None
  with run have "s1 = s" by (simp add: start_pending_def sm_bind_def sm_run)
  with None show ?thesis by (simp add: start_pending_def sm_bind_def sm_run)
next
  case (Some x)
  note x = pending_order(1) [OF wf Some]
  have wf1: "discussion_wf s1" using start_pending_wf [OF wf, of clk rnd result c ph] run by simp
  from run Some obtain x' a where x': "start_order clk rnd (res_run_id result) x = Inr x'" and saved: "save_rework_order x' s = (Inr a, s1)"
    by (auto simp: start_pending_def sm_bind_def sm_run transition_def split: sum.splits prod.splits)
  from x' have id: "ro_id x' = ro_id x" "ro_status x' = ReworkOrderStatus_IN_PROGRESS"
    by (auto simp: start_order_def rework_order_apply_status_def split: if_splits)
  have "pending_order_of c (Some ph) s1 \<noteq> Some y" for y
    using only_saved_open [OF wf _ _ id(1) saved, of "ro_id y" y] pending_order(1) [OF wf1, of c ph y] x id(2) by (auto simp: order_open_def)
  then have "pending_order_of c (Some ph) s1 = None" by (cases "pending_order_of c (Some ph) s1") auto
  then show ?thesis by (simp add: start_pending_def sm_bind_def sm_run)
qed

lemma escalate_open_repeat:
  assumes wf: "discussion_wf s" and run: "escalate_open clk reason c ph s = (Inr (), s1)"
  shows "escalate_open clk' reason c ph s1 = (Inr (), s1)"
proof -
  let ?open = "[ReworkOrderStatus_PENDING, ReworkOrderStatus_IN_PROGRESS]"
  let ?xs = "list_rework_orders c (Some ph) (Some ?open)"
  have all: "each_do (escalate_stored clk reason) (?xs s) s = (Inr (), s1)" using run by (simp add: escalate_open_def sm_bind_def sm_run)
  have wf1: "discussion_wf s1" using escalate_open_wf [OF wf, of clk reason c ph] run by simp
  have "?xs s1 = []"
  proof (cases "?xs s")
    case Nil
    with all show ?thesis by (simp add: sm_run)
  next
    case (Cons x ys)
    with open_orders_le_1 [OF wf, of c ph] have one: "?xs s = [x]" by simp
    with listed_orders [OF wf, of x c ph ?open]
    have x: "get_rework_order (ro_id x) s = Some x" "order_open x" "ro_change_id x = c" "ro_phase x = ph" by (simp_all add: order_open_def)
    from all one obtain x' a where x': "escalate_order clk reason x = Inr x'" and saved: "save_rework_order x' s = (Inr a, s1)"
      by (auto simp: escalate_stored_def transition_def sm_bind_def sm_run split: sum.splits prod.splits)
    from x' have id: "ro_id x' = ro_id x" "\<not> order_open x'"
      by (auto simp: escalate_order_def rework_order_apply_status_def order_open_def split: if_splits)
    have none: "False" if "y \<in> set (?xs s1)" for y
      using that only_saved_open [OF wf x(1,2) id(1) saved, of "ro_id y" y] listed_orders [OF wf1, of y c ph ?open] x id(2) by (auto simp: order_open_def)
    show ?thesis by (rule set_empty [THEN iffD1], rule equals0I) (rule none)
  qed
  then show ?thesis by (simp add: escalate_open_def sm_bind_def sm_run)
qed

definition same_orders_questions :: "session_db \<Rightarrow> session_db \<Rightarrow> bool" where
  "same_orders_questions s s' \<longleftrightarrow> db_orders s' = db_orders s \<and> db_questions s' = db_questions s"

lemma mark_all_addressed_elsewhere: "same_orders_questions s (snd (mark_all_addressed clk summary x s))"
  unfolding mark_all_addressed_def
proof (rule each_do_inv [where I = "same_orders_questions s"])
  show "same_orders_questions s (snd (mark_claimed clk claimed i t))" if "same_orders_questions s t" for claimed i t
    using that by (auto simp: same_orders_questions_def mark_claimed_def transition_def sm_run sm_bind_def save_comment_def
        split: option.split sum.split)
qed (simp add: same_orders_questions_def)

lemma finish_active_repeat:
  assumes wf: "discussion_wf s" and run: "finish_active clk result c ph s = (Inr (), s1)"
  shows "active_order_of c (Some ph) s1 = None \<and> db_questions s1 = db_questions s"
proof (cases "active_order_of c (Some ph) s")
  case None
  with run show ?thesis by (simp add: finish_active_def sm_bind_def sm_run)
next
  case (Some x)
  note x = active_order(1) [OF wf Some]
  let ?sum = "case res_rework_summary result of Some r \<Rightarrow> r | None \<Rightarrow> mk_rework_summary [] [] []"
  have wf1: "discussion_wf s1" using finish_active_wf [OF wf, of clk result c ph] run by simp
  from run Some obtain x' a t where x': "finish_order clk ?sum x = Inr x'" and saved: "save_rework_order x' s = (Inr a, t)"
    and marked: "mark_all_addressed clk ?sum x' t = (Inr (), s1)"
    by (auto simp: finish_active_def sm_bind_def sm_run transition_def Let_def split: sum.splits prod.splits)
  from x' have id: "ro_id x' = ro_id x" "\<not> order_open x'"
    by (auto simp: finish_order_def rework_order_apply_status_def order_open_def split: if_splits)
  have same: "db_orders s1 = db_orders t" "db_questions s1 = db_questions t"
    using mark_all_addressed_elsewhere [of t clk ?sum x'] marked by (simp_all add: same_orders_questions_def)
  have "active_order_of c (Some ph) s1 \<noteq> Some y" for y
    using only_saved_open [OF wf _ _ id(1) saved, of "ro_id y" y] active_order(1) [OF wf1, of c ph y] x id(2) same(1)
    by (auto simp: order_open_def get_rework_order_def)
  moreover have "db_questions t = db_questions s" using saved by (auto simp: save_rework_order_def split: option.splits if_splits)
  ultimately show ?thesis using same by (cases "active_order_of c (Some ph) s1") auto
qed

definition answered_before :: "session_db \<Rightarrow> session_db \<Rightarrow> bool" where
  "answered_before s t \<longleftrightarrow>
     (\<forall>i q. get_question i t = Some q \<longrightarrow> q_status q = QuestionStatus_ANSWERED \<longrightarrow> get_question i s = Some q) \<and>
     (\<forall>i. get_question i s \<noteq> None \<longrightarrow> get_question i t \<noteq> None)"

lemma resolve_question_cases:
  "snd (resolve_question clk q s) = s \<and> isl (fst (resolve_question clk q s)) \<or>
   (\<exists>q'. q_id q' = q_id q \<and> q_status q' = QuestionStatus_RESOLVED \<and> resolve_question clk q s = save_question q' s)"
proof (cases "question_apply_status clk QuestionStatus_RESOLVED q")
  case (Inr q')
  then have "q_id q' = q_id q \<and> q_status q' = QuestionStatus_RESOLVED" by (auto simp: question_apply_status_def split: if_splits)
  with Inr show ?thesis by (auto simp: resolve_question_def transition_def)
qed (simp add: resolve_question_def transition_def sm_run)

lemma save_question_done: "save_question q s = (Inr a, s') \<Longrightarrow> get_question (q_id q) s' = Some q"
  by (auto simp: save_question_def get_question_def refresh_question_row_def split: option.splits)

lemma take_in_answers_repeat:
  assumes wf: "discussion_wf s" and run: "take_in_answers clk result c ph s = (Inr (), s1)"
  shows "take_in_answers clk' result c ph s1 = (Inr (), s1) \<and> (\<forall>i. get_question i s \<noteq> None \<longrightarrow> get_question i s1 \<noteq> None)"
proof -
  let ?qs = "list_questions c (Some ph) (Some [QuestionStatus_ANSWERED]) None"
  let ?resolved = "\<lambda>q t. map_option q_status (get_question (q_id q) t) = Some QuestionStatus_RESOLVED"
  from run obtain t where all: "each_do (resolve_question clk) (?qs s) s = (Inr (), t)" and fin: "finish_active clk result c ph t = (Inr (), s1)"
    by (auto simp: take_in_answers_def sm_bind_def sm_run split: sum.splits prod.splits)
  have stored: "questions_stored (?qs s) s" using listed_questions [OF wf] by (auto simp: questions_stored_def)
  have "discussion_wf (snd (each_do (resolve_question clk) (?qs s) s)) \<and> questions_stored (?qs s) (snd (each_do (resolve_question clk) (?qs s) s))"
    using wf stored by (intro each_do_inv [where I = "\<lambda>t. discussion_wf t \<and> questions_stored (?qs s) t"] resolve_question_step) simp_all
  with all have wft: "discussion_wf t" by simp
  have kept: "answered_before s (snd (resolve_question clk q u))" if "answered_before s u" for q u
    using resolve_question_cases [of clk q u] that by (auto simp: answered_before_def get_question_saved split: if_splits)
  have "answered_before s (snd (each_do (resolve_question clk) (?qs s) s))"
    by (rule each_do_inv [where I = "answered_before s"]) (simp_all add: kept, simp add: answered_before_def)
  with all have before: "answered_before s t" by simp
  have "?resolved q t" if "q \<in> set (?qs s)" for q
  proof (rule each_do_all [OF _ _ all that, where Q = ?resolved])
    show "?resolved x u'" if "resolve_question clk x u = (Inr a, u')" for x u a u'
      using resolve_question_cases [of clk x u] that by (auto dest: save_question_done [OF sym])
    show "?resolved y (snd (resolve_question clk x u))" if "?resolved y u" for x y u
      using resolve_question_cases [of clk x u] that by (auto simp: get_question_saved)
  qed
  note resolved = this
  note fr = finish_active_repeat [OF wft fin]
  then have same: "get_question i s1 = get_question i t" for i by (simp add: get_question_def)
  have wf1: "discussion_wf s1" using finish_active_wf [OF wft, of clk result c ph] fin by simp
  have none: "False" if "q \<in> set (?qs s1)" for q
  proof -
    from that listed_questions [OF wf1] same have q: "get_question (q_id q) t = Some q" "q_change_id q = c" "q_phase q = ph" "q_status q = QuestionStatus_ANSWERED" by auto
    with before have "get_question (q_id q) s = Some q" by (simp add: answered_before_def)
    with q listed_questions [OF wf, of q c ph] have "q \<in> set (?qs s)" by simp
    from resolved [OF this] q show False by simp
  qed
  have "?qs s1 = []" by (rule set_empty [THEN iffD1], rule equals0I) (rule none)
  then have "take_in_answers clk' result c ph s1 = (Inr (), s1)"
    using fr by (simp add: take_in_answers_def finish_active_def sm_bind_def sm_run)
  with before same show ?thesis by (simp add: answered_before_def)
qed

text \<open>
  C16: an advance is recorded once. When the outcome of an advance has been recorded in a well-formed discussion, recording
  the same advance again, at any later time, succeeds and changes nothing: the questions have deterministic ids, the
  answers are resolved, and no order of the phase is left for the transition to apply to.
\<close>

theorem outcome_recorded_once:
  assumes wf: "discussion_wf s" and run: "record_stage_outcome sha text_of clk adv c s = (Inr (), s1)"
  shows "record_stage_outcome sha text_of clk' adv c s1 = (Inr (), s1)"
proof (cases "adv_outcome adv = Advance_REPLAYED \<or> adv_decision adv = None")
  case True
  with run show ?thesis by (auto simp: record_stage_outcome_def sm_run)
next
  case False
  then obtain d where d: "adv_outcome adv \<noteq> Advance_REPLAYED" "adv_decision adv = Some d" by auto
  let ?r = "adv_result adv"
  let ?ph = "case res_phase ?r of Some p \<Rightarrow> p | None \<Rightarrow> phase_of_stage (res_stage ?r)"
  let ?asked = "\<lambda>k. sm_bind (store_questions sha k ?r c ?ph) (\<lambda>_. if action_type (fd_action d) \<in> {AT_request_approval, AT_wait_for_input}
      then take_in_answers k ?r c ?ph else sm_return ())"
  have asked: "?asked clk' s1 = (Inr (), s1)" if "?asked clk s = (Inr (), s1)"
  proof -
    from that obtain t where st: "store_questions sha clk ?r c ?ph s = (Inr (), t)"
      and tk: "if action_type (fd_action d) \<in> {AT_request_approval, AT_wait_for_input} then take_in_answers clk ?r c ?ph t = (Inr (), s1) else s1 = t"
      by (auto simp: sm_bind_def sm_run split: sum.splits prod.splits if_splits)
    have wft: "discussion_wf t" using store_questions_wf [OF wf, of sha clk ?r c ?ph] st by simp
    have kept: "get_question i t \<noteq> None \<Longrightarrow> get_question i s1 \<noteq> None" for i
      using tk take_in_answers_repeat [OF wft, of clk ?r c ?ph s1] by (auto split: if_splits)
    from store_questions_inert [OF st kept, of clk'] tk take_in_answers_repeat [OF wft, of clk ?r c ?ph s1 clk'] show ?thesis
      by (auto simp: sm_bind_def sm_run split: if_splits)
  qed
  show ?thesis
    using run d asked start_pending_repeat [OF wf] escalate_open_repeat [OF wf]
    by (cases "fd_action d") (simp_all add: record_stage_outcome_def Let_def)
qed

section \<open>Decisions\<close>




section \<open>What an advance leaves out\<close>

text \<open>
  An attempt that the flow stopped leaves the table of questions alone: what the agent asked in it is not stored, whatever
  its result carries. The same holds of an attempt that spent a rework round.
\<close>

lemma escalate_stored_questions: "db_questions (snd (escalate_stored clk reason x s)) = db_questions s"
  by (auto simp: escalate_stored_def transition_def sm_run save_rework_order_def split: sum.split option.split)

lemma stopped_attempt_drops_questions:
  assumes "adv_decision adv = Some d" "fd_action d = StopAction verdict why \<or> fd_action d = ReworkAction rnd budget why"
  shows "db_questions (snd (record_stage_outcome sha text_of clk adv c s)) = db_questions s"
proof -
  have stop: "db_questions (snd (escalate_open clk reason c ph s)) = db_questions s" for reason ph
    using each_do_inv [where I = "\<lambda>t. db_questions t = db_questions s" and f = "escalate_stored clk reason"] escalate_stored_questions
    by (simp add: escalate_open_def sm_bind_def sm_run)
  have rework: "db_questions (snd (start_pending clk n result c ph s)) = db_questions s" for n result ph
    by (auto simp: start_pending_def transition_def sm_bind_def sm_run save_rework_order_def split: sum.split option.split)
  from assms stop rework show ?thesis by (auto simp: record_stage_outcome_def Let_def sm_run)
qed

section \<open>Samples\<close>

definition sample_order :: "rework_order_status \<Rightarrow> rework_order" where
  "sample_order st = \<lparr>ro_id = ''rw_1'', ro_change_id = ''c1'', ro_phase = Phase_REQUIREMENTS, ro_revisions = [], ro_comment_ids = [],
     ro_question_ids = [], ro_instruction = Some ''again'', ro_decision_ids = [], ro_issued_by = ''op'', ro_status = st,
     ro_round = None, ro_run_id = None, ro_summary = None, ro_escalation_reason = None, ro_created_at = 0, ro_updated_at = 0\<rparr>"

definition sample_comment :: "string \<Rightarrow> comment" where
  "sample_comment c = \<lparr>c_id = ''cmt_1'', c_change_id = c, c_phase = Phase_REQUIREMENTS,
     c_anchor = \<lparr>aa_artifact = ''a.md'', aa_anchor_id = None, aa_revision = None\<rparr>, c_body = ''unclear'', c_author = ''op'',
     c_status = CommentStatus_OPEN, c_rework_order_id = None, c_addressed_note = None, c_created_at = 0, c_updated_at = 0\<rparr>"

definition sample_session :: "rework_order list \<Rightarrow> comment list \<Rightarrow> session_db" where
  "sample_session orders comments = \<lparr>db_runs = empty_run_store, db_execution_ids = [],
     db_changes = [(''c1'', change_row_of sample_change)], db_products = [], db_decisions = [], db_questions = [],
     db_comments = map (\<lambda>c. (c_id c, comment_row_of c)) comments, db_orders = map (\<lambda>x. (ro_id x, order_row_of x)) orders,
     db_drafts = [], db_views = []\<rparr>"

definition sample_advance :: "next_action \<Rightarrow> rework_summary option \<Rightarrow> run_advance" where
  "sample_advance action summary = \<lparr>adv_outcome = Advance_ADVANCED, adv_stage = Stage_SPECIFICATION,
     adv_result = (sample_result Stage_SPECIFICATION StageStatus_WAITING action [])
       \<lparr>res_phase := Some Phase_REQUIREMENTS, res_rework_summary := summary\<rparr>,
     adv_decision = Some \<lparr>fd_stage = Stage_SPECIFICATION, fd_action = action, fd_stage_status = StageStatus_WAITING,
       fd_run_status = RunStatus_WAITING, fd_next_stage = None\<rparr>\<rparr>"

definition sample_rework :: "session_db \<Rightarrow> (state_error + unit) \<times> session_db" where
  "sample_rework = record_stage_outcome (\<lambda>t. t) (\<lambda>_. ''why'') 1 (sample_advance (ReworkAction 1 3 (Txt ''again'')) None) ''c1''"

lemma sample_session_wf: "discussion_wf (sample_session [sample_order ReworkOrderStatus_PENDING] [])"
  by (auto simp: discussion_wf_def rows_agree_def sample_session_def one_round_def get_rework_order_def order_row_of_def sample_order_def
      split: if_splits)

theorem outcome_recorded_once_witness:
  "case sample_rework (sample_session [sample_order ReworkOrderStatus_PENDING] []) of
     (out, s1) \<Rightarrow> out = Inr () \<and> map_option ro_status (get_rework_order ''rw_1'' s1) = Some ReworkOrderStatus_IN_PROGRESS \<and> sample_rework s1 = (Inr (), s1)"
proof -
  let ?s = "sample_session [sample_order ReworkOrderStatus_PENDING] []"
  obtain out s1 where run: "sample_rework ?s = (out, s1)" by (metis surj_pair)
  have "pending_order_of ''c1'' (Some Phase_REQUIREMENTS) ?s = Some (sample_order ReworkOrderStatus_PENDING)"
    by (simp add: pending_order_of_def list_rework_orders_def head_option_def sample_session_def order_row_of_def wanted_def wanted_in_def sample_order_def)
  then have "fst (sample_rework ?s) = Inr () \<and> map_option ro_status (get_rework_order ''rw_1'' (snd (sample_rework ?s))) = Some ReworkOrderStatus_IN_PROGRESS"
    by (simp add: sample_rework_def record_stage_outcome_def sample_advance_def start_pending_def sm_bind_def sm_run transition_def start_order_def
        rework_order_apply_status_def sample_order_def save_rework_order_def get_rework_order_def sample_session_def order_row_of_def
        refresh_order_row_def round_positive_def)
  then show ?thesis
    using outcome_recorded_once [OF sample_session_wf] run unfolding sample_rework_def by simp
qed

theorem discussion_stays_wellformed_witness:
  "case snd (sample_rework (sample_session [sample_order ReworkOrderStatus_PENDING] [])) of
     s1 \<Rightarrow> length (list_rework_orders ''c1'' (Some Phase_REQUIREMENTS) (Some [ReworkOrderStatus_PENDING, ReworkOrderStatus_IN_PROGRESS]) s1) \<le> 1"
proof -
  let ?s = "sample_session [sample_order ReworkOrderStatus_PENDING] []"
  have "discussion_reaches (?s, ()) (snd (sample_rework ?s), ())"
    unfolding sample_rework_def by (rule discussion_reaches.advanced) (rule discussion_reaches.start)
  from discussion_stays_wellformed [OF _ this, of "''c1''" Phase_REQUIREMENTS] sample_session_wf show ?thesis by simp
qed


text \<open>The comments a summary claims are looked up by id alone: one of another change is marked addressed.\<close>

lemma claimed_comment_of_another_change:
  "map_option (\<lambda>c. (c_change_id c, c_status c)) (get_comment ''cmt_1'' (snd (record_stage_outcome (\<lambda>t. t) (\<lambda>_. ''why'') 1
     (sample_advance (WaitForInputAction (Txt ''in'')) (Some (mk_rework_summary [] [] [''cmt_1'']))) ''c1''
     (sample_session [sample_order ReworkOrderStatus_IN_PROGRESS] [sample_comment ''c2''])))) = Some (''c2'', CommentStatus_ADDRESSED)"
  by code_simp

end
