(* ===== verification/Spec2Isabelle.thy ===== *)
theory Spec2Isabelle
  imports Outbox Budget Rework TaskGraph Reconcile StageGates RunStore_Safety Runner_Safety AgentStage Discussion_Safety
begin

text \<open>
  Verification of the Dark Factory control plane (the Python package under
  \<open>src/src/dark_factory\<close>): a software factory that drives one change through the stages
  design, development, review, release under risk, gate, budget and merge policies.

  \<^bold>\<open>Parts and theories.\<close> Paths are relative to \<open>src/src/dark_factory\<close>.

  \<^item> \<open>Prelude\<close>: generic lemmas (first match, ordered dictionaries, texts) and the exception monad
    \<open>sem\<close>: a stateful Python method is \<open>'s \<Rightarrow> ('e + 'a) \<times> 's\<close>, so the state mutated before a
    \<open>raise\<close> is kept.
  \<^item> \<open>Enums\<close>: the 34 string enumerations of \<open>changes/enums.py\<close> with their wire values.
  \<^item> \<open>Lifecycle\<close>: the contract shared by every status-carrying entity (a transition table, a status
    reader, \<open>apply_status\<close>) as locale \<open>status_entity\<close>, with table reachability lemmas.
  \<^item> \<open>Conversations\<close>: questions, comments and rework orders (\<open>changes/conversations.py\<close>).
  \<^item> \<open>Domain\<close>: runs, stage runs, results, findings, usage, contracts, actions, release records,
    products, intake and keys (the rest of \<open>changes/\<close>). A run's mutable fields are record fields
    \<open>cr_...\<close>; a pydantic validator that can raise is a \<open>mk_...\<close> constructor into a sum.
  \<^item> \<open>Risk\<close>: \<open>changes/risk.py\<close>, \<open>context/sdd/strictness.py\<close>, \<open>orchestration/routes.py\<close>,
    \<open>orchestration/rules/gates.py\<close>, \<open>orchestration/policy/risk.py\<close>.
  \<^item> \<open>Policy\<close>: \<open>rules/limits.py\<close>, \<open>policy/escalation.py\<close>, \<open>policy/merge.py\<close>,
    \<open>policy/decision_class.py\<close>, \<open>policy/participation.py\<close>, \<open>rules/merge_protection.py\<close>.
  \<^item> \<open>Flow\<close> and \<open>Flow_Safety\<close>: the inter-stage engine \<open>orchestration/flow.py\<close>: \<open>apply_result\<close> with
    every handler, and its safety theorems over all result sequences.
  \<^item> \<open>State\<close>: the operational store (\<open>state/repositories.py\<close>, rows of \<open>state/models.py\<close>) and
    \<open>orchestration/idempotency.py\<close>. A table is a map from primary key to row.
  \<^item> \<open>Outbox\<close>: \<open>OutboxRepository\<close> and \<open>orchestration/events/\<close>: publishing, reservation, dispatch,
    replay, skip, cleanup.
  \<^item> \<open>Budget\<close>: \<open>orchestration/budget/\<close>: role limits, reservations and settlement.
  \<^item> \<open>Reconcile\<close>: \<open>orchestration/reconcile/\<close>: the anomaly table and the recovery pass over the store; the
    loop relies on the contract of its body, locale \<open>run_recovery\<close>.
  \<^item> \<open>Rework\<close>: \<open>orchestration/rework.py\<close>.
  \<^item> \<open>TaskGraph\<close>: \<open>orchestration/taskgraph.py\<close>.
  \<^item> \<open>Phases\<close>: the operator phases, their gates and rework orders (\<open>orchestration/conversations.py\<close>,
    \<open>phase_gate.py\<close>, \<open>phases.py\<close>, the path classification of \<open>context/artifacts.py\<close>).
  \<^item> \<open>RunStore\<close> and \<open>RunStore_Safety\<close>: the durable run store (\<open>state/run_store.py\<close>, \<open>state/stage_results.py\<close>)
    over the tables of \<open>State\<close> and the outbox, and what it guarantees along every history of operations.
  \<^item> \<open>StageGates\<close>: \<open>orchestration/stages/\<close> (context, checks, executor, gates): the context of an
    attempt, the deterministic executor, and the resolution of a wait from observed provider facts.
  \<^item> \<open>Ports\<close>: the values of \<open>ports/\<close> with the constraints of their constructors; the repository, merge
    request and execution protocols are records of operations over a world.
  \<^item> \<open>Fakes\<close>: \<open>adapters/fakes/\<close>: the in-memory source control, execution, harness, workflow engine, CI,
    tracker, artifact store and provisioning; locale \<open>keyed_effect\<close> is the contract of a keyed operation.
  \<^item> \<open>Release\<close>: \<open>quality/release/\<close> and \<open>orchestration/stages/release.py\<close>: the release decision, its evidence
    and probes, the promotion over the ports and the resolution of the release wait.
  \<^item> \<open>Runner\<close> and \<open>Runner_Safety\<close>: the run driver \<open>orchestration/runner.py\<close>. A call's injected parts (executor,
    revision resolver, facts providers) are fields of \<open>advance_call\<close>; what it may rely on of an executor is
    locale \<open>stage_executor\<close>, interpreted on the deterministic, the release and the agent executor.
  \<^item> \<open>Tools\<close>: \<open>orchestration/stages/tools.py\<close>: the tools a role may call, over the execution port.
  \<^item> \<open>AgentText\<close>: what goes into the agent's instruction and what is read from its answer
    (\<open>orchestration/conversations.py\<close>), and the description template (\<open>stages/pr_description.py\<close>).
  \<^item> \<open>AgentStage\<close>: \<open>orchestration/stages/agent.py\<close>: an attempt with every early return, its publication
    and the resolver of input revisions.
  \<^item> \<open>ChangeStore\<close>: the tables of changes, products, decisions, questions, comments, rework orders, drafts and views
    (\<open>state/change_store.py\<close>, \<open>state/conversation_store.py\<close>); a table is an ordered list of keyed rows. Locale
    \<open>document_table\<close> is the contract of a table that stores a document beside columns copied from it.
  \<^item> \<open>Frontmatter\<close>: splitting a document, reading and editing its properties (\<open>context/sdd/frontmatter.py\<close>,
    \<open>context/artifacts.py\<close>, \<open>context/design.py\<close>).
  \<^item> \<open>Documents\<close>: the documents of a change on its branch, \<open>orchestration/artifacts.py\<close>: reads, versions, diffs and the
    write-through with its conflict check, over the repository port.
  \<^item> \<open>Discussion\<close> and \<open>Discussion_Safety\<close>: the operator's side over the tables and the branch: facts and gates of the
    phases (\<open>state/phases.py\<close>, \<open>state/guidance.py\<close>), answers, comments, send-backs and decisions
    (\<open>state/conversation_ops.py\<close>) and what an advance reads from and writes to the discussion (\<open>state/conversations.py\<close>).

  \<^bold>\<open>How the parts interact.\<close> The driver executes a stage, records its result under the operation key
  (\<open>State\<close>), hands it to \<open>apply_result\<close> (\<open>Flow\<close>), which consults the limits, escalation, risk, gate and
  merge policies (\<open>Risk\<close>, \<open>Policy\<close>) and mutates the run through the transition tables (\<open>Domain\<close>);
  the resulting status is persisted under a fenced lease and an outbox event is published. Between advances the
  operator answers, comments, edits documents and decides phases (\<open>Discussion\<close>, \<open>Documents\<close>); the next observation
  folds those decisions in, and the outcome of an advance is written back to the discussion.

  \<^bold>\<open>Conventions.\<close> Instants and durations are integers in microseconds; the clock is a parameter
  (\<open>now\<close>, or a function giving successive readings). Money is the type \<open>decimal\<close>. A human-readable
  text that no code branches on is kept as a structured message with the same ingredients. Python's
  sets whose order is observable are lists. Code outside the package (the database's row locks, the
  JSON codec, handlers, external systems, the graph library) is an argument of the definitions that
  use it.

  \<^bold>\<open>What is shown.\<close> \<open>Flow_Safety\<close>: exactly which results are accepted, a refused one changes
  nothing, an accepted one follows the status tables, is charged once and is returned consistently;
  no stage advances past an unmet gate, limit, escalation, control point or autonomy budget; release
  is unlocked only by a human merge at the approved commit; success comes only from a clean release;
  terminal runs are final; rework is bounded; stage-run ids are unique. \<open>Risk\<close>, \<open>Policy\<close>: the
  effective class is a least upper bound, routes tighten minimally, human control is monotone, merge
  authorisation is characterised. \<open>State\<close>: fencing, revision guards, refinement of the domain table,
  at-most-once effects, idempotent creation, result round trip; and that fencing does not survive a
  release. \<open>Outbox\<close>: stream order under interleaving, bounded backoff, safe cleanup; and that
  sequences restart after cleanup. \<open>Reconcile\<close>: a pass returns, respects live leases and the run table,
  keeps the canonical run, plans only authorised merges; and that it is not idempotent.
  \<open>Budget\<close>: limits, exclusive reservations, single settlement. \<open>Phases\<close>, \<open>StageGates\<close>: the gate view and
  the settlement of a phase agree; a resolution is built exactly in the stated cases, passes a gate only on
  its own facts and is accepted by the flow. \<open>RunStore_Safety\<close>: along every history the store stays
  well-formed, committed rows stay, a decision is persisted whole, a withdrawal is final, attempts are found
  again. \<open>Fakes\<close>: keyed effects are minted once; listing commits ends, and where it does not. \<open>Release\<close>: when a
  deployment counts as released, that a promotion fails closed and that its resolution settles the run.
  \<open>Runner_Safety\<close>: an advance writes all of its decision or nothing. \<open>Tools\<close>: tools stay in their workspace.
  \<open>AgentText\<close>: blocks are read back, every entry is taken or reported. \<open>AgentStage\<close>: an attempt fails
  closed and a publication is minted once. \<open>Frontmatter\<close>, \<open>Documents\<close>: edited properties and saved edits read back,
  and that a repeated edit can be lost. \<open>Discussion_Safety\<close>: columns agree with documents and a phase has one open order
  along every history, refusals write nothing, an advance is recorded once, approvals pass an open gate, and the flow
  and the operator's projection agree on what is settled. This theory: over those executors the driver never fails of
  its own making.

  \<^bold>\<open>Termination and bounds.\<close> No fuel is used. Loops of the source are structural recursions, list
  combinators, or functions with a length measure (splitting a text, finding fenced blocks, template
  placeholders). The walk along commit parents in \<open>Fakes\<close> may not end and is a partial function into
  option, with a theorem that says when it ends and one that shows it may not.

  \<^bold>\<open>Not modelled.\<close> HTTP API, command line, provider and tracker adapters, telemetry (transport and
  third-party services); guidance texts, the profile and skill registries, the regular expressions that collect anchors,
  the UI specifications and context bundles, and the quality gates other than release: rendering and configuration over
  the operations above, which change no state of their own.
\<close>

section \<open>The driver over the factory's own executors\<close>




end
